(* ===== verification/Prelude.thy ===== *)
theory Prelude
  imports Main "HOL-Library.Word" "HOL-Library.Multiset"
begin

text \<open>
  What every component shares: the collections of rewrite rules the component proofs use,
  Go's \<open>int64\<close> arithmetic written out on \<open>int\<close>, the part of Go's \<open>strings\<close> package the
  program calls, on byte strings, and generic lemmas on lists and maps.
\<close>

named_theorems go_arith \<open>rules for Go's fixed-width integers\<close>
named_theorems go_string \<open>rules for Go's byte strings\<close>
named_theorems step_rules \<open>one rule per operation: what it keeps of an invariant\<close>

section \<open>int64\<close>

text \<open>Two's complement wrap-around of a mathematical integer, as \<open>+\<close>, \<open>-\<close> and \<open>*\<close> on \<open>int64\<close> do.\<close>

definition i64 :: "int \<Rightarrow> int" where
  "i64 x = (x + 2 ^ 63) mod 2 ^ 64 - 2 ^ 63"

definition in_i64 :: "int \<Rightarrow> bool" where
  "in_i64 x \<longleftrightarrow> - (2 ^ 63) \<le> x \<and> x < 2 ^ 63"

lemma i64_id [go_arith]: "in_i64 x \<Longrightarrow> i64 x = x"
  by (simp add: i64_def in_i64_def)

lemma i64_range: "in_i64 (i64 x)"
proof -
  have "0 \<le> (x + 2 ^ 63) mod 2 ^ 64" and "(x + 2 ^ 63) mod 2 ^ 64 < (2 ^ 64 :: int)"
    by simp_all
  then show ?thesis by (simp add: i64_def in_i64_def)
qed

lemma i64_i64 [simp]: "i64 (i64 x) = i64 x"
  by (rule i64_id [OF i64_range])

lemma i64_add_left [simp]: "i64 (i64 x + y) = i64 (x + y)"
proof -
  have *: "i64 x + y + 2 ^ 63 = (x + 2 ^ 63) mod 2 ^ 64 + y" unfolding i64_def by linarith
  have "(i64 x + y + 2 ^ 63) mod 2 ^ 64 = (x + 2 ^ 63 + y) mod 2 ^ 64"
    unfolding * by (rule mod_add_left_eq)
  then show ?thesis
    unfolding i64_def [of "i64 x + y"] i64_def [of "x + y"] by (simp only: ac_simps)
qed

lemma i64_add_right [simp]: "i64 (x + i64 y) = i64 (x + y)"
  by (metis add.commute i64_add_left)

text \<open>Go's integer division truncates towards zero.\<close>

definition quot :: "int \<Rightarrow> int \<Rightarrow> int" where
  "quot a b = sgn a * sgn b * (\<bar>a\<bar> div \<bar>b\<bar>)"

lemma quot_nonneg: "0 \<le> a \<Longrightarrow> 0 < b \<Longrightarrow> quot a b = a div b"
  by (cases "a = 0") (auto simp: quot_def)

section \<open>Strings\<close>

text \<open>
  A Go string is a sequence of bytes; so is an Isabelle \<open>string\<close> (\<open>char\<close> has eight bits), and
  \<open>len\<close>, slicing and comparison count bytes in both.
\<close>

definition lower_char :: "char \<Rightarrow> char" where
  "lower_char c = (if of_char c \<ge> (65 :: nat) \<and> of_char c \<le> (90 :: nat)
                   then char_of (of_char c + (32 :: nat)) else c)"

text \<open>\<open>strings.ToLower\<close> and \<open>strings.EqualFold\<close>, on ASCII letters; other bytes are left as they are.\<close>

definition to_lower :: "string \<Rightarrow> string" where
  "to_lower s = map lower_char s"

definition equal_fold :: "string \<Rightarrow> string \<Rightarrow> bool" where
  "equal_fold a b \<longleftrightarrow> to_lower a = to_lower b"

lemma equal_fold_refl [simp]: "equal_fold a a"
  by (simp add: equal_fold_def)

lemma equal_fold_sym: "equal_fold a b \<longleftrightarrow> equal_fold b a"
  by (auto simp: equal_fold_def)

lemma equal_fold_trans: "equal_fold a b \<Longrightarrow> equal_fold b c \<Longrightarrow> equal_fold a c"
  by (simp add: equal_fold_def)

lemma to_lower_Nil [simp]: "to_lower [] = []"
  and to_lower_Cons [simp]: "to_lower (c # s) = lower_char c # to_lower s"
  and to_lower_append [simp]: "to_lower (s @ t) = to_lower s @ to_lower t"
  and length_to_lower [simp]: "length (to_lower s) = length s"
  and to_lower_eq_Nil [simp]: "to_lower s = [] \<longleftrightarrow> s = []"
  by (simp_all add: to_lower_def)

lemma equal_fold_Nil [simp]: "equal_fold [] s \<longleftrightarrow> s = []" "equal_fold s [] \<longleftrightarrow> s = []"
  by (auto simp: equal_fold_def dest: sym)

definition has_prefix :: "string \<Rightarrow> string \<Rightarrow> bool" where
  "has_prefix s p \<longleftrightarrow> take (length p) s = p"

definition has_suffix :: "string \<Rightarrow> string \<Rightarrow> bool" where
  "has_suffix s p \<longleftrightarrow> length p \<le> length s \<and> drop (length s - length p) s = p"

lemma has_prefix_iff [go_string]: "has_prefix s p \<longleftrightarrow> (\<exists>r. s = p @ r)"
  unfolding has_prefix_def by (metis append_eq_conv_conj append_take_drop_id)

fun contains :: "string \<Rightarrow> string \<Rightarrow> bool" where
  "contains [] p \<longleftrightarrow> p = []"
| "contains (c # s) p \<longleftrightarrow> has_prefix (c # s) p \<or> contains s p"

lemma contains_iff [go_string]: "contains s p \<longleftrightarrow> (\<exists>a b. s = a @ p @ b)"
proof (induction s)
  case IH: (Cons c s)
  show ?case
  proof
    assume "contains (c # s) p"
    then consider r where "c # s = p @ r" | a b where "s = a @ p @ b"
      using IH.IH by (auto simp: has_prefix_iff)
    then show "\<exists>a b. c # s = a @ p @ b"
    proof cases
      case 1
      then have "c # s = [] @ p @ r" by simp
      then show ?thesis by blast
    next
      case 2
      then have "c # s = (c # a) @ p @ b" by simp
      then show ?thesis by blast
    qed
  next
    assume "\<exists>a b. c # s = a @ p @ b"
    then obtain a b where *: "c # s = a @ p @ b" by blast
    show "contains (c # s) p"
    proof (cases a)
      case Nil
      with * have "has_prefix (c # s) p" unfolding has_prefix_iff by auto
      then show ?thesis by simp
    next
      case (Cons d a')
      with * have "s = a' @ p @ b" by simp
      then have "contains s p" using IH.IH by blast
      then show ?thesis by simp
    qed
  qed
qed simp

text \<open>\<open>strings.IndexByte\<close>: the first position of a byte, \<open>-1\<close> in Go where it does not occur.\<close>

fun index_byte :: "string \<Rightarrow> char \<Rightarrow> nat option" where
  "index_byte [] b = None"
| "index_byte (c # s) b = (if c = b then Some 0 else map_option Suc (index_byte s b))"

lemma index_byte_None [simp]: "index_byte s b = None \<longleftrightarrow> b \<notin> set s"
  by (induction s) auto

lemma index_byte_Some: "index_byte s b = Some i \<Longrightarrow> i < length s \<and> s ! i = b \<and> b \<notin> set (take i s)"
  by (induction s arbitrary: i) (auto split: if_splits)

lemma index_byte_append: "b \<notin> set s \<Longrightarrow> index_byte (s @ b # t) b = Some (length s)"
  by (induction s) auto

lemma split_at_last:
  fixes a b ds es :: string
  assumes "a @ c # ds = b @ c # es" "c \<notin> set ds" "c \<notin> set es"
  shows "a = b \<and> ds = es"
proof -
  have "index_byte (rev (a @ c # ds)) c = Some (length ds)" "index_byte (rev (b @ c # es)) c = Some (length es)"
    using assms(2,3) index_byte_append [of c "rev ds" "rev a"] index_byte_append [of c "rev es" "rev b"] by simp_all
  then have "length ds = length es" using assms(1) by simp
  then show ?thesis using assms(1) by simp
qed

lemma split_at_first:
  fixes a b ds es :: string
  assumes "a @ c # ds = b @ c # es" "c \<notin> set a" "c \<notin> set b"
  shows "a = b \<and> ds = es"
proof -
  have "length a = length b"
    using index_byte_append [OF assms(2), of ds] index_byte_append [OF assms(3), of es] assms(1) by simp
  then show ?thesis using assms(1) by simp
qed

text \<open>\<open>strings.TrimPrefix\<close>, \<open>strings.Trim\<close> and \<open>strings.TrimSpace\<close> (ASCII white space).\<close>

definition trim_prefix :: "string \<Rightarrow> string \<Rightarrow> string" where
  "trim_prefix s p = (if has_prefix s p then drop (length p) s else s)"

definition trim :: "char list \<Rightarrow> string \<Rightarrow> string" where
  "trim cs s = rev (dropWhile (\<lambda>c. c \<in> set cs) (rev (dropWhile (\<lambda>c. c \<in> set cs) s)))"

definition trim_right :: "char list \<Rightarrow> string \<Rightarrow> string" where
  "trim_right cs s = rev (dropWhile (\<lambda>c. c \<in> set cs) (rev s))"

definition space_chars :: "char list" where
  "space_chars = [CHR 0x20, CHR 0x09, CHR 0x0A, CHR 0x0B, CHR 0x0C, CHR 0x0D]"

definition trim_space :: "string \<Rightarrow> string" where
  "trim_space s = trim space_chars s"

text \<open>Three-byte UTF-8 sequences that occur in the program's string literals.\<close>

definition utf8_ellipsis :: string where "utf8_ellipsis = [CHR 0xE2, CHR 0x80, CHR 0xA6]"
definition utf8_emdash :: string where "utf8_emdash = [CHR 0xE2, CHR 0x80, CHR 0x94]"
definition utf8_arrow :: string where "utf8_arrow = [CHR 0xE2, CHR 0x86, CHR 0x92]"
definition utf8_approx :: string where "utf8_approx = [CHR 0xE2, CHR 0x89, CHR 0x88]"
definition utf8_ge :: string where "utf8_ge = [CHR 0xE2, CHR 0x89, CHR 0xA5]"

section \<open>Lists and maps\<close>

lemma find_Some_set: "find P xs = Some x \<Longrightarrow> x \<in> set xs \<and> P x"
  by (induction xs) (auto split: if_splits)

lemma find_None_set: "find P xs = None \<longleftrightarrow> (\<forall>x \<in> set xs. \<not> P x)"
  by (induction xs) auto

lemma sorted_wrt_hd_le: "sorted_wrt R (x # xs) \<Longrightarrow> y \<in> set xs \<Longrightarrow> R x y"
  by simp

lemma last_snoc_eq [simp]: "last (xs @ [x]) = x"
  by simp

section \<open>sort.Slice\<close>

text \<open>
  \<open>sort.Slice\<close> with a less function, as the insertion sort the library runs on slices of up to
  twelve elements; on longer ones it only promises the same up to the order of equal elements, and
  the lemmas below (a permutation, sorted where \<open>lt\<close> is a strict weak order) hold for both.
\<close>

fun ins_rev :: "('a \<Rightarrow> 'a \<Rightarrow> bool) \<Rightarrow> 'a \<Rightarrow> 'a list \<Rightarrow> 'a list" where
  "ins_rev lt x [] = [x]"
| "ins_rev lt x (y # ys) = (if lt x y then y # ins_rev lt x ys else x # y # ys)"

definition sort_slice :: "('a \<Rightarrow> 'a \<Rightarrow> bool) \<Rightarrow> 'a list \<Rightarrow> 'a list" where
  "sort_slice lt xs = rev (fold (ins_rev lt) xs [])"

lemma mset_ins_rev [simp]: "mset (ins_rev lt x ys) = add_mset x (mset ys)"
  by (induction ys) auto

lemma mset_fold_ins: "mset (fold (ins_rev lt) xs acc) = mset xs + mset acc"
  by (induction xs arbitrary: acc) auto

lemma mset_sort_slice [simp]: "mset (sort_slice lt xs) = mset xs"
  by (simp add: sort_slice_def mset_fold_ins)

lemma set_sort_slice [simp]: "set (sort_slice lt xs) = set xs"
  using mset_eq_setD [OF mset_sort_slice] .

lemma sort_slice_Nil [simp]: "sort_slice lt xs = [] \<longleftrightarrow> xs = []"
  using set_sort_slice [of lt xs] by (metis set_empty)

definition weak_order_on :: "'a set \<Rightarrow> ('a \<Rightarrow> 'a \<Rightarrow> bool) \<Rightarrow> bool" where
  "weak_order_on A lt \<longleftrightarrow> (\<forall>a \<in> A. \<forall>b \<in> A. lt a b \<longrightarrow> \<not> lt b a) \<and>
     (\<forall>a \<in> A. \<forall>b \<in> A. \<forall>c \<in> A. \<not> lt a b \<longrightarrow> \<not> lt b c \<longrightarrow> \<not> lt a c)"

lemma set_ins_rev [simp]: "set (ins_rev lt x ys) = insert x (set ys)"
  by (induction ys) auto

lemma ins_rev_sorted:
  assumes "weak_order_on A lt" "x \<in> A"
  shows "set ys \<subseteq> A \<Longrightarrow> sorted_wrt (\<lambda>a b. \<not> lt a b) ys \<Longrightarrow> sorted_wrt (\<lambda>a b. \<not> lt a b) (ins_rev lt x ys)"
proof (induction ys)
  case (Cons y ys)
  have as: "lt a b \<Longrightarrow> \<not> lt b a" if "a \<in> A" "b \<in> A" for a b
    using assms(1) that unfolding weak_order_on_def by blast
  have tr: "\<not> lt a b \<Longrightarrow> \<not> lt b c \<Longrightarrow> \<not> lt a c" if "a \<in> A" "b \<in> A" "c \<in> A" for a b c
    using assms(1) that unfolding weak_order_on_def by blast
  have y: "y \<in> A" "set ys \<subseteq> A" and s: "\<forall>z \<in> set ys. \<not> lt y z" "sorted_wrt (\<lambda>a b. \<not> lt a b) ys"
    using Cons.prems by auto
  show ?case
  proof (cases "lt x y")
    case True
    then have "\<not> lt y x" by (rule as [OF assms(2) y(1)])
    then show ?thesis using True Cons.IH [OF y(2) s(2)] s(1) by auto
  next
    case False
    have "\<not> lt x z" if "z \<in> set ys" for z
      using tr [OF assms(2) y(1) _ False] s(1) that y(2) by blast
    then show ?thesis using False s by simp
  qed
qed simp

lemma fold_ins_sorted:
  assumes "weak_order_on A lt"
  shows "set xs \<subseteq> A \<Longrightarrow> set acc \<subseteq> A \<Longrightarrow> sorted_wrt (\<lambda>a b. \<not> lt a b) acc \<Longrightarrow>
    sorted_wrt (\<lambda>a b. \<not> lt a b) (fold (ins_rev lt) xs acc)"
proof (induction xs arbitrary: acc)
  case (Cons x xs)
  then show ?case using ins_rev_sorted [OF assms, of x acc] by simp
qed simp

lemma sort_slice_sorted:
  "weak_order_on (set xs) lt \<Longrightarrow> sorted_wrt (\<lambda>a b. \<not> lt b a) (sort_slice lt xs)"
  using fold_ins_sorted [of "set xs" lt xs "[]"] by (simp add: sort_slice_def sorted_wrt_rev)

lemma sort_slice_hd:
  assumes "weak_order_on (set xs) lt" and "xs \<noteq> []"
  shows "hd (sort_slice lt xs) \<in> set xs \<and> (\<forall>y \<in> set xs. \<not> lt y (hd (sort_slice lt xs)))"
proof -
  obtain h t where ht: "sort_slice lt xs = h # t" using assms(2) by (cases "sort_slice lt xs") auto
  have "set xs = insert h (set t)" using set_sort_slice [of lt xs] ht by simp
  moreover have "\<not> lt h h" using assms(1) calculation unfolding weak_order_on_def by blast
  ultimately show ?thesis using sort_slice_sorted [OF assms(1)] ht by auto
qed

end
