(* ===== verification/Float64.thy ===== *)
theory Float64
  imports Prelude Complex_Main "HOL-Library.Log_Nat"
begin

text \<open>
  Go's \<open>float64\<close>: finite values are the rationals a binary64 holds, every operation is the
  exact one followed by rounding to nearest, ties to even, with gradual underflow at
  \<open>2 powi -1074\<close> and overflow to an infinity at \<open>2 ^ 1024\<close>. The rounding is executable, so
  the sizing arithmetic evaluates to the bits the program computes. The sign of a zero is not
  modelled (no operation of the program observes it).
\<close>

section \<open>Rounding to 53 bits\<close>

text \<open>The exponent of the leading bit of a positive rational.\<close>

definition flog2 :: "rat \<Rightarrow> int" where
  "flog2 x = (case quotient_of x of (a, b) \<Rightarrow>
     (let k = bitlen a - bitlen b in if 2 powi k \<le> x then k else k - 1))"

text \<open>The exponent of the unit in the last place.\<close>

definition ulp_exp :: "rat \<Rightarrow> int" where
  "ulp_exp x = max (flog2 x - 52) (- 1074)"

definition round_even :: "rat \<Rightarrow> int" where
  "round_even q = (let f = \<lfloor>q\<rfloor>; d = q - of_int f in
     if d < 1 / 2 then f else if 1 / 2 < d then f + 1 else if even f then f else f + 1)"

definition rndp :: "rat \<Rightarrow> rat" where
  "rndp x = of_int (round_even (x / 2 powi ulp_exp x)) * 2 powi ulp_exp x"

definition rnd :: "rat \<Rightarrow> rat" where
  "rnd x = (if x = 0 then 0 else if 0 < x then rndp x else - rndp (- x))"

lemma bitlen_pow: "0 < a \<Longrightarrow> 2 powi (bitlen a - 1) \<le> (of_int a :: rat) \<and> (of_int a :: rat) < 2 powi (bitlen a)"
proof -
  assume a: "0 < a"
  have n: "0 < bitlen a" using a bitlen_eq_zero_iff bitlen_nonneg
    by (metis less_le_not_le linorder_not_le nle_le)
  have "2 ^ nat (bitlen a - 1) \<le> a \<and> a < 2 ^ nat (bitlen a)"
    using bitlen_bounds [OF a] .
  then have "(of_int (2 ^ nat (bitlen a - 1)) :: rat) \<le> of_int a \<and> (of_int a :: rat) < of_int (2 ^ nat (bitlen a))"
    using of_int_le_iff of_int_less_iff by blast
  then show ?thesis using n by (simp add: power_int_def)
qed

lemma powi2_pos [simp]: "0 < (2 :: rat) powi k"
  by simp

lemma powi2_mono: "k \<le> l \<Longrightarrow> (2 :: rat) powi k \<le> 2 powi l"
  by (rule power_int_increasing) simp_all

lemma powi2_less_cancel: "(2 :: rat) powi k < 2 powi l \<Longrightarrow> k < l"
  by (meson linorder_not_le powi2_mono)

lemma powi2_add: "(2 :: rat) powi (k + l) = 2 powi k * 2 powi l"
  by (rule power_int_add) simp

lemma powi2_nat: "0 \<le> k \<Longrightarrow> (2 :: rat) powi k = of_int (2 ^ nat k)"
  by (simp add: power_int_def)

lemma flog2_bounds:
  assumes "0 < x"
  shows "2 powi flog2 x \<le> x \<and> x < 2 powi (flog2 x + 1)"
proof -
  obtain a b where ab: "quotient_of x = (a, b)" by (cases "quotient_of x")
  have b: "0 < b" using quotient_of_denom_pos [OF ab] .
  have x: "x = of_int a / of_int b" using quotient_of_div [OF ab] .
  have a: "0 < a" using assms b unfolding x by (simp add: zero_less_divide_iff)
  define k where "k = bitlen a - bitlen b"
  have A: "2 powi (bitlen a - 1) \<le> (of_int a :: rat)" "(of_int a :: rat) < 2 powi bitlen a"
    and B: "2 powi (bitlen b - 1) \<le> (of_int b :: rat)" "(of_int b :: rat) < 2 powi bitlen b"
    using bitlen_pow [OF a] bitlen_pow [OF b] by auto
  have b': "(0 :: rat) < of_int b" using b by simp
  have "x < 2 powi (k + 1)"
  proof -
    have "of_int a < 2 powi (k + 1) * (2 powi (bitlen b - 1) :: rat)"
      using A(2) unfolding powi2_add [symmetric] k_def by simp
    also have "\<dots> \<le> 2 powi (k + 1) * of_int b" using B(1) by simp
    finally show ?thesis using b' unfolding x by (simp add: divide_less_eq)
  qed
  moreover have "2 powi (k - 1) \<le> x"
  proof -
    have "2 powi (k - 1) * of_int b \<le> 2 powi (k - 1) * (2 powi bitlen b :: rat)" using B(2) by simp
    also have "\<dots> = 2 powi (bitlen a - 1)" unfolding powi2_add [symmetric] k_def by simp
    also have "\<dots> \<le> of_int a" by (rule A(1))
    finally show ?thesis using b' unfolding x by (simp add: le_divide_eq)
  qed
  moreover have "flog2 x = (if 2 powi k \<le> x then k else k - 1)"
    by (simp add: flog2_def ab k_def Let_def)
  ultimately show ?thesis by auto
qed

lemma flog2_unique: "2 powi k \<le> x \<Longrightarrow> x < 2 powi (k + 1) \<Longrightarrow> flog2 x = k"
proof -
  assume k: "2 powi k \<le> x" "x < 2 powi (k + 1)"
  then have "0 < x" using powi2_pos less_le_trans by blast
  from flog2_bounds [OF this] k have "(2 :: rat) powi k < 2 powi (flog2 x + 1)"
    and "(2 :: rat) powi flog2 x < 2 powi (k + 1)" by linarith+
  then have "k < flog2 x + 1" "flog2 x < k + 1" by (auto dest: powi2_less_cancel)
  then show ?thesis by simp
qed

lemma flog2_mono: "0 < x \<Longrightarrow> x \<le> y \<Longrightarrow> flog2 x \<le> flog2 y"
proof -
  assume "0 < x" "x \<le> y"
  then have "(2 :: rat) powi flog2 x < 2 powi (flog2 y + 1)"
    using flog2_bounds [of x] flog2_bounds [of y] by linarith
  then show ?thesis by (auto dest: powi2_less_cancel)
qed

subsection \<open>Rounding to an integer\<close>

lemma round_even_int [simp]: "round_even (of_int n) = n"
  by (simp add: round_even_def)

lemma round_even_0 [simp]: "round_even 0 = 0"
  using round_even_int [of 0] by simp

lemma round_even_floor: "\<lfloor>q\<rfloor> \<le> round_even q \<and> round_even q \<le> \<lfloor>q\<rfloor> + 1"
  by (simp add: round_even_def Let_def)

lemma round_even_mono: "p \<le> q \<Longrightarrow> round_even p \<le> round_even q"
proof (cases "\<lfloor>p\<rfloor> = \<lfloor>q\<rfloor>")
  case True
  then show "p \<le> q \<Longrightarrow> ?thesis" by (simp add: round_even_def Let_def)
next
  case False
  assume "p \<le> q"
  then have "\<lfloor>p\<rfloor> \<le> \<lfloor>q\<rfloor>" by (rule floor_mono)
  with False have "\<lfloor>p\<rfloor> + 1 \<le> \<lfloor>q\<rfloor>" by simp
  with round_even_floor [of p] round_even_floor [of q] show ?thesis by linarith
qed

lemma round_even_error: "\<bar>of_int (round_even q) - q\<bar> \<le> 1 / 2"
proof -
  have "of_int \<lfloor>q\<rfloor> \<le> q" "q < of_int \<lfloor>q\<rfloor> + 1" by linarith+
  then show ?thesis by (auto simp: round_even_def Let_def abs_le_iff)
qed

subsection \<open>Rounding to a binary64\<close>

lemma rndp_exact:
  assumes "0 < m" and "m \<le> 2 ^ 53" and "- 1074 \<le> e"
  shows "rndp (of_int m * 2 powi e) = of_int m * 2 powi e"
proof -
  let ?x = "of_int m * 2 powi e :: rat"
  have grid: "rndp ?x = ?x" if "ulp_exp ?x \<le> e"
  proof -
    have "?x / 2 powi ulp_exp ?x = of_int m * 2 powi (e - ulp_exp ?x)"
      by (simp add: power_int_diff)
    also have "\<dots> = of_int (m * 2 ^ nat (e - ulp_exp ?x))"
      using that powi2_nat [of "e - ulp_exp ?x"] by simp
    finally have "?x / 2 powi ulp_exp ?x = of_int (m * 2 ^ nat (e - ulp_exp ?x))" .
    then show ?thesis unfolding rndp_def
      by (metis nonzero_eq_divide_eq power_int_eq_0_iff round_even_int zero_neq_numeral)
  qed
  show ?thesis
  proof (cases "m = 2 ^ 53")
    case True
    have x: "?x = 2 powi (53 + e)" unfolding True powi2_add by (simp add: power_int_def)
    have "flog2 ?x = 53 + e" by (rule flog2_unique) (auto simp: x powi2_add)
    then have u: "ulp_exp ?x = e + 1" using assms(3) by (simp add: ulp_exp_def)
    have "?x / 2 powi ulp_exp ?x = 2 powi (53 + e) / 2 powi (e + 1)" using u x by metis
    also have "\<dots> = 2 powi (53 + e - (e + 1))" by (rule power_int_diff [symmetric]) simp
    also have "\<dots> = of_int (2 ^ 52)" by (simp add: power_int_def)
    finally have "?x / 2 powi ulp_exp ?x = of_int (2 ^ 52)" .
    then show ?thesis unfolding rndp_def
      by (metis nonzero_eq_divide_eq power_int_eq_0_iff round_even_int zero_neq_numeral)
  next
    case False
    then have "m < 2 ^ 53" using assms(2) by simp
    then have "(of_int m :: rat) < of_int (2 ^ 53)" using of_int_less_iff by blast
    then have "?x < 2 powi (53 + e)" unfolding powi2_add by (simp add: power_int_def)
    moreover have "0 < ?x" using assms(1) by simp
    ultimately have "(2 :: rat) powi flog2 ?x < 2 powi (53 + e)" using flog2_bounds [of ?x] by linarith
    then have "flog2 ?x < 53 + e" by (rule powi2_less_cancel)
    then show ?thesis using assms(3) by (intro grid) (simp add: ulp_exp_def)
  qed
qed

lemma rndp_grid:
  assumes "0 < x"
  obtains m where "rndp x = of_int m * 2 powi ulp_exp x" "0 \<le> m" "m \<le> 2 ^ 53" "- 1074 \<le> ulp_exp x"
proof
  let ?m = "round_even (x / 2 powi ulp_exp x)"
  show "rndp x = of_int ?m * 2 powi ulp_exp x" by (simp add: rndp_def)
  show "- 1074 \<le> ulp_exp x" by (simp add: ulp_exp_def)
  have "round_even (of_int 0) \<le> ?m" using assms by (intro round_even_mono) simp
  then show "0 \<le> ?m" by simp
  have "flog2 x + 1 \<le> 53 + ulp_exp x" by (simp add: ulp_exp_def)
  then have "x < 2 powi (53 + ulp_exp x)"
    using flog2_bounds [OF assms] powi2_mono less_le_trans by blast
  then have "x / 2 powi ulp_exp x \<le> of_int (2 ^ 53)"
    unfolding powi2_add by (simp add: divide_le_eq power_int_def)
  then have "?m \<le> round_even (of_int (2 ^ 53))" by (rule round_even_mono)
  then show "?m \<le> 2 ^ 53" by (simp only: round_even_int)
qed

lemma rndp_pos: "0 < x \<Longrightarrow> 0 \<le> rndp x"
  by (erule rndp_grid) simp

lemma rndp_mono:
  assumes "0 < x" and "x \<le> y"
  shows "rndp x \<le> rndp y"
proof (cases "ulp_exp x = ulp_exp y")
  case True
  have "x / 2 powi ulp_exp y \<le> y / 2 powi ulp_exp y" using assms(2) by (simp add: divide_right_mono)
  then show ?thesis unfolding rndp_def True using round_even_mono by simp
next
  case False
  have fl: "flog2 x \<le> flog2 y" using assms by (rule flog2_mono)
  then have lt: "ulp_exp x < ulp_exp y" using False by (simp add: ulp_exp_def max_def split: if_splits)
  then have u: "ulp_exp y = flog2 y - 52" by (simp add: ulp_exp_def max_def split: if_splits)
  obtain m where m: "rndp x = of_int m * 2 powi ulp_exp x" "m \<le> 2 ^ 53"
    using rndp_grid [OF assms(1)] by blast
  have "(of_int m :: rat) \<le> of_int (2 ^ 53)" using m(2) of_int_le_iff by blast
  then have "rndp x \<le> 2 powi 53 * 2 powi ulp_exp x" unfolding m(1) by (simp add: power_int_def)
  also have "\<dots> = 2 powi (53 + ulp_exp x)" by (simp only: powi2_add)
  also have "\<dots> \<le> 2 powi (52 + ulp_exp y)" using lt by (intro powi2_mono) simp
  also have "\<dots> = of_int (2 ^ 52) * 2 powi ulp_exp y" unfolding powi2_add by (simp add: power_int_def)
  also have "\<dots> \<le> rndp y"
  proof -
    have "2 powi (52 + ulp_exp y) \<le> y" using u flog2_bounds [of y] assms by simp
    then have "of_int (2 ^ 52) \<le> y / 2 powi ulp_exp y"
      unfolding powi2_add by (simp add: le_divide_eq power_int_def)
    then have "round_even (of_int (2 ^ 52)) \<le> round_even (y / 2 powi ulp_exp y)" by (rule round_even_mono)
    then have "(2 ^ 52 :: int) \<le> round_even (y / 2 powi ulp_exp y)" by (simp only: round_even_int)
    then have "(of_int (2 ^ 52) :: rat) \<le> of_int (round_even (y / 2 powi ulp_exp y))"
      using of_int_le_iff by blast
    then show ?thesis unfolding rndp_def by (rule mult_right_mono) simp
  qed
  finally show ?thesis .
qed

lemma rnd_0 [simp]: "rnd 0 = 0"
  by (simp add: rnd_def)

lemma rnd_minus [simp]: "rnd (- x) = - rnd x"
  by (simp add: rnd_def)

lemma rnd_mono: "x \<le> y \<Longrightarrow> rnd x \<le> rnd y"
proof -
  assume xy: "x \<le> y"
  consider "0 < x" | "x \<le> 0" "0 \<le> y" | "y < 0" using xy by linarith
  then show ?thesis
  proof cases
    case 1
    then show ?thesis using xy by (simp add: rnd_def rndp_mono)
  next
    case 2
    then show ?thesis using rndp_pos [of y] rndp_pos [of "- x"] by (auto simp: rnd_def)
  next
    case 3
    then show ?thesis using xy rndp_mono [of "- y" "- x"] by (simp add: rnd_def)
  qed
qed

lemma rnd_nonneg: "0 \<le> x \<Longrightarrow> 0 \<le> rnd x"
  using rnd_mono [of 0 x] by simp

text \<open>The values a binary64 holds (without its bound \<open>2 ^ 1024\<close>) are the fixed points of the rounding.\<close>

definition rep :: "rat \<Rightarrow> bool" where
  "rep x \<longleftrightarrow> rnd x = x"

lemma rep_0 [simp]: "rep 0"
  by (simp add: rep_def)

lemma rep_minus: "rep (- x) \<longleftrightarrow> rep x"
  by (auto simp: rep_def)

lemma rep_scaled: "\<bar>m\<bar> \<le> 2 ^ 53 \<Longrightarrow> - 1074 \<le> e \<Longrightarrow> rep (of_int m * 2 powi e)"
proof -
  assume *: "\<bar>m\<bar> \<le> 2 ^ 53" "- 1074 \<le> e"
  consider "m = 0" | "0 < m" | "0 < - m" by linarith
  then show ?thesis
  proof cases
    case 2
    then show ?thesis using * rndp_exact [of m e] by (simp add: rep_def rnd_def)
  next
    case 3
    have "of_int m * 2 powi e < (0 :: rat)" using 3 by (simp add: mult_less_0_iff)
    then have "rep (- (of_int m * 2 powi e))"
      using 3 * rndp_exact [of "- m" e] by (simp add: rep_def rnd_def)
    then show ?thesis by (simp only: rep_minus)
  qed simp
qed

lemma rep_of_int: "\<bar>m\<bar> \<le> 2 ^ 53 \<Longrightarrow> rep (of_int m)"
  using rep_scaled [of m 0] by simp

lemma rep_rnd [simp]: "rep (rnd x)"
proof -
  have pos: "rep (rndp y)" if "0 < y" for y
    by (rule rndp_grid [OF that]) (simp add: rep_scaled)
  then have "rep (- rndp y)" if "0 < y" for y
    using that unfolding rep_def by (metis rnd_minus)
  then show ?thesis using pos unfolding rnd_def by simp
qed

lemma rnd_rnd [simp]: "rnd (rnd x) = rnd x"
  using rep_rnd unfolding rep_def .

lemma rnd_le_rep: "x \<le> y \<Longrightarrow> rep y \<Longrightarrow> rnd x \<le> y"
  unfolding rep_def using rnd_mono by metis

lemma rep_le_rnd: "x \<le> y \<Longrightarrow> rep x \<Longrightarrow> x \<le> rnd y"
  unfolding rep_def using rnd_mono by metis

text \<open>The relative error of one rounding in the normal range is at most \<open>2 powi -53\<close>.\<close>

definition normal_min :: rat where
  "normal_min = 2 powi (- 1022)"

lemma normal_minI: "1 / 10 ^ 50 \<le> x \<Longrightarrow> normal_min \<le> x"
proof -
  have "normal_min \<le> 2 powi (- 170)" unfolding normal_min_def by (rule powi2_mono) simp
  also have "\<dots> \<le> 1 / 10 ^ 50" by simp
  finally show "1 / 10 ^ 50 \<le> x \<Longrightarrow> normal_min \<le> x" by linarith
qed

lemma rnd_error:
  assumes "normal_min \<le> x"
  shows "\<bar>rnd x - x\<bar> \<le> x / 2 ^ 53"
proof -
  note assms = assms [unfolded normal_min_def]
  have pos: "0 < x" using assms powi2_pos less_le_trans by blast
  have "(2 :: rat) powi (- 1022) < 2 powi (flog2 x + 1)" using assms flog2_bounds [OF pos] by linarith
  then have "- 1022 < flog2 x + 1" by (rule powi2_less_cancel)
  then have u: "ulp_exp x = flog2 x - 52" by (simp add: ulp_exp_def)
  let ?u = "2 powi ulp_exp x :: rat"
  have "rnd x - x = (of_int (round_even (x / ?u)) - x / ?u) * ?u"
    using pos by (simp add: rnd_def rndp_def left_diff_distrib)
  then have "\<bar>rnd x - x\<bar> = \<bar>of_int (round_even (x / ?u)) - x / ?u\<bar> * ?u" by (simp add: abs_mult)
  also have "\<dots> \<le> 1 / 2 * ?u" using round_even_error by (rule mult_right_mono) simp
  also have "?u = 2 powi flog2 x / 2 ^ 52"
    unfolding u using power_int_diff [of "2 :: rat" "flog2 x" 52] by simp
  also have "1 / 2 * (2 powi flog2 x / 2 ^ 52) = (2 powi flog2 x / 2 ^ 53 :: rat)" by simp
  also have "\<dots> \<le> x / 2 ^ 53" using flog2_bounds [OF pos] by (simp add: divide_right_mono)
  finally show ?thesis .
qed

subsection \<open>Evaluation\<close>

text \<open>Code equations on integers alone, so that a rounding evaluates without normalising fractions.\<close>

definition div_even :: "int \<Rightarrow> int \<Rightarrow> int" where
  "div_even n d = (let q = n div d; r = n mod d in
     if 2 * r < d then q else if d < 2 * r then q + 1 else if even q then q else q + 1)"

lemma round_even_div:
  assumes "0 < d"
  shows "round_even (of_int n / of_int d) = div_even n d"
proof -
  have fl: "\<lfloor>of_int n / (of_int d :: rat)\<rfloor> = n div d" by (rule floor_divide_of_int_eq)
  have n: "of_int n = of_int (n div d) * (of_int d :: rat) + of_int (n mod d)"
    by (metis div_mult_mod_eq of_int_add of_int_mult)
  have d: "(0 :: rat) < of_int d" using assms by simp
  have df: "of_int n / of_int d - of_int (n div d) = (of_int (n mod d) / of_int d :: rat)"
    using d n by (simp add: field_simps)
  have "of_int (n mod d) / of_int d < (1 / 2 :: rat) \<longleftrightarrow> of_int (2 * (n mod d)) < (of_int d :: rat)"
    using d by (simp add: divide_less_eq mult.commute)
  then have lt: "of_int (n mod d) / of_int d < (1 / 2 :: rat) \<longleftrightarrow> 2 * (n mod d) < d"
    unfolding of_int_less_iff .
  have "(1 / 2 :: rat) < of_int (n mod d) / of_int d \<longleftrightarrow> of_int d < (of_int (2 * (n mod d)) :: rat)"
    using d by (simp add: less_divide_eq mult.commute)
  then have gt: "(1 / 2 :: rat) < of_int (n mod d) / of_int d \<longleftrightarrow> d < 2 * (n mod d)"
    unfolding of_int_less_iff .
  show ?thesis unfolding round_even_def div_even_def Let_def fl df lt gt ..
qed

lemma rndp_code [code]:
  "rndp x = (case quotient_of x of (a, b) \<Rightarrow> let e = ulp_exp x in
     if 0 \<le> e then let p = 2 ^ nat e in of_int (div_even a (b * p) * p)
     else let p = 2 ^ nat (- e) in Fract (div_even (a * p) b) p)"
proof -
  obtain a b where ab: "quotient_of x = (a, b)" by (cases "quotient_of x")
  have b: "0 < b" using quotient_of_denom_pos [OF ab] .
  have x: "x = of_int a / of_int b" using quotient_of_div [OF ab] .
  show ?thesis
  proof (cases "0 \<le> ulp_exp x")
    case True
    define p :: int where "p = 2 ^ nat (ulp_exp x)"
    have p: "2 powi ulp_exp x = (of_int p :: rat)" "0 < p" using True by (simp_all add: p_def powi2_nat)
    have "x / of_int p = of_int a / of_int (b * p)" unfolding x by simp
    then have "rndp x = of_int (div_even a (b * p)) * of_int p"
      unfolding rndp_def p(1) using round_even_div [of "b * p" a] b p(2) by simp
    then show ?thesis using True by (simp add: ab Let_def p_def)
  next
    case False
    define p :: int where "p = 2 ^ nat (- ulp_exp x)"
    have p: "2 powi ulp_exp x = (1 / of_int p :: rat)" "0 < p"
      using False by (simp_all add: p_def power_int_def power_one_over)
    have "x / (1 / of_int p) = of_int (a * p) / of_int b" unfolding x by simp
    then have "rndp x = of_int (div_even (a * p) b) * (1 / of_int p)"
      unfolding rndp_def p(1) using round_even_div [of b "a * p"] b by simp
    also have "\<dots> = Fract (div_even (a * p) b) p" by (simp add: Fract_of_int_quotient)
    finally show ?thesis using False by (simp add: ab Let_def p_def)
  qed
qed

lemma flog2_code [code]:
  "flog2 x = (case quotient_of x of (a, b) \<Rightarrow>
     (let k = bitlen a - bitlen b in
      if (if 0 \<le> k then b * 2 ^ nat k \<le> a else b \<le> a * 2 ^ nat (- k)) then k else k - 1))"
proof -
  obtain a b where ab: "quotient_of x = (a, b)" by (cases "quotient_of x")
  have b: "(0 :: rat) < of_int b" using quotient_of_denom_pos [OF ab] by simp
  have x: "x = of_int a / of_int b" using quotient_of_div [OF ab] .
  have "2 powi k \<le> x \<longleftrightarrow> (if 0 \<le> k then b * 2 ^ nat k \<le> a else b \<le> a * 2 ^ nat (- k))" for k
  proof (cases "0 \<le> k")
    case True
    have "2 powi k \<le> x \<longleftrightarrow> (of_int (2 ^ nat k * b) :: rat) \<le> of_int a"
      unfolding x powi2_nat [OF True] using b by (simp add: le_divide_eq)
    then show ?thesis using True unfolding of_int_le_iff by (simp add: mult.commute)
  next
    case False
    have "2 powi k \<le> x \<longleftrightarrow> (of_int b :: rat) \<le> of_int (a * 2 ^ nat (- k))"
      unfolding x using False b by (simp add: power_int_def power_one_over field_simps)
    then show ?thesis using False unfolding of_int_le_iff by simp
  qed
  then show ?thesis by (simp add: flog2_def ab)
qed

section \<open>The float64 type\<close>

datatype f64 = Fin rat | PInf | NInf | NaN

text \<open>An exact result as a float64: rounded, and an infinity from \<open>2 ^ 1024\<close> on.\<close>

definition f64_limit :: rat where
  "f64_limit = 2 ^ 1024"

definition mk :: "rat \<Rightarrow> f64" where
  "mk x = (let r = rnd x in if f64_limit \<le> r then PInf else if r \<le> - f64_limit then NInf else Fin r)"

lemma f64_limit_big: "2 ^ 1023 < f64_limit"
  by (simp add: f64_limit_def)

fun fneg :: "f64 \<Rightarrow> f64" where
  "fneg (Fin a) = Fin (- a)"
| "fneg PInf = NInf"
| "fneg NInf = PInf"
| "fneg NaN = NaN"

fun fadd :: "f64 \<Rightarrow> f64 \<Rightarrow> f64" where
  "fadd (Fin a) (Fin b) = mk (a + b)"
| "fadd NaN _ = NaN"
| "fadd _ NaN = NaN"
| "fadd PInf NInf = NaN"
| "fadd NInf PInf = NaN"
| "fadd PInf _ = PInf"
| "fadd _ PInf = PInf"
| "fadd NInf _ = NInf"
| "fadd _ NInf = NInf"

text \<open>A product with an infinity, from the sign of the other factor; \<open>inf * 0\<close> is NaN.\<close>

definition inf_times :: "bool \<Rightarrow> rat \<Rightarrow> f64" where
  "inf_times p a = (if a = 0 then NaN else if p = (0 < a) then PInf else NInf)"

fun fmul :: "f64 \<Rightarrow> f64 \<Rightarrow> f64" where
  "fmul (Fin a) (Fin b) = mk (a * b)"
| "fmul NaN _ = NaN"
| "fmul _ NaN = NaN"
| "fmul (Fin a) PInf = inf_times True a"
| "fmul (Fin a) NInf = inf_times False a"
| "fmul PInf (Fin b) = inf_times True b"
| "fmul NInf (Fin b) = inf_times False b"
| "fmul PInf PInf = PInf"
| "fmul PInf NInf = NInf"
| "fmul NInf PInf = NInf"
| "fmul NInf NInf = PInf"

text \<open>Division by zero is an infinity of the dividend's sign, or NaN; it never panics.\<close>

fun fdiv :: "f64 \<Rightarrow> f64 \<Rightarrow> f64" where
  "fdiv (Fin a) (Fin b) =
     (if b = 0 then (if a = 0 then NaN else if 0 < a then PInf else NInf) else mk (a / b))"
| "fdiv NaN _ = NaN"
| "fdiv _ NaN = NaN"
| "fdiv (Fin a) PInf = Fin 0"
| "fdiv (Fin a) NInf = Fin 0"
| "fdiv PInf (Fin b) = (if b < 0 then NInf else PInf)"
| "fdiv NInf (Fin b) = (if b < 0 then PInf else NInf)"
| "fdiv _ _ = NaN"

fun flt :: "f64 \<Rightarrow> f64 \<Rightarrow> bool" where
  "flt (Fin a) (Fin b) \<longleftrightarrow> a < b"
| "flt (Fin a) PInf \<longleftrightarrow> True"
| "flt NInf (Fin b) \<longleftrightarrow> True"
| "flt NInf PInf \<longleftrightarrow> True"
| "flt _ _ \<longleftrightarrow> False"

fun feq :: "f64 \<Rightarrow> f64 \<Rightarrow> bool" where
  "feq (Fin a) (Fin b) \<longleftrightarrow> a = b"
| "feq PInf PInf \<longleftrightarrow> True"
| "feq NInf NInf \<longleftrightarrow> True"
| "feq _ _ \<longleftrightarrow> False"

instantiation f64 :: "{zero, one, plus, minus, uminus, times, inverse, ord}"
begin

definition zero_f64 :: f64 where "zero_f64 = Fin 0"
definition one_f64 :: f64 where "one_f64 = Fin 1"
definition plus_f64 :: "f64 \<Rightarrow> f64 \<Rightarrow> f64" where "plus_f64 = fadd"
definition uminus_f64 :: "f64 \<Rightarrow> f64" where "uminus_f64 = fneg"
definition minus_f64 :: "f64 \<Rightarrow> f64 \<Rightarrow> f64" where "minus_f64 a b = fadd a (fneg b)"
definition times_f64 :: "f64 \<Rightarrow> f64 \<Rightarrow> f64" where "times_f64 = fmul"
definition divide_f64 :: "f64 \<Rightarrow> f64 \<Rightarrow> f64" where "divide_f64 = fdiv"
definition inverse_f64 :: "f64 \<Rightarrow> f64" where "inverse_f64 a = fdiv (Fin 1) a"
definition less_f64 :: "f64 \<Rightarrow> f64 \<Rightarrow> bool" where "less_f64 = flt"
definition less_eq_f64 :: "f64 \<Rightarrow> f64 \<Rightarrow> bool" where "less_eq_f64 a b \<longleftrightarrow> flt a b \<or> feq a b"

instance ..

end

lemma f64_Fin [simp]:
  "(0 :: f64) = Fin 0" "(1 :: f64) = Fin 1"
  "Fin a + Fin b = mk (a + b)" "Fin a - Fin b = mk (a - b)" "- Fin a = Fin (- a)"
  "Fin a * Fin b = mk (a * b)" "b \<noteq> 0 \<Longrightarrow> Fin a / Fin b = mk (a / b)"
  "Fin a < Fin b \<longleftrightarrow> a < b" "Fin a \<le> Fin b \<longleftrightarrow> a \<le> b"
  by (auto simp: zero_f64_def one_f64_def plus_f64_def minus_f64_def uminus_f64_def times_f64_def
      divide_f64_def less_f64_def less_eq_f64_def)

lemma NaN_not_less [simp]: "\<not> NaN < x" "\<not> x < NaN" "\<not> NaN \<le> x" "\<not> x \<le> NaN"
  by (cases x; simp add: less_f64_def less_eq_f64_def)+

lemma inf_order [simp]: "Fin a < PInf" "NInf < Fin a" "\<not> PInf < x" "\<not> PInf \<le> Fin a" "\<not> Fin a \<le> NInf" "\<not> x < NInf"
  by (cases x; simp add: less_f64_def less_eq_f64_def)+

lemma mk_Fin:
  assumes "\<bar>x\<bar> \<le> y" and "rep y" and "y < f64_limit"
  shows "mk x = Fin (rnd x)"
proof -
  have "x \<le> y" "- y \<le> x" using assms(1) by linarith+
  then have "rnd x \<le> y" "- y \<le> rnd x"
    using assms(2) rnd_le_rep rep_le_rnd rep_minus by blast+
  then show ?thesis using assms(3) by (simp add: mk_def Let_def)
qed

text \<open>The overflow test evaluates on the exponent.\<close>

lemma f64_limit_flog2: "0 < r \<Longrightarrow> f64_limit \<le> r \<longleftrightarrow> 1024 \<le> flog2 r"
proof -
  assume r: "0 < r"
  have lim: "f64_limit = 2 powi 1024" by (simp add: f64_limit_def)
  show ?thesis
  proof
    assume "f64_limit \<le> r"
    then have "(2 :: rat) powi 1024 < 2 powi (flog2 r + 1)" using flog2_bounds [OF r] lim by linarith
    then have "1024 < flog2 r + 1" by (rule powi2_less_cancel)
    then show "1024 \<le> flog2 r" by simp
  next
    assume "1024 \<le> flog2 r"
    then have "(2 :: rat) powi 1024 \<le> 2 powi flog2 r" by (rule powi2_mono)
    then show "f64_limit \<le> r" using flog2_bounds [OF r] lim by linarith
  qed
qed

lemma mk_code [code]:
  "mk x = (let r = rnd x in
     if 0 < r then (if 1024 \<le> flog2 r then PInf else Fin r)
     else if r < 0 then (if 1024 \<le> flog2 (- r) then NInf else Fin r) else Fin r)"
proof -
  have pos: "0 < f64_limit" by (simp add: f64_limit_def)
  consider "rnd x = 0" | "0 < rnd x" | "rnd x < 0" by linarith
  then show ?thesis
  proof cases
    case 1
    then show ?thesis using pos by (simp add: mk_def)
  next
    case 2
    then have "\<not> rnd x \<le> - f64_limit" using pos by linarith
    then show ?thesis using 2 f64_limit_flog2 [OF 2] by (simp add: mk_def Let_def)
  next
    case 3
    then have "\<not> f64_limit \<le> rnd x" "0 < - rnd x" "\<not> 0 < rnd x" using pos by linarith+
    then show ?thesis using 3 f64_limit_flog2 [of "- rnd x"] by (simp add: mk_def Let_def le_minus_iff)
  qed
qed

lemma mk_FinD: "mk x = Fin r \<Longrightarrow> r = rnd x \<and> rep r"
  by (auto simp: mk_def Let_def split: if_splits)

lemma mk_rep: "rep x \<Longrightarrow> \<bar>x\<bar> < f64_limit \<Longrightarrow> mk x = Fin x"
  by (auto simp: mk_def rep_def Let_def)

lemma mk_pos_not_NaN: "mk x \<noteq> NaN"
  by (simp add: mk_def Let_def)

section \<open>Conversions and the math package\<close>

text \<open>\<open>float64(n)\<close> of an integer.\<close>

definition f64_of_int :: "int \<Rightarrow> f64" where
  "f64_of_int n = mk (of_int n)"

text \<open>
  \<open>int64(f)\<close>: truncation towards zero. Out of range (and for NaN) Go leaves the result to the
  implementation; this is amd64's, the least \<open>int64\<close>.
\<close>

definition trunc_rat :: "rat \<Rightarrow> int" where
  "trunc_rat r = (if 0 \<le> r then \<lfloor>r\<rfloor> else - \<lfloor>- r\<rfloor>)"

fun f64_to_int64 :: "f64 \<Rightarrow> int" where
  "f64_to_int64 (Fin r) = (let n = trunc_rat r in if in_i64 n then n else - (2 ^ 63))"
| "f64_to_int64 _ = - (2 ^ 63)"

text \<open>\<open>math.Round\<close> (halves away from zero), \<open>math.Floor\<close> and \<open>math.Pow(10, float64(n))\<close>.\<close>

fun f64_round :: "f64 \<Rightarrow> f64" where
  "f64_round (Fin r) = Fin (of_int (if 0 \<le> r then \<lfloor>r + 1 / 2\<rfloor> else - \<lfloor>- r + 1 / 2\<rfloor>))"
| "f64_round x = x"

fun f64_floor :: "f64 \<Rightarrow> f64" where
  "f64_floor (Fin r) = Fin (of_int \<lfloor>r\<rfloor>)"
| "f64_floor x = x"

definition f64_pow10 :: "int \<Rightarrow> f64" where
  "f64_pow10 n = (if 0 \<le> n then mk (10 ^ nat n) else Fin 1 / mk (10 ^ nat (- n)))"

lemma f64_to_int64_range: "in_i64 (f64_to_int64 x)"
  by (cases x) (auto simp: Let_def in_i64_def)

lemma f64_of_int_small: "\<bar>n\<bar> \<le> 2 ^ 53 \<Longrightarrow> f64_of_int n = Fin (of_int n)"
proof -
  assume n: "\<bar>n\<bar> \<le> 2 ^ 53"
  then have "\<bar>of_int n :: rat\<bar> \<le> of_int (2 ^ 53)" unfolding of_int_abs [symmetric] of_int_le_iff .
  also have "\<dots> < f64_limit" by (rule order.strict_trans [OF _ f64_limit_big]) simp
  finally show ?thesis unfolding f64_of_int_def by (intro mk_rep rep_of_int n)
qed

section \<open>Rounding facts the components use\<close>

lemma rep_1 [simp]: "rep 1"
  using rep_of_int [of 1] by simp

lemma rep_pow2: "- 1074 \<le> e \<Longrightarrow> rep (2 powi e)"
  using rep_scaled [of 1 e] by simp

lemma mk_Fin_nonneg: "0 \<le> x \<Longrightarrow> x \<le> y \<Longrightarrow> rep y \<Longrightarrow> y < f64_limit \<Longrightarrow> mk x = Fin (rnd x)"
  by (rule mk_Fin) simp_all

lemma mk_Fin_1000: "\<bar>x\<bar> \<le> 2 ^ 1000 \<Longrightarrow> mk x = Fin (rnd x)"
proof (rule mk_Fin)
  show "rep (2 ^ 1000)" using rep_pow2 [of 1000] by (simp add: power_int_def)
  show "(2 :: rat) ^ 1000 < f64_limit"
    by (rule order.strict_trans [OF _ f64_limit_big]) simp
qed

lemma mk_Fin_60: "0 \<le> x \<Longrightarrow> x \<le> 2 ^ 60 \<Longrightarrow> mk x = Fin (rnd x)"
proof (rule mk_Fin_1000)
  assume "0 \<le> x" "x \<le> 2 ^ 60"
  moreover have "(2 :: rat) ^ 60 \<le> 2 ^ 1000" by (rule power_increasing) simp_all
  ultimately show "\<bar>x\<bar> \<le> 2 ^ 1000" by linarith
qed

lemma mk_not_less_Fin: "y \<le> x \<Longrightarrow> rep y \<Longrightarrow> \<bar>y\<bar> < f64_limit \<Longrightarrow> Fin y \<le> mk x"
  using rep_le_rnd [of y x] by (auto simp: mk_def Let_def less_eq_f64_def less_f64_def)

lemma mk_le_Fin: "x \<le> y \<Longrightarrow> rep y \<Longrightarrow> \<bar>y\<bar> < f64_limit \<Longrightarrow> mk x \<le> Fin y"
  using rnd_le_rep [of x y] by (auto simp: mk_def Let_def less_eq_f64_def less_f64_def)

text \<open>One rounding of a normal value: a relative error of at most \<open>2 powi -53\<close>, as upper and lower bounds.\<close>

lemma rnd_upper: "normal_min \<le> x \<Longrightarrow> rnd x \<le> x * (1 + 1 / 2 ^ 53)"
proof -
  have e: "x * (1 + 1 / 2 ^ 53) = x + x / 2 ^ 53"
    by (simp only: distrib_left mult_1_right times_divide_eq_right)
  show "normal_min \<le> x \<Longrightarrow> ?thesis" unfolding e by (drule rnd_error) linarith
qed

lemma rnd_lower: "normal_min \<le> x \<Longrightarrow> x * (1 - 1 / 2 ^ 53) \<le> rnd x"
proof -
  have e: "x * (1 - 1 / 2 ^ 53) = x - x / 2 ^ 53"
    by (simp only: right_diff_distrib mult_1_right times_divide_eq_right)
  show "normal_min \<le> x \<Longrightarrow> ?thesis" unfolding e by (drule rnd_error) linarith
qed

text \<open>Numbers of the binade \<open>[1, 2)\<close> are multiples of \<open>2 powi -52\<close>; their differences are exact.\<close>

lemma rep_binade:
  assumes "rep x" "1 \<le> x" "x < 2"
  obtains m where "x = of_int m / 2 ^ 52" "2 ^ 52 \<le> m" "m < 2 ^ 53"
proof -
  have fl: "flog2 x = 0" using assms(2,3) by (intro flog2_unique) simp_all
  have u: "2 powi ulp_exp x = (1 / 2 ^ 52 :: rat)" by (simp add: ulp_exp_def fl power_int_def power_one_over)
  define m where "m = round_even (x / 2 powi ulp_exp x)"
  have "x = rndp x" using assms by (simp add: rep_def rnd_def split: if_splits)
  then have x: "x = of_int m / 2 ^ 52" unfolding rndp_def m_def u by simp
  have "(of_int (2 ^ 52) :: rat) \<le> of_int m" "of_int m < (of_int (2 ^ 53) :: rat)"
    using assms(2,3) unfolding x by (simp_all add: le_divide_eq divide_less_eq)
  then have "2 ^ 52 \<le> m" "m < 2 ^ 53" unfolding of_int_le_iff of_int_less_iff by blast+
  with x show thesis by (rule that)
qed

lemma rep_diff_binade:
  assumes "rep x" "1 \<le> x" "x < 2" "rep y" "1 \<le> y" "y < 2"
  shows "rep (y - x) \<and> (x < y \<longrightarrow> 1 / 2 ^ 52 \<le> y - x)"
proof -
  obtain m where m: "x = of_int m / 2 ^ 52" "2 ^ 52 \<le> m" "m < 2 ^ 53"
    using assms(1-3) by (rule rep_binade)
  obtain n where n: "y = of_int n / 2 ^ 52" "2 ^ 52 \<le> n" "n < 2 ^ 53"
    using assms(4-6) by (rule rep_binade)
  have d: "y - x = of_int (n - m) / 2 ^ 52" unfolding m(1) n(1) by (simp add: diff_divide_distrib)
  have "rep (of_int (n - m) * 2 powi (- 52))" using m n by (intro rep_scaled) simp_all
  then have "rep (y - x)" unfolding d by (simp add: power_int_def power_one_over)
  moreover have "1 / 2 ^ 52 \<le> y - x" if "x < y"
  proof -
    have "(of_int m :: rat) < of_int n" using that unfolding m(1) n(1) by (simp add: divide_less_cancel)
    then have "1 \<le> n - m" by simp
    then have "(of_int 1 :: rat) \<le> of_int (n - m)" unfolding of_int_le_iff .
    then show ?thesis unfolding d by (simp add: divide_right_mono)
  qed
  ultimately show ?thesis by blast
qed

end
