(* ===== verification/Go_Msg.thy ===== *)
theory Go_Msg
  imports Float64
begin

text \<open>
  Errors and log or step notes. The program builds both with \<open>fmt.Sprintf\<close> and \<open>fmt.Errorf\<close>;
  a message is kept as its format string with its arguments (a wrapped error is an argument),
  so every error return of the source is a value that says which one it is. \<open>render\<close> is the
  text, where the program itself searches it.
\<close>

datatype arg = AS string | AI int | AF f64 | AB bool | AM msg
  and msg = Fmt string "arg list"

type_synonym 'a res = "msg + 'a"

text \<open>The plain text of \<open>errors.New\<close>.\<close>

abbreviation errm :: "string \<Rightarrow> msg" where
  "errm s \<equiv> Fmt s []"

definition is_ok :: "'a res \<Rightarrow> bool" where
  "is_ok r = (case r of Inl _ \<Rightarrow> False | Inr _ \<Rightarrow> True)"

lemma is_ok_simps [simp]: "is_ok (Inr x)" "\<not> is_ok (Inl e)"
  by (simp_all add: is_ok_def)

lemma is_ok_iff: "is_ok r \<longleftrightarrow> (\<exists>x. r = Inr x)"
  by (cases r) simp_all

text \<open>
  \<open>x, err := f(); if err != nil { return w(err) }; k x\<close>, for a pure call, and the wrapping
  of an error by \<open>fmt.Errorf(f, err)\<close>.
\<close>

definition chk :: "'a res \<Rightarrow> (msg \<Rightarrow> msg) \<Rightarrow> ('a \<Rightarrow> 'b res) \<Rightarrow> 'b res" where
  "chk r w k = (case r of Inl e \<Rightarrow> Inl (w e) | Inr x \<Rightarrow> k x)"

abbreviation wrap :: "string \<Rightarrow> msg \<Rightarrow> msg" where
  "wrap f \<equiv> (\<lambda>e. Fmt f [AM e])"

lemma chk_simps [simp]: "chk (Inl e) w k = Inl (w e)" "chk (Inr x) w k = k x"
  by (simp_all add: chk_def)

lemma chk_Inr: "chk r w k = Inr y \<longleftrightarrow> (\<exists>x. r = Inr x \<and> k x = Inr y)"
  by (cases r) simp_all

section \<open>Decimal digits\<close>

text \<open>The decimal text of a natural number and of an integer (\<open>%d\<close>).\<close>

definition digit :: "nat \<Rightarrow> char" where
  "digit d = char_of (48 + d)"

fun dec_nat :: "nat \<Rightarrow> string" where
  "dec_nat n = (if n < 10 then [digit n] else dec_nat (n div 10) @ [digit (n mod 10)])"

declare dec_nat.simps [simp del]

definition dec_int :: "int \<Rightarrow> string" where
  "dec_int i = (if i < 0 then ''-'' @ dec_nat (nat (- i)) else dec_nat (nat i))"

definition digit_val :: "char \<Rightarrow> nat" where
  "digit_val c = of_char c - 48"

definition is_digit :: "char \<Rightarrow> bool" where
  "is_digit c \<longleftrightarrow> 48 \<le> (of_char c :: nat) \<and> (of_char c :: nat) \<le> 57"

lemma digit_val_digit [simp]: "d < 10 \<Longrightarrow> digit_val (digit d) = d"
  and is_digit_digit [simp]: "d < 10 \<Longrightarrow> is_digit (digit d)"
  by (simp_all add: digit_def digit_val_def is_digit_def)

definition undec :: "string \<Rightarrow> nat" where
  "undec s = foldl (\<lambda>n c. n * 10 + digit_val c) 0 s"

lemma undec_snoc [simp]: "undec (s @ [c]) = undec s * 10 + digit_val c"
  by (simp add: undec_def)

lemma undec_dec [simp]: "undec (dec_nat n) = n"
proof (induction n rule: dec_nat.induct)
  case (1 n)
  show ?case
  proof (cases "n < 10")
    case True
    then show ?thesis by (simp add: dec_nat.simps [of n] undec_def)
  next
    case False
    with 1 show ?thesis by (simp add: dec_nat.simps [of n])
  qed
qed

lemma dec_nat_inj: "dec_nat m = dec_nat n \<longleftrightarrow> m = n"
  by (metis undec_dec)

lemma dec_nat_digits: "c \<in> set (dec_nat n) \<Longrightarrow> is_digit c"
proof (induction n rule: dec_nat.induct)
  case (1 n)
  then show ?case by (cases "n < 10") (auto simp: dec_nat.simps [of n])
qed

lemma dec_nat_nonempty [simp]: "dec_nat n \<noteq> []"
  by (simp add: dec_nat.simps [of n])

lemma minus_not_digit [simp]: "\<not> is_digit CHR ''-''" "\<not> is_digit CHR '':''"
  by (simp_all add: is_digit_def)

lemma dec_int_inj: "dec_int a = dec_int b \<longleftrightarrow> a = b"
proof
  have hd: "dec_nat n \<noteq> CHR ''-'' # t" for n t
    using dec_nat_digits [of "CHR ''-''" n] by auto
  show "dec_int a = dec_int b \<Longrightarrow> a = b"
    using hd hd [symmetric] by (auto simp: dec_int_def dec_nat_inj split: if_splits)
qed simp

lemma dec_int_chars: "c \<in> set (dec_int i) \<Longrightarrow> c = CHR ''-'' \<or> is_digit c"
  by (auto simp: dec_int_def dest: dec_nat_digits split: if_splits)

section \<open>Rendering\<close>

text \<open>
  The text of a message for the verbs \<open>%s\<close>, \<open>%v\<close>, \<open>%w\<close> and \<open>%d\<close> of strings, integers and
  errors; the float verbs are left to the parameter \<open>ff\<close>, which the program never searches.
\<close>

fun render_arg :: "(f64 \<Rightarrow> string) \<Rightarrow> arg \<Rightarrow> string"
  and render :: "(f64 \<Rightarrow> string) \<Rightarrow> msg \<Rightarrow> string"
  and render_fmt :: "(f64 \<Rightarrow> string) \<Rightarrow> string \<Rightarrow> arg list \<Rightarrow> string" where
  "render_arg ff (AS s) = s"
| "render_arg ff (AI i) = dec_int i"
| "render_arg ff (AF x) = ff x"
| "render_arg ff (AB b) = (if b then ''true'' else ''false'')"
| "render_arg ff (AM m) = render ff m"
| "render ff (Fmt f as) = render_fmt ff f as"
| "render_fmt ff [] as = []"
| "render_fmt ff (c # f) as =
     (if c = CHR ''%'' then
        (case f of [] \<Rightarrow> ''%!(NOVERB)''
         | v # f' \<Rightarrow> if v = CHR ''%'' then CHR ''%'' # render_fmt ff f' as
             else (case as of [] \<Rightarrow> ''%!'' @ [v] @ ''(MISSING)'' @ render_fmt ff f' []
                   | a # as' \<Rightarrow> render_arg ff a @ render_fmt ff f' as'))
      else c # render_fmt ff f as)"

end
