(* ===== verification/Source_Types.thy ===== *)
theory Source_Types
  imports Go_Msg
begin

text \<open>
  The data every lending source shares (\<open>common/sources/primitives.go\<close> and \<open>txbuilder.go\<close>):
  assets, markets, orders, the transaction-building parameters and their results.
\<close>

record asset =
  PolicyID :: string
  AssetName :: string
  Symbol :: string
  Decimals :: int
  PriceUsd :: f64

definition asset_zero :: asset where
  "asset_zero = \<lparr>PolicyID = [], AssetName = [], Symbol = [], Decimals = 0, PriceUsd = 0\<rparr>"

record market =
  m_Source :: string
  m_PoolID :: string
  m_Collateral :: asset
  m_Borrow :: asset
  m_ReceiptAsset :: asset
  m_CollateralID :: string
  m_SupplyExchangeRate :: f64
  m_TotalSuppliedUSD :: f64
  m_TotalBorrowedUSD :: f64
  m_AvailableLiquidityUSD :: f64
  m_SupplyAPY :: f64
  m_BorrowAPY :: f64
  m_LTV :: f64
  m_LiquidationThreshold :: f64
  m_MinSupply :: f64
  m_Active :: bool
  m_URL :: string

record order =
  o_Source :: string
  o_ID :: string
  o_Type :: string
  o_Status :: string
  o_Owner :: string
  o_MarketID :: string
  o_Asset :: asset
  o_Amount :: f64
  o_AmountUSD :: f64
  o_CollateralAsset :: asset
  o_CollateralAmount :: f64
  o_Interest :: f64
  o_APY :: f64
  o_LTV :: f64
  o_HealthFactor :: f64
  o_TxHash :: string
  o_OutputIndex :: int
  o_TimeMs :: int

record order_query =
  q_Address :: string
  q_Limit :: int
  q_Refresh :: bool

abbreviation OrderActive :: string where "OrderActive \<equiv> ''active''"
abbreviation OrderClosed :: string where "OrderClosed \<equiv> ''closed''"
abbreviation OrderPending :: string where "OrderPending \<equiv> ''pending''"
abbreviation TypeBorrow :: string where "TypeBorrow \<equiv> ''borrow''"
abbreviation TypeRepay :: string where "TypeRepay \<equiv> ''repay''"
abbreviation TypeRepayCollateral :: string where "TypeRepayCollateral \<equiv> ''repayWithCollateral''"
abbreviation TypeDeposit :: string where "TypeDeposit \<equiv> ''deposit''"
abbreviation TypeWithdraw :: string where "TypeWithdraw \<equiv> ''withdraw''"
abbreviation TypeCancelWithdraw :: string where "TypeCancelWithdraw \<equiv> ''cancelWithdraw''"
abbreviation TypeLeveragedBorrow :: string where "TypeLeveragedBorrow \<equiv> ''leveragedBorrow''"
abbreviation TypeLiquidation :: string where "TypeLiquidation \<equiv> ''liquidation''"
abbreviation TypeUnknown :: string where "TypeUnknown \<equiv> ''unknown''"

definition ErrUnsupportedTxBuilder :: msg where
  "ErrUnsupportedTxBuilder = errm ''source does not implement TxBuilder''"

record tx_params =
  p_Source :: string
  p_Action :: string
  p_MarketID :: string
  p_Amount :: f64
  p_CollateralAmount :: f64
  p_CollateralUnit :: string
  p_Full :: bool
  p_Wallet :: string
  p_Address :: string
  p_ChangeAddress :: string
  p_OtherAddresses :: "string list"
  p_UTXOs :: "string list"

text \<open>\<open>TrackedOrder\<close> is raw JSON: \<open>None\<close> is the nil message, whose length is zero.\<close>

record built_tx =
  b_Source :: string
  b_Action :: string
  b_CBOR :: string
  b_Hint :: msg
  b_TrackedOrder :: "string option"
  b_Witnesses :: "string list"

record submit_params =
  s_Source :: string
  s_CBOR :: string
  s_WitnessSet :: string
  s_Address :: string
  s_Wallet :: string

record close_params =
  c_Source :: string
  c_MarketID :: string
  c_Address :: string
  c_Wallet :: string
  c_TxHash :: string
  c_OutputIndex :: int
  c_Kind :: string
  c_ChangeAddress :: string
  c_OtherAddresses :: "string list"
  c_UTXOs :: "string list"
  c_Pkh :: string
  c_RedeemCollateral :: bool

definition tracked_len :: "built_tx \<Rightarrow> nat" where
  "tracked_len b = (case b_TrackedOrder b of None \<Rightarrow> 0 | Some j \<Rightarrow> length j)"

end
