(* ===== verification/Units.thy ===== *)
theory Units
  imports Source_Types
begin

text \<open>
  Asset units and amounts (\<open>common/engine/units.go\<close>): the concatenated policy and asset-name
  hex that identifies a native asset (\<open>""\<close> for ADA), and the conversion between whole units
  and smallest units. The decoding of a policy or asset name into apollo's types
  (\<open>toPolicy\<close>, \<open>toAssetName\<close>) is the library's and stays a parameter where it is used.
\<close>

definition unitOf :: "asset \<Rightarrow> string" where
  "unitOf a = (if PolicyID a = [] \<and> AssetName a = [] then [] else PolicyID a @ AssetName a)"

definition splitUnit :: "string \<Rightarrow> string \<times> string" where
  "splitUnit u = (if length u < 56 then (u, []) else (take 56 u, drop 56 u))"

definition dexToken :: "string \<Rightarrow> string" where
  "dexToken u = u"

definition sameUnit :: "string \<Rightarrow> string \<Rightarrow> bool" where
  "sameUnit a b \<longleftrightarrow> equal_fold a b"

definition toWhole :: "int \<Rightarrow> int \<Rightarrow> f64" where
  "toWhole raw decimals = f64_of_int raw / f64_pow10 decimals"

definition toRaw :: "f64 \<Rightarrow> int \<Rightarrow> int" where
  "toRaw whole decimals = f64_to_int64 (f64_round (whole * f64_pow10 decimals))"

text \<open>\<open>short\<close> abbreviates an id for logs and notes: the first six and the last four bytes.\<close>

definition short :: "string \<Rightarrow> string" where
  "short s = (if length s \<le> 12 then s else take 6 s @ utf8_ellipsis @ drop (length s - 4) s)"

section \<open>Units\<close>

lemma unitOf_append: "unitOf a = PolicyID a @ AssetName a"
  by (simp add: unitOf_def)

lemma splitUnit_append: "splitUnit u = (p, n) \<Longrightarrow> p @ n = u \<and> length p \<le> 56"
  by (auto simp: splitUnit_def split: if_splits)

lemma sameUnit_simps [simp]: "sameUnit u u" "sameUnit [] u \<longleftrightarrow> u = []" "sameUnit u [] \<longleftrightarrow> u = []"
  by (simp_all add: sameUnit_def)

lemma short_length: "length (short s) \<le> 13"
  by (simp add: short_def utf8_ellipsis_def)

text \<open>An asset whose policy id is a full 28-byte hash is recovered from its unit: splitting
  the concatenation gives back the policy id and the asset name.\<close>

theorem splitUnit_unitOf:
  assumes "length (PolicyID a) = 56"
  shows "splitUnit (unitOf a) = (PolicyID a, AssetName a)"
  using assms by (simp add: splitUnit_def unitOf_append)

theorem splitUnit_unitOf_witness:
  "splitUnit (unitOf (asset_zero\<lparr>PolicyID := replicate 56 CHR ''a'', AssetName := ''534e454b''\<rparr>))
     = (replicate 56 CHR ''a'', ''534e454b'')"
  using splitUnit_unitOf [of "asset_zero\<lparr>PolicyID := replicate 56 CHR ''a'', AssetName := ''534e454b''\<rparr>"]
  by simp

section \<open>Whole and smallest units\<close>

lemma f64_pow10_exact: "n \<le> 15 \<Longrightarrow> f64_pow10 (int n) = Fin (10 ^ n)"
proof -
  assume "n \<le> 15"
  then have "(10 :: int) ^ n \<le> 10 ^ 15" by (rule power_increasing) simp
  also have "\<dots> \<le> 2 ^ 53" by simp
  finally have le: "\<bar>(10 :: int) ^ n\<bar> \<le> 2 ^ 53" by simp
  have "f64_pow10 (int n) = f64_of_int (10 ^ n)"
    by (simp add: f64_pow10_def f64_of_int_def)
  also have "\<dots> = Fin (of_int (10 ^ n))" by (rule f64_of_int_small [OF le])
  finally show ?thesis by simp
qed

lemma two_roundings_near:
  fixes r p z :: rat
  assumes "z \<le> p * (1 + 1 / 2 ^ 53)" "p * (1 - 1 / 2 ^ 53) \<le> z"
    and "p \<le> r * (1 + 1 / 2 ^ 53)" "r * (1 - 1 / 2 ^ 53) \<le> p" and "1 \<le> r" "r \<le> 2 ^ 50"
  shows "\<bar>z - r\<bar> < 1 / 2"
proof -
  have "z - r < 1 / 2" using assms by (simp; linarith)
  moreover have "r - z < 1 / 2" using assms by (simp; linarith)
  ultimately show ?thesis by linarith
qed

lemma floor_half_near: "\<bar>r - of_int n\<bar> < 1 / 2 \<Longrightarrow> \<lfloor>r + 1 / 2\<rfloor> = n"
  by (rule floor_unique) linarith+

text \<open>C18. Amounts survive the round trip through \<open>float64\<close>: converting up to \<open>2 ^ 50\<close> smallest
  units (1.1 billion ADA) to whole units and back, each step rounded to 53 bits, returns the same
  integer for every number of decimals a Cardano asset uses.\<close>

theorem toRaw_toWhole:
  assumes "0 \<le> raw" and "raw \<le> 2 ^ 50" and "d \<le> 15"
  shows "toRaw (toWhole raw (int d)) (int d) = raw"
proof (cases "raw = 0")
  case True
  then show ?thesis using assms(3)
    by (simp add: toRaw_def toWhole_def f64_pow10_exact f64_of_int_def mk_rep f64_limit_def trunc_rat_def
        in_i64_def floor_half_near [of 0 0, simplified])
next
  case False
  let ?r = "of_int raw :: rat" and ?t = "10 ^ d :: rat"
  have r: "1 \<le> ?r" "?r \<le> 2 ^ 50"
    using False assms(1,2) by (simp, metis of_int_le_iff of_int_numeral of_int_power)
  have t: "1 \<le> ?t" "?t \<le> 10 ^ 15" using assms(3) by (simp, intro power_increasing) simp_all
  have small: "normal_min \<le> (1 / 10 ^ 15 :: rat)" by (rule normal_minI) simp
  have q: "1 / 10 ^ 15 \<le> ?r / ?t" "?r / ?t \<le> 2 ^ 50"
    using r t frac_le [of 1 ?r ?t "10 ^ 15"] divide_le_eq_1 mult_mono [of ?r "2 ^ 50" 1 ?t]
    by (simp_all add: divide_le_eq)
  define y where "y = rnd (?r / ?t)"
  have y: "y \<le> ?r / ?t * (1 + 1 / 2 ^ 53)" "?r / ?t * (1 - 1 / 2 ^ 53) \<le> y"
    unfolding y_def using q small by (intro rnd_upper rnd_lower; linarith)+
  have yt: "y * ?t \<le> ?r * (1 + 1 / 2 ^ 53)" "?r * (1 - 1 / 2 ^ 53) \<le> y * ?t"
    using mult_right_mono [OF y(1), of ?t] mult_right_mono [OF y(2), of ?t] t by simp_all
  have norm: "normal_min \<le> y * ?t" by (rule normal_minI) (use yt(2) r in simp)
  define z where "z = rnd (y * ?t)"
  have z: "z \<le> y * ?t * (1 + 1 / 2 ^ 53)" "y * ?t * (1 - 1 / 2 ^ 53) \<le> z"
    unfolding z_def using norm by (rule rnd_upper rnd_lower)+
  have near: "\<bar>z - ?r\<bar> < 1 / 2" using z yt r by (rule two_roundings_near)
  have z0: "0 \<le> z" using near r(1) by linarith
  have w: "toWhole raw (int d) = Fin y"
    using assms q by (simp add: toWhole_def f64_of_int_small f64_pow10_exact y_def mk_Fin_1000)
  have "y * ?t \<le> 2 ^ 52" using yt(1) r(2) by simp
  then have "Fin y * f64_pow10 (int d) = Fin z"
    using assms(3) yt(2) r by (simp add: f64_pow10_exact z_def mk_Fin_60)
  moreover have "in_i64 raw" using assms(1,2) by (simp add: in_i64_def)
  ultimately show ?thesis using floor_half_near [OF near] z0 assms(1)
    by (simp add: toRaw_def w trunc_rat_def)
qed

theorem toRaw_toWhole_witness: "toRaw (toWhole 120500000 (int 6)) (int 6) = 120500000"
  by (rule toRaw_toWhole) simp_all

end
