(* ===== verification/Leverage_Plan.thy ===== *)
theory Leverage_Plan
  imports Units
begin

text \<open>
  Sizing of a leverage position (\<open>common/engine/math.go\<close>): \<open>BuildPlan\<close> with its loop, the
  liquidation move and the health factor, all in \<open>float64\<close> arithmetic with the code's own order
  of operations. The constants are the float64 values nearest to the source's decimals.
\<close>

type_synonym direction = string

abbreviation Long :: direction where "Long \<equiv> ''long''"
abbreviation Short :: direction where "Short \<equiv> ''short''"

definition MaxLeverage :: f64 where "MaxLeverage = mk (18 / 10)"
definition safetyBuffer :: f64 where "safetyBuffer = mk (75 / 100)"
definition planEps :: f64 where "planEps = mk (1 / 10 ^ 9)"
definition maxLegs :: nat where "maxLegs = 8"

record leg =
  Index :: int
  TradeInAda :: f64
  SupplyAmt :: f64
  BorrowAmt :: f64
  CumExposure :: f64

record plan =
  pl_Direction :: direction
  InitialAmount :: f64
  TargetLeverage :: f64
  AchievedLeverage :: f64
  LegLTV :: f64
  Legs :: "leg list"
  TotalExposure :: f64
  TotalBorrowed :: f64

section \<open>BuildPlan\<close>

text \<open>The borrow of one leg, \<open>None\<close> where the loop body breaks.\<close>

definition leg_borrow :: "f64 \<Rightarrow> f64 \<Rightarrow> f64 \<Rightarrow> f64 \<Rightarrow> f64 \<Rightarrow> f64 \<Rightarrow> f64 option" where
  "leg_borrow initial target ltv minBorrow cumExposure held =
     (let remaining = target - cumExposure; fullBorrow = held * ltv; tapered = remaining * initial in
      if tapered < fullBorrow \<and> 0 < minBorrow \<and> tapered < minBorrow then None
      else let borrow = (if tapered < fullBorrow then tapered else fullBorrow) in
        if borrow \<le> 0 then None
        else if 0 < minBorrow \<and> borrow < minBorrow then None
        else Some borrow)"

text \<open>
  The loop, from iteration \<open>i\<close> with \<open>n\<close> iterations left: the legs it appends, and the final
  exposure and debt.
\<close>

fun plan_loop :: "nat \<Rightarrow> int \<Rightarrow> f64 \<Rightarrow> f64 \<Rightarrow> f64 \<Rightarrow> f64 \<Rightarrow> f64 \<Rightarrow> f64 \<Rightarrow> f64 \<Rightarrow> leg list \<times> f64 \<times> f64" where
  "plan_loop 0 i initial target ltv minBorrow cum held tot = ([], cum, tot)"
| "plan_loop (Suc n) i initial target ltv minBorrow cum held tot =
     (if cum < target - planEps then
        case leg_borrow initial target ltv minBorrow cum held of
          None \<Rightarrow> ([], cum, tot)
        | Some borrow \<Rightarrow>
            let cum' = cum + borrow / initial;
                lg = \<lparr>Index = i, TradeInAda = borrow, SupplyAmt = held, BorrowAmt = borrow, CumExposure = cum'\<rparr>;
                (ls, c, t) = plan_loop n (i + 1) initial target ltv minBorrow cum' borrow (tot + borrow)
            in (lg # ls, c, t)
      else ([], cum, tot))"

definition clamp_target :: "f64 \<Rightarrow> f64 \<Rightarrow> f64" where
  "clamp_target ltv target =
     (let t1 = (if target < 1 then 1 else target);
          t2 = (if MaxLeverage < t1 then MaxLeverage else t1);
          ceiling = 1 / (1 - ltv)
      in if ceiling < t2 then ceiling else t2)"

definition BuildPlan :: "direction \<Rightarrow> f64 \<Rightarrow> f64 \<Rightarrow> f64 \<Rightarrow> f64 \<Rightarrow> plan res" where
  "BuildPlan dir initial marketLTV target minBorrow =
     (if initial \<le> 0 then Inl (errm ''plan: initial amount must be > 0'')
      else if dir \<noteq> Long \<and> dir \<noteq> Short then Inl (errm ''plan: direction must be long or short'')
      else if marketLTV \<le> 0 \<or> 1 \<le> marketLTV then Inl (errm ''plan: market LTV must be in (0,1)'')
      else let ltv = marketLTV * safetyBuffer; tgt = clamp_target ltv target;
               (ls, cum, tot) = plan_loop maxLegs 0 initial tgt ltv minBorrow 1 initial 0
           in Inr \<lparr>pl_Direction = dir, InitialAmount = initial, TargetLeverage = tgt,
                   AchievedLeverage = cum, LegLTV = ltv, Legs = ls,
                   TotalExposure = cum * initial, TotalBorrowed = tot\<rparr>)"

section \<open>Liquidation and health\<close>

definition LiquidationPrice :: "direction \<Rightarrow> f64 \<Rightarrow> f64 \<Rightarrow> f64 \<Rightarrow> f64" where
  "LiquidationPrice dir exposure debt liqThreshold =
     (if exposure \<le> 0 \<or> liqThreshold \<le> 0 then 0
      else let pLiq = debt / (liqThreshold * exposure); move = pLiq - 1
           in if dir = Short then - move else move)"

definition HealthFactor :: "f64 \<Rightarrow> f64 \<Rightarrow> f64 \<Rightarrow> f64" where
  "HealthFactor collateralValue debt liqThreshold =
     (if debt \<le> 0 then PInf else (collateralValue * liqThreshold) / debt)"

section \<open>The constants\<close>

lemma safetyBuffer_eq: "safetyBuffer = Fin (3 / 4)"
proof -
  have "rep (of_int 3 * 2 powi (- 2))" by (rule rep_scaled) simp_all
  then have "rep (3 / 4)" by (simp add: power_int_def power_one_over)
  then show ?thesis by (simp add: safetyBuffer_def mk_rep f64_limit_def)
qed

definition maxLev :: rat where "maxLev = rnd (18 / 10)"
definition eps9 :: rat where "eps9 = rnd (1 / 10 ^ 9)"

lemma MaxLeverage_eq: "MaxLeverage = Fin maxLev"
  by (simp add: MaxLeverage_def maxLev_def mk_Fin_60)

lemma planEps_eq: "planEps = Fin eps9"
  by (simp add: planEps_def eps9_def mk_Fin_60)

lemma maxLev_bounds: "1 \<le> maxLev" "maxLev < 19 / 10" "rep maxLev"
proof -
  show "1 \<le> maxLev" unfolding maxLev_def by (rule rep_le_rnd) simp_all
  have "maxLev \<le> 18 / 10 * (1 + 1 / 2 ^ 53)"
    unfolding maxLev_def by (intro rnd_upper normal_minI) simp
  then show "maxLev < 19 / 10" by (rule le_less_trans) simp
  show "rep maxLev" by (simp add: maxLev_def)
qed

lemma eps9_bounds: "0 < eps9" "eps9 < 1 / 10 ^ 8"
proof -
  have u: "eps9 \<le> 1 / 10 ^ 9 * (1 + 1 / 2 ^ 53)" "1 / 10 ^ 9 * (1 - 1 / 2 ^ 53) \<le> eps9"
    unfolding eps9_def by (intro rnd_upper rnd_lower normal_minI; simp)+
  show "eps9 < 1 / 10 ^ 8" by (rule le_less_trans [OF u(1)]) simp
  show "0 < eps9" by (rule less_le_trans [OF _ u(2)]) simp
qed

section \<open>The shape of the legs\<close>

lemma leg_borrow_Some:
  assumes "leg_borrow initial target ltv minBorrow cum held = Some b"
  shows "(b = (target - cum) * initial \<and> b < held * ltv \<or>
          b = held * ltv \<and> \<not> (target - cum) * initial < b) \<and>
         \<not> b \<le> Fin 0 \<and> (Fin 0 < minBorrow \<longrightarrow> \<not> b < minBorrow)"
  using assms by (auto simp: leg_borrow_def Let_def split: if_splits)

text \<open>What one leg guarantees, given the amount held before it.\<close>

definition leg_ok :: "f64 \<Rightarrow> f64 \<Rightarrow> f64 \<Rightarrow> leg \<Rightarrow> bool" where
  "leg_ok ltv minBorrow held l \<longleftrightarrow>
     SupplyAmt l = held \<and> TradeInAda l = BorrowAmt l \<and>
     (BorrowAmt l = held * ltv \<or> BorrowAmt l < held * ltv) \<and>
     \<not> BorrowAmt l \<le> 0 \<and> (0 < minBorrow \<longrightarrow> \<not> BorrowAmt l < minBorrow)"

fun legs_ok :: "f64 \<Rightarrow> f64 \<Rightarrow> int \<Rightarrow> f64 \<Rightarrow> leg list \<Rightarrow> bool" where
  "legs_ok ltv minBorrow i held [] \<longleftrightarrow> True"
| "legs_ok ltv minBorrow i held (l # ls) \<longleftrightarrow>
     Index l = i \<and> leg_ok ltv minBorrow held l \<and> legs_ok ltv minBorrow (i + 1) (BorrowAmt l) ls"

lemma plan_loop_legs_ok:
  "plan_loop n i initial target ltv minBorrow cum held tot = (ls, c, t) \<Longrightarrow> legs_ok ltv minBorrow i held ls"
proof (induction n arbitrary: i cum held tot ls)
  case (Suc n)
  then show ?case
    by (auto simp: Let_def leg_ok_def dest: leg_borrow_Some split: if_splits option.splits prod.splits)
qed simp

lemma plan_loop_length:
  "plan_loop n i initial target ltv minBorrow cum held tot = (ls, c, t) \<Longrightarrow> length ls \<le> n"
  by (induction n arbitrary: i cum held tot ls)
    (auto simp: Let_def split: if_splits option.splits prod.splits)

lemma plan_loop_totals:
  "plan_loop n i initial target ltv minBorrow cum held tot = (ls, c, t) \<Longrightarrow>
     t = foldl (+) tot (map BorrowAmt ls) \<and> c = last (cum # map CumExposure ls)"
proof (induction n arbitrary: i cum held tot ls)
  case (Suc n)
  then show ?case by (fastforce simp: Let_def split: if_splits option.splits prod.splits)
qed simp

section \<open>The leverage actually reached\<close>

text \<open>
  Three roundings (the tapered borrow, the division by the capital, the running sum) separate
  the exposure from the target; the difference \<open>target - cum\<close> itself is exact.
\<close>

lemma three_roundings:
  fixes k m T p q r :: rat
  assumes "p \<le> m * (1 + 1 / 2 ^ 53)" "q \<le> p * (1 + 1 / 2 ^ 53)" "r \<le> (k + q) * (1 + 1 / 2 ^ 53)"
    and "k + m = T" "0 \<le> k" "0 \<le> m" "m \<le> 1" "T < 2"
  shows "r \<le> T + 1 / 2 ^ 50"
  using assms by (simp; linarith)

lemma plan_step:
  assumes x: "rep x" "1 / 10 ^ 6 \<le> x" "x \<le> 2 ^ 50" and T: "rep T" "1 \<le> T" "T < 2"
    and l: "0 \<le> l" "l \<le> 1" and k: "rep k" "1 \<le> k" and h: "rep h" "0 < h" "h \<le> x"
    and go: "Fin k < Fin T - planEps" and b: "leg_borrow (Fin x) (Fin T) (Fin l) mb (Fin k) (Fin h) = Some b"
  obtains \<beta> k' where "b = Fin \<beta>" "rep \<beta>" "0 < \<beta>" "\<beta> \<le> h" "Fin k + b / Fin x = Fin k'" "rep k'"
    "k \<le> k'" "k' \<le> T + 1 / 2 ^ 50"
proof -
  have "\<bar>T - eps9\<bar> \<le> 2 ^ 60" using T eps9_bounds by simp
  then have "Fin T - planEps = Fin (rnd (T - eps9))" using T eps9_bounds by (simp add: planEps_eq mk_Fin_60)
  moreover have "rnd (T - eps9) \<le> T" using eps9_bounds T(1) by (intro rnd_le_rep) simp_all
  ultimately have kT: "k < T" using go by simp
  define m where "m = T - k"
  have m: "1 / 2 ^ 52 \<le> m" "m \<le> 1" "rep m" "mk m = Fin m"
    using rep_diff_binade [of k T] k T kT by (auto simp: m_def mk_Fin_60 rep_def)
  have mx: "1 / 10 ^ 50 \<le> m * x" "m * x \<le> 2 ^ 50"
    using mult_mono [of "1 / 2 ^ 52" m "1 / 10 ^ 6" x] mult_mono [of m 1 x "2 ^ 50"] m x by simp_all
  define tp where "tp = rnd (m * x)"
  have taper: "(Fin T - Fin k) * Fin x = Fin tp"
    using mx m(4) by (simp add: tp_def m_def [symmetric] mk_Fin_60)
  define fu where "fu = rnd (h * l)"
  have hl: "0 \<le> h * l" "h * l \<le> h" using h l by (simp_all add: mult_left_le)
  have "h * l \<le> 2 ^ 60" using hl(2) h(3) x(3) by (simp; linarith)
  then have full: "Fin h * Fin l = Fin fu" using hl(1) by (simp add: fu_def mk_Fin_60)
  have fuh: "fu \<le> h" unfolding fu_def using hl h by (intro rnd_le_rep)
  obtain \<beta> where \<beta>: "b = Fin \<beta>" "rep \<beta>" "0 < \<beta>" "\<beta> \<le> tp" "\<beta> \<le> fu"
    using leg_borrow_Some [OF b] unfolding taper full
    by (auto simp: tp_def fu_def not_le not_less)
  have up: "tp \<le> m * x * (1 + 1 / 2 ^ 53)" unfolding tp_def using mx by (intro rnd_upper normal_minI)
  define p where "p = m * (1 + 1 / 2 ^ 53)"
  have bp: "\<beta> / x \<le> p" using \<beta>(4) up x by (simp add: p_def divide_le_eq mult.commute mult.left_commute)
  have p: "1 / 10 ^ 50 \<le> p" "p \<le> 2" using m by (simp_all add: p_def)
  define q where "q = rnd (\<beta> / x)"
  have bx: "0 \<le> \<beta> / x" using \<beta>(3) x by simp
  have q: "0 \<le> q" unfolding q_def using bx by (rule rnd_nonneg)
  have "q \<le> rnd p" unfolding q_def using bp by (rule rnd_mono)
  also have qp: "rnd p \<le> p * (1 + 1 / 2 ^ 53)" using p by (intro rnd_upper normal_minI)
  finally have qp: "q \<le> p * (1 + 1 / 2 ^ 53)" .
  have q4: "q \<le> 4" using qp p by (simp; linarith)
  define k' where "k' = rnd (k + q)"
  have "Fin x \<noteq> Fin 0" "x \<noteq> 0" using x by auto
  then have "b / Fin x = Fin q" using bx bp p by (simp add: \<beta>(1) q_def mk_Fin_60)
  then have sum: "Fin k + b / Fin x = Fin k'" using k q q4 kT T by (simp add: k'_def mk_Fin_60)
  have "k' \<le> (k + q) * (1 + 1 / 2 ^ 53)" unfolding k'_def using k q by (intro rnd_upper normal_minI) simp
  then have "k' \<le> T + 1 / 2 ^ 50"
    using p_def qp m k T kT by (intro three_roundings [of p m q k' k T]) (simp_all add: m_def)
  moreover have "k \<le> k'" unfolding k'_def using k q by (intro rep_le_rnd) simp_all
  ultimately show thesis using that [OF \<beta>(1-3) _ sum] \<beta>(5) fuh by (simp add: k'_def)
qed

lemma plan_loop_reach:
  assumes "rep x" "1 / 10 ^ 6 \<le> x" "x \<le> 2 ^ 50" "rep T" "1 \<le> T" "T < 2" "0 \<le> l" "l \<le> 1"
    and "rep k" "1 \<le> k" "k \<le> T + 1 / 2 ^ 50" "rep h" "0 < h" "h \<le> x"
    and "plan_loop n i (Fin x) (Fin T) (Fin l) mb (Fin k) (Fin h) t = (ls, c, t')"
  shows "\<exists>a. c = Fin a \<and> rep a \<and> k \<le> a \<and> a \<le> T + 1 / 2 ^ 50"
  using assms(9-)
proof (induction n arbitrary: i k h t ls)
  case (Suc n)
  show ?case
  proof (cases "Fin k < Fin T - planEps")
    case go: True
    show ?thesis
    proof (cases "leg_borrow (Fin x) (Fin T) (Fin l) mb (Fin k) (Fin h)")
      case None
      then show ?thesis using Suc.prems go by auto
    next
      case (Some b)
      obtain \<beta> k' where s: "b = Fin \<beta>" "rep \<beta>" "0 < \<beta>" "\<beta> \<le> h" "Fin k + b / Fin x = Fin k'" "rep k'"
        "k \<le> k'" "k' \<le> T + 1 / 2 ^ 50"
        using plan_step [OF assms(1-8) Suc.prems(1,2,4,5,6) go Some] by blast
      obtain ls' where "plan_loop n (i + 1) (Fin x) (Fin T) (Fin l) mb (Fin k') (Fin \<beta>) (t + b) = (ls', c, t')"
        using Suc.prems(7) go Some s by (auto simp: Let_def split: prod.splits)
      from Suc.IH [OF s(6) _ s(8) s(2,3) _ this] show ?thesis using s Suc.prems by fastforce
    qed
  qed (use Suc.prems in auto)
qed auto

lemma rep_three_quarters: "rep l \<Longrightarrow> 0 < l \<Longrightarrow> l < 1 \<Longrightarrow> Fin l * safetyBuffer = Fin (rnd (l * (3 / 4)))"
  by (simp add: safetyBuffer_eq mk_Fin_60)

lemma effective_ltv: "0 \<le> l \<Longrightarrow> l < 1 \<Longrightarrow> 0 \<le> rnd (l * (3 / 4)) \<and> rnd (l * (3 / 4)) \<le> 3 / 4"
proof -
  have "rep (3 / 4)" using rep_scaled [of 3 "- 2"] by (simp add: power_int_def power_one_over)
  then show "0 \<le> l \<Longrightarrow> l < 1 \<Longrightarrow> ?thesis"
    using rnd_nonneg [of "l * (3 / 4)"] rnd_le_rep [of "l * (3 / 4)" "3 / 4"] by simp
qed

text \<open>The target after clamping: between 1 and the cap, whatever was requested.\<close>

lemma clamp_target_bounds:
  assumes l: "0 \<le> l" "l \<le> 3 / 4" and t: "target = Fin t" "rep t"
  shows "\<exists>T. clamp_target (Fin l) target = Fin T \<and> rep T \<and> 1 \<le> T \<and> T \<le> maxLev \<and>
             T \<le> rnd (1 / rnd (1 - l)) \<and> (T < t \<longrightarrow> T = maxLev \<or> T = rnd (1 / rnd (1 - l)))"
proof -
  have "rep (1 / 4)" using rep_pow2 [of "- 2"] by (simp add: power_int_def power_one_over)
  then have d: "1 / 4 \<le> rnd (1 - l)" "rnd (1 - l) \<le> 1"
    using l rep_le_rnd [of "1 / 4" "1 - l"] rnd_le_rep [of "1 - l" 1] by simp_all
  then have q: "1 \<le> 1 / rnd (1 - l)" "1 / rnd (1 - l) \<le> 4"
    by (simp_all add: le_divide_eq divide_le_eq)
  have c1: "1 \<le> rnd (1 / rnd (1 - l))" using q by (intro rep_le_rnd) simp_all
  have "mk (1 - l) = Fin (rnd (1 - l))" using l by (simp add: mk_Fin_60)
  moreover have "0 \<le> 1 / rnd (1 - l)" "1 / rnd (1 - l) \<le> 2 ^ 60"
    using d(1) order.trans [OF q(2), of "2 ^ 60"] by simp_all
  then have "mk (1 / rnd (1 - l)) = Fin (rnd (1 / rnd (1 - l)))" by (rule mk_Fin_60)
  ultimately have m: "mk (1 - l) = Fin (rnd (1 - l))" "mk (1 / rnd (1 - l)) = Fin (rnd (1 / rnd (1 - l)))"
    by blast+
  then have "1 / (1 - Fin l) = Fin (rnd (1 / rnd (1 - l)))" using d m by simp
  then show ?thesis using c1 maxLev_bounds t
    by (auto simp: clamp_target_def MaxLeverage_eq Let_def)
qed

section \<open>Properties\<close>

lemma BuildPlan_Inr:
  assumes "BuildPlan dir initial mltv target mb = Inr p"
  shows "\<not> initial \<le> 0 \<and> (dir = Long \<or> dir = Short) \<and> \<not> mltv \<le> 0 \<and> \<not> 1 \<le> mltv \<and>
    pl_Direction p = dir \<and> InitialAmount p = initial \<and> LegLTV p = mltv * safetyBuffer \<and>
    TargetLeverage p = clamp_target (LegLTV p) target \<and> TotalExposure p = AchievedLeverage p * initial \<and>
    plan_loop maxLegs 0 initial (TargetLeverage p) (LegLTV p) mb 1 initial 0
      = (Legs p, AchievedLeverage p, TotalBorrowed p)"
  using assms by (auto simp: BuildPlan_def Let_def split: if_splits prod.splits)

lemma BuildPlan_total:
  "0 < x \<Longrightarrow> dir = Long \<or> dir = Short \<Longrightarrow> 0 < l \<Longrightarrow> l < 1 \<Longrightarrow>
     \<exists>p. BuildPlan dir (Fin x) (Fin l) target mb = Inr p"
  by (cases "plan_loop maxLegs 0 (Fin x) (clamp_target (Fin l * safetyBuffer) target)
        (Fin l * safetyBuffer) mb 1 (Fin x) 0") (auto simp: BuildPlan_def Let_def)

text \<open>C1. The leverage cap holds in the program's own floating-point arithmetic: for a capital between
  one lovelace (\<open>1e-6\<close> ADA) and \<open>2 ^ 50\<close>, whatever leverage is requested, the plan's target lies
  between 1 and \<open>MaxLeverage\<close> and the leverage the legs reach lies between 1 and the target, up to
  \<open>2 powi -50\<close> of accumulated rounding.\<close>

theorem BuildPlan_leverage_cap:
  assumes "BuildPlan dir (Fin x) (Fin l) (Fin t) mb = Inr p"
    and "rep x" "1 / 10 ^ 6 \<le> x" "x \<le> 2 ^ 50" "rep t"
  shows "\<exists>T a. TargetLeverage p = Fin T \<and> AchievedLeverage p = Fin a \<and>
           1 \<le> T \<and> T \<le> maxLev \<and> 1 \<le> a \<and> a \<le> T + 1 / 2 ^ 50"
proof -
  note P = BuildPlan_Inr [OF assms(1)]
  have l: "0 < l" "l < 1" using P by auto
  define e where "e = rnd (l * (3 / 4))"
  have e: "0 \<le> e" "e \<le> 3 / 4" using effective_ltv [of l] l by (auto simp: e_def)
  have L: "LegLTV p = Fin e" using P l by (simp add: safetyBuffer_eq e_def mk_Fin_60)
  obtain T where T: "TargetLeverage p = Fin T" "rep T" "1 \<le> T" "T \<le> maxLev"
    using clamp_target_bounds [OF e refl assms(5)] P L by auto
  have T2: "T < 2" using T(4) maxLev_bounds by linarith
  have loop: "plan_loop maxLegs 0 (Fin x) (Fin T) (Fin e) mb (Fin 1) (Fin x) (Fin 0)
      = (Legs p, AchievedLeverage p, TotalBorrowed p)"
    using P unfolding T(1) L f64_Fin by blast
  have "0 < x" "1 \<le> T + 1 / 2 ^ 50" using assms(3) T(3) by (simp; linarith)+
  then obtain a where "AchievedLeverage p = Fin a" "1 \<le> a" "a \<le> T + 1 / 2 ^ 50"
    using plan_loop_reach [OF assms(2-4) T(2,3) T2 e(1) _ _ _ _ assms(2) _ _ loop] e by auto
  then show ?thesis using T by blast
qed

theorem BuildPlan_leverage_cap_witness:
  "\<exists>p T a. BuildPlan Long (Fin 1000) (Fin (1 / 2)) (Fin 5) (Fin 20) = Inr p \<and>
     TargetLeverage p = Fin T \<and> AchievedLeverage p = Fin a \<and> 1 \<le> T \<and> T \<le> maxLev \<and> 1 \<le> a \<and> a \<le> T + 1 / 2 ^ 50"
proof -
  obtain p where p: "BuildPlan Long (Fin 1000) (Fin (1 / 2)) (Fin 5) (Fin 20) = Inr p"
    using BuildPlan_total [of 1000 Long "1 / 2"] by auto
  show ?thesis using p BuildPlan_leverage_cap [OF p] rep_of_int [of 1000] rep_of_int [of 5] by auto
qed

text \<open>C4. Every leg of a plan is executable and covered: the legs are numbered from 0, at most eight, each
  supplies exactly what the previous one borrowed (the first the user's capital), borrows a positive
  amount no larger than the effective LTV of what it supplies, and never less than the market minimum.\<close>

theorem BuildPlan_legs:
  assumes "BuildPlan dir initial mltv target mb = Inr p"
  shows "legs_ok (mltv * safetyBuffer) mb 0 initial (Legs p) \<and> length (Legs p) \<le> 8"
  using BuildPlan_Inr [OF assms] plan_loop_legs_ok plan_loop_length unfolding maxLegs_def by metis

theorem BuildPlan_legs_witness:
  "\<exists>p. BuildPlan Short (Fin 250) (Fin (1 / 2)) (Fin 2) (Fin 81) = Inr p \<and>
     legs_ok (Fin (1 / 2) * safetyBuffer) (Fin 81) 0 (Fin 250) (Legs p) \<and> length (Legs p) \<le> 8"
proof -
  obtain p where p: "BuildPlan Short (Fin 250) (Fin (1 / 2)) (Fin 2) (Fin 81) = Inr p"
    using BuildPlan_total [of 250 Short "1 / 2"] by auto
  show ?thesis using p BuildPlan_legs [OF p] by blast
qed

text \<open>The totals of a plan are those of its legs: the debt is the running float64 sum of the borrows, the
  reached leverage is the last leg's cumulative exposure (1 for no leg), the exposure is that times the capital.\<close>

theorem BuildPlan_totals:
  assumes "BuildPlan dir initial mltv target mb = Inr p"
  shows "TotalBorrowed p = foldl (+) 0 (map BorrowAmt (Legs p)) \<and>
         AchievedLeverage p = last (1 # map CumExposure (Legs p)) \<and>
         TotalExposure p = AchievedLeverage p * initial"
  using BuildPlan_Inr [OF assms] plan_loop_totals by metis

theorem BuildPlan_totals_witness:
  "\<exists>p. BuildPlan Long (Fin 120) (Fin (1 / 2)) (Fin 2) (Fin 20) = Inr p \<and>
     TotalBorrowed p = foldl (+) 0 (map BorrowAmt (Legs p))"
proof -
  obtain p where p: "BuildPlan Long (Fin 120) (Fin (1 / 2)) (Fin 2) (Fin 20) = Inr p"
    using BuildPlan_total [of 120 Long "1 / 2"] by auto
  show ?thesis using p BuildPlan_totals [OF p] by blast
qed

text \<open>\<open>BuildPlan\<close> fails exactly on its three argument checks, in their order, and otherwise
  returns a plan.\<close>

theorem BuildPlan_errors:
  "(initial \<le> 0 \<longleftrightarrow> BuildPlan dir initial mltv target mb = Inl (errm ''plan: initial amount must be > 0'')) \<and>
   (\<not> initial \<le> 0 \<and> dir \<notin> {Long, Short} \<longleftrightarrow>
      BuildPlan dir initial mltv target mb = Inl (errm ''plan: direction must be long or short'')) \<and>
   (\<not> initial \<le> 0 \<and> dir \<in> {Long, Short} \<and> (mltv \<le> 0 \<or> 1 \<le> mltv) \<longleftrightarrow>
      BuildPlan dir initial mltv target mb = Inl (errm ''plan: market LTV must be in (0,1)'')) \<and>
   (\<not> initial \<le> 0 \<and> dir \<in> {Long, Short} \<and> \<not> mltv \<le> 0 \<and> \<not> 1 \<le> mltv \<longleftrightarrow>
      is_ok (BuildPlan dir initial mltv target mb))"
  by (auto simp: BuildPlan_def Let_def split: prod.splits)

lemma Inf_le_Fin: "NInf \<le> Fin r" "Fin r \<le> PInf"
  by (simp_all add: less_eq_f64_def)

text \<open>C22. The health factor never hides a liquidation, in spite of the two roundings: if the
  threshold-weighted collateral does not exceed the (positive) debt the computed factor is at most 1,
  and if it reaches the debt the factor is at least 1.\<close>

theorem HealthFactor_sound:
  assumes "0 < d" "rep d" "d < f64_limit"
  shows "(c * t \<le> d \<longrightarrow> HealthFactor (Fin c) (Fin d) (Fin t) \<le> 1) \<and>
         (d \<le> c * t \<longrightarrow> 1 \<le> HealthFactor (Fin c) (Fin d) (Fin t))"
proof (intro conjI impI)
  have one: "\<bar>1\<bar> < f64_limit" using f64_limit_big by (simp add: f64_limit_def)
  have d: "\<bar>d\<bar> < f64_limit" using assms by simp
  show "HealthFactor (Fin c) (Fin d) (Fin t) \<le> 1" if "c * t \<le> d"
    using mk_le_Fin [OF that assms(2) d] assms(1) mk_le_Fin [OF _ rep_1 one] mk_pos_not_NaN
    by (cases "mk (c * t)") (auto simp: HealthFactor_def divide_le_eq divide_f64_def Inf_le_Fin)
  show "1 \<le> HealthFactor (Fin c) (Fin d) (Fin t)" if "d \<le> c * t"
    using mk_not_less_Fin [OF that assms(2) d] assms(1) mk_not_less_Fin [OF _ rep_1 one]
    by (cases "mk (c * t)") (auto simp: HealthFactor_def le_divide_eq divide_f64_def Inf_le_Fin)
qed

theorem HealthFactor_sound_witness:
  "HealthFactor (Fin 100) (Fin 80) (Fin (1 / 2)) \<le> 1 \<and> 1 \<le> HealthFactor (Fin 200) (Fin 80) (Fin (1 / 2))"
  using HealthFactor_sound [of 80 100 "1 / 2"] HealthFactor_sound [of 80 200 "1 / 2"] rep_of_int [of 80]
  by (simp add: f64_limit_def)

end
