(* ===== verification/Go_Hex.thy ===== *)
theory Go_Hex
  imports Go_Msg
begin

text \<open>
  Bytes and \<open>encoding/hex\<close>: \<open>EncodeToString\<close> and \<open>DecodeString\<close> with the two errors of the
  latter, which every transaction, key and witness of the program passes through.
\<close>

type_synonym byte = "8 word"
type_synonym bytes = "byte list"

definition bytes_of :: "string \<Rightarrow> bytes" where
  "bytes_of s = map of_char s"

definition string_of :: "bytes \<Rightarrow> string" where
  "string_of bs = map (\<lambda>b. char_of (unat b)) bs"

definition hex_digit :: "nat \<Rightarrow> char" where
  "hex_digit n = (if n < 10 then char_of (48 + n) else char_of (87 + n))"

definition hex_val :: "char \<Rightarrow> nat option" where
  "hex_val c = (let n = of_char c :: nat in
     if 48 \<le> n \<and> n \<le> 57 then Some (n - 48)
     else if 97 \<le> n \<and> n \<le> 102 then Some (n - 87)
     else if 65 \<le> n \<and> n \<le> 70 then Some (n - 55) else None)"

definition enc_hex :: "bytes \<Rightarrow> string" where
  "enc_hex bs = concat (map (\<lambda>b. [hex_digit (unat b div 16), hex_digit (unat b mod 16)]) bs)"

definition hex_err :: "char \<Rightarrow> msg" where
  "hex_err c = Fmt ''encoding/hex: invalid byte: %#U'' [AI (of_char c)]"

fun dec_hex :: "string \<Rightarrow> bytes res" where
  "dec_hex [] = Inr []"
| "dec_hex [c] = (if hex_val c = None then Inl (hex_err c) else Inl (errm ''encoding/hex: odd length hex string''))"
| "dec_hex (a # b # r) =
     (case hex_val a of None \<Rightarrow> Inl (hex_err a)
      | Some x \<Rightarrow> (case hex_val b of None \<Rightarrow> Inl (hex_err b)
          | Some y \<Rightarrow> chk (dec_hex r) id (\<lambda>bs. Inr (word_of_nat (16 * x + y) # bs))))"

lemma hex_val_digit: "n < 16 \<Longrightarrow> hex_val (hex_digit n) = Some n"
  by (auto simp: hex_val_def hex_digit_def Let_def)

lemma dec_enc_hex [simp]: "dec_hex (enc_hex bs) = Inr bs"
proof (induction bs)
  case (Cons b bs)
  have "unat b < 256" using unsigned_less [of b, where ?'a = nat] by simp
  then have d: "unat b div 16 < 16" "unat b mod 16 < 16" by simp_all
  have "16 * (unat b div 16) + unat b mod 16 = unat b" by (rule mult_div_mod_eq)
  then show ?case using Cons d by (simp add: enc_hex_def hex_val_digit)
qed (simp add: enc_hex_def)

lemma enc_hex_Nil [simp]: "enc_hex bs = [] \<longleftrightarrow> bs = []"
  by (cases bs) (simp_all add: enc_hex_def)

lemma enc_hex_inj: "enc_hex a = enc_hex b \<longleftrightarrow> a = b"
  by (metis dec_enc_hex sum.inject(2))

lemma dec_hex_length: "dec_hex s = Inr bs \<Longrightarrow> length s = 2 * length bs"
  by (induction s arbitrary: bs rule: dec_hex.induct) (auto simp: chk_Inr split: option.splits if_splits)

lemma dec_hex_odd: "odd (length s) \<Longrightarrow> \<not> is_ok (dec_hex s)"
  by (auto simp: is_ok_iff dest: dec_hex_length)

end
