(* ===== verification/Tx_Finalize.thy ===== *)
theory Tx_Finalize
  imports Go_Hex "HOL-Library.AList"
begin

text \<open>
  Witness merging (\<open>common/sources/tx_finalize.go\<close>). The CBOR library is a parameter: a record
  of the decoders and encoders the file calls, and the round-trip laws the code relies on
  (\<open>cbor_laws\<close>), stated for well-formed data items only. A Go map of witness-set slots is an
  association list; \<open>None\<close> is the nil map a CBOR null decodes to.
\<close>

record rawTx =
  tx_Body :: bytes
  tx_WitnessSet :: bytes
  tx_Valid :: bool
  tx_AuxiliaryData :: bytes

type_synonym slot_map = "(nat \<times> bytes) list option"

record cbor =
  un_tx :: "bytes \<Rightarrow> rawTx res"
  un_map :: "bytes \<Rightarrow> slot_map res"
  un_list :: "bytes \<Rightarrow> bytes list res"
  mar_tx :: "rawTx \<Rightarrow> bytes res"
  mar_map :: "(nat \<times> bytes) list \<Rightarrow> bytes res"
  mar_list :: "bytes list \<Rightarrow> bytes res"

definition wsKeyVkeyWitnesses :: nat where "wsKeyVkeyWitnesses = 0"

text \<open>Reading a slot of a possibly nil map, and the slot counted as present only when non-empty.\<close>

definition slot :: "slot_map \<Rightarrow> nat \<Rightarrow> bytes option" where
  "slot m k = (case m of None \<Rightarrow> None | Some al \<Rightarrow> map_of al k)"

definition slot_bytes :: "slot_map \<Rightarrow> nat \<Rightarrow> bytes" where
  "slot_bytes m k = (case slot m k of None \<Rightarrow> [] | Some b \<Rightarrow> b)"

text \<open>Writing a slot panics on the nil map.\<close>

definition set_slot :: "slot_map \<Rightarrow> nat \<Rightarrow> bytes \<Rightarrow> slot_map res" where
  "set_slot m k b = (case m of None \<Rightarrow> Inl (errm ''panic: assignment to entry in nil map'')
                     | Some al \<Rightarrow> Inr (Some (AList.update k b al)))"

definition marshalWitnessMap :: "cbor \<Rightarrow> slot_map \<Rightarrow> bytes res" where
  "marshalWitnessMap C m = (if m = None \<or> m = Some [] then Inr [0xa0] else mar_map C (the m))"

text \<open>The vkey witnesses of a slot 0: none when the slot is missing or empty.\<close>

definition vkey_list :: "cbor \<Rightarrow> slot_map \<Rightarrow> bytes list res" where
  "vkey_list C m = (if slot_bytes m wsKeyVkeyWitnesses = [] then Inr []
                    else un_list C (slot_bytes m wsKeyVkeyWitnesses))"

definition merge_vkeys :: "cbor \<Rightarrow> slot_map \<Rightarrow> slot_map \<Rightarrow> slot_map res" where
  "merge_vkeys C existing fresh =
     (if slot_bytes fresh wsKeyVkeyWitnesses = [] then Inr existing
      else chk (vkey_list C existing) (wrap ''unmarshal existing vkey witnesses: %w'') (\<lambda>existingList.
           chk (un_list C (slot_bytes fresh wsKeyVkeyWitnesses)) (wrap ''unmarshal fresh vkey witnesses: %w'') (\<lambda>newList.
           chk (mar_list C (existingList @ newList)) (wrap ''marshal merged vkey witnesses: %w'') (\<lambda>vkeyBytes.
           set_slot existing wsKeyVkeyWitnesses vkeyBytes))))"

definition MergeTxWitnesses :: "cbor \<Rightarrow> string \<Rightarrow> string \<Rightarrow> string res" where
  "MergeTxWitnesses C txHex wsHex =
     chk (dec_hex txHex) (wrap ''decode tx hex: %w'') (\<lambda>txBytes.
     chk (dec_hex wsHex) (wrap ''decode witness hex: %w'') (\<lambda>wsBytes.
     chk (un_tx C txBytes) (wrap ''unmarshal tx: %w'') (\<lambda>tx.
     chk (if tx_WitnessSet tx \<noteq> [] then un_map C (tx_WitnessSet tx) else Inr (Some []))
         (wrap ''unmarshal existing witness set: %w'') (\<lambda>existing.
     chk (un_map C wsBytes) (wrap ''unmarshal new witness set: %w'') (\<lambda>fresh.
     chk (merge_vkeys C existing fresh) id (\<lambda>merged.
     chk (marshalWitnessMap C merged) (wrap ''marshal merged witness set: %w'') (\<lambda>mergedWS.
     chk (mar_tx C (tx\<lparr>tx_WitnessSet := mergedWS\<rparr>)) (wrap ''marshal signed tx: %w'') (\<lambda>signed.
     Inr (enc_hex signed)))))))))"

section \<open>What the CBOR library promises\<close>

text \<open>
  Decoding yields well-formed items; encoding well-formed items gives a well-formed item that
  decodes to the same value (a map up to the order of its entries); \<open>0xa0\<close> is the empty map, and no
  map is read from no bytes.
\<close>

definition cbor_laws :: "cbor \<Rightarrow> (bytes \<Rightarrow> bool) \<Rightarrow> bool" where
  "cbor_laws C item \<longleftrightarrow>
     (\<forall>bs t. un_tx C bs = Inr t \<longrightarrow> item (tx_Body t) \<and> item (tx_WitnessSet t) \<and> item (tx_AuxiliaryData t)) \<and>
     (\<forall>bs t. item (tx_Body t) \<longrightarrow> item (tx_WitnessSet t) \<longrightarrow> item (tx_AuxiliaryData t) \<longrightarrow>
        mar_tx C t = Inr bs \<longrightarrow> un_tx C bs = Inr t) \<and>
     (\<forall>bs m k v. un_map C bs = Inr (Some m) \<longrightarrow> map_of m k = Some v \<longrightarrow> item v) \<and>
     (\<forall>bs m. (\<forall>k v. map_of m k = Some v \<longrightarrow> item v) \<longrightarrow> mar_map C m = Inr bs \<longrightarrow>
        item bs \<and> bs \<noteq> [] \<and> (\<exists>m'. un_map C bs = Inr (Some m') \<and> map_of m' = map_of m)) \<and>
     (\<forall>bs l. un_list C bs = Inr l \<longrightarrow> (\<forall>x \<in> set l. item x)) \<and>
     (\<forall>bs l. (\<forall>x \<in> set l. item x) \<longrightarrow> mar_list C l = Inr bs \<longrightarrow> item bs \<and> bs \<noteq> [] \<and> un_list C bs = Inr l) \<and>
     item [0xa0] \<and> un_map C [0xa0] = Inr (Some []) \<and> \<not> is_ok (un_map C [])"

lemma cbor_lawsD:
  assumes "cbor_laws C item"
  shows cbor_un_tx: "un_tx C bs = Inr t \<Longrightarrow> item (tx_Body t) \<and> item (tx_WitnessSet t) \<and> item (tx_AuxiliaryData t)"
    and cbor_mar_tx: "item (tx_Body t) \<Longrightarrow> item (tx_WitnessSet t) \<Longrightarrow> item (tx_AuxiliaryData t) \<Longrightarrow>
           mar_tx C t = Inr bs \<Longrightarrow> un_tx C bs = Inr t"
    and cbor_un_map: "un_map C bs = Inr (Some m) \<Longrightarrow> map_of m k = Some v \<Longrightarrow> item v"
    and cbor_mar_map: "(\<And>k v. map_of m k = Some v \<Longrightarrow> item v) \<Longrightarrow> mar_map C m = Inr bs \<Longrightarrow>
           item bs \<and> bs \<noteq> [] \<and> (\<exists>m'. un_map C bs = Inr (Some m') \<and> map_of m' = map_of m)"
    and cbor_un_list: "un_list C bs = Inr l \<Longrightarrow> x \<in> set l \<Longrightarrow> item x"
    and cbor_mar_list: "(\<And>x. x \<in> set l \<Longrightarrow> item x) \<Longrightarrow> mar_list C l = Inr bs \<Longrightarrow>
           item bs \<and> bs \<noteq> [] \<and> un_list C bs = Inr l"
    and cbor_empty: "item [0xa0]" "un_map C [0xa0] = Inr (Some [])" "un_map C [] \<noteq> Inr m0"
proof -
  note L = assms [unfolded cbor_laws_def]
  show "un_tx C bs = Inr t \<Longrightarrow> item (tx_Body t) \<and> item (tx_WitnessSet t) \<and> item (tx_AuxiliaryData t)"
    using L by blast
  show "item (tx_Body t) \<Longrightarrow> item (tx_WitnessSet t) \<Longrightarrow> item (tx_AuxiliaryData t) \<Longrightarrow>
           mar_tx C t = Inr bs \<Longrightarrow> un_tx C bs = Inr t" using L by blast
  show "un_map C bs = Inr (Some m) \<Longrightarrow> map_of m k = Some v \<Longrightarrow> item v" using L by blast
  show "(\<And>k v. map_of m k = Some v \<Longrightarrow> item v) \<Longrightarrow> mar_map C m = Inr bs \<Longrightarrow>
           item bs \<and> bs \<noteq> [] \<and> (\<exists>m'. un_map C bs = Inr (Some m') \<and> map_of m' = map_of m)" using L by blast
  show "un_list C bs = Inr l \<Longrightarrow> x \<in> set l \<Longrightarrow> item x" using L by blast
  show "(\<And>x. x \<in> set l \<Longrightarrow> item x) \<Longrightarrow> mar_list C l = Inr bs \<Longrightarrow>
           item bs \<and> bs \<noteq> [] \<and> un_list C bs = Inr l" using L by blast
  show "item [0xa0]" "un_map C [0xa0] = Inr (Some [])" using L by blast+
  have "\<not> is_ok (un_map C [])" using L by blast
  then show "un_map C [] \<noteq> Inr m0" by auto
qed

text \<open>The slots of a witness set in its bytes, and the vkey witnesses in it.\<close>

definition ws_map :: "cbor \<Rightarrow> bytes \<Rightarrow> slot_map" where
  "ws_map C ws = (if ws = [] then Some [] else case un_map C ws of Inl e \<Rightarrow> Some [] | Inr m \<Rightarrow> m)"

definition vkeys_in :: "cbor \<Rightarrow> slot_map \<Rightarrow> bytes list" where
  "vkeys_in C m = (case vkey_list C m of Inl e \<Rightarrow> [] | Inr l \<Rightarrow> l)"

definition vkeys :: "cbor \<Rightarrow> bytes \<Rightarrow> bytes list" where
  "vkeys C ws = vkeys_in C (ws_map C ws)"

lemma slot_set: "set_slot m k b = Inr m' \<Longrightarrow> slot m' j = (if j = k then Some b else slot m j)"
  by (auto simp: set_slot_def slot_def update_conv split: option.splits)

lemma marshalWitnessMap_slots:
  assumes "cbor_laws C item" and "\<And>k v. slot m k = Some v \<Longrightarrow> item v" and "marshalWitnessMap C m = Inr bs"
  shows "item bs \<and> bs \<noteq> [] \<and> slot (ws_map C bs) = slot m"
proof (cases "m = None \<or> m = Some []")
  case True
  then have "bs = [0xa0]" using assms(3) by (simp add: marshalWitnessMap_def)
  then show ?thesis using True cbor_empty(1,2) [OF assms(1)] by (auto simp: ws_map_def slot_def fun_eq_iff)
next
  case False
  then obtain al where al: "m = Some al" "al \<noteq> []" by (cases m) auto
  then have m: "mar_map C al = Inr bs" "\<And>k v. map_of al k = Some v \<Longrightarrow> item v"
    using assms(2,3) by (auto simp: marshalWitnessMap_def slot_def)
  have "item bs \<and> bs \<noteq> [] \<and> (\<exists>m'. un_map C bs = Inr (Some m') \<and> map_of m' = map_of al)"
    by (rule cbor_mar_map [OF assms(1) _ m(1)]) (rule m(2))
  then show ?thesis using al by (auto simp: ws_map_def slot_def fun_eq_iff)
qed

lemma merge_vkeys_slots:
  assumes "cbor_laws C item" and "\<And>k v. slot ex k = Some v \<Longrightarrow> item v"
    and "merge_vkeys C ex fr = Inr m" "slot_bytes fr wsKeyVkeyWitnesses \<noteq> []"
  obtains b l1 l2 where "vkey_list C ex = Inr l1" "vkey_list C fr = Inr l2" "un_list C b = Inr (l1 @ l2)"
    "item b" "b \<noteq> []" "\<And>j. slot m j = (if j = wsKeyVkeyWitnesses then Some b else slot ex j)"
proof -
  obtain l1 l2 b where l: "vkey_list C ex = Inr l1" "un_list C (slot_bytes fr wsKeyVkeyWitnesses) = Inr l2"
    "mar_list C (l1 @ l2) = Inr b" "set_slot ex wsKeyVkeyWitnesses b = Inr m"
    using assms(3,4) by (auto simp: merge_vkeys_def chk_Inr)
  have "item x" if "x \<in> set (l1 @ l2)" for x
    using that l(1,2) cbor_un_list [OF assms(1)] by (auto simp: vkey_list_def split: if_splits)
  then have "item b \<and> b \<noteq> [] \<and> un_list C b = Inr (l1 @ l2)" by (rule cbor_mar_list [OF assms(1) _ l(3)])
  then show thesis using l assms(4) by (intro that [of l1 l2 b]) (simp_all add: vkey_list_def slot_set [OF l(4)])
qed

lemma vkeys_in_slots: "slot m = slot n \<Longrightarrow> vkeys_in C m = vkeys_in C n"
  by (simp add: vkeys_in_def vkey_list_def slot_bytes_def)

lemma merge_vkeys_keeps:
  assumes "cbor_laws C item" and iex: "\<And>k v. slot ex k = Some v \<Longrightarrow> item v" and "merge_vkeys C ex fr = Inr m"
  shows "(slot m k = Some v \<longrightarrow> item v) \<and> (k \<noteq> wsKeyVkeyWitnesses \<longrightarrow> slot m k = slot ex k) \<and>
    vkeys_in C m = vkeys_in C ex @ vkeys_in C fr"
proof (cases "slot_bytes fr wsKeyVkeyWitnesses = []")
  case True
  then have "vkeys_in C fr = []" "m = ex" using assms(3) by (simp_all add: vkeys_in_def vkey_list_def merge_vkeys_def)
  then show ?thesis using iex by auto
next
  case False
  show ?thesis
    by (rule merge_vkeys_slots [OF assms False])
      (use iex in \<open>auto simp: vkeys_in_def vkey_list_def slot_bytes_def\<close>)
qed

text \<open>C5. Merging the wallet's witnesses into a protocol transaction keeps every byte the signatures and
  the script integrity hash depend on: the result decodes to a transaction with the same body,
  validity flag and auxiliary data, with every witness-set slot but the vkey witnesses unchanged, and
  with exactly the protocol's vkey witnesses followed by the wallet's.\<close>

theorem MergeTxWitnesses_preserves:
  assumes "cbor_laws C item" and "MergeTxWitnesses C txHex wsHex = Inr out"
  shows "\<exists>b w t b' t'. dec_hex txHex = Inr b \<and> un_tx C b = Inr t \<and> dec_hex wsHex = Inr w \<and>
     dec_hex out = Inr b' \<and> un_tx C b' = Inr t' \<and>
     tx_Body t' = tx_Body t \<and> tx_Valid t' = tx_Valid t \<and> tx_AuxiliaryData t' = tx_AuxiliaryData t \<and>
     (\<forall>k. k \<noteq> wsKeyVkeyWitnesses \<longrightarrow> slot (ws_map C (tx_WitnessSet t')) k = slot (ws_map C (tx_WitnessSet t)) k) \<and>
     vkeys C (tx_WitnessSet t') = vkeys C (tx_WitnessSet t) @ vkeys C w"
proof -
  obtain b w t ex fr m ws b' where
    s: "dec_hex txHex = Inr b" "dec_hex wsHex = Inr w" "un_tx C b = Inr t"
    "(if tx_WitnessSet t \<noteq> [] then un_map C (tx_WitnessSet t) else Inr (Some [])) = Inr ex"
    "un_map C w = Inr fr" "merge_vkeys C ex fr = Inr m" "marshalWitnessMap C m = Inr ws"
    "mar_tx C (t\<lparr>tx_WitnessSet := ws\<rparr>) = Inr b'" "out = enc_hex b'"
    using assms(2) unfolding MergeTxWitnesses_def chk_Inr by blast
  have w: "w \<noteq> []" using s(5) cbor_empty(3) [OF assms(1)] by auto
  have mex: "ws_map C (tx_WitnessSet t) = ex" and mfr: "ws_map C w = fr"
    using s(4,5) w by (auto simp: ws_map_def split: if_splits)
  have item: "item (tx_Body t)" "item (tx_AuxiliaryData t)"
    using cbor_un_tx [OF assms(1) s(3)] by blast+
  have iex: "item v" if "slot ex k = Some v" for k v
    using that s(4) cbor_un_map [OF assms(1)] by (auto simp: slot_def split: if_splits option.splits)
  have keeps: "(slot m k = Some v \<longrightarrow> item v) \<and> (k \<noteq> wsKeyVkeyWitnesses \<longrightarrow> slot m k = slot ex k) \<and>
      vkeys_in C m = vkeys_in C ex @ vkeys_in C fr" for k v
    by (rule merge_vkeys_keeps [OF assms(1) _ s(6)]) (rule iex)
  have ws: "item ws \<and> ws \<noteq> [] \<and> slot (ws_map C ws) = slot m"
    by (rule marshalWitnessMap_slots [OF assms(1) _ s(7)]) (use keeps in simp)
  have tx: "un_tx C b' = Inr (t\<lparr>tx_WitnessSet := ws\<rparr>)"
    by (rule cbor_mar_tx [OF assms(1) _ _ _ s(8)]) (use item ws in simp_all)
  have "vkeys_in C (ws_map C ws) = vkeys_in C m" using ws by (intro vkeys_in_slots) blast
  then have "(\<forall>k. k \<noteq> wsKeyVkeyWitnesses \<longrightarrow> slot (ws_map C ws) k = slot (ws_map C (tx_WitnessSet t)) k) \<and>
      vkeys C ws = vkeys C (tx_WitnessSet t) @ vkeys C w"
    using ws keeps by (simp add: mex mfr vkeys_def)
  then show ?thesis using s(1-3) tx
    by (intro exI [of _ b] exI [of _ w] exI [of _ t] exI [of _ b'] exI [of _ "t\<lparr>tx_WitnessSet := ws\<rparr>"])
      (simp add: s(9))
qed

text \<open>
  A finite codec for a concrete run: a transaction whose witness set holds one vkey witness and
  a redeemer, and a wallet witness set with one vkey witness.
\<close>

definition demo_tx :: rawTx where
  "demo_tx = \<lparr>tx_Body = [2], tx_WitnessSet = [3], tx_Valid = True, tx_AuxiliaryData = [4]\<rparr>"

definition demo_cbor :: cbor where
  "demo_cbor = \<lparr>
     un_tx = (\<lambda>bs. if bs = [1] then Inr demo_tx else if bs = [13] then Inr (demo_tx\<lparr>tx_WitnessSet := [12]\<rparr>)
                   else Inl (errm ''EOF'')),
     un_map = (\<lambda>bs. if bs = [3] then Inr (Some [(0, [5]), (5, [9])]) else if bs = [6] then Inr (Some [(0, [7])])
                   else if bs = [12] then Inr (Some [(0, [8]), (5, [9])]) else if bs = [0xa0] then Inr (Some [])
                   else Inl (errm ''EOF'')),
     un_list = (\<lambda>bs. if bs = [5] then Inr [[10]] else if bs = [7] then Inr [[11]]
                   else if bs = [8] then Inr [[10], [11]] else Inl (errm ''EOF'')),
     mar_tx = (\<lambda>t. if t = demo_tx\<lparr>tx_WitnessSet := [12]\<rparr> then Inr [13] else Inl (errm ''too large'')),
     mar_map = (\<lambda>m. if m = [(0, [8]), (5, [9])] then Inr [12] else Inl (errm ''too large'')),
     mar_list = (\<lambda>l. if l = [[10], [11]] then Inr [8] else Inl (errm ''too large''))\<rparr>"

lemma demo_cbor_laws: "cbor_laws demo_cbor (\<lambda>b. True)"
  by (simp add: cbor_laws_def demo_cbor_def)

lemma hex_digits: "hex_digit 0 = CHR ''0''" "hex_digit 13 = CHR ''d''"
  by code_simp+

lemma demo_merge: "MergeTxWitnesses demo_cbor ''01'' ''06'' = Inr ''0d''"
  by (simp add: MergeTxWitnesses_def demo_cbor_def demo_tx_def merge_vkeys_def vkey_list_def slot_bytes_def
      slot_def set_slot_def wsKeyVkeyWitnesses_def marshalWitnessMap_def hex_val_def enc_hex_def hex_digits)

theorem MergeTxWitnesses_preserves_witness:
  "\<exists>b' t'. dec_hex ''0d'' = Inr b' \<and> un_tx demo_cbor b' = Inr t' \<and> tx_Body t' = tx_Body demo_tx \<and>
     vkeys demo_cbor (tx_WitnessSet t') = vkeys demo_cbor [3] @ vkeys demo_cbor [6]"
proof -
  have d: "dec_hex ''01'' = Inr [1]" "dec_hex ''06'' = Inr [6]" "un_tx demo_cbor [1] = Inr demo_tx"
    by (simp_all add: hex_val_def demo_cbor_def)
  have "tx_WitnessSet demo_tx = [3]" by (simp add: demo_tx_def)
  then show ?thesis using MergeTxWitnesses_preserves [OF demo_cbor_laws demo_merge]
    unfolding d sum.inject by (elim exE conjE) (metis d(3) sum.inject(2))
qed

end
