(* ===== verification/Temp_Wallet.thy ===== *)
theory Temp_Wallet
  imports Tx_Finalize
begin

text \<open>
  The ephemeral wallet that holds a position (\<open>common/engine/tempwallet.go\<close>): key generation,
  witnesses over the raw body bytes, and the encrypted form kept in the job store. The
  cryptographic primitives, the address encoding and the JSON and CBOR codecs of the key pair and
  the witness set are a record of parameters; a key is its payload.
\<close>

datatype network = MAINNET | TESTNET | PREVIEW | PREPROD

record crypto =
  cr_cbor :: cbor
  cr_hash :: "bytes \<Rightarrow> bytes res"            \<comment> \<open>hash of a verification key\<close>
  cr_sign :: "bytes \<Rightarrow> bytes \<Rightarrow> bytes res"   \<comment> \<open>signing key, message\<close>
  cr_blake :: "bytes \<Rightarrow> bytes"                 \<comment> \<open>blake2b-256\<close>
  cr_address :: "bytes \<Rightarrow> bytes \<Rightarrow> network \<Rightarrow> string option"
  cr_sha256 :: "bytes \<Rightarrow> bytes"
  cr_nonce_size :: nat
  cr_gcm_seal :: "bytes \<Rightarrow> bytes \<Rightarrow> bytes \<Rightarrow> bytes"      \<comment> \<open>key, nonce, plain text\<close>
  cr_gcm_open :: "bytes \<Rightarrow> bytes \<Rightarrow> bytes \<Rightarrow> bytes res"  \<comment> \<open>key, nonce, cipher text\<close>
  cr_mar_keys :: "bytes \<Rightarrow> bytes \<Rightarrow> bytes"
  cr_un_keys :: "bytes \<Rightarrow> (bytes \<times> bytes) res"
  cr_mar_ws :: "(bytes \<times> bytes) list \<Rightarrow> bytes res"     \<comment> \<open>vkey witnesses: key, signature\<close>

record temp_wallet =
  w_Address :: string
  w_Pkh :: string
  w_vkey :: bytes
  w_skey :: bytes
  w_stakeVkey :: bytes
  w_stakeSkey :: bytes

record sealed_key =
  k_Address :: string
  k_Pkh :: string
  k_VKeyHex :: string
  k_StakeVKeyHex :: string
  k_StakeHashHex :: string
  k_CipherText :: string

section \<open>Wallets from keys\<close>

definition walletFromKeys ::
  "crypto \<Rightarrow> bytes \<Rightarrow> bytes \<Rightarrow> bytes \<Rightarrow> bytes \<Rightarrow> bytes \<Rightarrow> network \<Rightarrow> temp_wallet res" where
  "walletFromKeys K vk sk stakeVk stakeSk stakeHash net =
     chk (cr_hash K vk) (wrap ''temp wallet pkh: %w'') (\<lambda>pkh.
     case cr_address K pkh stakeHash net of
       None \<Rightarrow> Inl (errm ''temp wallet: nil address from key hashes'')
     | Some addr \<Rightarrow> Inr \<lparr>w_Address = addr, w_Pkh = enc_hex pkh, w_vkey = vk, w_skey = sk,
                        w_stakeVkey = stakeVk, w_stakeSkey = stakeSk\<rparr>)"

text \<open>\<open>NewTempWallet\<close>, given the outcomes of the two key generations.\<close>

definition NewTempWallet :: "crypto \<Rightarrow> (bytes \<times> bytes) res \<Rightarrow> (bytes \<times> bytes) res \<Rightarrow> network \<Rightarrow> temp_wallet res" where
  "NewTempWallet K payKP stakeKP net =
     chk payKP (wrap ''temp wallet payment keygen: %w'') (\<lambda>(pvk, psk).
     chk stakeKP (wrap ''temp wallet stake keygen: %w'') (\<lambda>(svk, ssk).
     chk (cr_hash K svk) (wrap ''temp wallet stake hash: %w'') (\<lambda>stakeHash.
     walletFromKeys K pvk psk svk ssk stakeHash net)))"

section \<open>Signing\<close>

definition witnessFor :: "crypto \<Rightarrow> temp_wallet \<Rightarrow> string \<Rightarrow> bool \<Rightarrow> string res" where
  "witnessFor K w txHex includeStake =
     chk (dec_hex txHex) (wrap ''sign: decode tx hex: %w'') (\<lambda>raw.
     chk (un_tx (cr_cbor K) raw) (wrap ''sign: unmarshal tx: %w'') (\<lambda>rtx.
     let bodyHash = cr_blake K (tx_Body rtx) in
     chk (cr_sign K (w_skey w) bodyHash) (wrap ''sign payment: %w'') (\<lambda>paySig.
     chk (if includeStake
          then chk (cr_sign K (w_stakeSkey w) bodyHash) (wrap ''sign stake: %w'')
                 (\<lambda>stakeSig. Inr [(w_vkey w, paySig), (w_stakeVkey w, stakeSig)])
          else Inr [(w_vkey w, paySig)]) id (\<lambda>witnesses.
     chk (cr_mar_ws K witnesses) (wrap ''sign: marshal witness set: %w'') (\<lambda>out.
     Inr (enc_hex out))))))"

definition SignTx :: "crypto \<Rightarrow> temp_wallet \<Rightarrow> string \<Rightarrow> string res" where
  "SignTx K w txHex = chk (witnessFor K w txHex False) id (MergeTxWitnesses (cr_cbor K) txHex)"

definition WitnessSetHex :: "crypto \<Rightarrow> temp_wallet \<Rightarrow> string \<Rightarrow> string res" where
  "WitnessSetHex K w txHex = witnessFor K w txHex True"

definition PaymentWitness :: "crypto \<Rightarrow> temp_wallet \<Rightarrow> string \<Rightarrow> string res" where
  "PaymentWitness K w txHex = witnessFor K w txHex False"

section \<open>Sealing\<close>

text \<open>The AES key of a secret; an empty secret is refused.\<close>

definition newGCM :: "crypto \<Rightarrow> string \<Rightarrow> bytes res" where
  "newGCM K encSecret =
     (if encSecret = [] then Inl (errm ''ENGINE_ENC_KEY is required to seal temp wallet keys'')
      else Inr (cr_sha256 K (bytes_of encSecret)))"

text \<open>\<open>gcm.Seal(nonce, nonce, plain)\<close> appends to the nonce, so the blob starts with it.\<close>

definition Seal :: "crypto \<Rightarrow> temp_wallet \<Rightarrow> string \<Rightarrow> bytes res \<Rightarrow> sealed_key res" where
  "Seal K w encSecret rnd_nonce =
     chk (newGCM K encSecret) id (\<lambda>key.
     chk rnd_nonce id (\<lambda>nonce.
     chk (cr_hash K (w_stakeVkey w)) id (\<lambda>stakeHash.
     Inr \<lparr>k_Address = w_Address w, k_Pkh = w_Pkh w, k_VKeyHex = enc_hex (w_vkey w),
          k_StakeVKeyHex = enc_hex (w_stakeVkey w), k_StakeHashHex = enc_hex stakeHash,
          k_CipherText = enc_hex (nonce @ cr_gcm_seal K key nonce (cr_mar_keys K (w_skey w) (w_stakeSkey w)))\<rparr>)))"

definition Open_key :: "crypto \<Rightarrow> sealed_key \<Rightarrow> string \<Rightarrow> network \<Rightarrow> temp_wallet res" where
  "Open_key K s encSecret net =
     chk (newGCM K encSecret) id (\<lambda>key.
     chk (dec_hex (k_CipherText s)) (wrap ''unseal: decode ciphertext: %w'') (\<lambda>blob.
     let ns = cr_nonce_size K in
     if length blob < ns then Inl (errm ''unseal: ciphertext too short'')
     else
     chk (cr_gcm_open K key (take ns blob) (drop ns blob)) (wrap ''unseal: %w'') (\<lambda>plain.
     chk (dec_hex (k_VKeyHex s)) (wrap ''unseal: decode vkey: %w'') (\<lambda>payVk.
     if k_StakeVKeyHex s = [] then
       chk (dec_hex (k_StakeHashHex s)) (wrap ''unseal: decode stake hash: %w'') (\<lambda>stakeHash.
       walletFromKeys K payVk plain payVk plain stakeHash net)
     else
       chk (cr_un_keys K plain) (wrap ''unseal: decode keys: %w'') (\<lambda>(pay, stake).
       chk (dec_hex (k_StakeVKeyHex s)) (wrap ''unseal: decode stake vkey: %w'') (\<lambda>stakeVk.
       chk (cr_hash K stakeVk) (wrap ''unseal: stake hash: %w'') (\<lambda>stakeHash.
       walletFromKeys K payVk pay stakeVk stake stakeHash net)))))))"

section \<open>Properties\<close>

lemma NewTempWallet_fields:
  "NewTempWallet K (Inr (pvk, psk)) (Inr (svk, ssk)) net = Inr w \<Longrightarrow>
     \<exists>sh. cr_hash K svk = Inr sh \<and> walletFromKeys K pvk psk svk ssk sh net = Inr w \<and>
       w_vkey w = pvk \<and> w_skey w = psk \<and> w_stakeVkey w = svk \<and> w_stakeSkey w = ssk"
  by (auto simp: NewTempWallet_def walletFromKeys_def chk_Inr split: option.splits)

text \<open>C15. A sealed temp wallet can be recovered: opening what \<open>Seal\<close> stored, with the same secret and
  network, gives back the very wallet \<open>NewTempWallet\<close> made, with both signing keys and the same
  address, provided the cipher and the key codec invert themselves.\<close>

theorem Open_Seal:
  assumes "NewTempWallet K (Inr (pvk, psk)) (Inr (svk, ssk)) net = Inr w" and "svk \<noteq> []"
    and "Seal K w secret (Inr nonce) = Inr s" and "length nonce = cr_nonce_size K"
    and gcm: "\<And>key n p. length n = cr_nonce_size K \<Longrightarrow> cr_gcm_open K key n (cr_gcm_seal K key n p) = Inr p"
    and keys: "\<And>a b. cr_un_keys K (cr_mar_keys K a b) = Inr (a, b)"
  shows "Open_key K s secret net = Inr w"
proof -
  obtain sh where w: "cr_hash K svk = Inr sh" "walletFromKeys K pvk psk svk ssk sh net = Inr w"
    "w_vkey w = pvk" "w_skey w = psk" "w_stakeVkey w = svk" "w_stakeSkey w = ssk"
    using NewTempWallet_fields [OF assms(1)] by blast
  obtain key where key: "newGCM K secret = Inr key" using assms(3) by (auto simp: Seal_def chk_Inr)
  then have s: "s = \<lparr>k_Address = w_Address w, k_Pkh = w_Pkh w, k_VKeyHex = enc_hex pvk,
      k_StakeVKeyHex = enc_hex svk, k_StakeHashHex = enc_hex sh,
      k_CipherText = enc_hex (nonce @ cr_gcm_seal K key nonce (cr_mar_keys K psk ssk))\<rparr>"
    using assms(3) w by (simp add: Seal_def)
  show ?thesis using key w(1,2) assms(2,4) keys by (simp add: s Open_key_def Let_def gcm)
qed

text \<open>Concrete parameters: a tag byte for the cipher, length-prefixed keys.\<close>

definition demo_crypto :: crypto where
  "demo_crypto = \<lparr>cr_cbor = demo_cbor, cr_hash = (\<lambda>vk. Inr (take 28 vk)), cr_sign = (\<lambda>sk m. Inr (sk @ m)),
     cr_blake = (\<lambda>m. rev m), cr_address = (\<lambda>p s n. Some (''addr1'' @ enc_hex (p @ s))), cr_sha256 = id,
     cr_nonce_size = 2, cr_gcm_seal = (\<lambda>k n p. n @ p), cr_gcm_open = (\<lambda>k n c. Inr (drop 2 c)),
     cr_mar_keys = (\<lambda>a b. replicate (length a) 1 @ 0 # a @ b),
     cr_un_keys = (\<lambda>p. let n = length (takeWhile (\<lambda>x. x = 1) p) in Inr (take n (drop (n + 1) p), drop (2 * n + 1) p)),
     cr_mar_ws = (\<lambda>ws. Inr (if ws = [([5], [6, 2])] then [6] else []))\<rparr>"

lemma takeWhile_prefix: "takeWhile (\<lambda>x. x = 1) (replicate n 1 @ 0 # r) = replicate n (1 :: byte)"
  by (induction n) simp_all

lemma demo_keys: "cr_un_keys demo_crypto (cr_mar_keys demo_crypto a b) = Inr (a, b)"
  by (simp add: demo_crypto_def takeWhile_prefix Let_def)

theorem Open_Seal_witness:
  "\<exists>w s. NewTempWallet demo_crypto (Inr ([5], [6])) (Inr ([7], [8])) MAINNET = Inr w \<and>
     Seal demo_crypto w ''secret'' (Inr [1, 2]) = Inr s \<and> Open_key demo_crypto s ''secret'' MAINNET = Inr w"
proof -
  obtain w where w: "NewTempWallet demo_crypto (Inr ([5], [6])) (Inr ([7], [8])) MAINNET = Inr w"
    by (simp add: NewTempWallet_def walletFromKeys_def demo_crypto_def)
  obtain s where s: "Seal demo_crypto w ''secret'' (Inr [1, 2]) = Inr s"
    by (simp add: Seal_def newGCM_def demo_crypto_def)
  have "Open_key demo_crypto s ''secret'' MAINNET = Inr w"
    by (rule Open_Seal [OF w _ s _ _ demo_keys]) (simp_all add: demo_crypto_def)
  with w s show ?thesis by blast
qed

text \<open>A wallet in the old single-key format still opens, as a payment-only wallet at its original
  address: the stored stake hash shapes the address and the payment key stands in for the stake key.\<close>

theorem Open_legacy:
  assumes "k_StakeVKeyHex s = []" and "Open_key K s secret net = Inr w"
  shows "w_stakeVkey w = w_vkey w \<and> w_stakeSkey w = w_skey w \<and>
    (\<exists>pkh sh. cr_hash K (w_vkey w) = Inr pkh \<and> dec_hex (k_StakeHashHex s) = Inr sh \<and>
       cr_address K pkh sh net = Some (w_Address w))"
  using assms by (auto simp: Open_key_def walletFromKeys_def chk_Inr Let_def split: if_splits option.splits)

theorem Open_legacy_witness:
  "\<exists>w. Open_key demo_crypto \<lparr>k_Address = [], k_Pkh = [], k_VKeyHex = enc_hex [5], k_StakeVKeyHex = [],
          k_StakeHashHex = enc_hex [9], k_CipherText = enc_hex [1, 2, 1, 2, 6]\<rparr> ''secret'' MAINNET = Inr w \<and>
       w_stakeSkey w = w_skey w"
proof -
  let ?s = "\<lparr>k_Address = [], k_Pkh = [], k_VKeyHex = enc_hex [5], k_StakeVKeyHex = [],
          k_StakeHashHex = enc_hex [9], k_CipherText = enc_hex [1, 2, 1, 2, 6]\<rparr>"
  obtain w where "Open_key demo_crypto ?s ''secret'' MAINNET = Inr w"
    by (simp add: Open_key_def newGCM_def walletFromKeys_def demo_crypto_def Let_def)
  then show ?thesis using Open_legacy [of ?s demo_crypto "''secret''" MAINNET w] by auto
qed

text \<open>The wallet signs the hash of the exact body bytes, and only as much as needed: the witness for a
  protocol transaction is the payment key's alone, the one for a swap adds the stake key's.\<close>

theorem witnessFor_spec:
  assumes "witnessFor K w txHex st = Inr h"
  shows "\<exists>raw t sig b. dec_hex txHex = Inr raw \<and> un_tx (cr_cbor K) raw = Inr t \<and> h = enc_hex b \<and>
    cr_sign K (w_skey w) (cr_blake K (tx_Body t)) = Inr sig \<and>
    (if st then \<exists>sig2. cr_sign K (w_stakeSkey w) (cr_blake K (tx_Body t)) = Inr sig2 \<and>
                      cr_mar_ws K [(w_vkey w, sig), (w_stakeVkey w, sig2)] = Inr b
     else cr_mar_ws K [(w_vkey w, sig)] = Inr b)"
  using assms by (cases st) (fastforce simp: witnessFor_def chk_Inr Let_def)+

theorem witnessFor_spec_witness:
  "\<exists>raw sig. dec_hex ''01'' = Inr raw \<and> cr_sign demo_crypto [6] (cr_blake demo_crypto [2]) = Inr sig"
proof -
  let ?w = "\<lparr>w_Address = [], w_Pkh = [], w_vkey = [5], w_skey = [6], w_stakeVkey = [7], w_stakeSkey = [8]\<rparr>"
  have d: "dec_hex ''01'' = Inr [1]" by (simp add: hex_val_def)
  have "witnessFor demo_crypto ?w ''01'' False = Inr ''06''"
    unfolding witnessFor_def d
    by (simp add: demo_crypto_def demo_cbor_def demo_tx_def Let_def enc_hex_def) code_simp
  from witnessFor_spec [OF this] show ?thesis by (auto simp: d demo_crypto_def demo_cbor_def demo_tx_def)
qed

end
