(* ===== verification/Job_Store.thy ===== *)
theory Job_Store
  imports Leverage_Plan Temp_Wallet
begin

text \<open>
  Jobs and their store (\<open>common/engine/store.go\<close>): the record of a tracked position with its
  steps and the six statuses, the interface \<open>JobStore\<close> as a locale, and \<open>MemoryJobStore\<close>, which
  it is interpreted on. Times are nanoseconds with 0 for Go's zero time. A job read from the store is
  a copy (\<open>cp := *job\<close>), which is what a value of the record is.
\<close>

abbreviation StatusAwaitingFunding :: string where "StatusAwaitingFunding \<equiv> ''awaiting_funding''"
abbreviation StatusRunning :: string where "StatusRunning \<equiv> ''running''"
abbreviation StatusOpen :: string where "StatusOpen \<equiv> ''open''"
abbreviation StatusReversing :: string where "StatusReversing \<equiv> ''reversing''"
abbreviation StatusReversed :: string where "StatusReversed \<equiv> ''reversed''"
abbreviation StatusFailed :: string where "StatusFailed \<equiv> ''failed''"

record step =
  st_Kind :: string
  st_Source :: string
  st_MarketID :: string
  st_TxHash :: string
  st_URL :: string
  st_Amount :: f64
  st_Note :: msg
  st_At :: int

definition step0 :: step where
  "step0 = \<lparr>st_Kind = [], st_Source = [], st_MarketID = [], st_TxHash = [], st_URL = [],
            st_Amount = 0, st_Note = errm [], st_At = 0\<rparr>"

record job =
  ID :: string
  Owner :: string
  Direction :: direction
  CollateralUnit :: string
  TargetUnit :: string
  j_InitialAmount :: f64
  Leverage :: f64
  Plan :: "plan option"
  TempAddress :: string
  SealK :: "sealed_key option"
  FundingLovelace :: int
  FeeReserveLovelace :: int
  Status :: string
  Steps :: "step list"
  Exposure :: f64
  j_HealthFactor :: f64
  EntryPrice :: f64
  CurrentPrice :: f64
  PnLPct :: f64
  LiqThreshold :: f64
  HealthUpdatedAt :: int
  Error :: msg
  CreatedAt :: int
  UpdatedAt :: int

definition ErrJobNotFound :: msg where
  "ErrJobNotFound = errm ''engine: job not found''"

section \<open>The interface\<close>

text \<open>
  What a store owes its clients: a read returns the last job saved under the id, saving leaves the
  other ids alone, and the two listings hold exactly the stored jobs they select.
\<close>

locale job_store =
  fixes save :: "job \<Rightarrow> 's \<Rightarrow> 's"
    and get :: "'s \<Rightarrow> string \<Rightarrow> job res"
    and by_owner :: "'s \<Rightarrow> string \<Rightarrow> job list"
    and by_status :: "'s \<Rightarrow> string \<Rightarrow> job list"
    and ok :: "'s \<Rightarrow> bool"
  assumes save_ok: "ok s \<Longrightarrow> ok (save j s)"
    and get_save: "ok s \<Longrightarrow> get (save j s) i = (if i = ID j then Inr j else get s i)"
    and get_ID: "ok s \<Longrightarrow> get s i = Inr j \<Longrightarrow> ID j = i"
    and get_missing: "get s i = Inl e \<Longrightarrow> e = ErrJobNotFound"
    and by_owner_iff: "ok s \<Longrightarrow> j \<in> set (by_owner s w) \<longleftrightarrow> get s (ID j) = Inr j \<and> Owner j = w"
    and by_status_iff: "ok s \<Longrightarrow> j \<in> set (by_status s t) \<longleftrightarrow> get s (ID j) = Inr j \<and> Status j = t"
begin

lemma save_twice: "ok s \<Longrightarrow> ID j = ID k \<Longrightarrow> get (save k (save j s)) i = get (save k s) i"
  by (simp add: get_save save_ok)

lemma save_moves_status:
  "ok s \<Longrightarrow> ID k \<noteq> ID j \<or> Status k \<noteq> t \<Longrightarrow>
     k \<in> set (by_status (save j s) t) \<longleftrightarrow> k \<in> set (by_status s t) \<and> ID k \<noteq> ID j"
  by (auto simp: by_status_iff save_ok get_save)

lemma save_listed: "ok s \<Longrightarrow> j \<in> set (by_status (save j s) (Status j))"
  by (simp add: by_status_iff save_ok get_save)

lemma save_unlisted: "ok s \<Longrightarrow> Status j \<noteq> t \<Longrightarrow> k \<in> set (by_status (save j s) t) \<Longrightarrow> ID k \<noteq> ID j"
  by (auto simp: by_status_iff save_ok get_save split: if_splits)

lemma one_status: "ok s \<Longrightarrow> j \<in> set (by_status s t) \<Longrightarrow> k \<in> set (by_status s u) \<Longrightarrow> ID j = ID k \<Longrightarrow> t = u"
  by (auto simp: by_status_iff)

end

section \<open>MemoryJobStore\<close>

text \<open>
  The map of jobs by id, as an association list: Go iterates over a map in no fixed order, and the
  list's order stands for the one it takes.
\<close>

type_synonym job_map = "(string \<times> job) list"

definition NewMemoryJobStore :: job_map where
  "NewMemoryJobStore = []"

definition store_Save :: "job \<Rightarrow> job_map \<Rightarrow> job_map" where
  "store_Save j m = AList.update (ID j) j m"

definition store_Get :: "job_map \<Rightarrow> string \<Rightarrow> job res" where
  "store_Get m i = (case map_of m i of None \<Rightarrow> Inl ErrJobNotFound | Some j \<Rightarrow> Inr j)"

definition store_ListByOwner :: "job_map \<Rightarrow> string \<Rightarrow> job list" where
  "store_ListByOwner m owner =
     sort_slice (\<lambda>a b. CreatedAt b < CreatedAt a) (filter (\<lambda>j. Owner j = owner) (map snd m))"

definition store_ListByStatus :: "job_map \<Rightarrow> string \<Rightarrow> job list" where
  "store_ListByStatus m st = filter (\<lambda>j. Status j = st) (map snd m)"

definition store_ok :: "job_map \<Rightarrow> bool" where
  "store_ok m \<longleftrightarrow> distinct (map fst m) \<and> (\<forall>(i, j) \<in> set m. ID j = i)"

lemma store_ok_new [simp]: "store_ok NewMemoryJobStore"
  by (simp add: store_ok_def NewMemoryJobStore_def)

lemma store_ok_Save [simp]: "store_ok m \<Longrightarrow> store_ok (store_Save j m)"
proof -
  assume ok: "store_ok m"
  have "ID k = i" if "(i, k) \<in> set (AList.update (ID j) j m)" for i k
  proof -
    have "distinct (map fst (AList.update (ID j) j m))"
      using ok by (simp add: store_ok_def distinct_update)
    then have "map_of (AList.update (ID j) j m) i = Some k" using that by simp
    then show ?thesis using ok by (auto simp: update_conv store_ok_def dest: map_of_SomeD split: if_splits)
  qed
  then show ?thesis using ok by (auto simp: store_ok_def store_Save_def distinct_update)
qed

lemma store_ok_ID: "store_ok m \<Longrightarrow> (i, j) \<in> set m \<Longrightarrow> i = ID j"
  by (auto simp: store_ok_def)

lemma store_in_iff: "store_ok m \<Longrightarrow> j \<in> snd ` set m \<longleftrightarrow> store_Get m (ID j) = Inr j"
proof -
  assume ok: "store_ok m"
  have "(ID j, j) \<in> set m" if jm: "j \<in> snd ` set m"
  proof -
    obtain i where "(i, j) \<in> set m" using jm by fastforce
    then show ?thesis using store_ok_ID [OF ok] by metis
  qed
  then have "j \<in> snd ` set m \<longleftrightarrow> (ID j, j) \<in> set m" by (metis image_eqI snd_conv)
  also have "\<dots> \<longleftrightarrow> map_of m (ID j) = Some j" using ok by (simp add: store_ok_def)
  finally show ?thesis by (simp add: store_Get_def split: option.splits)
qed

lemma store_Get_Save [simp]: "store_Get (store_Save j m) i = (if i = ID j then Inr j else store_Get m i)"
  by (simp add: store_Get_def store_Save_def update_conv)

interpretation mem: job_store store_Save store_Get store_ListByOwner store_ListByStatus store_ok
proof unfold_locales
  fix s i j assume "store_ok s" "store_Get s i = Inr j"
  then show "ID j = i"
    by (auto simp: store_ok_def store_Get_def split: option.splits dest: map_of_SomeD)
next
  fix s :: job_map and i e assume "store_Get s i = Inl e"
  then show "e = ErrJobNotFound" by (simp add: store_Get_def split: option.splits)
next
  fix s j w assume "store_ok s"
  from store_in_iff [OF this, of j]
  show "j \<in> set (store_ListByOwner s w) \<longleftrightarrow> store_Get s (ID j) = Inr j \<and> Owner j = w"
    by (auto simp: store_ListByOwner_def)
next
  fix s j t assume "store_ok s"
  from store_in_iff [OF this, of j]
  show "j \<in> set (store_ListByStatus s t) \<longleftrightarrow> store_Get s (ID j) = Inr j \<and> Status j = t"
    by (auto simp: store_ListByStatus_def)
qed simp_all

text \<open>The memory store is a map from ids to jobs: a read returns the last job saved under its id,
  other ids are untouched, and afterwards the listing of a status holds the job exactly when it is
  its own status, so a job is never listed under two statuses.\<close>

theorem MemoryJobStore_map:
  assumes "store_ok m"
  shows "store_Get (store_Save j m) i = (if i = ID j then Inr j else store_Get m i) \<and>
         (k \<in> set (store_ListByStatus (store_Save j m) t) \<longleftrightarrow>
            (if ID k = ID j then k = j \<and> Status j = t else k \<in> set (store_ListByStatus m t)))"
  using assms by (auto simp: mem.by_status_iff)

theorem MemoryJobStore_map_witness:
  "\<forall>j i. store_Get (store_Save j NewMemoryJobStore) i = (if i = ID j then Inr j else store_Get NewMemoryJobStore i)"
  using MemoryJobStore_map [OF store_ok_new] by blast

text \<open>The jobs of an owner are listed newest first, each stored job of that owner once.\<close>

theorem ListByOwner_newest_first:
  assumes "store_ok m"
  shows "sorted_wrt (\<lambda>a b. CreatedAt b \<le> CreatedAt a) (store_ListByOwner m w) \<and>
         distinct (store_ListByOwner m w) \<and>
         set (store_ListByOwner m w) = {j. store_Get m (ID j) = Inr j \<and> Owner j = w}"
proof (intro conjI)
  have "weak_order_on A (\<lambda>a b. CreatedAt b < CreatedAt a)" for A
    by (auto simp: weak_order_on_def)
  from sort_slice_sorted [OF this]
  show "sorted_wrt (\<lambda>a b. CreatedAt b \<le> CreatedAt a) (store_ListByOwner m w)"
    by (simp add: store_ListByOwner_def not_less)
  have "inj_on snd (set m)"
    by (rule inj_onI) (metis store_ok_ID [OF assms] prod.collapse)
  then have "distinct (map snd m)"
    using assms by (simp add: distinct_map store_ok_def)
  then have "distinct (filter (\<lambda>j. Owner j = w) (map snd m))" by (rule distinct_filter)
  then show "distinct (store_ListByOwner m w)"
    unfolding store_ListByOwner_def by (metis mset_sort_slice mset_eq_imp_distinct_iff)
  show "set (store_ListByOwner m w) = {j. store_Get m (ID j) = Inr j \<and> Owner j = w}"
    using assms mem.by_owner_iff by blast
qed

theorem ListByOwner_newest_first_witness:
  "\<forall>j k w. sorted_wrt (\<lambda>a b. CreatedAt b \<le> CreatedAt a) (store_ListByOwner (store_Save j (store_Save k NewMemoryJobStore)) w)"
  using ListByOwner_newest_first [OF store_ok_Save [OF store_ok_Save [OF store_ok_new]]] by blast

end
