(* ===== verification/Go_Time.thy ===== *)
theory Go_Time
  imports Go_Msg
begin

text \<open>
  Time, contexts and the polling loop. Durations and instants are nanoseconds. What the program
  cannot control is a parameter: whether the loop context has been cancelled (a reversal, by
  another goroutine), and how a wait ends: its timer fires, some time after it was due, or the
  context is done first. The world \<open>'w\<close> carries everything outside the process.
\<close>

datatype gctx = Background | LoopCtx

record 'w runtime =
  rt_Cancelled :: "'w \<Rightarrow> bool"
  rt_Wait :: "int \<Rightarrow> 'w \<Rightarrow> (bool \<times> nat) \<times> 'w"

definition second :: int where "second = 10 ^ 9"
definition minute :: int where "minute = 60 * second"

definition ctx_err :: "'w runtime \<Rightarrow> gctx \<Rightarrow> 'w \<Rightarrow> bool" where
  "ctx_err R c w \<longleftrightarrow> c = LoopCtx \<and> rt_Cancelled R w"

definition ContextCanceled :: msg where
  "ContextCanceled = errm ''context canceled''"

text \<open>\<open>select { case <-ctx.Done(): ... case <-time.After(d): }\<close>: did the timer fire, and when.\<close>

definition select_wait :: "'w runtime \<Rightarrow> gctx \<Rightarrow> int \<Rightarrow> int \<Rightarrow> 'w \<Rightarrow> bool \<times> int \<times> 'w" where
  "select_wait R c d t w =
     (case rt_Wait R d w of ((fired, late), w') \<Rightarrow>
        if c = Background \<or> fired then (True, t + max 1 d + int late, w') else (False, t + int late, w'))"

text \<open>
  The loop every wait of the program is: check, give up after the deadline, wait \<open>d\<close>, repeat.
  A check ends the loop with a result (\<open>Inl\<close>) or goes on with its loop variables (\<open>Inr\<close>).
\<close>

datatype ('r, 'a) outcome = Done 'r | TimedOut 'a | CtxDone 'a

function poll :: "'w runtime \<Rightarrow> gctx \<Rightarrow> int \<Rightarrow> int \<Rightarrow> ('a \<Rightarrow> 'w \<Rightarrow> ('r + 'a) \<times> 'w) \<Rightarrow> 'a \<Rightarrow> int \<Rightarrow> 'w \<Rightarrow>
    ('r, 'a) outcome \<times> int \<times> 'w" where
  "poll R c d deadline body a t w =
     (case body a w of
        (Inl r, w1) \<Rightarrow> (Done r, t, w1)
      | (Inr a1, w1) \<Rightarrow>
          if deadline < t then (TimedOut a1, t, w1)
          else (case select_wait R c d t w1 of
                  (True, t2, w2) \<Rightarrow> poll R c d deadline body a1 t2 w2
                | (False, t2, w2) \<Rightarrow> (CtxDone a1, t2, w2)))"
  by pat_completeness auto
termination
  by (relation "measure (\<lambda>(R, c, d, deadline, body, a, t, w). nat (deadline + 1 - t))")
    (auto simp: select_wait_def split: prod.splits if_splits)

declare poll.simps [simp del]

lemma select_wait_time: "select_wait R c d t w = (b, t', w') \<Longrightarrow> t \<le> t'"
  and select_wait_Background: "fst (select_wait R Background d t w)"
  by (auto simp: select_wait_def split: prod.splits if_splits)

text \<open>The rule of the loop: an invariant of its variables, its world and the time that passed.\<close>

lemma poll_rule:
  assumes "I a t w"
    and body: "\<And>a t w r w1. I a t w \<Longrightarrow> body a w = (Inl r, w1) \<Longrightarrow> Q (Done r) t w1"
    and late: "\<And>a t w a1 w1. I a t w \<Longrightarrow> body a w = (Inr a1, w1) \<Longrightarrow> deadline < t \<Longrightarrow> Q (TimedOut a1) t w1"
    and wait: "\<And>a t w a1 w1 t2 w2. I a t w \<Longrightarrow> body a w = (Inr a1, w1) \<Longrightarrow> t \<le> deadline \<Longrightarrow>
           select_wait R c d t w1 = (True, t2, w2) \<Longrightarrow> I a1 t2 w2"
    and "done": "\<And>a t w a1 w1 t2 w2. I a t w \<Longrightarrow> body a w = (Inr a1, w1) \<Longrightarrow> t \<le> deadline \<Longrightarrow>
           select_wait R c d t w1 = (False, t2, w2) \<Longrightarrow> Q (CtxDone a1) t2 w2"
    and "poll R c d deadline body a t w = (r, t', w')"
  shows "Q r t' w'"
  using assms(1, 6)
proof (induction "nat (deadline + 1 - t)" arbitrary: a t w r t' w' rule: less_induct)
  case less
  obtain b w1 where b: "body a w = (b, w1)" by fastforce
  show ?case
  proof (cases b)
    case (Inl r1)
    then show ?thesis using less.prems b body [OF less.prems(1)] by (simp add: poll.simps [of R c d deadline body a])
  next
    case (Inr a1)
    then have ba: "body a w = (Inr a1, w1)" using b by simp
    show ?thesis
    proof (cases "deadline < t")
      case True
      then show ?thesis using less.prems ba late [OF less.prems(1) ba]
        by (simp add: poll.simps [of R c d deadline body a])
    next
      case False
      obtain f t2 w2 where s: "select_wait R c d t w1 = (f, t2, w2)" by (cases "select_wait R c d t w1") auto
      show ?thesis
      proof (cases f)
        case True
        then have "t < t2" using s by (auto simp: select_wait_def split: prod.splits if_splits)
        then have "nat (deadline + 1 - t2) < nat (deadline + 1 - t)" using False by simp
        moreover have "I a1 t2 w2" using wait [OF less.prems(1) ba] False s True by simp
        moreover have "poll R c d deadline body a1 t2 w2 = (r, t', w')"
          using less.prems(2) ba False s True by (simp add: poll.simps [of R c d deadline body a])
        ultimately show ?thesis by (rule less.hyps)
      next
        case F: False
        then show ?thesis using less.prems ba False s "done" [OF less.prems(1) ba]
          by (simp add: poll.simps [of R c d deadline body a])
      qed
    qed
  qed
qed

text \<open>A wait never returns late without having timed out, and never ends by a background context.\<close>

lemma poll_ends:
  assumes "poll R c d deadline body a t w = (r, t', w')"
  shows "t \<le> t' \<and> (case r of TimedOut x \<Rightarrow> deadline < t' | CtxDone x \<Rightarrow> c = LoopCtx | Done x \<Rightarrow> True)"
  by (rule poll_rule [where I = "\<lambda>a' u w. t \<le> u" and d = d and R = R and c = c and deadline = deadline and body = body
        and a = a and t = t and w = w])
    (use assms in \<open>auto simp: select_wait_def split: prod.splits if_splits intro: gctx.exhaust [of c]\<close>)

lemma poll_Done:
  assumes "poll R c d deadline body a t w = (Done r, t', w')"
  shows "\<exists>a' w0. body a' w0 = (Inl r, w')"
  using poll_rule [where I = "\<lambda>a u w. True" and R = R and c = c and deadline = deadline and body = body
      and Q = "\<lambda>r t w'. \<forall>x. r = Done x \<longrightarrow> (\<exists>a' w0. body a' w0 = (Inl x, w'))", OF _ _ _ _ _ assms]
  by blast

end
