(* ===== verification/Chain_Model.thy ===== *)
theory Chain_Model
  imports Units Temp_Wallet Go_Time
begin

text \<open>
  The engine's view of the chain (\<open>common/engine/chain.go\<close>): balances summed over the UTxOs of an
  address, the funding and sweep transactions, submission with its fallback, and the wait for a
  confirmation. BlockFrost's chain context, apollo's transaction builder, the HTTP client and the
  JSON decoder are the fields of \<open>chain\<close>; a UTxO is what the code reads of it.
\<close>

record utxo =
  u_Coin :: int
  u_Asset :: "string \<Rightarrow> string \<Rightarrow> int"    \<comment> \<open>policy hex, asset-name hex\<close>
  u_Cbor :: "bytes res"

datatype build_inputs = LoadedUtxos "utxo list" | InputAddress string | Preselected "utxo list"

record build =
  bd_Change :: string
  bd_Pay :: "(string \<times> int) option"
  bd_Inputs :: build_inputs

record 'w chain =
  ch_Decode :: "string \<Rightarrow> unit res"
  ch_Utxos :: "string \<Rightarrow> 'w \<Rightarrow> utxo list res \<times> 'w"
  ch_UnUtxo :: "bytes \<Rightarrow> utxo res"
  ch_Complete :: "build \<Rightarrow> 'w \<Rightarrow> bytes res \<times> 'w"
  ch_SignWith :: "bytes \<Rightarrow> bytes \<Rightarrow> bytes \<Rightarrow> bytes res"   \<comment> \<open>transaction, vkey, skey\<close>
  ch_Marshal :: "bytes \<Rightarrow> bytes res"
  ch_Post :: "gctx \<Rightarrow> string \<Rightarrow> (string \<times> string) list \<Rightarrow> bytes \<Rightarrow> 'w \<Rightarrow> (int \<times> string) res \<times> 'w"
  ch_StatusBody :: "string \<Rightarrow> bytes"
  ch_UnStatus :: "string \<Rightarrow> int list res"              \<comment> \<open>the num_confirmations of the rows\<close>
  ch_bfBase :: string
  ch_projectID :: string

definition koiosBase :: string where "koiosBase = ''https://api.koios.rest/api/v1''"
definition confirmPollWait :: int where "confirmPollWait = 5 * second"

text \<open>The base URL \<open>NewChain\<close> keeps, and its guard.\<close>

definition bf_base :: "string \<Rightarrow> string" where
  "bf_base baseURL = (let b = trim_right ''/'' baseURL in
     if contains b ''blockfrost.io'' \<and> \<not> has_suffix b ''/v0'' then b @ ''/v0'' else b)"

definition NewChain :: "string \<Rightarrow> string \<Rightarrow> unit res \<Rightarrow> 'w chain \<Rightarrow> 'w chain res" where
  "NewChain projectID baseURL ctx ch =
     (if projectID = [] then Inl (errm ''engine: BLOCKFROST_PROJECT_ID is required'')
      else chk ctx (wrap ''engine: blockfrost ctx: %w'') (\<lambda>_.
             Inr (ch\<lparr>ch_bfBase := bf_base baseURL, ch_projectID := projectID\<rparr>)))"

section \<open>Balances\<close>

text \<open>\<open>x, err := f(); if err != nil { return w(err) }; k x\<close> for a call that changes the state.\<close>

definition chks :: "('s \<Rightarrow> 'a res \<times> 's) \<Rightarrow> (msg \<Rightarrow> msg) \<Rightarrow> ('a \<Rightarrow> 's \<Rightarrow> 'b res \<times> 's) \<Rightarrow> 's \<Rightarrow> 'b res \<times> 's" where
  "chks m w k s = (case m s of (Inl e, s') \<Rightarrow> (Inl (w e), s') | (Inr x, s') \<Rightarrow> k x s')"

text \<open>\<open>x, _ := f()\<close>: the zero value on an error.\<close>

definition or_zero :: "('s \<Rightarrow> 'a res \<times> 's) \<Rightarrow> 'a \<Rightarrow> ('a \<Rightarrow> 's \<Rightarrow> 'b) \<Rightarrow> 's \<Rightarrow> 'b" where
  "or_zero m z k s = (case m s of (Inl e, s') \<Rightarrow> k z s' | (Inr x, s') \<Rightarrow> k x s')"

lemma chks_Inr: "chks m w k s = (Inr y, s') \<longleftrightarrow> (\<exists>x s1. m s = (Inr x, s1) \<and> k x s1 = (Inr y, s'))"
  by (auto simp: chks_def split: prod.splits sum.splits)

text \<open>A call that only fails or not, without touching the state.\<close>

definition pure_res :: "'a res \<Rightarrow> 's \<Rightarrow> 'a res \<times> 's" where
  "pure_res r s = (r, s)"

lemma pure_res_simps [simp]: "pure_res r s = (r, s)"
  by (simp add: pure_res_def)

text \<open>A sum of \<open>int64\<close> quantities.\<close>

definition total64 :: "int list \<Rightarrow> int" where
  "total64 xs = foldl (\<lambda>t x. i64 (t + x)) 0 xs"

definition LovelaceAt :: "'w chain \<Rightarrow> string \<Rightarrow> 'w \<Rightarrow> int res \<times> 'w" where
  "LovelaceAt ch addr =
     chks (pure_res (ch_Decode ch addr)) (wrap ''balance: decode address: %w'') (\<lambda>_.
     chks (ch_Utxos ch addr) (wrap ''balance: %w'') (\<lambda>utxos.
     pure_res (Inr (total64 (map u_Coin utxos)))))"

definition AssetAt :: "'w chain \<Rightarrow> string \<Rightarrow> string \<Rightarrow> 'w \<Rightarrow> int res \<times> 'w" where
  "AssetAt ch addr unt =
     (if unt = [] then LovelaceAt ch addr
      else chks (pure_res (ch_Decode ch addr)) (wrap ''asset: decode address: %w'') (\<lambda>_.
        chks (ch_Utxos ch addr) (wrap ''asset: %w'') (\<lambda>utxos.
        let (policy, name) = splitUnit unt in
        pure_res (Inr (total64 (map (\<lambda>u. u_Asset u policy name) utxos))))))"

fun enc_utxos :: "utxo list \<Rightarrow> string list res" where
  "enc_utxos [] = Inr []"
| "enc_utxos (u # us) = chk (u_Cbor u) (wrap ''utxos: marshal: %w'') (\<lambda>b. chk (enc_utxos us) id (\<lambda>r. Inr (enc_hex b # r)))"

definition UtxosCBOR :: "'w chain \<Rightarrow> string \<Rightarrow> 'w \<Rightarrow> string list res \<times> 'w" where
  "UtxosCBOR ch addr =
     chks (pure_res (ch_Decode ch addr)) (wrap ''utxos: decode address: %w'') (\<lambda>_.
     chks (ch_Utxos ch addr) (wrap ''utxos: %w'') (\<lambda>utxos.
     pure_res (enc_utxos utxos)))"

section \<open>Transactions\<close>

fun decodeUtxos :: "'w chain \<Rightarrow> string list \<Rightarrow> utxo list res" where
  "decodeUtxos ch [] = Inr []"
| "decodeUtxos ch (h # hs) = chk (dec_hex h) id (\<lambda>raw. chk (ch_UnUtxo ch raw) id (\<lambda>u.
     chk (decodeUtxos ch hs) id (\<lambda>us. Inr (u # us))))"

definition txToHex :: "'w chain \<Rightarrow> bytes \<Rightarrow> string res" where
  "txToHex ch tx = chk (ch_Marshal ch tx) (wrap ''marshal tx: %w'') (\<lambda>b. Inr (enc_hex b))"

definition BuildFundingTx ::
  "'w chain \<Rightarrow> string \<Rightarrow> string \<Rightarrow> string \<Rightarrow> int \<Rightarrow> string list \<Rightarrow> 'w \<Rightarrow> string res \<times> 'w" where
  "BuildFundingTx ch userAddr changeAddr tempAddr lovelace utxosHex =
     chks (pure_res (ch_Decode ch tempAddr)) (wrap ''funding: decode temp address: %w'') (\<lambda>_.
     let change = (if changeAddr = [] then userAddr else changeAddr) in
     chks (pure_res (if utxosHex \<noteq> [] then chk (decodeUtxos ch utxosHex) id (\<lambda>us. Inr (LoadedUtxos us))
                     else Inr (InputAddress userAddr))) (wrap ''funding: decode wallet utxos: %w'') (\<lambda>inputs.
     chks (ch_Complete ch \<lparr>bd_Change = change, bd_Pay = Some (tempAddr, lovelace), bd_Inputs = inputs\<rparr>)
          (wrap ''funding: complete: %w'') (\<lambda>built.
     pure_res (txToHex ch built))))"

definition BuildSweepTx :: "'w chain \<Rightarrow> temp_wallet \<Rightarrow> string \<Rightarrow> 'w \<Rightarrow> string res \<times> 'w" where
  "BuildSweepTx ch w userAddr =
     chks (pure_res (ch_Decode ch (w_Address w))) (wrap ''sweep: decode temp address: %w'') (\<lambda>_.
     chks (ch_Utxos ch (w_Address w)) (wrap ''sweep: utxos: %w'') (\<lambda>utxos.
     if utxos = [] then pure_res (Inl (errm ''sweep: temp address holds no utxos''))
     else chks (ch_Complete ch \<lparr>bd_Change = userAddr, bd_Pay = None, bd_Inputs = Preselected utxos\<rparr>)
            (wrap ''sweep: complete: %w'') (\<lambda>built.
          chks (pure_res (ch_SignWith ch built (w_vkey w) (w_skey w))) (wrap ''sweep: sign: %w'') (\<lambda>signed.
          pure_res (txToHex ch signed)))))"

section \<open>Submission and confirmation\<close>

definition submitTo :: "'w chain \<Rightarrow> gctx \<Rightarrow> string \<Rightarrow> bytes \<Rightarrow> bool \<Rightarrow> 'w \<Rightarrow> string res \<times> 'w" where
  "submitTo ch c url raw blockfrost =
     chks (ch_Post ch c url ([(''Content-Type'', ''application/cbor''), (''Accept'', ''application/json'')] @
             (if blockfrost then [(''project_id'', ch_projectID ch)] else [])) raw) id (\<lambda>(status, body).
     if status \<noteq> 200 \<and> status \<noteq> 202 then pure_res (Inl (Fmt ''status %d: %s'' [AI status, AS body]))
     else pure_res (Inr (trim [CHR '' '', CHR 0x22, CHR 0x0D, CHR 0x0A, CHR 0x09] body)))"

definition SubmitRaw :: "'w chain \<Rightarrow> gctx \<Rightarrow> string \<Rightarrow> 'w \<Rightarrow> string res \<times> 'w" where
  "SubmitRaw ch c signedHex =
     chks (pure_res (dec_hex signedHex)) (wrap ''submit: decode hex: %w'') (\<lambda>raw w.
     case submitTo ch c (ch_bfBase ch @ ''/tx/submit'') raw True w of
       (Inr h, w1) \<Rightarrow> (Inr h, w1)
     | (Inl bfErr, w1) \<Rightarrow>
         (case submitTo ch c (koiosBase @ ''/submittx'') raw False w1 of
            (Inr h, w2) \<Rightarrow> (Inr h, w2)
          | (Inl koErr, w2) \<Rightarrow>
              (Inl (Fmt ''submit failed: blockfrost: %v; koios: %v'' [AM bfErr, AM koErr]), w2)))"

definition confirmations :: "'w chain \<Rightarrow> gctx \<Rightarrow> string \<Rightarrow> 'w \<Rightarrow> int res \<times> 'w" where
  "confirmations ch c txHash =
     chks (ch_Post ch c (koiosBase @ ''/tx_status'') [(''Content-Type'', ''application/json''), (''Accept'', ''application/json'')]
             (ch_StatusBody ch txHash)) id (\<lambda>(status, body).
     if status \<noteq> 200 then pure_res (Inl (Fmt ''tx_status: %d'' [AI status]))
     else chks (pure_res (ch_UnStatus ch body)) id (\<lambda>rows.
            pure_res (Inr (case rows of [] \<Rightarrow> 0 | n # _ \<Rightarrow> n))))"

definition confirm_check :: "'w chain \<Rightarrow> gctx \<Rightarrow> string \<Rightarrow> unit \<Rightarrow> 'w \<Rightarrow> (unit + unit) \<times> 'w" where
  "confirm_check ch c txHash a w =
     (case confirmations ch c txHash w of
        (Inr conf, w1) \<Rightarrow> (if 0 < conf then Inl () else Inr (), w1)
      | (Inl e, w1) \<Rightarrow> (Inr (), w1))"

definition WaitConfirmed :: "'w runtime \<Rightarrow> 'w chain \<Rightarrow> gctx \<Rightarrow> string \<Rightarrow> int \<Rightarrow> int \<Rightarrow> 'w \<Rightarrow> unit res \<times> int \<times> 'w" where
  "WaitConfirmed R ch c txHash timeout t w =
     (case poll R c confirmPollWait (t + timeout) (confirm_check ch c txHash) () t w of
        (Done _, t', w') \<Rightarrow> (Inr (), t', w')
      | (TimedOut _, t', w') \<Rightarrow> (Inl (Fmt ''confirm: timed out waiting for %s'' [AS txHash]), t', w')
      | (CtxDone _, t', w') \<Rightarrow> (Inl ContextCanceled, t', w'))"

section \<open>Properties\<close>

text \<open>
  A concrete chain: an address with two UTxOs, a BlockFrost that refuses and a Koios that accepts,
  and a transaction that is confirmed once the world, a counter, is positive.
\<close>

definition demo_utxos :: "utxo list" where
  "demo_utxos = [\<lparr>u_Coin = 3000000, u_Asset = (\<lambda>p n. 7), u_Cbor = Inr [1]\<rparr>,
                 \<lparr>u_Coin = 2000000, u_Asset = (\<lambda>p n. 5), u_Cbor = Inr [2]\<rparr>]"

definition demo_chain :: "nat chain" where
  "demo_chain = \<lparr>ch_Decode = (\<lambda>a. Inr ()), ch_Utxos = (\<lambda>a w. (Inr demo_utxos, w)),
     ch_UnUtxo = (\<lambda>b. Inr (hd demo_utxos)), ch_Complete = (\<lambda>b w. (Inr [1], w)),
     ch_SignWith = (\<lambda>tx v s. Inr (tx @ s)), ch_Marshal = Inr,
     ch_Post = (\<lambda>c url hs b w. if url = koiosBase @ ''/submittx'' then (Inr (202, ''ab''), w)
       else if url = koiosBase @ ''/tx_status'' then (Inr (200, if 0 < w then ''1'' else []), w + 1)
       else (Inr (400, ''no''), w)),
     ch_StatusBody = bytes_of, ch_UnStatus = (\<lambda>s. Inr (map (\<lambda>c. 1) s)),
     ch_bfBase = ''bf'', ch_projectID = ''id''\<rparr>"

definition demo_runtime :: "nat runtime" where
  "demo_runtime = \<lparr>rt_Cancelled = (\<lambda>w. False), rt_Wait = (\<lambda>d w. ((True, 0), w))\<rparr>"

lemma foldl_i64: "foldl (\<lambda>t x. i64 (t + x)) a xs = i64 (a + sum_list xs) \<or> xs = []"
proof (induction xs rule: rev_induct)
  case (snoc x xs)
  then show ?case by (auto simp: add.assoc)
qed simp

lemma total64_eq: "total64 xs = i64 (sum_list xs)"
  using foldl_i64 [of 0 xs] by (auto simp: total64_def i64_def)

text \<open>The balance of an address is the sum over its UTxOs, of lovelace for the empty unit and of the
  unit's quantity otherwise, as long as it fits an \<open>int64\<close> (all the ADA there is does).\<close>

theorem AssetAt_sum:
  assumes "ch_Decode ch addr = Inr ()" and "ch_Utxos ch addr w = (Inr us, w')"
    and "q = (\<lambda>u. if unt = [] then u_Coin u else u_Asset u (fst (splitUnit unt)) (snd (splitUnit unt)))"
    and "in_i64 (sum_list (map q us))"
  shows "AssetAt ch addr unt w = (Inr (sum_list (map q us)), w')"
  using assms by (cases "unt = []") (auto simp: AssetAt_def LovelaceAt_def chks_def total64_eq i64_id split: prod.splits)

theorem AssetAt_sum_witness:
  "AssetAt demo_chain ''addr'' [] 0 = (Inr 5000000, 0) \<and> AssetAt demo_chain ''addr'' ''ff'' 0 = (Inr 12, 0)"
  using AssetAt_sum [of demo_chain "''addr''" 0 demo_utxos 0 u_Coin "[]"]
    AssetAt_sum [of demo_chain "''addr''" 0 demo_utxos 0 "\<lambda>u. u_Asset u ''ff'' []" "''ff''"]
  by (simp add: demo_chain_def demo_utxos_def in_i64_def splitUnit_def)

text \<open>Submission falls back: a transaction is accepted iff BlockFrost accepts it or, after BlockFrost
  refused, Koios does; the hash is then that endpoint's answer, and a double failure reports both.\<close>

theorem SubmitRaw_fallback:
  assumes "dec_hex h = Inr raw"
    and "submitTo ch c (ch_bfBase ch @ ''/tx/submit'') raw True w = (rb, w1)"
    and "submitTo ch c (koiosBase @ ''/submittx'') raw False w1 = (rk, w2)"
  shows "SubmitRaw ch c h w = (case rb of Inr x \<Rightarrow> (Inr x, w1)
     | Inl eb \<Rightarrow> (case rk of Inr x \<Rightarrow> (Inr x, w2)
         | Inl ek \<Rightarrow> (Inl (Fmt ''submit failed: blockfrost: %v; koios: %v'' [AM eb, AM ek]), w2)))"
  using assms by (simp add: SubmitRaw_def chks_def split: sum.splits)

theorem SubmitRaw_fallback_witness: "SubmitRaw demo_chain Background ''0d'' 0 = (Inr ''ab'', 0)"
proof -
  have "dec_hex ''0d'' = Inr [13]" by (simp add: hex_val_def)
  moreover have "submitTo demo_chain Background (ch_bfBase demo_chain @ ''/tx/submit'') [13] True 0
      = (Inl (Fmt ''status %d: %s'' [AI 400, AS ''no'']), 0)"
    by (simp add: submitTo_def chks_def demo_chain_def koiosBase_def)
  moreover have "submitTo demo_chain Background (koiosBase @ ''/submittx'') [13] False 0 = (Inr ''ab'', 0)"
    by (simp add: submitTo_def chks_def demo_chain_def koiosBase_def trim_def)
  ultimately show ?thesis using SubmitRaw_fallback [of "''0d''" "[13]" demo_chain Background 0] by simp
qed



lemma confirm_check_Inl:
  "confirm_check ch c h a w = (Inl x, w') \<Longrightarrow> \<exists>n. confirmations ch c h w = (Inr n, w') \<and> 0 < n"
  by (cases "confirmations ch c h w") (auto simp: confirm_check_def split: sum.splits if_splits)

lemma WaitConfirmed_time: "WaitConfirmed R ch c h timeout t w = (r, t', w') \<Longrightarrow> t \<le> t'"
  using poll_ends [of R c confirmPollWait "t + timeout" "confirm_check ch c h" "()" t w]
  by (auto simp: WaitConfirmed_def split: prod.splits outcome.splits)

text \<open>C28. Waiting for a confirmation always ends: with success only if the chain reported at least one
  confirmation, with a timeout only after the deadline, and with the context's error only for a
  cancellable context.\<close>

theorem WaitConfirmed_ends:
  assumes "WaitConfirmed R ch c h timeout t w = (r, t', w')"
  shows "t \<le> t' \<and>
    (r = Inr () \<longrightarrow> (\<exists>w0 n. confirmations ch c h w0 = (Inr n, w') \<and> 0 < n)) \<and>
    (r = Inl (Fmt ''confirm: timed out waiting for %s'' [AS h]) \<longrightarrow> t + timeout < t') \<and>
    (r = Inl ContextCanceled \<longrightarrow> c = LoopCtx)"
proof -
  obtain oc t1 w1 where p: "poll R c confirmPollWait (t + timeout) (confirm_check ch c h) () t w = (oc, t1, w1)"
    by (cases "poll R c confirmPollWait (t + timeout) (confirm_check ch c h) () t w") auto
  show ?thesis
  proof (cases oc)
    case (Done x)
    obtain a' w0 where "confirm_check ch c h a' w0 = (Inl x, w1)" using poll_Done [OF p [unfolded Done]] by blast
    from confirm_check_Inl [OF this] have "\<exists>n. confirmations ch c h w0 = (Inr n, w1) \<and> 0 < n" .
    then show ?thesis using assms p Done poll_ends [OF p]
      by (auto simp: WaitConfirmed_def ContextCanceled_def)
  qed (use assms p poll_ends [OF p] in \<open>auto simp: WaitConfirmed_def ContextCanceled_def\<close>)
qed

theorem WaitConfirmed_ends_witness:
  "\<exists>t' w'. WaitConfirmed demo_runtime demo_chain Background ''ab'' minute 0 0 = (Inr (), t', w') \<and> 0 \<le> t' \<and>
     (\<exists>w0 n. confirmations demo_chain Background ''ab'' w0 = (Inr n, w') \<and> 0 < n)"
proof -
  have "WaitConfirmed demo_runtime demo_chain Background ''ab'' minute 0 0 = (Inr (), confirmPollWait, 2)"
    by (simp add: WaitConfirmed_def poll.simps confirm_check_def confirmations_def chks_def demo_chain_def
        demo_runtime_def select_wait_def koiosBase_def confirmPollWait_def second_def minute_def)
  with WaitConfirmed_ends [OF this] show ?thesis by blast
qed

end
