(* ===== verification/Engine_State.thy ===== *)
theory Engine_State
  imports Job_Store Chain_Model
begin

text \<open>
  What the engine works with (the fields of \<open>Engine\<close> in \<open>common/engine/engine.go\<close>): the lending
  sources and the DexHunter client as records of their methods (the Go interfaces \<open>Source\<close>,
  \<open>TxBuilder\<close> and \<open>TrackedSubmitter\<close>, whose optional ones are the type assertions of the code), the
  chain, the runtime, and the state its goroutines change: the outside world, the clock, the job
  store, the registered cancel functions, and the goroutine's own copy of its job.
\<close>

record 'w tx_builder =
  tb_BuildSupply :: "gctx \<Rightarrow> tx_params \<Rightarrow> 'w \<Rightarrow> built_tx res \<times> 'w"
  tb_BuildWithdraw :: "gctx \<Rightarrow> tx_params \<Rightarrow> 'w \<Rightarrow> built_tx res \<times> 'w"
  tb_BuildBorrow :: "gctx \<Rightarrow> tx_params \<Rightarrow> 'w \<Rightarrow> built_tx res \<times> 'w"
  tb_BuildClose :: "gctx \<Rightarrow> close_params \<Rightarrow> 'w \<Rightarrow> built_tx res \<times> 'w"
  tb_SubmitTx :: "gctx \<Rightarrow> submit_params \<Rightarrow> 'w \<Rightarrow> string res \<times> 'w"

record 'w tracked_submitter =
  ts_SubmitTracked :: "gctx \<Rightarrow> string \<Rightarrow> string \<Rightarrow> string \<Rightarrow> string \<Rightarrow> 'w \<Rightarrow> string res \<times> 'w"
  ts_Assemble :: "gctx \<Rightarrow> string \<Rightarrow> string \<Rightarrow> string list \<Rightarrow> bool \<Rightarrow> 'w \<Rightarrow> string res \<times> 'w"
  ts_Submit :: "gctx \<Rightarrow> string \<Rightarrow> string \<Rightarrow> 'w \<Rightarrow> string res \<times> 'w"

record 'w source =
  src_Name :: string
  src_FetchMarkets :: "gctx \<Rightarrow> 'w \<Rightarrow> market list res \<times> 'w"
  src_FetchOrders :: "gctx \<Rightarrow> order_query \<Rightarrow> 'w \<Rightarrow> order list res \<times> 'w"
  src_Builder :: "'w tx_builder option"
  src_Tracked :: "'w tracked_submitter option"

record swap_request =
  sw_AmountIn :: f64
  sw_TokenIn :: string
  sw_TokenOut :: string
  sw_BuyerAddress :: string
  sw_Slippage :: f64
  sw_Inputs :: "string list"

record 'w dex_client =
  dx_BuildSwap :: "gctx \<Rightarrow> swap_request \<Rightarrow> 'w \<Rightarrow> string res \<times> 'w"
  dx_Sign :: "gctx \<Rightarrow> string \<Rightarrow> string \<Rightarrow> 'w \<Rightarrow> string res \<times> 'w"
  dx_EstimateSwap :: "gctx \<Rightarrow> f64 \<Rightarrow> string \<Rightarrow> string \<Rightarrow> f64 \<Rightarrow> 'w \<Rightarrow> f64 res \<times> 'w"

text \<open>\<open>e_Finish\<close> is the order in which the concurrent market fetches of the sources finish.\<close>

record 'w engine =
  e_sources :: "'w source list"
  e_dex :: "'w dex_client option"
  e_chain :: "'w chain"
  e_encSecret :: string
  e_network :: network
  e_rt :: "'w runtime"
  e_crypto :: crypto
  e_Finish :: "'w source list \<Rightarrow> 'w \<Rightarrow> 'w source list"

record 'w est =
  env :: 'w
  clk :: int
  jobs :: job_map
  cancels :: "string list"
  cur :: job

definition on_env :: "('w \<Rightarrow> 'a \<times> 'w) \<Rightarrow> 'w est \<Rightarrow> 'a \<times> 'w est" where
  "on_env f s = (case f (env s) of (a, w) \<Rightarrow> (a, s\<lparr>env := w\<rparr>))"

definition cancelled :: "'w engine \<Rightarrow> gctx \<Rightarrow> 'w est \<Rightarrow> bool" where
  "cancelled e c s \<longleftrightarrow> ctx_err (e_rt e) c (env s)"

lemma on_env_simps:
  "on_env f s = (a, s') \<longleftrightarrow> (\<exists>w. f (env s) = (a, w) \<and> s' = s\<lparr>env := w\<rparr>)"
  by (auto simp: on_env_def split: prod.splits)

section \<open>Sources by name\<close>

definition sourceByName :: "'w engine \<Rightarrow> string \<Rightarrow> 'w source option" where
  "sourceByName e name = find (\<lambda>s. src_Name s = name) (e_sources e)"

text \<open>The first source of that name decides, even if it is no builder.\<close>

definition builderFor :: "'w engine \<Rightarrow> string \<Rightarrow> 'w tx_builder option" where
  "builderFor e name = (case find (\<lambda>s. src_Name s = name) (e_sources e) of
     None \<Rightarrow> None | Some s \<Rightarrow> src_Builder s)"

definition engineSource :: string where "engineSource = ''surf''"
definition defaultSlippage :: f64 where "defaultSlippage = Fin 3"

section \<open>Recording steps\<close>

definition scanURL :: "'w engine \<Rightarrow> string \<Rightarrow> string" where
  "scanURL e hash =
     (if hash = [] then []
      else let host = (case e_network e of PREPROD \<Rightarrow> ''preprod.cardanoscan.io''
             | PREVIEW \<Rightarrow> ''preview.cardanoscan.io'' | TESTNET \<Rightarrow> ''testnet.cardanoscan.io''
             | MAINNET \<Rightarrow> ''cardanoscan.io'')
        in ''https://'' @ host @ ''/transaction/'' @ hash)"

definition save :: "'w est \<Rightarrow> 'w est" where
  "save s = s\<lparr>jobs := store_Save (cur s) (jobs s)\<rparr>"

definition stamp_step :: "'w engine \<Rightarrow> step \<Rightarrow> int \<Rightarrow> step" where
  "stamp_step e st now =
     (let st1 = (if st_At st = 0 then st\<lparr>st_At := now\<rparr> else st)
      in if st_TxHash st1 \<noteq> [] \<and> st_URL st1 = [] then st1\<lparr>st_URL := scanURL e (st_TxHash st1)\<rparr> else st1)"

definition record_step :: "'w engine \<Rightarrow> step \<Rightarrow> 'w est \<Rightarrow> 'w est" where
  "record_step e st s = save (s\<lparr>cur := (cur s)\<lparr>Steps := Steps (cur s) @ [stamp_step e st (clk s)]\<rparr>\<rparr>)"

definition status_step :: "msg \<Rightarrow> step" where
  "status_step note = step0\<lparr>st_Kind := ''status'', st_Note := note\<rparr>"

definition batch_step :: "msg \<Rightarrow> step" where
  "batch_step note = step0\<lparr>st_Kind := ''batch'', st_Note := note\<rparr>"

definition countStepKind :: "job \<Rightarrow> string \<Rightarrow> nat" where
  "countStepKind j kind = length (filter (\<lambda>st. st_Kind st = kind) (Steps j))"

definition unregister :: "string \<Rightarrow> 'w est \<Rightarrow> 'w est" where
  "unregister i s = s\<lparr>cancels := filter (\<lambda>x. x \<noteq> i) (cancels s)\<rparr>"

definition failed_text :: "msg \<Rightarrow> msg" where
  "failed_text e = Fmt ''FAILED: %s'' [AM e]"

definition fail :: "'w engine \<Rightarrow> msg \<Rightarrow> 'w est \<Rightarrow> 'w est" where
  "fail e er s =
     (let j = (cur s)\<lparr>Status := StatusFailed, Error := er,
            Steps := Steps (cur s) @ [(status_step (failed_text er))\<lparr>st_At := clk s\<rparr>]\<rparr>
      in unregister (ID j) (save (s\<lparr>cur := j\<rparr>)))"

section \<open>What recording keeps\<close>

text \<open>
  The progress of a goroutine: its job keeps its identity, its terms and its key, its step log only
  grows, by steps of the kind \<open>K\<close>, what it stores is its job, and the other stored jobs and the
  other registrations are left alone.
\<close>

definition terms :: "job \<Rightarrow> job" where
  "terms j = j\<lparr>Status := [], Steps := [], Exposure := 0, Error := errm []\<rparr>"

definition extends :: "(step \<Rightarrow> bool) \<Rightarrow> 'w est \<Rightarrow> 'w est \<Rightarrow> bool" where
  "extends K s s' \<longleftrightarrow> terms (cur s') = terms (cur s) \<and> clk s \<le> clk s' \<and>
     (\<exists>new. Steps (cur s') = Steps (cur s) @ new \<and> (\<forall>st \<in> set new. K st)) \<and>
     (\<forall>i. i \<noteq> ID (cur s) \<longrightarrow> store_Get (jobs s') i = store_Get (jobs s) i) \<and>
     (store_Get (jobs s') (ID (cur s)) = store_Get (jobs s) (ID (cur s)) \<or>
      (\<exists>j. store_Get (jobs s') (ID (cur s)) = Inr j \<and> terms j = terms (cur s))) \<and>
     (store_ok (jobs s) \<longrightarrow> store_ok (jobs s')) \<and>
     (\<forall>i. i \<noteq> ID (cur s) \<longrightarrow> i \<in> set (cancels s') \<longleftrightarrow> i \<in> set (cancels s))"

lemma terms_eq:
  assumes "terms j = terms k"
  shows "ID j = ID k" "Owner j = Owner k" "Direction j = Direction k" "CollateralUnit j = CollateralUnit k"
    "TargetUnit j = TargetUnit k" "Plan j = Plan k" "TempAddress j = TempAddress k" "SealK j = SealK k"
    "FundingLovelace j = FundingLovelace k" "FeeReserveLovelace j = FeeReserveLovelace k"
proof -
  from assms have
    "ID (terms j) = ID (terms k)" "Owner (terms j) = Owner (terms k)" "Direction (terms j) = Direction (terms k)"
    "CollateralUnit (terms j) = CollateralUnit (terms k)" "TargetUnit (terms j) = TargetUnit (terms k)"
    "Plan (terms j) = Plan (terms k)" "TempAddress (terms j) = TempAddress (terms k)"
    "SealK (terms j) = SealK (terms k)" "FundingLovelace (terms j) = FundingLovelace (terms k)"
    "FeeReserveLovelace (terms j) = FeeReserveLovelace (terms k)" by simp_all
  then show "ID j = ID k" "Owner j = Owner k" "Direction j = Direction k" "CollateralUnit j = CollateralUnit k"
    "TargetUnit j = TargetUnit k" "Plan j = Plan k" "TempAddress j = TempAddress k" "SealK j = SealK k"
    "FundingLovelace j = FundingLovelace k" "FeeReserveLovelace j = FeeReserveLovelace k"
    by (simp_all add: terms_def)
qed

lemma terms_update [simp]:
  "terms (j\<lparr>Status := a\<rparr>) = terms j" "terms (j\<lparr>Steps := b\<rparr>) = terms j"
  "terms (j\<lparr>Exposure := c\<rparr>) = terms j" "terms (j\<lparr>Error := d\<rparr>) = terms j"
  by (simp_all add: terms_def)

lemma extends_refl [simp, intro]: "extends K s s"
  by (simp add: extends_def)

lemma extends_ID: "extends K s s' \<Longrightarrow> ID (cur s') = ID (cur s)"
  by (auto simp: extends_def intro: terms_eq(1))

lemma extends_trans [trans]: "extends K s t \<Longrightarrow> extends K t u \<Longrightarrow> extends K s u"
proof -
  assume st: "extends K s t" and tu: "extends K t u"
  obtain n1 n2 where "Steps (cur t) = Steps (cur s) @ n1" "\<forall>x \<in> set n1. K x"
    "Steps (cur u) = Steps (cur t) @ n2" "\<forall>x \<in> set n2. K x"
    using st tu unfolding extends_def by blast
  then have "Steps (cur u) = Steps (cur s) @ (n1 @ n2)" "\<forall>x \<in> set (n1 @ n2). K x" by auto
  then show ?thesis using st tu extends_ID [OF st] unfolding extends_def by (auto intro!: exI [of _ "n1 @ n2"])
qed

lemma extends_mono: "extends K s t \<Longrightarrow> (\<And>st. K st \<Longrightarrow> L st) \<Longrightarrow> extends L s t"
  by (auto simp: extends_def)

lemma extends_env [simp]: "extends K s (s\<lparr>env := w\<rparr>)"
  by (simp add: extends_def)

lemma extends_time [step_rules]: "clk s \<le> t \<Longrightarrow> extends K s (s\<lparr>env := w, clk := t\<rparr>)"
  by (simp add: extends_def)

lemma extends_save [step_rules]: "extends K s s' \<Longrightarrow> extends K s (save s')"
  using extends_ID [of K s s'] by (simp add: extends_def save_def)

lemma extends_record [step_rules]: "K (stamp_step e st (clk s)) \<Longrightarrow> extends K s (record_step e st s)"
  by (simp add: extends_def record_step_def save_def)

lemma extends_fail [step_rules]: "(\<And>m t. K ((status_step m)\<lparr>st_At := t\<rparr>)) \<Longrightarrow> extends K s (fail e er s)"
  by (simp add: extends_def fail_def save_def unregister_def Let_def)

lemma extends_status [step_rules]: "extends K s (s\<lparr>cur := (cur s)\<lparr>Status := x\<rparr>\<rparr>)"
  by (simp add: extends_def)

lemma extends_unregister [step_rules]: "extends K s (unregister (ID (cur s)) s)"
  by (simp add: extends_def unregister_def)

lemma extends_on_env: "on_env f s = (a, s') \<Longrightarrow> extends K s s'"
  by (auto simp: on_env_simps)

lemma extends_count:
  "extends K s t \<Longrightarrow> (\<And>st. K st \<Longrightarrow> st_Kind st \<noteq> k) \<Longrightarrow> countStepKind (cur t) k = countStepKind (cur s) k"
  by (auto simp: extends_def countStepKind_def filter_empty_conv)

text \<open>A recorded step is in the store at once: what \<open>record_step\<close> and \<open>fail\<close> leave is the goroutine's job.\<close>

lemma record_stored: "store_Get (jobs (record_step e st s)) (ID (cur s)) = Inr (cur (record_step e st s))"
  by (simp add: record_step_def save_def)

lemma fail_stored: "store_Get (jobs (fail e er s)) (ID (cur s)) = Inr (cur (fail e er s))"
  by (simp add: fail_def save_def unregister_def Let_def)

lemma record_fields [simp]:
  "env (record_step e st s) = env s" "clk (record_step e st s) = clk s"
  "cancels (record_step e st s) = cancels s" "Status (cur (record_step e st s)) = Status (cur s)"
  "ID (cur (record_step e st s)) = ID (cur s)"
  by (simp_all add: record_step_def save_def)

lemma fail_fields [simp]:
  "Status (cur (fail e er s)) = StatusFailed" "Error (cur (fail e er s)) = er"
  "cancels (fail e er s) = filter (\<lambda>x. x \<noteq> ID (cur s)) (cancels s)" "env (fail e er s) = env s"
  by (simp_all add: fail_def save_def unregister_def Let_def)

lemma stamp_kind [simp]: "st_Kind (stamp_step e st t) = st_Kind st"
  and stamp_TxHash [simp]: "st_TxHash (stamp_step e st t) = st_TxHash st"
  and stamp_MarketID [simp]: "st_MarketID (stamp_step e st t) = st_MarketID st"
  by (simp_all add: stamp_step_def Let_def)

lemma count_record [simp]:
  "countStepKind (cur (record_step e st s)) k = countStepKind (cur s) k + (if st_Kind st = k then 1 else 0)"
  by (simp add: countStepKind_def record_step_def save_def)

lemma step_kinds [simp]: "st_Kind (status_step m) = ''status''" "st_Kind (batch_step m) = ''batch''"
  by (simp_all add: status_step_def batch_step_def)

text \<open>Every recorded transaction can be followed: a step with a hash and no link gets the Cardanoscan
  link of that hash, on the engine's network, and steps keep their hash, kind and market.\<close>

theorem record_step_link:
  "Steps (cur (record_step e st s)) = Steps (cur s) @ [stamp_step e st (clk s)] \<and>
   store_Get (jobs (record_step e st s)) (ID (cur s)) = Inr (cur (record_step e st s)) \<and>
   (st_URL st = [] \<longrightarrow> st_URL (stamp_step e st (clk s)) = scanURL e (st_TxHash st)) \<and>
   (st_At st = 0 \<longrightarrow> st_At (stamp_step e st (clk s)) = clk s)"
  by (simp add: record_stored) (simp add: record_step_def save_def stamp_step_def Let_def scanURL_def)

theorem record_step_link_witness:
  "\<forall>(e :: nat engine) (s :: nat est). st_URL (stamp_step e (step0\<lparr>st_TxHash := ''ab''\<rparr>) (clk s)) = scanURL e ''ab''"
proof (intro allI)
  fix e :: "nat engine" and s :: "nat est"
  show "st_URL (stamp_step e (step0\<lparr>st_TxHash := ''ab''\<rparr>) (clk s)) = scanURL e ''ab''"
    using record_step_link [of e "step0\<lparr>st_TxHash := ''ab''\<rparr>" s] by (simp add: step0_def)
qed

end
