(* ===== verification/Engine_Quote.thy ===== *)
theory Engine_Quote
  imports Engine_State
begin

text \<open>
  Market selection and sizing (the quote and sizing parts of \<open>common/engine/engine.go\<close>): which
  asset is collateral, the cheapest eligible borrow market, the borrow of a leg in the lender's own
  prices, decimals, the fee reserve, and \<open>Quote\<close> with its two rejections and its note.
\<close>

definition baseFeeReserveLovelace :: int where "baseFeeReserveLovelace = 10000000"
definition perLoopFeeLovelace :: int where "perLoopFeeLovelace = 10000000"
definition minFeeReserveLovelace :: int where "minFeeReserveLovelace = 30000000"
definition minLegBorrowAda :: f64 where "minLegBorrowAda = Fin 20"

definition feeReserveFor :: "int \<Rightarrow> int" where
  "feeReserveFor loops =
     (let r = i64 (baseFeeReserveLovelace + i64 (loops * perLoopFeeLovelace))
      in if r < minFeeReserveLovelace then minFeeReserveLovelace else r)"

record open_request =
  r_Owner :: string
  r_Direction :: direction
  r_CollateralUnit :: string
  r_TargetUnit :: string
  r_Amount :: f64
  r_Leverage :: f64
  r_Utxos :: "string list"
  r_ChangeAddress :: string

record quote =
  qt_Plan :: plan
  qt_BorrowSource :: string
  qt_BorrowMarket :: string
  qt_BorrowAPY :: f64
  qt_LegLTV :: f64
  qt_Loops :: int
  qt_TxCount :: int
  qt_LiqMovePct :: f64
  qt_LiqThreshold :: f64
  qt_FeeReserveAda :: f64
  qt_TotalAdaNeeded :: f64
  qt_MinSupply :: f64
  qt_Note :: msg

section \<open>Markets\<close>

definition legUnits :: "direction \<Rightarrow> string \<Rightarrow> string \<Rightarrow> string \<times> string" where
  "legUnits dir collateral target = (if dir = Long then (target, collateral) else (collateral, target))"

text \<open>The sources are asked concurrently; their rows are appended in the order they finish, errors skipped.\<close>

fun fetch_in_order :: "gctx \<Rightarrow> 'w source list \<Rightarrow> 'w \<Rightarrow> market list \<times> 'w" where
  "fetch_in_order c [] w = ([], w)"
| "fetch_in_order c (s # ss) w =
     (case src_FetchMarkets s c w of
        (Inl e, w1) \<Rightarrow> fetch_in_order c ss w1
      | (Inr ms, w1) \<Rightarrow> (case fetch_in_order c ss w1 of (r, w2) \<Rightarrow> (ms @ r, w2)))"

definition fetchAllMarkets :: "'w engine \<Rightarrow> gctx \<Rightarrow> 'w \<Rightarrow> market list \<times> 'w" where
  "fetchAllMarkets e c w = fetch_in_order c (e_Finish e (e_sources e) w) w"

definition borrow_candidate :: "string \<Rightarrow> string \<Rightarrow> market \<Rightarrow> bool" where
  "borrow_candidate colUnit borrowUnit m \<longleftrightarrow>
     m_Active m \<and> m_Source m = engineSource \<and> sameUnit (unitOf (m_Borrow m)) borrowUnit \<and>
     (unitOf (m_Collateral m) = [] \<or> sameUnit (unitOf (m_Collateral m)) colUnit)"

definition cheaper :: "market \<Rightarrow> market \<Rightarrow> bool" where
  "cheaper a b \<longleftrightarrow> m_BorrowAPY a < m_BorrowAPY b"

definition pickBorrowMarket :: "'w engine \<Rightarrow> gctx \<Rightarrow> string \<Rightarrow> string \<Rightarrow> 'w \<Rightarrow> market res \<times> 'w" where
  "pickBorrowMarket e c colUnit borrowUnit w =
     (case fetchAllMarkets e c w of (all, w1) \<Rightarrow>
        (case sort_slice cheaper (filter (borrow_candidate colUnit borrowUnit) all) of
           [] \<Rightarrow> (Inl (Fmt ''no %s market to borrow %s against %s (try a different token/direction)''
                       [AS engineSource, AS (short borrowUnit), AS (short colUnit)]), w1)
         | m # _ \<Rightarrow> (Inr m, w1)))"

text \<open>A nil client is dereferenced where no market price is usable: the call panics.\<close>

definition borrowAmount :: "'w engine \<Rightarrow> gctx \<Rightarrow> market \<Rightarrow> string \<Rightarrow> string \<Rightarrow> f64 \<Rightarrow> f64 \<Rightarrow> 'w \<Rightarrow> f64 res \<times> 'w" where
  "borrowAmount e c m colUnit borrowUnit supply legLTV =
     (if sameUnit colUnit borrowUnit then pure_res (Inr (supply * legLTV))
      else let colPx = PriceUsd (m_Collateral m); borPx = PriceUsd (m_Borrow m) in
        if 0 < colPx \<and> 0 < borPx then pure_res (Inr (supply * (colPx / borPx) * legLTV))
        else case e_dex e of
            None \<Rightarrow> pure_res (Inl (errm ''panic: nil pointer dereference''))
          | Some dx \<Rightarrow> chks (dx_EstimateSwap dx c supply (dexToken colUnit) (dexToken borrowUnit) defaultSlippage) id
              (\<lambda>est. pure_res (Inr (est * legLTV))))"

fun decimals_in :: "string \<Rightarrow> market list \<Rightarrow> int" where
  "decimals_in u [] = 6"
| "decimals_in u (m # ms) =
     (if sameUnit (unitOf (m_Borrow m)) u then Decimals (m_Borrow m)
      else if sameUnit (unitOf (m_Collateral m)) u then Decimals (m_Collateral m)
      else decimals_in u ms)"

definition unitDecimals :: "'w engine \<Rightarrow> gctx \<Rightarrow> string \<Rightarrow> 'w \<Rightarrow> int \<times> 'w" where
  "unitDecimals e c u w =
     (if u = [] then (6, w) else case fetchAllMarkets e c w of (ms, w1) \<Rightarrow> (decimals_in u ms, w1))"

definition decimalsForUnit :: "market \<Rightarrow> string \<Rightarrow> int" where
  "decimalsForUnit m u =
     (if sameUnit (unitOf (m_Borrow m)) u then Decimals (m_Borrow m)
      else if sameUnit (unitOf (m_Collateral m)) u then Decimals (m_Collateral m)
      else if u = [] then 6 else 0)"

section \<open>Quote\<close>

definition quote_ltv :: "market \<Rightarrow> f64" where
  "quote_ltv m = (let ltv = m_LTV m in if ltv \<le> 0 \<or> 1 \<le> ltv then Fin (1 / 2) else ltv)"

definition quote_min :: "market \<Rightarrow> f64" where
  "quote_min m = (if m_MinSupply m < minLegBorrowAda then minLegBorrowAda else m_MinSupply m)"

text \<open>The rejection of a plan without legs, and the note on an unreachable target.\<close>

definition quote_reject :: "open_request \<Rightarrow> plan \<Rightarrow> f64 \<Rightarrow> msg option" where
  "quote_reject req p minBorrow =
     (if Legs p = [] \<and> mk (1 + 1 / 10 ^ 9) < TargetLeverage p then
        let fullFirstBorrow = r_Amount req * LegLTV p in
        if fullFirstBorrow < minBorrow then
          Some (Fmt (''position too small: even a full first borrow '' @ utf8_approx @
                '' %.2f ADA is below the %.0f-ADA minimum viable loop '' @ utf8_emdash @ '' add capital'')
                [AF fullFirstBorrow, AF minBorrow])
        else let minLev = 1 + minBorrow / r_Amount req in
          Some (Fmt (''leverage too low: the smallest viable loop borrows %.0f ADA, so the smallest position at %.0f ADA is ''
                @ utf8_approx @ '' %.2fx '' @ utf8_emdash @ '' raise leverage to at least %.2fx'')
                [AF minBorrow, AF (r_Amount req), AF minLev, AF minLev])
      else None)"

definition quote_note :: "open_request \<Rightarrow> plan \<Rightarrow> market \<Rightarrow> f64 \<Rightarrow> msg" where
  "quote_note req p m minBorrow =
     (if AchievedLeverage p < r_Leverage req - mk (1 / 1000) then
        Fmt (''requested %.2fx not reachable for %.0f ADA on %s (LTV ceiling + each loop must borrow ''
             @ utf8_ge @ '' %.0f ADA to beat fees); achievable %.2fx '' @ utf8_emdash @ '' add capital for more'')
            [AF (r_Leverage req), AF (r_Amount req), AS (m_Source m), AF minBorrow, AF (AchievedLeverage p)]
      else errm [])"

definition quote_of :: "open_request \<Rightarrow> plan \<Rightarrow> market \<Rightarrow> f64 \<Rightarrow> quote" where
  "quote_of req p m minBorrow =
     (let loops = int (length (Legs p));
          liq = LiquidationPrice (r_Direction req) (AchievedLeverage p) (TotalBorrowed p / r_Amount req) (m_LiquidationThreshold m);
          txc = (if r_Direction req = Long then loops * 2 + 1 else loops * 2);
          feeReserve = toWhole (feeReserveFor loops) 6
      in \<lparr>qt_Plan = p, qt_BorrowSource = m_Source m, qt_BorrowMarket = m_PoolID m, qt_BorrowAPY = m_BorrowAPY m,
          qt_LegLTV = LegLTV p, qt_Loops = loops, qt_TxCount = txc, qt_LiqMovePct = liq * Fin 100,
          qt_LiqThreshold = m_LiquidationThreshold m, qt_FeeReserveAda = feeReserve,
          qt_TotalAdaNeeded = r_Amount req + feeReserve, qt_MinSupply = m_MinSupply m,
          qt_Note = quote_note req p m minBorrow\<rparr>)"

definition Quote :: "'w engine \<Rightarrow> gctx \<Rightarrow> open_request \<Rightarrow> 'w \<Rightarrow> quote res \<times> 'w" where
  "Quote e c req =
     (let (colUnit, borrowUnit) = legUnits (r_Direction req) (r_CollateralUnit req) (r_TargetUnit req) in
      chks (pickBorrowMarket e c colUnit borrowUnit) id (\<lambda>m.
      let minBorrow = quote_min m in
      chks (pure_res (BuildPlan (r_Direction req) (r_Amount req) (quote_ltv m) (r_Leverage req) minBorrow)) id (\<lambda>p.
      case quote_reject req p minBorrow of
        Some er \<Rightarrow> pure_res (Inl er)
      | None \<Rightarrow> pure_res (Inr (quote_of req p m minBorrow)))))"

section \<open>Properties\<close>

lemma fetch_in_order_set:
  "fetch_in_order c ss w = (ms, w') \<Longrightarrow> m \<in> set ms \<Longrightarrow>
     \<exists>s \<in> set ss. \<exists>w0 w1 rows. src_FetchMarkets s c w0 = (Inr rows, w1) \<and> m \<in> set rows"
proof (induction c ss w arbitrary: ms w' rule: fetch_in_order.induct)
  case (2 c s ss w)
  then show ?case by (auto split: prod.splits sum.splits) blast+
qed simp

lemma pickBorrowMarket_set:
  assumes "fetchAllMarkets e c w = (all, w1)" "pickBorrowMarket e c col bor w = (Inr m, w')"
  shows "m \<in> set all \<and> borrow_candidate col bor m \<and> w' = w1 \<and>
    m = hd (sort_slice cheaper (filter (borrow_candidate col bor) all)) \<and> filter (borrow_candidate col bor) all \<noteq> []"
proof -
  obtain rest where r: "sort_slice cheaper (filter (borrow_candidate col bor) all) = m # rest" "w' = w1"
    using assms by (auto simp: pickBorrowMarket_def split: list.splits)
  have "m \<in> set (sort_slice cheaper (filter (borrow_candidate col bor) all))" by (simp add: r(1))
  then have "m \<in> set (filter (borrow_candidate col bor) all)" by simp
  then have "filter (borrow_candidate col bor) all \<noteq> []" "m \<in> set all" "borrow_candidate col bor m"
    by (auto simp: filter_empty_conv)
  then show ?thesis using r by simp
qed


text \<open>The fee reserve covers at least the 30 ADA floor and at least 10 ADA per loop plus 10, exactly one
  of the two, for any number of loops a plan can have.\<close>

theorem feeReserveFor_bounds:
  assumes "0 \<le> loops" and "loops \<le> 10 ^ 9"
  shows "feeReserveFor loops = max 30000000 (10000000 * (loops + 1))"
proof -
  have "in_i64 (loops * 10000000)" "in_i64 (10000000 + loops * 10000000)" using assms by (simp_all add: in_i64_def)
  then show ?thesis
    by (auto simp: feeReserveFor_def baseFeeReserveLovelace_def perLoopFeeLovelace_def minFeeReserveLovelace_def
        i64_id max_def Let_def)
qed

theorem feeReserveFor_bounds_witness: "feeReserveFor 8 = 90000000 \<and> feeReserveFor 0 = 30000000"
  using feeReserveFor_bounds [of 8] feeReserveFor_bounds [of 0] by simp

text \<open>What an accepted quote says of its plan.\<close>

lemma Quote_Inr:
  assumes "Quote e c req w = (Inr q, w')"
  shows "\<exists>col bor m p w1. legUnits (r_Direction req) (r_CollateralUnit req) (r_TargetUnit req) = (col, bor) \<and>
    pickBorrowMarket e c col bor w = (Inr m, w') \<and>
    BuildPlan (r_Direction req) (r_Amount req) (quote_ltv m) (r_Leverage req) (quote_min m) = Inr p \<and>
    quote_reject req p (quote_min m) = None \<and> q = quote_of req p m (quote_min m)"
  using assms by (auto simp: Quote_def chks_Inr Let_def split: prod.splits option.splits)

lemma quote_min_ge: "m_MinSupply m = Fin r \<Longrightarrow> \<exists>x. quote_min m = Fin x \<and> 20 \<le> x \<and> r \<le> x"
  by (auto simp: quote_min_def minLegBorrowAda_def not_less)

lemma legs_ok_min: "legs_ok ltv mb i h ls \<Longrightarrow> 0 < mb \<Longrightarrow> l \<in> set ls \<Longrightarrow> \<not> BorrowAmt l < mb"
  by (induction ls arbitrary: i h) (auto simp: leg_ok_def)

text \<open>C17. No quote promises a position that cannot be built: an accepted quote either asks for no leverage or
  has at least one leg, and every leg borrows at least the market's minimum and at least 20 ADA.\<close>

theorem Quote_executable:
  assumes "Quote e c req w = (Inr q, w')" and "\<And>m. pickBorrowMarket e c col bor w = (Inr m, w') \<Longrightarrow> \<exists>r. m_MinSupply m = Fin r"
    and "legUnits (r_Direction req) (r_CollateralUnit req) (r_TargetUnit req) = (col, bor)"
  shows "(Legs (qt_Plan q) \<noteq> [] \<or> \<not> mk (1 + 1 / 10 ^ 9) < TargetLeverage (qt_Plan q)) \<and>
    qt_Loops q = int (length (Legs (qt_Plan q))) \<and>
    (\<forall>l \<in> set (Legs (qt_Plan q)). \<not> BorrowAmt l < Fin 20 \<and> \<not> BorrowAmt l < qt_MinSupply q)"
proof -
  obtain m p where q: "pickBorrowMarket e c col bor w = (Inr m, w')"
    "BuildPlan (r_Direction req) (r_Amount req) (quote_ltv m) (r_Leverage req) (quote_min m) = Inr p"
    "quote_reject req p (quote_min m) = None" "q = quote_of req p m (quote_min m)"
    using Quote_Inr [OF assms(1)] assms(3) by auto
  obtain r x where r: "m_MinSupply m = Fin r" "quote_min m = Fin x" "20 \<le> x" "r \<le> x"
    using assms(2) [OF q(1)] quote_min_ge by blast
  have "legs_ok (LegLTV p) (Fin x) 0 (r_Amount req) (Legs p)"
    using BuildPlan_Inr [OF q(2)] plan_loop_legs_ok unfolding r(2) by metis
  then have min: "\<not> BorrowAmt l < Fin x" if "l \<in> set (Legs p)" for l
    using legs_ok_min [OF _ _ that] r(3) by simp
  have "\<not> BorrowAmt l < Fin 20 \<and> \<not> BorrowAmt l < Fin r" if "l \<in> set (Legs p)" for l
    using min [OF that] r(3,4) by (cases "BorrowAmt l") auto
  then show ?thesis using q(3) r(1) by (auto simp: q(4) quote_of_def Let_def quote_reject_def split: if_splits)
qed

section \<open>A concrete market\<close>

definition demo_market :: market where
  "demo_market = \<lparr>m_Source = ''surf'', m_PoolID = ''pool'', m_Collateral = asset_zero\<lparr>PolicyID := ''aa''\<rparr>,
     m_Borrow = asset_zero, m_ReceiptAsset = asset_zero, m_CollateralID = [], m_SupplyExchangeRate = 0,
     m_TotalSuppliedUSD = 0, m_TotalBorrowedUSD = 0, m_AvailableLiquidityUSD = 0, m_SupplyAPY = 0,
     m_BorrowAPY = Fin 5, m_LTV = Fin (1 / 2), m_LiquidationThreshold = Fin (1 / 2), m_MinSupply = Fin 10,
     m_Active = True, m_URL = []\<rparr>"

definition demo_source :: "nat source" where
  "demo_source = \<lparr>src_Name = ''surf'', src_FetchMarkets = (\<lambda>c w. (Inr [demo_market\<lparr>m_BorrowAPY := Fin 7\<rparr>, demo_market], w)),
     src_FetchOrders = (\<lambda>c q w. (Inr [], w)), src_Builder = None, src_Tracked = None\<rparr>"

definition demo_engine :: "nat engine" where
  "demo_engine = \<lparr>e_sources = [demo_source], e_dex = None, e_chain = demo_chain, e_encSecret = ''secret'',
     e_network = MAINNET, e_rt = demo_runtime, e_crypto = demo_crypto, e_Finish = (\<lambda>ss w. ss)\<rparr>"

lemma demo_markets: "fetchAllMarkets demo_engine c w = ([demo_market\<lparr>m_BorrowAPY := Fin 7\<rparr>, demo_market], w)"
  by (simp add: fetchAllMarkets_def demo_engine_def demo_source_def)

lemma demo_pick: "pickBorrowMarket demo_engine c ''aa'' [] w = (Inr demo_market, w)"
  unfolding pickBorrowMarket_def demo_markets
  by (simp add: borrow_candidate_def demo_market_def engineSource_def unitOf_append asset_zero_def sort_slice_def cheaper_def)


lemma demo_plan:
  "\<exists>p. BuildPlan Long (Fin 1000) (Fin (1 / 2)) (Fin (3 / 2)) (Fin 20) = Inr p \<and> Legs p \<noteq> []"
proof -
  have r: "rep (3 / 8)" "rep (5 / 8)" "rep (3 / 2)" "rep (1 / 2)" "rep 375" "rep 500"
    using rep_scaled [of 3 "- 3"] rep_scaled [of 5 "- 3"] rep_scaled [of 3 "- 1"] rep_scaled [of 1 "- 1"]
      rep_of_int [of 375] rep_of_int [of 500] by (simp_all add: power_int_def power_one_over)
  have ltv: "Fin (1 / 2) * safetyBuffer = Fin (3 / 8)"
    using r by (simp add: safetyBuffer_eq mk_rep f64_limit_def)
  have c: "3 / 2 \<le> rnd (8 / 5)" using r(3) by (rule rep_le_rnd [rotated]) simp
  have m: "3 / 2 \<le> maxLev" unfolding maxLev_def using r(3) by (rule rep_le_rnd [rotated]) simp
  have "clamp_target (Fin (3 / 8)) (Fin (3 / 2)) = Fin (3 / 2)"
    using c m r by (simp add: clamp_target_def MaxLeverage_eq mk_rep f64_limit_def mk_Fin_60 Let_def)
  moreover have "Fin 1 < Fin (3 / 2) - planEps"
  proof -
    have "5 / 4 \<le> rnd (3 / 2 - eps9)"
      using eps9_bounds rep_scaled [of 5 "- 2"] by (intro rep_le_rnd) (simp_all add: power_int_def power_one_over)
    moreover have "mk (3 / 2 - eps9) = Fin (rnd (3 / 2 - eps9))" using eps9_bounds by (intro mk_Fin_60) simp_all
    ultimately show ?thesis by (simp add: planEps_eq)
  qed
  moreover have "leg_borrow (Fin 1000) (Fin (3 / 2)) (Fin (3 / 8)) (Fin 20) (Fin 1) (Fin 1000) = Some (Fin 375)"
    using r by (simp add: leg_borrow_def mk_rep f64_limit_def)
  ultimately show ?thesis
    by (auto simp: BuildPlan_def ltv maxLegs_def Let_def numeral_eq_Suc split: prod.splits)
qed

lemma demo_quote:
  "\<exists>q. Quote demo_engine Background \<lparr>r_Owner = ''u'', r_Direction = Long, r_CollateralUnit = [], r_TargetUnit = ''aa'',
     r_Amount = Fin 1000, r_Leverage = Fin (3 / 2), r_Utxos = [], r_ChangeAddress = []\<rparr> 0 = (Inr q, 0)"
proof -
  have "quote_min demo_market = Fin 20" "quote_ltv demo_market = Fin (1 / 2)"
    by (simp_all add: quote_min_def quote_ltv_def demo_market_def minLegBorrowAda_def)
  then show ?thesis using demo_plan
    by (auto simp: Quote_def legUnits_def chks_def demo_pick quote_reject_def Let_def)
qed

theorem Quote_executable_witness:
  "\<exists>q. Quote demo_engine Background \<lparr>r_Owner = ''u'', r_Direction = Long, r_CollateralUnit = [], r_TargetUnit = ''aa'',
     r_Amount = Fin 1000, r_Leverage = Fin (3 / 2), r_Utxos = [], r_ChangeAddress = []\<rparr> 0 = (Inr q, 0) \<and>
     qt_Loops q = int (length (Legs (qt_Plan q)))"
proof -
  obtain q where q: "Quote demo_engine Background \<lparr>r_Owner = ''u'', r_Direction = Long, r_CollateralUnit = [],
     r_TargetUnit = ''aa'', r_Amount = Fin 1000, r_Leverage = Fin (3 / 2), r_Utxos = [], r_ChangeAddress = []\<rparr> 0 = (Inr q, 0)"
    using demo_quote by blast
  from Quote_executable [OF q, of "''aa''" "[]"] q show ?thesis
    by (auto simp: demo_pick legUnits_def demo_market_def)
qed

end
