(* ===== verification/Engine_Tx.thy ===== *)
theory Engine_Tx
  imports Engine_Quote
begin

text \<open>
  What one transaction of the engine is (\<open>common/engine/engine.go\<close>): signing and submitting with
  the step it records, the wait for the proceeds of a batched order, and \<open>tradeAll\<close>, the swap of a
  whole balance through DexHunter.
\<close>

definition confirmTimeout :: int where "confirmTimeout = 4 * minute"
definition batchTimeout :: int where "batchTimeout = 12 * minute"
definition batchPoll :: int where "batchPoll = 8 * second"

text \<open>A polling loop of a goroutine, on its clock and world.\<close>

definition poll_est :: "'w engine \<Rightarrow> gctx \<Rightarrow> int \<Rightarrow> int \<Rightarrow> ('a \<Rightarrow> 'w \<Rightarrow> ('r + 'a) \<times> 'w) \<Rightarrow> 'a \<Rightarrow> 'w est \<Rightarrow>
    ('r, 'a) outcome \<times> 'w est" where
  "poll_est e c d timeout body a s =
     (case poll (e_rt e) c d (clk s + timeout) body a (clk s) (env s) of
        (r, t, w) \<Rightarrow> (r, s\<lparr>env := w, clk := t\<rparr>))"

lemma poll_est_keeps: "poll_est e c d timeout body a s = (r, s') \<Longrightarrow>
    extends K s s' \<and> cur s' = cur s \<and> cancels s' = cancels s \<and> jobs s' = jobs s"
  using poll_ends [of "e_rt e" c d "clk s + timeout" body a "clk s" "env s"]
  by (auto simp: poll_est_def extends_def split: prod.splits)

definition wait_confirmed :: "'w engine \<Rightarrow> gctx \<Rightarrow> string \<Rightarrow> 'w est \<Rightarrow> unit res \<times> 'w est" where
  "wait_confirmed e c hash s =
     (case WaitConfirmed (e_rt e) (e_chain e) c hash confirmTimeout (clk s) (env s) of
        (r, t, w) \<Rightarrow> (r, s\<lparr>env := w, clk := t\<rparr>))"

definition tx_step :: "string \<Rightarrow> string \<Rightarrow> string \<Rightarrow> string \<Rightarrow> f64 \<Rightarrow> step" where
  "tx_step kind source market hash amount =
     step0\<lparr>st_Kind := kind, st_Source := source, st_MarketID := market, st_TxHash := hash, st_Amount := amount\<rparr>"

section \<open>Sign, submit, confirm\<close>

definition signSubmit ::
  "'w engine \<Rightarrow> gctx \<Rightarrow> temp_wallet \<Rightarrow> string \<Rightarrow> string \<Rightarrow> string \<Rightarrow> string \<Rightarrow> f64 \<Rightarrow> 'w est \<Rightarrow> string res \<times> 'w est" where
  "signSubmit e c w unsignedCbor kind source market amount =
     chks (pure_res (SignTx (e_crypto e) w unsignedCbor)) (\<lambda>er. Fmt ''%s sign: %w'' [AS kind, AM er]) (\<lambda>signed.
     chks (on_env (SubmitRaw (e_chain e) c signed)) (\<lambda>er. Fmt ''%s submit: %w'' [AS kind, AM er]) (\<lambda>hash s.
     (Inr hash, record_step e (tx_step kind source market hash amount) s)))"

definition signSubmitConfirm ::
  "'w engine \<Rightarrow> gctx \<Rightarrow> temp_wallet \<Rightarrow> string \<Rightarrow> string \<Rightarrow> string \<Rightarrow> string \<Rightarrow> f64 \<Rightarrow> 'w est \<Rightarrow> string res \<times> 'w est" where
  "signSubmitConfirm e c w unsignedCbor kind source market amount =
     chks (signSubmit e c w unsignedCbor kind source market amount) id (\<lambda>hash.
     chks (wait_confirmed e c hash) id (\<lambda>_. pure_res (Inr hash)))"

section \<open>Waiting for proceeds\<close>

definition increase_check :: "'w chain \<Rightarrow> string \<Rightarrow> string \<Rightarrow> int \<Rightarrow> unit \<Rightarrow> 'w \<Rightarrow> (unit + unit) \<times> 'w" where
  "increase_check ch addr u before a w =
     (case AssetAt ch addr u w of
        (Inr now, w1) \<Rightarrow> (if before < now then Inl () else Inr (), w1)
      | (Inl er, w1) \<Rightarrow> (Inr (), w1))"

definition waitForBalanceIncrease ::
  "'w engine \<Rightarrow> gctx \<Rightarrow> string \<Rightarrow> string \<Rightarrow> int \<Rightarrow> 'w est \<Rightarrow> unit res \<times> 'w est" where
  "waitForBalanceIncrease e c addr u before s =
     (case poll_est e c batchPoll batchTimeout (increase_check (e_chain e) addr u before) () s of
        (Done _, s') \<Rightarrow> (Inr (), s')
      | (TimedOut _, s') \<Rightarrow> (Inl (Fmt ''timed out waiting for %s to arrive'' [AS (short u)]), s')
      | (CtxDone _, s') \<Rightarrow> (Inl ContextCanceled, s'))"

section \<open>tradeAll\<close>

text \<open>The balance of \<open>from\<close> that may be spent: ADA keeps the fee reserve.\<close>

definition spendable :: "job \<Rightarrow> string \<Rightarrow> int \<Rightarrow> int" where
  "spendable j from heldRaw = (if from = [] then i64 (heldRaw - FeeReserveLovelace j) else heldRaw)"

definition submit_swap ::
  "'w engine \<Rightarrow> 'w dex_client \<Rightarrow> gctx \<Rightarrow> temp_wallet \<Rightarrow> swap_request \<Rightarrow> 'w est \<Rightarrow> string res \<times> 'w est" where
  "submit_swap e dx c w rq =
     chks (on_env (dx_BuildSwap dx c rq)) (wrap ''build swap: %w'') (\<lambda>txCbor.
     chks (pure_res (WitnessSetHex (e_crypto e) w txCbor)) (wrap ''swap sign (local): %w'') (\<lambda>witnessHex.
     chks (on_env (dx_Sign dx c txCbor witnessHex)) (wrap ''swap /sign: %w'') (\<lambda>signed.
     if signed = [] then pure_res (Inl (errm ''swap /sign: empty signed cbor''))
     else chks (on_env (SubmitRaw (e_chain e) c signed)) (wrap ''swap submit: %w'') (\<lambda>hash. pure_res (Inr hash)))))"

text \<open>The part of \<open>tradeAll\<close> after the submission: it records the trade, then waits for the proceeds.\<close>

definition settle_trade :: "'w engine \<Rightarrow> gctx \<Rightarrow> temp_wallet \<Rightarrow> string \<Rightarrow> f64 \<Rightarrow> int \<Rightarrow> string \<Rightarrow> 'w est \<Rightarrow> unit res \<times> 'w est" where
  "settle_trade e c w toUnit amount beforeRaw hash s =
     (let s1 = record_step e (tx_step ''trade'' ''dexhunter'' [] hash amount) s;
          s2 = record_step e (batch_step (Fmt ''waiting for DEX batch to deliver %s'' [AS (short toUnit)])) s1
      in chks (waitForBalanceIncrease e c (w_Address w) toUnit beforeRaw) (wrap ''wait batch: %w'') (\<lambda>_ s.
          (Inr (), record_step e (batch_step (Fmt (''batch filled '' @ utf8_emdash @ '' received %s'') [AS (short toUnit)])) s)) s2)"

definition tradeAll ::
  "'w engine \<Rightarrow> gctx \<Rightarrow> temp_wallet \<Rightarrow> string \<Rightarrow> string \<Rightarrow> 'w est \<Rightarrow> unit res \<times> 'w est" where
  "tradeAll e c w fromUnit toUnit s =
     (case e_dex e of
        None \<Rightarrow> (Inl (errm ''dexhunter client not configured''), s)
      | Some dx \<Rightarrow>
          (case on_env (unitDecimals e c fromUnit) s of (fromDec, s) \<Rightarrow>
           chks (on_env (AssetAt (e_chain e) (w_Address w) fromUnit)) id (\<lambda>heldRaw s.
           let amount = toWhole (spendable (cur s) fromUnit heldRaw) fromDec in
           if amount \<le> 0 then (Inl (Fmt ''nothing to trade for %s'' [AS (short fromUnit)]), s)
           else
             or_zero (on_env (AssetAt (e_chain e) (w_Address w) toUnit)) 0 (\<lambda>beforeRaw.
             or_zero (on_env (UtxosCBOR (e_chain e) (w_Address w))) [] (\<lambda>utxos.
             chks (submit_swap e dx c w \<lparr>sw_AmountIn = amount, sw_TokenIn = dexToken fromUnit,
                     sw_TokenOut = dexToken toUnit, sw_BuyerAddress = w_Address w,
                     sw_Slippage = defaultSlippage, sw_Inputs = utxos\<rparr>) id
                (settle_trade e c w toUnit amount beforeRaw)))
             s) s))"

section \<open>What they keep\<close>

lemma chks_extends [step_rules]:
  assumes "\<And>r s'. m s = (r, s') \<Longrightarrow> extends K s s'"
    and "\<And>x s1 r s'. m s = (Inr x, s1) \<Longrightarrow> k x s1 = (r, s') \<Longrightarrow> extends K s1 s'"
    and "chks m wr k s = (r, s')"
  shows "extends K s s'"
  using assms(3) unfolding chks_def
  by (auto split: prod.splits sum.splits intro: assms(1) extends_trans [OF assms(1) assms(2)])

lemma or_zero_extends [step_rules]:
  assumes "\<And>r s'. m s = (r, s') \<Longrightarrow> extends K s s'"
    and "\<And>x s1 r s'. k x s1 = (r, s') \<Longrightarrow> extends K s1 s'"
    and "or_zero m z k s = (r, s')"
  shows "extends K s s'"
  using assms(3) unfolding or_zero_def
  by (auto split: prod.splits sum.splits intro: extends_trans [OF assms(1) assms(2)])

definition in_kinds :: "string list \<Rightarrow> step \<Rightarrow> bool" where
  "in_kinds ks st \<longleftrightarrow> st_Kind st \<in> set ks"

lemma in_kinds_stamp [simp]: "in_kinds ks (stamp_step e st t) \<longleftrightarrow> in_kinds ks st"
  by (simp add: in_kinds_def)

lemma in_kinds_steps [simp]:
  "in_kinds ks (tx_step k src m h a) \<longleftrightarrow> k \<in> set ks"
  "in_kinds ks (status_step n) \<longleftrightarrow> ''status'' \<in> set ks"
  "in_kinds ks (batch_step n) \<longleftrightarrow> ''batch'' \<in> set ks"
  by (simp_all add: in_kinds_def tx_step_def)

lemma pure_res_extends: "pure_res r s = (x, s') \<Longrightarrow> extends K s s'"
  by auto

lemma wait_confirmed_extends: "wait_confirmed e c h s = (r, s') \<Longrightarrow> extends K s s'"
  using WaitConfirmed_time [of "e_rt e" "e_chain e" c h confirmTimeout "clk s" "env s"]
  by (auto simp: wait_confirmed_def split: prod.splits intro: step_rules)

lemma waitForBalanceIncrease_extends: "waitForBalanceIncrease e c addr u b s = (r, s') \<Longrightarrow> extends K s s'"
  using poll_est_keeps [of e c batchPoll batchTimeout "increase_check (e_chain e) addr u b" "()" s]
  by (fastforce simp: waitForBalanceIncrease_def split: prod.splits outcome.splits)

lemma signSubmit_extends:
  "signSubmit e c w tx kind src m a s = (r, s') \<Longrightarrow> kind \<in> set ks \<Longrightarrow> extends (in_kinds ks) s s'"
  unfolding signSubmit_def
  by (elim chks_extends [rotated -1]) (auto elim: pure_res_extends extends_on_env intro: extends_record)

lemma signSubmitConfirm_extends:
  "signSubmitConfirm e c w tx kind src m a s = (r, s') \<Longrightarrow> kind \<in> set ks \<Longrightarrow> extends (in_kinds ks) s s'"
  unfolding signSubmitConfirm_def
  by (elim chks_extends [rotated -1]) (auto elim: pure_res_extends signSubmit_extends wait_confirmed_extends)

lemma submit_swap_extends: "submit_swap e dx c w rq s = (r, s') \<Longrightarrow> extends K s s'"
  unfolding submit_swap_def
  by (elim chks_extends [rotated -1] | (auto elim: pure_res_extends extends_on_env split: if_splits)[1])+

lemma on_env_any: "extends K s (snd (on_env f s))"
  by (simp add: on_env_def split: prod.split)

lemma settle_trade_extends:
  assumes "settle_trade e c w u a b h s = (r, s')" and "''trade'' \<in> set ks" "''batch'' \<in> set ks"
  shows "extends (in_kinds ks) s s'"
proof -
  let ?s1 = "record_step e (tx_step ''trade'' ''dexhunter'' [] h a) s"
  let ?s2 = "record_step e (batch_step (Fmt ''waiting for DEX batch to deliver %s'' [AS (short u)])) ?s1"
  have "extends (in_kinds ks) s ?s1" "extends (in_kinds ks) ?s1 ?s2"
    using assms(2,3) by (auto intro!: extends_record)
  moreover have "extends (in_kinds ks) ?s2 s'"
    using assms(1) unfolding settle_trade_def Let_def
    by (elim chks_extends [rotated -1])
      (use assms(2,3) in \<open>auto elim: waitForBalanceIncrease_extends intro: extends_record\<close>)
  ultimately show ?thesis by (blast intro: extends_trans)
qed

lemma tradeAll_extends:
  assumes "tradeAll e c w f t s = (r, s')" "''trade'' \<in> set ks" "''batch'' \<in> set ks"
  shows "extends (in_kinds ks) s s'"
proof (cases "e_dex e")
  case None
  then show ?thesis using assms(1) by (simp add: tradeAll_def)
next
  case (Some dx)
  obtain d s0 where d: "on_env (unitDecimals e c f) s = (d, s0)" by fastforce
  have "extends (in_kinds ks) s0 s'"
    using assms(1) unfolding tradeAll_def Some d
    apply (simp only: option.case prod.case)
    apply (erule chks_extends [rotated -1])
     apply (erule extends_on_env)
    apply (auto simp: Let_def split: if_splits)
    apply (erule or_zero_extends [rotated -1])
     apply (erule extends_on_env)
    apply (erule or_zero_extends [rotated -1])
     apply (erule extends_on_env)
    apply (erule chks_extends [rotated -1])
     apply (erule submit_swap_extends)
    apply (erule settle_trade_extends [OF _ assms(2,3)])
    done
  then show ?thesis using extends_on_env [OF d] by (blast intro: extends_trans)
qed

section \<open>What a completed trade did\<close>

lemma increase_check_Inl:
  "increase_check ch addr u b a w = (Inl x, w') \<Longrightarrow> \<exists>n. AssetAt ch addr u w = (Inr n, w') \<and> b < n"
  by (cases "AssetAt ch addr u w") (auto simp: increase_check_def split: sum.splits if_splits)

lemma waitForBalanceIncrease_ok:
  assumes "waitForBalanceIncrease e c addr u b s = (Inr (), s')"
  shows "cur s' = cur s \<and> jobs s' = jobs s \<and> cancels s' = cancels s \<and>
    (\<exists>w0 n. AssetAt (e_chain e) addr u w0 = (Inr n, env s') \<and> b < n)"
proof -
  obtain x s1 where p: "poll_est e c batchPoll batchTimeout (increase_check (e_chain e) addr u b) () s = (Done x, s1)" "s' = s1"
    using assms by (auto simp: waitForBalanceIncrease_def split: prod.splits outcome.splits)
  obtain a' w0 where "increase_check (e_chain e) addr u b a' w0 = (Inl x, env s1)"
    using p(1) by (auto simp: poll_est_def split: prod.splits dest!: poll_Done)
  from increase_check_Inl [OF this] show ?thesis using poll_est_keeps [OF p(1)] p(2) by blast
qed

lemma waitForBalanceIncrease_cur: "waitForBalanceIncrease e c addr u b s = (r, s') \<Longrightarrow> cur s' = cur s"
  by (auto simp: waitForBalanceIncrease_def split: prod.splits outcome.splits dest: poll_est_keeps)

lemma Steps_record [simp]: "Steps (cur (record_step e st s)) = Steps (cur s) @ [stamp_step e st (clk s)]"
  by (simp add: record_step_def save_def)

lemma settle_trade_ok:
  assumes "settle_trade e c w u a b h s = (Inr (), s')"
  shows "\<exists>x y z. Steps (cur s') = Steps (cur s) @ [x, y, z] \<and> map st_Kind [x, y, z] = [''trade'', ''batch'', ''batch''] \<and>
    st_TxHash x = h \<and> st_Amount x = a \<and> (\<exists>w0 w1 n. AssetAt (e_chain e) (w_Address w) u w0 = (Inr n, w1) \<and> b < n)"
proof -
  let ?x = "tx_step ''trade'' ''dexhunter'' [] h a"
  let ?y = "batch_step (Fmt ''waiting for DEX batch to deliver %s'' [AS (short u)])"
  let ?z = "batch_step (Fmt (''batch filled '' @ utf8_emdash @ '' received %s'') [AS (short u)])"
  obtain v s3 where w: "waitForBalanceIncrease e c (w_Address w) u b (record_step e ?y (record_step e ?x s)) = (Inr v, s3)"
    "s' = record_step e ?z s3"
    using assms unfolding settle_trade_def Let_def chks_Inr by auto
  have v: "v = ()" by simp
  note ok = waitForBalanceIncrease_ok [OF w(1) [unfolded v]]
  have st: "Steps (cur s') = Steps (cur s) @ [stamp_step e ?x (clk s), stamp_step e ?y (clk s), stamp_step e ?z (clk s3)]"
    using ok by (simp add: w(2))
  have f: "map st_Kind [stamp_step e ?x (clk s), stamp_step e ?y (clk s), stamp_step e ?z (clk s3)] = [''trade'', ''batch'', ''batch'']"
    "st_TxHash (stamp_step e ?x (clk s)) = h" "st_Amount (stamp_step e ?x (clk s)) = a"
    by (simp_all add: stamp_step_def tx_step_def batch_step_def Let_def)
  obtain w0 n where n: "AssetAt (e_chain e) (w_Address w) u w0 = (Inr n, env s3)" "b < n" using ok by blast
  show ?thesis by (intro exI conjI) (rule st f n)+
qed

lemma or_zero_Inr: "or_zero m z k s = (r, s') \<Longrightarrow> \<exists>x s1 rm. m s = (rm, s1) \<and> x = (case rm of Inl er \<Rightarrow> z | Inr x \<Rightarrow> x) \<and> k x s1 = (r, s')"
  by (auto simp: or_zero_def split: prod.splits sum.splits)


section \<open>A concrete trade\<close>

text \<open>Every look at the chain finds one more of each native asset at the address, and 50 ADA.\<close>

definition demo_dex :: "nat dex_client" where
  "demo_dex = \<lparr>dx_BuildSwap = (\<lambda>c r w. (Inr ''01'', w)), dx_Sign = (\<lambda>c x y w. (Inr ''0d'', w)),
     dx_EstimateSwap = (\<lambda>c a i out s w. (Inr (Fin 1), w))\<rparr>"

definition demo_engine2 :: "nat engine" where
  "demo_engine2 = demo_engine\<lparr>
     e_chain := demo_chain\<lparr>ch_Utxos := (\<lambda>a w. (Inr [\<lparr>u_Coin = 50000000, u_Asset = (\<lambda>p n. int w), u_Cbor = Inr [1]\<rparr>], w + 1))\<rparr>,
     e_dex := Some demo_dex\<rparr>"

definition demo_wallet :: temp_wallet where
  "demo_wallet = \<lparr>w_Address = ''addr1'', w_Pkh = [], w_vkey = [5], w_skey = [6], w_stakeVkey = [7], w_stakeSkey = [8]\<rparr>"

definition demo_job :: job where
  "demo_job = \<lparr>ID = ''j1'', Owner = ''user'', Direction = Long, CollateralUnit = [], TargetUnit = ''aa'',
     j_InitialAmount = Fin 20, Leverage = Fin 1, Plan = None, TempAddress = ''addr1'', SealK = None,
     FundingLovelace = 50000000, FeeReserveLovelace = 30000000, Status = StatusRunning, Steps = [], Exposure = 0,
     j_HealthFactor = 0, EntryPrice = 0, CurrentPrice = 0, PnLPct = 0, LiqThreshold = 0, HealthUpdatedAt = 0,
     Error = errm [], CreatedAt = 0, UpdatedAt = 0\<rparr>"

definition demo_est :: "nat est" where
  "demo_est = \<lparr>env = 0, clk = 1, jobs = [], cancels = [''j1''], cur = demo_job\<rparr>"

lemma demo_amount: "toWhole 20000000 6 = Fin 20"
  using f64_pow10_exact [of 6] rep_of_int [of 20] f64_of_int_small [of 20000000]
  by (simp add: toWhole_def mk_rep f64_limit_def)

lemma demo_trade:
  "\<exists>s'. tradeAll demo_engine2 Background demo_wallet [] ''aa'' demo_est = (Inr (), s')"
proof -
  have d: "dec_hex ''01'' = Inr [1]" "dec_hex ''0d'' = Inr [13]" by (simp_all add: hex_val_def)
  have ws: "WitnessSetHex demo_crypto demo_wallet ''01'' = Inr []"
    by (simp only: WitnessSetHex_def witnessFor_def d)
      (simp add: demo_crypto_def demo_cbor_def demo_tx_def demo_wallet_def Let_def)
  have sub: "SubmitRaw (e_chain demo_engine2) Background ''0d'' w = (Inr ''ab'', w)" for w
    unfolding SubmitRaw_def d
    by (simp add: demo_engine2_def demo_engine_def submitTo_def chks_def demo_chain_def koiosBase_def trim_def)
  have as: "AssetAt (e_chain demo_engine2) ''addr1'' ''aa'' w = (Inr (i64 (int w)), w + 1)"
    "AssetAt (e_chain demo_engine2) ''addr1'' [] w = (Inr 50000000, w + 1)" for w
    by (simp_all add: AssetAt_def LovelaceAt_def chks_def total64_def demo_engine2_def demo_engine_def demo_chain_def
        splitUnit_def i64_def)
  obtain us where us: "UtxosCBOR (e_chain demo_engine2) ''addr1'' w = (Inr us, w + 1)" for w
    by (simp add: UtxosCBOR_def chks_def demo_engine2_def demo_engine_def demo_chain_def)
  have dx: "e_dex demo_engine2 = Some demo_dex" "e_crypto demo_engine2 = demo_crypto" "w_Address demo_wallet = ''addr1''"
    by (simp_all add: demo_engine2_def demo_engine_def demo_wallet_def)
  have sw: "submit_swap demo_engine2 demo_dex Background demo_wallet rq s = (Inr ''ab'', s)" for rq s
    by (simp add: submit_swap_def chks_def on_env_def dx demo_dex_def ws sub)
  have st: "\<exists>s'. settle_trade demo_engine2 Background demo_wallet ''aa'' a 1 h s = (Inr (), s')" if "env s = 3" for s a h
    using that by (simp add: settle_trade_def Let_def waitForBalanceIncrease_def poll_est_def poll.simps increase_check_def
        chks_def demo_wallet_def as i64_def)
  show ?thesis
    by (simp add: tradeAll_def dx on_env_def unitDecimals_def chks_def or_zero_def as us sw spendable_def demo_est_def
        demo_job_def i64_def demo_amount st Let_def)
qed


end
