(* ===== verification/Engine_Unwind.thy ===== *)
theory Engine_Unwind
  imports Engine_Tx
begin

text \<open>
  Closing a position (the unwind part of \<open>common/engine/engine.go\<close>): the rounds that repay or
  cancel everything open at the lending source, the tracked repay and the cancel through Surf, the
  sweep once the balance is stable, and \<open>unwindWith\<close>, which composes them.
\<close>

definition maxCloseRounds :: nat where "maxCloseRounds = 6"
definition closeRoundWait :: int where "closeRoundWait = 30 * second"
definition repayWithCollateralAutoSubmit :: bool where "repayWithCollateralAutoSubmit = True"
definition settlePollWait :: int where "settlePollWait = 15 * second"
definition settleStableN :: nat where "settleStableN = 3"
definition settleMaxWait :: int where "settleMaxWait = 4 * minute"

text \<open>\<open>time.Sleep\<close>.\<close>

definition go_sleep :: "'w engine \<Rightarrow> int \<Rightarrow> 'w est \<Rightarrow> 'w est" where
  "go_sleep e d s = (case select_wait (e_rt e) Background d (clk s) (env s) of (_, t, w) \<Rightarrow> s\<lparr>env := w, clk := t\<rparr>)"

section \<open>Submitting a close\<close>

definition submitTrackedRepay ::
  "'w engine \<Rightarrow> temp_wallet \<Rightarrow> 'w source \<Rightarrow> built_tx \<Rightarrow> string \<Rightarrow> 'w est \<Rightarrow> string res \<times> 'w est" where
  "submitTrackedRepay e w src built marketID s =
     (case src_Tracked src of
        None \<Rightarrow> (Inl (Fmt ''source %s does not support tracked submit'' [AS (src_Name src)]), s)
      | Some ts \<Rightarrow>
          if tracked_len built = 0 then (Inl (errm ''repayWithCollateral build returned no trackedOrder''), s)
          else chks (pure_res (PaymentWitness (e_crypto e) w (b_CBOR built))) (wrap ''repayWithCollateral witness: %w'') (\<lambda>witness.
               chks (on_env (ts_SubmitTracked ts Background (w_Address w) (b_CBOR built) witness (the (b_TrackedOrder built)))) id
                 (\<lambda>hash s. (Inr hash, record_step e (tx_step ''repayWithCollateral'' (src_Name src) marketID hash 0) s))) s)"

definition submitCancel ::
  "'w engine \<Rightarrow> temp_wallet \<Rightarrow> 'w source \<Rightarrow> built_tx \<Rightarrow> string \<Rightarrow> 'w est \<Rightarrow> string res \<times> 'w est" where
  "submitCancel e w src built marketID =
     (case src_Tracked src of
        None \<Rightarrow> signSubmitConfirm e Background w (b_CBOR built) ''cancel'' (src_Name src) marketID 0
      | Some ts \<Rightarrow>
          chks (pure_res (PaymentWitness (e_crypto e) w (b_CBOR built))) (wrap ''cancel witness: %w'') (\<lambda>tempWit.
          chks (on_env (ts_Assemble ts Background (w_Address w) (b_CBOR built) (tempWit # b_Witnesses built) False)) id (\<lambda>signedTx.
          chks (on_env (ts_Submit ts Background (w_Address w) signedTx)) (wrap ''cancel submit: %w'') (\<lambda>hash s.
          chks (wait_confirmed e Background hash) id (\<lambda>_. pure_res (Inr hash))
            (record_step e (tx_step ''cancel'' (src_Name src) marketID hash 0) s)))))"

section \<open>The rounds\<close>

text \<open>What the rounds remember: repaid markets, cancelled orders, markets whose stale repay was
  cancelled, and the flags of the function and of the current round.\<close>

record close_state =
  closedMarkets :: "string list"
  cancelledOrders :: "string list"
  cancelledRepayMarkets :: "string list"
  closedAny :: bool
  deferredRepay :: bool
  openLeft :: nat
  didSubmit :: bool

definition order_key :: "order \<Rightarrow> string" where
  "order_key o' = o_TxHash o' @ '':'' @ dec_int (o_OutputIndex o')"

datatype close_action = Skip | Defer | Close string

text \<open>The decision for one order: leave it, or close it by a cancel or by a repay from the collateral.\<close>

definition close_decision :: "close_state \<Rightarrow> order \<Rightarrow> close_action" where
  "close_decision cs o' =
     (if o_Status o' = OrderPending then
        (if order_key o' \<in> set (cancelledOrders cs) then Skip
         else if o_Type o' \<noteq> TypeBorrow \<and> o_MarketID o' \<in> set (closedMarkets cs) then Skip
         else Close ''cancel'')
      else if o_Status o' = OrderActive then
        (if o_MarketID o' \<in> set (closedMarkets cs) then Skip
         else if \<not> repayWithCollateralAutoSubmit then Defer
         else Close ''repayWithCollateral'')
      else Skip)"

definition close_req :: "'w source \<Rightarrow> temp_wallet \<Rightarrow> order \<Rightarrow> string \<Rightarrow> string list \<Rightarrow> close_params" where
  "close_req src w o' kind utxos =
     \<lparr>c_Source = src_Name src, c_MarketID = o_MarketID o', c_Address = w_Address w, c_Wallet = ''engine'',
      c_TxHash = o_TxHash o', c_OutputIndex = o_OutputIndex o', c_Kind = kind, c_ChangeAddress = w_Address w,
      c_OtherAddresses = [], c_UTXOs = utxos, c_Pkh = w_Pkh w, c_RedeemCollateral = True\<rparr>"

definition submit_close ::
  "'w engine \<Rightarrow> temp_wallet \<Rightarrow> 'w source \<Rightarrow> string \<Rightarrow> built_tx \<Rightarrow> string \<Rightarrow> 'w est \<Rightarrow> string res \<times> 'w est" where
  "submit_close e w src kind built marketID =
     (if kind = ''repayWithCollateral'' then submitTrackedRepay e w src built marketID
      else if kind = ''cancel'' then submitCancel e w src built marketID
      else signSubmitConfirm e Background w (b_CBOR built) kind (src_Name src) marketID 0)"

definition after_close :: "order \<Rightarrow> string \<Rightarrow> close_state \<Rightarrow> close_state" where
  "after_close o' kind cs =
     (let cs1 = cs\<lparr>closedAny := True, didSubmit := True\<rparr> in
      if kind = ''cancel'' then
        cs1\<lparr>cancelledOrders := order_key o' # cancelledOrders cs1,
            cancelledRepayMarkets := (if o_Type o' \<noteq> TypeBorrow then o_MarketID o' # cancelledRepayMarkets cs1
                                      else cancelledRepayMarkets cs1)\<rparr>
      else cs1\<lparr>closedMarkets := o_MarketID o' # closedMarkets cs1,
               cancelledRepayMarkets := filter (\<lambda>m. m \<noteq> o_MarketID o') (cancelledRepayMarkets cs1)\<rparr>)"

definition is_open_order :: "order \<Rightarrow> bool" where
  "is_open_order o' \<longleftrightarrow> o_Status o' = OrderPending \<or> o_Status o' = OrderActive"

definition close_order ::
  "'w engine \<Rightarrow> temp_wallet \<Rightarrow> 'w source \<Rightarrow> 'w tx_builder \<Rightarrow> order \<Rightarrow> close_state \<times> 'w est \<Rightarrow> close_state \<times> 'w est" where
  "close_order e w src tb o' = (\<lambda>(cs, s).
     let cs = (if is_open_order o' then cs\<lparr>openLeft := openLeft cs + 1\<rparr> else cs) in
     case close_decision cs o' of
       Skip \<Rightarrow> (cs, s)
     | Defer \<Rightarrow>
         if deferredRepay cs then (cs, s)
         else (cs\<lparr>deferredRepay := True\<rparr>, record_step e (status_step (errm (''repayWithCollateral deferred (Surf order-registration not yet wired) ''
                 @ utf8_emdash @ '' cancelling orphan orders instead''))) s)
     | Close kind \<Rightarrow>
         or_zero (on_env (UtxosCBOR (e_chain e) (w_Address w))) [] (\<lambda>utxos s.
         case on_env (tb_BuildClose tb Background (close_req src w o' kind utxos)) s of
           (Inl er, s) \<Rightarrow> (cs, s)
         | (Inr built, s) \<Rightarrow>
             (case submit_close e w src kind built (o_MarketID o') s of
                (Inl er, s) \<Rightarrow> (cs, s)
              | (Inr h, s) \<Rightarrow> (after_close o' kind cs, s))) s)"

definition awaiting_revert :: "close_state \<Rightarrow> bool" where
  "awaiting_revert cs \<longleftrightarrow> (\<exists>m \<in> set (cancelledRepayMarkets cs). m \<notin> set (closedMarkets cs))"

text \<open>\<open>close_rounds n\<close> runs the rounds that are left; the wait is only between rounds.\<close>

fun close_rounds ::
  "nat \<Rightarrow> 'w engine \<Rightarrow> temp_wallet \<Rightarrow> 'w source \<Rightarrow> 'w tx_builder \<Rightarrow> close_state \<Rightarrow> 'w est \<Rightarrow> close_state \<times> 'w est" where
  "close_rounds 0 e w src tb cs s = (cs, s)"
| "close_rounds (Suc n) e w src tb cs s =
     (case on_env (src_FetchOrders src Background \<lparr>q_Address = w_Address w, q_Limit = 0, q_Refresh = True\<rparr>) s of
        (Inl er, s) \<Rightarrow> (cs, s)
      | (Inr orders, s) \<Rightarrow>
          (case fold (close_order e w src tb) orders (cs\<lparr>openLeft := 0, didSubmit := False\<rparr>, s) of
             (cs, s) \<Rightarrow>
               if openLeft cs = 0 then (cs, s)
               else if \<not> didSubmit cs \<and> \<not> awaiting_revert cs then (cs, s)
               else close_rounds n e w src tb cs
                      (if 0 < n then go_sleep e closeRoundWait
                          (record_step e (batch_step (errm ''waiting for closes to settle, then re-checking'')) s)
                       else s)))"

definition close_init :: close_state where
  "close_init = \<lparr>closedMarkets = [], cancelledOrders = [], cancelledRepayMarkets = [], closedAny = False,
                 deferredRepay = False, openLeft = 0, didSubmit = False\<rparr>"

definition closeOpenOrders :: "'w engine \<Rightarrow> temp_wallet \<Rightarrow> 'w est \<Rightarrow> bool \<times> 'w est" where
  "closeOpenOrders e w s =
     (case (sourceByName e engineSource, builderFor e engineSource) of
        (Some src, Some tb) \<Rightarrow> (case close_rounds maxCloseRounds e w src tb close_init s of (cs, s) \<Rightarrow> (closedAny cs, s))
      | _ \<Rightarrow> (False, s))"

section \<open>The sweep\<close>

definition sweep :: "'w engine \<Rightarrow> temp_wallet \<Rightarrow> 'w est \<Rightarrow> unit res \<times> 'w est" where
  "sweep e w s =
     chks (on_env (BuildSweepTx (e_chain e) w (Owner (cur s)))) id (\<lambda>signed.
     chks (on_env (SubmitRaw (e_chain e) Background signed)) id (\<lambda>hash s.
     (Inr (), record_step e (step0\<lparr>st_Kind := ''sweep'', st_Note := errm ''swept funds back to user'', st_TxHash := hash\<rparr>) s))) s"

text \<open>The loop variables of the wait: the last balance and how many polls it was unchanged.\<close>

definition stable_check :: "'w chain \<Rightarrow> string \<Rightarrow> int \<times> nat \<Rightarrow> 'w \<Rightarrow> (unit + int \<times> nat) \<times> 'w" where
  "stable_check ch addr a w =
     (case a of (last_bal, n) \<Rightarrow>
       (case LovelaceAt ch addr w of
          (Inr bal, w1) \<Rightarrow>
            (if bal = last_bal then (if settleStableN \<le> n + 1 then Inl () else Inr (last_bal, n + 1))
             else Inr (bal, 0), w1)
        | (Inl er, w1) \<Rightarrow> (Inr (last_bal, n), w1)))"

definition waitBalanceStable :: "'w engine \<Rightarrow> gctx \<Rightarrow> string \<Rightarrow> 'w est \<Rightarrow> 'w est" where
  "waitBalanceStable e c addr s = snd (poll_est e c settlePollWait settleMaxWait (stable_check (e_chain e) addr) (-1, 0) s)"

definition sweepAll :: "'w engine \<Rightarrow> temp_wallet \<Rightarrow> 'w est \<Rightarrow> 'w est" where
  "sweepAll e w s = snd (sweep e w (waitBalanceStable e Background (w_Address w) s))"

section \<open>unwindWith\<close>

definition reversed_step :: "msg \<Rightarrow> step" where
  "reversed_step note = status_step note"

definition finish_reversed :: "'w engine \<Rightarrow> step \<Rightarrow> 'w est \<Rightarrow> 'w est" where
  "finish_reversed e st s = record_step e st (s\<lparr>cur := (cur s)\<lparr>Status := StatusReversed\<rparr>\<rparr>)"

definition unwindWith :: "'w engine \<Rightarrow> temp_wallet \<Rightarrow> 'w est \<Rightarrow> 'w est" where
  "unwindWith e w s =
     (let s = record_step e (status_step (errm (''unwinding '' @ utf8_emdash @ '' repay (from collateral) '' @ utf8_arrow
               @ '' sell '' @ utf8_arrow @ '' sweep''))) s;
          j = cur s; colUnit = fst (legUnits (Direction j) (CollateralUnit j) (TargetUnit j))
      in or_zero (on_env (AssetAt (e_chain e) (w_Address w) colUnit)) 0 (\<lambda>beforeCol s.
         case closeOpenOrders e w s of (anyClosed, s) \<Rightarrow>
         let s = (if anyClosed then snd (waitForBalanceIncrease e Background (w_Address w) colUnit beforeCol
                       (record_step e (batch_step (Fmt ''waiting for released collateral (%s)'' [AS (short colUnit)])) s))
                  else s);
             s = snd (tradeAll e Background w (TargetUnit j) (CollateralUnit j) s);
             s = sweepAll e w s
         in finish_reversed e (status_step (Fmt (''REVERSED '' @ utf8_emdash @ '' swept back to %s'') [AS (short (Owner j))])) s) s)"

definition open_seal :: "'w engine \<Rightarrow> job \<Rightarrow> temp_wallet res" where
  "open_seal e j = (case SealK j of None \<Rightarrow> Inl (errm ''panic: nil pointer dereference'')
     | Some k \<Rightarrow> Open_key (e_crypto e) k (e_encSecret e) (e_network e))"

definition unwind :: "'w engine \<Rightarrow> 'w est \<Rightarrow> 'w est" where
  "unwind e s = (case open_seal e (cur s) of
     Inl er \<Rightarrow> fail e (wrap ''unwind open key: %w'' er) s
   | Inr w \<Rightarrow> unwindWith e w s)"

section \<open>What an unwind keeps\<close>

definition unwind_kinds :: "string list" where
  "unwind_kinds = [''status'', ''batch'', ''trade'', ''sweep'', ''cancel'', ''repayWithCollateral'']"

abbreviation unwinding :: "step \<Rightarrow> bool" where
  "unwinding \<equiv> in_kinds unwind_kinds"

lemma go_sleep_keeps [simp]: "cur (go_sleep e d s) = cur s" "jobs (go_sleep e d s) = jobs s" "cancels (go_sleep e d s) = cancels s"
  by (simp_all add: go_sleep_def split: prod.splits)

lemma go_sleep_extends: "extends K s (go_sleep e d s)"
  using select_wait_time [of "e_rt e" Background d "clk s" "env s"]
  by (auto simp: go_sleep_def split: prod.splits intro: step_rules)

lemma submitTrackedRepay_steps:
  "submitTrackedRepay e w src b m s = (r, s') \<Longrightarrow> extends (\<lambda>st. st_Kind st = ''repayWithCollateral'' \<and> st_MarketID st = m) s s' \<and>
     length (Steps (cur s')) = length (Steps (cur s)) + (if is_ok r then 1 else 0)"
  by (auto simp: submitTrackedRepay_def chks_def on_env_def tx_step_def extends_def record_step_def save_def
      split: option.splits if_splits prod.splits sum.splits)

definition cancel_step :: "step \<Rightarrow> bool" where
  "cancel_step st \<longleftrightarrow> st_Kind st = ''cancel''"

lemma in_kinds_cancel: "in_kinds [''cancel''] = cancel_step"
  by (simp add: fun_eq_iff in_kinds_def cancel_step_def)

lemma submitCancel_extends:
  assumes "submitCancel e w src b m s = (r, s')"
  shows "extends cancel_step s s'"
proof (cases "src_Tracked src")
  case None
  then show ?thesis using assms signSubmitConfirm_extends [of e Background w "b_CBOR b" "''cancel''" _ m 0 s r s' "[''cancel'']"]
    by (simp add: submitCancel_def in_kinds_cancel)
next
  case (Some ts)
  have rec: "extends cancel_step s1 (record_step e (tx_step ''cancel'' n m h a) s1)" for s1 :: "'a est" and n h a
    by (rule extends_record) (simp add: cancel_step_def tx_step_def)
  have wt: "chks (wait_confirmed e Background h) id (\<lambda>_. pure_res (Inr h)) s1 = (r', s2) \<Longrightarrow> extends cancel_step s1 s2"
    for s1 s2 :: "'a est" and h and r' :: "string res"
    by (erule chks_extends [rotated -1]) (auto elim: wait_confirmed_extends)
  show ?thesis using assms unfolding submitCancel_def Some option.case
    apply (elim chks_extends [rotated -1])
        apply (auto elim: pure_res_extends extends_on_env)
    apply (erule extends_trans [OF rec wt])
    done
qed

lemma extends_filter: "extends K s t \<Longrightarrow> (\<And>st. K st \<Longrightarrow> \<not> P st) \<Longrightarrow> filter P (Steps (cur t)) = filter P (Steps (cur s))"
  by (auto simp: extends_def filter_empty_conv)

text \<open>The recorded repays of a market.\<close>

definition is_repay :: "string \<Rightarrow> step \<Rightarrow> bool" where
  "is_repay m st \<longleftrightarrow> st_Kind st = ''repayWithCollateral'' \<and> st_MarketID st = m"

definition repays :: "string \<Rightarrow> job \<Rightarrow> nat" where
  "repays m j = length (filter (is_repay m) (Steps j))"

lemma repays_extends: "extends K s t \<Longrightarrow> (\<And>st. K st \<Longrightarrow> \<not> is_repay m st) \<Longrightarrow> repays m (cur t) = repays m (cur s)"
  by (simp add: repays_def extends_filter)

lemma submitTrackedRepay_repays:
  assumes "submitTrackedRepay e w src b m s = (r, s')"
  shows "extends unwinding s s' \<and> repays n (cur s') = repays n (cur s) + (if is_ok r \<and> n = m then 1 else 0)"
  using assms
  by (auto simp: submitTrackedRepay_def chks_def on_env_def repays_def is_repay_def extends_def record_step_def
      save_def stamp_step_def tx_step_def in_kinds_def unwind_kinds_def Let_def
      split: option.splits if_splits prod.splits sum.splits)

lemma decision_kinds: "close_decision cs o' = Close k \<Longrightarrow> k = ''cancel'' \<or> k = ''repayWithCollateral'' \<and> o_MarketID o' \<notin> set (closedMarkets cs)"
  by (auto simp: close_decision_def split: if_splits)

lemma submit_close_effect:
  assumes "submit_close e w src k b m s = (r, s')" and "k = ''cancel'' \<or> k = ''repayWithCollateral''"
  shows "extends unwinding s s' \<and>
     repays n (cur s') = repays n (cur s) + (if is_ok r \<and> n = m \<and> k = ''repayWithCollateral'' then 1 else 0)"
proof (cases "k = ''cancel''")
  case True
  then have x: "extends cancel_step s s'"
    using assms by (auto simp: submit_close_def intro: submitCancel_extends)
  then have "extends unwinding s s'"
    by (rule extends_mono) (auto simp: cancel_step_def in_kinds_def unwind_kinds_def)
  moreover have "repays n (cur s') = repays n (cur s)"
    by (rule repays_extends [OF x]) (auto simp: cancel_step_def is_repay_def)
  ultimately show ?thesis using True by simp
next
  case False
  then show ?thesis using assms submitTrackedRepay_repays [of e w src b m s r s' n] by (simp add: submit_close_def)
qed

text \<open>The invariant of the rounds: a market is remembered as repaid exactly when its repay was recorded, once.\<close>

definition close_inv :: "'w est \<Rightarrow> close_state \<Rightarrow> 'w est \<Rightarrow> bool" where
  "close_inv s0 cs s \<longleftrightarrow> extends unwinding s0 s \<and>
     (\<forall>m. repays m (cur s) = repays m (cur s0) + (if m \<in> set (closedMarkets cs) then 1 else 0))"

lemma close_inv_quiet:
  "close_inv s0 cs s \<Longrightarrow> extends unwinding s s' \<Longrightarrow> (\<And>m. repays m (cur s') = repays m (cur s)) \<Longrightarrow>
     closedMarkets cs' = closedMarkets cs \<Longrightarrow> close_inv s0 cs' s'"
  by (auto simp: close_inv_def intro: extends_trans)

lemma repays_record: "st_Kind st \<noteq> ''repayWithCollateral'' \<Longrightarrow> repays m (cur (record_step e st s)) = repays m (cur s)"
  by (simp add: repays_def is_repay_def)

lemma unwinding_record: "in_kinds unwind_kinds st \<Longrightarrow> extends unwinding s (record_step e st s)"
  by (rule extends_record) simp

lemma close_order_inv:
  assumes "close_inv s0 cs s" "close_order e w src tb o' (cs, s) = (cs', s')"
  shows "close_inv s0 cs' s'"
proof -
  define c1 where "c1 = (if is_open_order o' then cs\<lparr>openLeft := openLeft cs + 1\<rparr> else cs)"
  have I: "close_inv s0 c1 s" using assms(1) by (simp add: c1_def close_inv_def)
  show ?thesis
  proof (cases "close_decision c1 o'")
    case Skip
    then show ?thesis using assms(2) I by (simp add: close_order_def c1_def [symmetric] Let_def)
  next
    case Defer
    then show ?thesis using assms(2) I
      by (auto simp: close_order_def c1_def [symmetric] Let_def repays_record in_kinds_def unwind_kinds_def
          split: if_splits elim!: close_inv_quiet intro!: unwinding_record)
  next
    case (Close k)
    obtain u s1 where u: "on_env (UtxosCBOR (e_chain e) (w_Address w)) s = (u, s1)" by fastforce
    obtain b s2 where b: "on_env (tb_BuildClose tb Background (close_req src w o' k (case u of Inl er \<Rightarrow> [] | Inr x \<Rightarrow> x))) s1 = (b, s2)"
      by fastforce
    have c2: "cur s2 = cur s" and x2: "extends unwinding s s2"
      using u b by (auto simp: on_env_simps extends_def)
    have I2: "close_inv s0 c1 s2" using I x2 by (rule close_inv_quiet) (simp_all add: c2)
    show ?thesis
    proof (cases b)
      case (Inl er)
      then show ?thesis using assms(2) I2 Close u b
        by (cases u) (auto simp: close_order_def c1_def [symmetric] Let_def or_zero_def)
    next
      case (Inr built)
      obtain r s3 where r: "submit_close e w src k built (o_MarketID o') s2 = (r, s3)" by fastforce
      have k: "k = ''cancel'' \<or> k = ''repayWithCollateral''" using decision_kinds [OF Close] by blast
      note eff = submit_close_effect [OF r k]
      have res: "s' = s3" "cs' = (case r of Inl er \<Rightarrow> c1 | Inr h \<Rightarrow> after_close o' k c1)"
        using assms(2) Close u b Inr r
        by (cases u; cases r; auto simp: close_order_def c1_def [symmetric] Let_def or_zero_def)+
      show ?thesis
      proof (cases r)
        case (Inl er)
        have "close_inv s0 c1 s3" using I2 by (rule close_inv_quiet) (use eff Inl in auto)
        then show ?thesis using res Inl by simp
      next
        case r: (Inr h)
        have "closedMarkets cs' = (if k = ''cancel'' then closedMarkets c1 else o_MarketID o' # closedMarkets c1)"
          using res r by (simp add: after_close_def Let_def)
        then show ?thesis using I2 eff r res(1) decision_kinds [OF Close]
          by (auto simp: close_inv_def intro: extends_trans)
      qed
    qed
  qed
qed

lemma close_fold_inv:
  "close_inv s0 cs s \<Longrightarrow> fold (close_order e w src tb) os (cs, s) = (cs', s') \<Longrightarrow> close_inv s0 cs' s'"
proof (induction os arbitrary: cs s)
  case (Cons o' os)
  obtain c1 s1 where "close_order e w src tb o' (cs, s) = (c1, s1)" by fastforce
  then show ?case using Cons close_order_inv by (metis fold_simps(2))
qed simp

lemma close_rounds_inv:
  "close_inv s0 cs s \<Longrightarrow> close_rounds n e w src tb cs s = (cs', s') \<Longrightarrow> close_inv s0 cs' s'"
proof (induction n arbitrary: cs s)
  case (Suc n)
  obtain r s1 where r: "on_env (src_FetchOrders src Background \<lparr>q_Address = w_Address w, q_Limit = 0, q_Refresh = True\<rparr>) s = (r, s1)"
    by fastforce
  then have c: "cur s1 = cur s" and x: "extends unwinding s s1" by (auto simp: on_env_simps extends_def)
  have I1: "close_inv s0 cs s1" using Suc.prems(1) x by (rule close_inv_quiet) (simp_all add: c)
  show ?case
  proof (cases r)
    case (Inl er)
    then show ?thesis using Suc.prems(2) r I1 by simp
  next
    case (Inr orders)
    obtain c2 s2 where f: "fold (close_order e w src tb) orders (cs\<lparr>openLeft := 0, didSubmit := False\<rparr>, s1) = (c2, s2)"
      by fastforce
    have "close_inv s0 (cs\<lparr>openLeft := 0, didSubmit := False\<rparr>) s1" using I1 by (simp add: close_inv_def)
    from close_fold_inv [OF this f] have I2: "close_inv s0 c2 s2" .
    let ?s3 = "go_sleep e closeRoundWait (record_step e (batch_step (errm ''waiting for closes to settle, then re-checking'')) s2)"
    have "extends unwinding s2 ?s3"
      by (rule extends_trans [OF unwinding_record go_sleep_extends]) (simp add: unwind_kinds_def)
    then have I3: "close_inv s0 c2 ?s3" by (rule close_inv_quiet [OF I2]) (simp_all add: repays_record)
    then show ?thesis using Suc.prems(2) r Inr f I2 by (auto split: if_splits intro: Suc.IH)
  qed
qed simp

lemma closeOpenOrders_inv:
  assumes "closeOpenOrders e w s = (any, s')"
  shows "extends unwinding s s' \<and> repays m (cur s') \<le> repays m (cur s) + 1"
proof (cases "sourceByName e engineSource")
  case None
  then show ?thesis using assms by (simp add: closeOpenOrders_def)
next
  case src: (Some src)
  show ?thesis
  proof (cases "builderFor e engineSource")
    case None
    then show ?thesis using assms src by (simp add: closeOpenOrders_def)
  next
    case (Some tb)
    obtain cs s1 where r: "close_rounds maxCloseRounds e w src tb close_init s = (cs, s1)" by fastforce
    have "close_inv s close_init s" by (simp add: close_inv_def close_init_def)
    from close_rounds_inv [OF this r] show ?thesis
      using assms src Some r by (auto simp: closeOpenOrders_def close_inv_def)
  qed
qed

lemma poll_est_snd: "extends K s (snd (poll_est e c d t b a s)) \<and> cur (snd (poll_est e c d t b a s)) = cur s"
  using poll_est_keeps [of e c d t b a s] by (metis prod.collapse)

lemma sweepAll_steps:
  "extends (\<lambda>st. st_Kind st = ''sweep'') (waitBalanceStable e Background (w_Address w) s) (sweepAll e w s)"
proof -
  let ?s1 = "waitBalanceStable e Background (w_Address w) s"
  have "extends (\<lambda>st. st_Kind st = ''sweep'') ?s1 s'" if "sweep e w ?s1 = (r, s')" for r s'
    using that unfolding sweep_def
    apply (elim chks_extends [rotated -1])
     apply (auto elim: extends_on_env)
    apply (rule extends_record)
    apply simp
    done
  from this [OF prod.collapse [symmetric]] show ?thesis by (simp add: sweepAll_def)
qed

lemma sweepAll_extends: "extends unwinding s (sweepAll e w s)"
proof -
  have "extends unwinding s (waitBalanceStable e Background (w_Address w) s)"
    unfolding waitBalanceStable_def by (rule poll_est_snd [THEN conjunct1])
  then show ?thesis
    by (rule extends_trans [OF _ extends_mono [OF sweepAll_steps]]) (simp add: in_kinds_def unwind_kinds_def)
qed

lemma sweepAll_repays: "repays m (cur (sweepAll e w s)) = repays m (cur s)"
proof -
  have "cur (waitBalanceStable e Background (w_Address w) s) = cur s"
    unfolding waitBalanceStable_def by (rule poll_est_snd [THEN conjunct2])
  then show ?thesis using repays_extends [OF sweepAll_steps, of m e w s] by (simp add: is_repay_def)
qed

text \<open>The stages of an unwind, and what each leaves of the job.\<close>

lemma unwindWith_stages:
  "\<exists>s1 s2 s3 b. unwindWith e w s = finish_reversed e (status_step (Fmt (''REVERSED '' @ utf8_emdash @ '' swept back to %s'') [AS (short (Owner (cur s)))])) s3
     \<and> closeOpenOrders e w s1 = (b, s2) \<and> extends unwinding s s1 \<and> (\<forall>m. repays m (cur s1) = repays m (cur s)) \<and>
     extends unwinding s2 s3 \<and> (\<forall>m. repays m (cur s3) = repays m (cur s2))"
proof -
  let ?msg = "status_step (errm (''unwinding '' @ utf8_emdash @ '' repay (from collateral) '' @ utf8_arrow @ '' sell '' @ utf8_arrow @ '' sweep''))"
  define s0 where "s0 = record_step e ?msg s"
  define j where "j = cur s0"
  define col where "col = fst (legUnits (Direction j) (CollateralUnit j) (TargetUnit j))"
  have ow: "Owner j = Owner (cur s)" by (simp add: j_def s0_def record_step_def save_def)
  obtain rb s1 where b: "on_env (AssetAt (e_chain e) (w_Address w) col) s0 = (rb, s1)" by fastforce
  define before where "before = (case rb of Inl er \<Rightarrow> 0 | Inr x \<Rightarrow> x)"
  obtain any s2 where c: "closeOpenOrders e w s1 = (any, s2)" by fastforce
  define w2 where "w2 = record_step e (batch_step (Fmt ''waiting for released collateral (%s)'' [AS (short col)])) s2"
  define s3 where "s3 = (if any then snd (waitForBalanceIncrease e Background (w_Address w) col before w2) else s2)"
  define s4 where "s4 = snd (tradeAll e Background w (TargetUnit j) (CollateralUnit j) s3)"
  have u: "unwindWith e w s = finish_reversed e (status_step (Fmt (''REVERSED '' @ utf8_emdash @ '' swept back to %s'') [AS (short (Owner j))])) (sweepAll e w s4)"
    using b c unfolding unwindWith_def Let_def s0_def [symmetric] j_def [symmetric] col_def [symmetric]
    by (cases rb) (simp_all add: or_zero_def before_def s3_def s4_def w2_def)
  have x01: "extends unwinding s s0" unfolding s0_def by (rule unwinding_record) (simp add: unwind_kinds_def)
  have x1: "extends unwinding s s1" by (rule extends_trans [OF x01 extends_on_env [OF b]])
  have r1: "repays m (cur s1) = repays m (cur s)" for m
    using b by (auto simp: on_env_simps s0_def repays_record)
  have w2: "extends unwinding s2 w2" "repays m (cur w2) = repays m (cur s2)" for m
    unfolding w2_def by (rule unwinding_record) (simp_all add: unwind_kinds_def repays_record)
  have wt: "extends unwinding w2 (snd (waitForBalanceIncrease e Background (w_Address w) col before w2))"
    "cur (snd (waitForBalanceIncrease e Background (w_Address w) col before w2)) = cur w2"
    using waitForBalanceIncrease_extends waitForBalanceIncrease_cur by (metis prod.collapse)+
  have x3: "extends unwinding s2 s3" and r3: "repays m (cur s3) = repays m (cur s2)" for m
    using w2 extends_trans [OF w2(1) wt(1)] wt(2) by (auto simp: s3_def)
  obtain rt where t: "tradeAll e Background w (TargetUnit j) (CollateralUnit j) s3 = (rt, s4)"
    unfolding s4_def by (metis prod.collapse)
  have x4: "extends unwinding s3 s4" by (rule tradeAll_extends [OF t]) (simp_all add: unwind_kinds_def)
  have r4: "repays m (cur s4) = repays m (cur s3)" for m
    by (rule repays_extends [OF tradeAll_extends [OF t, of "[''trade'', ''batch'']"]])
      (auto simp: in_kinds_def is_repay_def)
  have "extends unwinding s2 (sweepAll e w s4)"
    by (rule extends_trans [OF x3 extends_trans [OF x4 sweepAll_extends]])
  moreover have "repays m (cur (sweepAll e w s4)) = repays m (cur s2)" for m
    by (simp add: sweepAll_repays r4 r3)
  ultimately show ?thesis using u x1 r1 c unfolding ow by blast
qed

lemma finish_reversed_extends: "st_Kind st \<in> set unwind_kinds \<Longrightarrow> extends unwinding s (finish_reversed e st s)"
  unfolding finish_reversed_def
  by (rule extends_trans [OF extends_status unwinding_record]) (simp add: in_kinds_def)

lemma unwindWith_extends: "extends unwinding s (unwindWith e w s)"
proof -
  from unwindWith_stages [of e w s] obtain s1 s2 s3 b st where
    "unwindWith e w s = finish_reversed e (status_step st) s3" "closeOpenOrders e w s1 = (b, s2)"
    "extends unwinding s s1" "extends unwinding s2 s3" by blast
  moreover have "extends unwinding s1 s2" using calculation(2) closeOpenOrders_inv by blast
  moreover have "extends unwinding s3 (finish_reversed e (status_step st) s3)"
    by (rule finish_reversed_extends) (simp add: unwind_kinds_def)
  ultimately show ?thesis by (metis extends_trans)
qed

lemma unwindWith_status: "Status (cur (unwindWith e w s)) = StatusReversed \<and>
    store_Get (jobs (unwindWith e w s)) (ID (cur s)) = Inr (cur (unwindWith e w s))"
proof -
  from unwindWith_stages [of e w s] obtain s3 st where
    u: "unwindWith e w s = finish_reversed e (status_step st) s3" by blast
  have i: "ID (cur (unwindWith e w s)) = ID (cur s)" by (rule extends_ID [OF unwindWith_extends])
  have "Status (cur (unwindWith e w s)) = StatusReversed" by (simp add: u finish_reversed_def)
  moreover have "store_Get (jobs (unwindWith e w s)) (ID (cur s3)) = Inr (cur (unwindWith e w s))"
    using record_stored [of e "status_step st" "s3\<lparr>cur := (cur s3)\<lparr>Status := StatusReversed\<rparr>\<rparr>"]
    by (simp add: u finish_reversed_def)
  moreover have "ID (cur s3) = ID (cur s)" using i by (simp add: u finish_reversed_def)
  ultimately show ?thesis by simp
qed



end
