(* ===== verification/Engine_Loop.thy ===== *)
theory Engine_Loop
  imports Engine_Unwind
begin

text \<open>
  The build loop (\<open>common/engine/engine.go\<close>): \<open>openLeg\<close>, which lends what is held and borrows against
  it, and \<open>run\<close>, which drives a position from its recorded progress to open, failed or reversed. A job
  without a plan, which \<open>Open\<close> never makes, is run with the empty plan.
\<close>

definition plan_zero :: plan where
  "plan_zero = \<lparr>pl_Direction = [], InitialAmount = 0, TargetLeverage = 0, AchievedLeverage = 0, LegLTV = 0,
                Legs = [], TotalExposure = 0, TotalBorrowed = 0\<rparr>"

definition plan_of :: "job \<Rightarrow> plan" where
  "plan_of j = (case Plan j of None \<Rightarrow> plan_zero | Some p \<Rightarrow> p)"

section \<open>openLeg\<close>

definition leg_params :: "market \<Rightarrow> temp_wallet \<Rightarrow> string \<Rightarrow> string list \<Rightarrow> tx_params" where
  "leg_params m w colUnit utxos =
     \<lparr>p_Source = m_Source m, p_Action = [], p_MarketID = m_PoolID m, p_Amount = 0, p_CollateralAmount = 0,
      p_CollateralUnit = colUnit, p_Full = False, p_Wallet = ''engine'', p_Address = w_Address w,
      p_ChangeAddress = w_Address w, p_OtherAddresses = [], p_UTXOs = utxos\<rparr>"

text \<open>Surf: one transaction borrows against inline collateral; the proceeds come with the batch.\<close>

definition open_surf ::
  "'w engine \<Rightarrow> gctx \<Rightarrow> temp_wallet \<Rightarrow> 'w tx_builder \<Rightarrow> market \<Rightarrow> tx_params \<Rightarrow> string \<Rightarrow> f64 \<Rightarrow> f64 \<Rightarrow> 'w est \<Rightarrow> unit res \<times> 'w est" where
  "open_surf e c w tb m common borrowUnit borrowWhole supply =
     or_zero (on_env (AssetAt (e_chain e) (w_Address w) borrowUnit)) 0 (\<lambda>beforeBorrow.
     chks (on_env (tb_BuildBorrow tb c (common\<lparr>p_Action := ''borrow'', p_Amount := borrowWhole, p_CollateralAmount := supply\<rparr>)))
          (wrap ''surf borrow build: %w'') (\<lambda>tx.
     chks (signSubmitConfirm e c w (b_CBOR tx) ''borrow'' (m_Source m) (m_PoolID m) borrowWhole) id (\<lambda>_ s.
     chks (waitForBalanceIncrease e c (w_Address w) borrowUnit beforeBorrow) (wrap ''wait borrow proceeds: %w'') (\<lambda>_ s.
     (Inr (), record_step e (batch_step (Fmt ''borrow proceeds received (%s)'' [AS (short borrowUnit)])) s))
       (record_step e (batch_step (Fmt ''waiting for Surf to deliver borrowed %s'' [AS (short borrowUnit)])) s))))"

text \<open>A pooled market (not selected at present): supply, then borrow.\<close>

definition open_pooled ::
  "'w engine \<Rightarrow> gctx \<Rightarrow> temp_wallet \<Rightarrow> 'w tx_builder \<Rightarrow> market \<Rightarrow> tx_params \<Rightarrow> f64 \<Rightarrow> f64 \<Rightarrow> 'w est \<Rightarrow> unit res \<times> 'w est" where
  "open_pooled e c w tb m common borrowWhole supply =
     chks (on_env (tb_BuildSupply tb c (common\<lparr>p_Action := ''supply'', p_Amount := supply\<rparr>))) (wrap ''supply build: %w'') (\<lambda>supplyTx.
     chks (signSubmitConfirm e c w (b_CBOR supplyTx) ''supply'' (m_Source m) (m_PoolID m) supply) id (\<lambda>_.
     or_zero (on_env (UtxosCBOR (e_chain e) (w_Address w))) [] (\<lambda>utxos2.
     chks (on_env (tb_BuildBorrow tb c (common\<lparr>p_UTXOs := utxos2, p_Action := ''borrow'', p_Amount := borrowWhole,
             p_CollateralAmount := supply\<rparr>))) (wrap ''borrow build: %w'') (\<lambda>borrowTx.
     chks (signSubmitConfirm e c w (b_CBOR borrowTx) ''borrow'' (m_Source m) (m_PoolID m) borrowWhole) id (\<lambda>_.
     pure_res (Inr ()))))))"

definition openLeg ::
  "'w engine \<Rightarrow> gctx \<Rightarrow> temp_wallet \<Rightarrow> market \<Rightarrow> string \<Rightarrow> string \<Rightarrow> 'w est \<Rightarrow> unit res \<times> 'w est" where
  "openLeg e c w m colUnit borrowUnit s =
     (case builderFor e (m_Source m) of
        None \<Rightarrow> (Inl (Fmt ''source %s has no tx builder'' [AS (m_Source m)]), s)
      | Some tb \<Rightarrow>
          let colDec = decimalsForUnit m colUnit; j = cur s in
          chks (on_env (AssetAt (e_chain e) (w_Address w) colUnit)) (wrap ''read collateral: %w'') (\<lambda>heldRaw.
          let supply = toWhole (spendable j colUnit heldRaw) colDec in
          if supply \<le> 0 then pure_res (Inl (errm ''no collateral held to supply''))
          else chks (on_env (borrowAmount e c m colUnit borrowUnit supply (LegLTV (plan_of j)))) (wrap ''size borrow: %w'') (\<lambda>borrowWhole.
          if borrowWhole \<le> 0 then pure_res (Inl (errm ''computed borrow amount <= 0''))
          else or_zero (on_env (UtxosCBOR (e_chain e) (w_Address w))) [] (\<lambda>utxos.
          if equal_fold (m_Source m) ''surf''
          then open_surf e c w tb m (leg_params m w colUnit utxos) borrowUnit borrowWhole supply
          else open_pooled e c w tb m (leg_params m w colUnit utxos) borrowWhole supply))) s)"

section \<open>run\<close>

text \<open>
  A phase of \<open>run\<close> either has returned (\<open>Inl\<close>) or goes on (\<open>Inr\<close>). \<open>failOrUnwind\<close> is the closure of that
  name: after an error, a cancelled context means a reversal.
\<close>

definition failOrUnwind :: "'w engine \<Rightarrow> temp_wallet \<Rightarrow> msg \<Rightarrow> 'w est \<Rightarrow> 'w est" where
  "failOrUnwind e w er s = (if cancelled e LoopCtx s then unwindWith e w s else fail e er s)"

definition initial_phase :: "'w engine \<Rightarrow> temp_wallet \<Rightarrow> bool \<Rightarrow> bool \<Rightarrow> 'w est \<Rightarrow> 'w est + 'w est" where
  "initial_phase e w tradedAlready resuming s =
     (let j = cur s in
      if Direction j = Long \<and> \<not> tradedAlready then
        if cancelled e LoopCtx s then Inl (unwindWith e w s)
        else (case tradeAll e LoopCtx w (CollateralUnit j) (TargetUnit j) s of
                (Inl er, s) \<Rightarrow> Inl (failOrUnwind e w (wrap ''initial trade: %w'' er) s)
              | (Inr _, s) \<Rightarrow> Inr s)
      else if resuming \<and> Direction j = Long then
        (case on_env (AssetAt (e_chain e) (w_Address w) (CollateralUnit j)) s of
           (Inl er, s) \<Rightarrow> Inr s
         | (Inr baseRaw, s) \<Rightarrow>
             if 2000000 < i64 (baseRaw - FeeReserveLovelace j) then
               (case tradeAll e LoopCtx w (CollateralUnit j) (TargetUnit j) s of
                  (Inl er, s) \<Rightarrow> Inl (failOrUnwind e w (wrap ''resume catch-up trade: %w'' er) s)
                | (Inr _, s) \<Rightarrow> Inr s)
             else Inr s)
      else Inr s)"

definition leg_trade :: "'w engine \<Rightarrow> temp_wallet \<Rightarrow> 'w est \<Rightarrow> unit res \<times> 'w est" where
  "leg_trade e w s = (let j = cur s in
     if Direction j = Long then tradeAll e LoopCtx w (CollateralUnit j) (TargetUnit j) s
     else tradeAll e LoopCtx w (TargetUnit j) (CollateralUnit j) s)"

definition one_leg :: "'w engine \<Rightarrow> temp_wallet \<Rightarrow> string \<Rightarrow> string \<Rightarrow> nat \<Rightarrow> 'w est \<Rightarrow> 'w est + 'w est" where
  "one_leg e w colUnit borrowUnit i s =
     (if cancelled e LoopCtx s then Inl (unwindWith e w s)
      else
        let s = record_step e (step0\<lparr>st_Kind := ''leg'', st_Note := Fmt ''leg %d/%d start''
                   [AI (int i + 1), AI (int (length (Legs (plan_of (cur s)))))]\<rparr>) s in
        case on_env (pickBorrowMarket e LoopCtx colUnit borrowUnit) s of
          (Inl er, s) \<Rightarrow> Inl (failOrUnwind e w (Fmt ''leg %d pick market: %w'' [AI (int i), AM er]) s)
        | (Inr m, s) \<Rightarrow>
            (case openLeg e LoopCtx w m colUnit borrowUnit s of
               (Inl er, s) \<Rightarrow> Inl (failOrUnwind e w (Fmt ''leg %d: %w'' [AI (int i), AM er]) s)
             | (Inr _, s) \<Rightarrow>
                 (case leg_trade e w s of
                    (Inl er, s) \<Rightarrow> Inl (failOrUnwind e w (Fmt ''leg %d trade: %w'' [AI (int i), AM er]) s)
                  | (Inr _, s) \<Rightarrow> Inr s)))"

fun legs_loop :: "'w engine \<Rightarrow> temp_wallet \<Rightarrow> string \<Rightarrow> string \<Rightarrow> nat \<Rightarrow> nat \<Rightarrow> 'w est \<Rightarrow> 'w est + 'w est" where
  "legs_loop e w colUnit borrowUnit i 0 s = Inr s"
| "legs_loop e w colUnit borrowUnit i (Suc n) s =
     (case one_leg e w colUnit borrowUnit i s of
        Inl s \<Rightarrow> Inl s
      | Inr s \<Rightarrow> legs_loop e w colUnit borrowUnit (i + 1) n s)"

text \<open>The end of \<open>run\<close>: the late cancel is checked and the registration dropped under one lock.\<close>

definition finalize :: "'w engine \<Rightarrow> temp_wallet \<Rightarrow> 'w est \<Rightarrow> 'w est" where
  "finalize e w s =
     (if cancelled e LoopCtx s then unwindWith e w s
      else let s = unregister (ID (cur s)) s; p = plan_of (cur s);
               s = s\<lparr>cur := (cur s)\<lparr>Status := StatusOpen, Exposure := TotalExposure p\<rparr>\<rparr>
           in record_step e (status_step (Fmt (''position OPEN '' @ utf8_emdash @ '' %.2fx exposure'') [AF (AchievedLeverage p)])) s)"

definition resume_note :: "job \<Rightarrow> bool \<Rightarrow> nat \<Rightarrow> msg" where
  "resume_note j resuming completed =
     (if resuming then Fmt ''resuming %s position from leg %d/%d''
            [AS (Direction j), AI (int completed + 1), AI (int (length (Legs (plan_of j))))]
      else Fmt ''building %s position, target %.2fx, %d legs''
            [AS (Direction j), AF (Leverage j), AI (int (length (Legs (plan_of j))))])"

definition run :: "'w engine \<Rightarrow> 'w est \<Rightarrow> 'w est" where
  "run e s =
     (case open_seal e (cur s) of
        Inl er \<Rightarrow> fail e (wrap ''open temp key: %w'' er) s
      | Inr w \<Rightarrow>
          let j = cur s;
              (colUnit, borrowUnit) = legUnits (Direction j) (CollateralUnit j) (TargetUnit j);
              tradedAlready = (0 < countStepKind j ''trade'');
              completedLegs = min (countStepKind j ''borrow'') (length (Legs (plan_of j)));
              resuming = (tradedAlready \<or> 0 < completedLegs);
              s = record_step e (status_step (resume_note j resuming completedLegs)) s
          in case initial_phase e w tradedAlready resuming s of
               Inl s \<Rightarrow> s
             | Inr s \<Rightarrow>
                 (case legs_loop e w colUnit borrowUnit completedLegs (length (Legs (plan_of j)) - completedLegs) s of
                    Inl s \<Rightarrow> s
                  | Inr s \<Rightarrow> finalize e w s))"

section \<open>Borrows\<close>

abbreviation borrows :: "'w est \<Rightarrow> nat" where
  "borrows s \<equiv> countStepKind (cur s) ''borrow''"

definition quiet :: "step \<Rightarrow> bool" where
  "quiet st \<longleftrightarrow> st_Kind st \<noteq> ''borrow''"

definition anystep :: "step \<Rightarrow> bool" where
  "anystep st \<longleftrightarrow> True"

lemma quiet_borrows: "extends quiet s t \<Longrightarrow> borrows t = borrows s"
  by (erule extends_count) (simp add: quiet_def)

lemma to_any: "extends K s t \<Longrightarrow> extends anystep s t"
  by (erule extends_mono) (simp add: anystep_def)

lemma trade_quiet: "tradeAll e c w f t s = (r, s') \<Longrightarrow> extends quiet s s'"
  by (rule extends_mono [OF tradeAll_extends [of _ _ _ _ _ _ _ _ "[''trade'', ''batch'']"]])
    (auto simp: in_kinds_def quiet_def)

lemma unwindWith_quiet: "extends quiet s (unwindWith e w s)"
  by (rule extends_mono [OF unwindWith_extends]) (auto simp: in_kinds_def unwind_kinds_def quiet_def)

lemma fail_quiet: "extends quiet s (fail e er s)"
  by (rule extends_fail) (simp add: quiet_def status_step_def)

lemma record_quiet: "st_Kind st \<noteq> ''borrow'' \<Longrightarrow> extends quiet s (record_step e st s)"
  by (rule extends_record) (simp add: quiet_def)

lemma failOrUnwind_quiet: "extends quiet s (failOrUnwind e w er s)"
  by (simp add: failOrUnwind_def unwindWith_quiet fail_quiet)

lemma signSubmit_borrow:
  "signSubmit e c w tx ''borrow'' src m a s = (r, s') \<Longrightarrow> borrows s' = borrows s + (if is_ok r then 1 else 0)"
  by (auto simp: signSubmit_def chks_def on_env_def tx_step_def split: prod.splits sum.splits)

lemma signSubmitConfirm_borrow:
  assumes "signSubmitConfirm e c w tx ''borrow'' src m a s = (r, s')"
  shows "borrows s' \<le> borrows s + 1 \<and> (is_ok r \<longrightarrow> borrows s' = borrows s + 1)"
proof -
  obtain h s1 where h: "signSubmit e c w tx ''borrow'' src m a s = (h, s1)" by fastforce
  note b = signSubmit_borrow [OF h]
  show ?thesis
  proof (cases h)
    case (Inl er)
    then show ?thesis using assms h b by (auto simp: signSubmitConfirm_def chks_def)
  next
    case (Inr hash)
    obtain v s2 where v: "wait_confirmed e c hash s1 = (v, s2)" by fastforce
    have "borrows s2 = borrows s1" by (rule quiet_borrows [OF wait_confirmed_extends [OF v]])
    then show ?thesis using assms h b Inr v by (cases v) (auto simp: signSubmitConfirm_def chks_def)
  qed
qed

text \<open>A computation that borrows at most once, and exactly once if it succeeds.\<close>

definition grows :: "'a res \<Rightarrow> 'w est \<Rightarrow> 'w est \<Rightarrow> bool" where
  "grows r s s' \<longleftrightarrow> extends anystep s s' \<and> borrows s' \<le> borrows s + 1 \<and> (is_ok r \<longrightarrow> borrows s' = borrows s + 1)"

definition one_borrow :: "('w est \<Rightarrow> 'a res \<times> 'w est) \<Rightarrow> bool" where
  "one_borrow m \<longleftrightarrow> (\<forall>s r s'. m s = (r, s') \<longrightarrow> grows r s s')"

lemma grows_pre: "extends quiet s t \<Longrightarrow> grows r t u \<Longrightarrow> grows r s u"
  using quiet_borrows [of s t] by (auto simp: grows_def intro: extends_trans to_any)

lemma grows_post: "grows (Inr x) s t \<Longrightarrow> extends quiet t u \<Longrightarrow> grows r s u"
  using quiet_borrows [of t u] by (auto simp: grows_def intro: extends_trans to_any)

lemma grows_err: "grows (Inl e1) s t \<Longrightarrow> grows (Inl e2) s t"
  and grows_quiet: "extends quiet s t \<Longrightarrow> grows (Inl e2) s t"
  using quiet_borrows [of s t] by (auto simp: grows_def intro: to_any)

definition no_borrow :: "('w est \<Rightarrow> 'a res \<times> 'w est) \<Rightarrow> bool" where
  "no_borrow m \<longleftrightarrow> (\<forall>s r s'. m s = (r, s') \<longrightarrow> extends quiet s s')"

lemma no_borrowI: "(\<And>s r s'. m s = (r, s') \<Longrightarrow> extends quiet s s') \<Longrightarrow> no_borrow m"
  by (simp add: no_borrow_def)

lemma no_borrow_simps [simp]:
  "no_borrow (on_env f)" "no_borrow (pure_res r)" "no_borrow (wait_confirmed e c h)"
  "no_borrow (waitForBalanceIncrease e c addr u b)"
  by (auto intro!: no_borrowI elim: extends_on_env wait_confirmed_extends waitForBalanceIncrease_extends)

lemma no_borrow_step [simp]: "st_Kind st \<noteq> ''borrow'' \<Longrightarrow> no_borrow (\<lambda>s. (r, record_step e st s))"
  by (auto intro!: no_borrowI record_quiet)

lemma no_borrow_chks:
  assumes "no_borrow m" "\<And>x. no_borrow (k x)"
  shows "no_borrow (chks m w k)"
proof (rule no_borrowI)
  fix s r s' assume c: "chks m w k s = (r, s')"
  obtain v s1 where v: "m s = (v, s1)" by fastforce
  then have q: "extends quiet s s1" using assms(1) by (simp add: no_borrow_def)
  show "extends quiet s s'"
  proof (cases v)
    case (Inl er)
    then show ?thesis using c v q by (auto simp: chks_def)
  next
    case (Inr x)
    then have "extends quiet s1 s'" using c v assms(2) [of x] by (simp add: chks_def no_borrow_def)
    with q show ?thesis by (rule extends_trans)
  qed
qed

lemma no_borrow_after: "st_Kind st \<noteq> ''borrow'' \<Longrightarrow> no_borrow m \<Longrightarrow> no_borrow (\<lambda>s. m (record_step e st s))"
  by (rule no_borrowI, rule extends_trans [OF record_quiet]) (auto simp: no_borrow_def)

lemma one_borrow_pre:
  assumes "no_borrow m" "\<And>x. one_borrow (k x)"
  shows "one_borrow (chks m w k)"
  unfolding one_borrow_def
proof (intro allI impI)
  fix s r s' assume c: "chks m w k s = (r, s')"
  obtain v s1 where v: "m s = (v, s1)" by fastforce
  then have "extends quiet s s1" using assms(1) by (simp add: no_borrow_def)
  then show "grows r s s'" using c v assms(2)
    by (cases v) (auto simp: chks_def one_borrow_def intro: grows_pre grows_quiet)
qed

lemma one_borrow_post:
  assumes "one_borrow m" "\<And>x. no_borrow (k x)"
  shows "one_borrow (chks m w k)"
  unfolding one_borrow_def
proof (intro allI impI)
  fix s r s' assume c: "chks m w k s = (r, s')"
  obtain v s1 where v: "m s = (v, s1)" by fastforce
  then have "grows v s s1" using assms(1) by (simp add: one_borrow_def)
  then show "grows r s s'" using c v assms(2)
    by (cases v) (auto simp: chks_def no_borrow_def intro: grows_err grows_post)
qed

lemma one_borrow_or_zero:
  assumes "no_borrow m" "\<And>x. one_borrow (k x)"
  shows "one_borrow (or_zero m z k)"
  unfolding one_borrow_def
proof (intro allI impI)
  fix s r s' assume c: "or_zero m z k s = (r, s')"
  obtain x s1 rm where x: "m s = (rm, s1)" "k x s1 = (r, s')" using or_zero_Inr [OF c] by blast
  then have "extends quiet s s1" using assms(1) by (simp add: no_borrow_def)
  then show "grows r s s'" using x(2) assms(2) by (auto simp: one_borrow_def intro: grows_pre)
qed

lemma one_borrow_err: "one_borrow (pure_res (Inl er))"
  by (auto simp: one_borrow_def intro: grows_quiet)

lemma one_borrow_tx: "one_borrow (signSubmitConfirm e c w tx ''borrow'' src m a)"
  unfolding one_borrow_def grows_def
proof (intro allI impI)
  fix s r s' assume x: "signSubmitConfirm e c w tx ''borrow'' src m a s = (r, s')"
  have "extends (in_kinds [''borrow'']) s s'" by (rule signSubmitConfirm_extends [OF x]) simp
  then show "extends anystep s s' \<and> borrows s' \<le> borrows s + 1 \<and> (is_ok r \<longrightarrow> borrows s' = borrows s + 1)"
    using signSubmitConfirm_borrow [OF x] by (blast intro: to_any)
qed

lemma supply_no_borrow: "no_borrow (signSubmitConfirm e c w tx ''supply'' src m a)"
proof (rule no_borrowI)
  fix s r s' assume "signSubmitConfirm e c w tx ''supply'' src m a s = (r, s')"
  then have "extends (in_kinds [''supply'']) s s'" by (rule signSubmitConfirm_extends) simp
  then show "extends quiet s s'" by (rule extends_mono) (auto simp: in_kinds_def quiet_def)
qed

lemma open_surf_borrow: "one_borrow (open_surf e c w tb m common u b sp)"
  unfolding open_surf_def
  by (intro one_borrow_or_zero one_borrow_pre one_borrow_post one_borrow_tx no_borrow_after no_borrow_chks
      no_borrow_simps no_borrow_step) simp_all

lemma open_pooled_borrow: "one_borrow (open_pooled e c w tb m common b sp)"
  unfolding open_pooled_def
  by (intro one_borrow_or_zero one_borrow_pre one_borrow_post one_borrow_tx no_borrow_simps supply_no_borrow)

lemma openLeg_borrow: "one_borrow (openLeg e c w m col bor)"
proof (cases "builderFor e (m_Source m)")
  case None
  then show ?thesis by (auto simp: one_borrow_def openLeg_def intro: grows_quiet)
next
  case (Some tb)
  have i: "one_borrow (if b then f else g)" if "one_borrow f" "one_borrow g"
    for b and f g :: "'a est \<Rightarrow> unit res \<times> 'a est" using that by simp
  have "one_borrow (chks (on_env (AssetAt (e_chain e) (w_Address w) col)) (wrap ''read collateral: %w'') (\<lambda>heldRaw.
          let supply = toWhole (spendable j col heldRaw) (decimalsForUnit m col) in
          if supply \<le> 0 then pure_res (Inl (errm ''no collateral held to supply''))
          else chks (on_env (borrowAmount e c m col bor supply (LegLTV (plan_of j)))) (wrap ''size borrow: %w'') (\<lambda>borrowWhole.
          if borrowWhole \<le> 0 then pure_res (Inl (errm ''computed borrow amount <= 0''))
          else or_zero (on_env (UtxosCBOR (e_chain e) (w_Address w))) [] (\<lambda>utxos.
          if equal_fold (m_Source m) ''surf''
          then open_surf e c w tb m (leg_params m w col utxos) bor borrowWhole supply
          else open_pooled e c w tb m (leg_params m w col utxos) borrowWhole supply))))" for j
    unfolding Let_def
    by (intro one_borrow_pre no_borrow_simps i one_borrow_err one_borrow_or_zero open_surf_borrow open_pooled_borrow)
  then show ?thesis by (simp add: one_borrow_def openLeg_def Some Let_def)
qed

section \<open>How a run ends\<close>

definition stopped :: "'w engine \<Rightarrow> string \<Rightarrow> 'w est \<Rightarrow> bool" where
  "stopped e i s \<longleftrightarrow> store_Get (jobs s) i = Inr (cur s) \<and>
     (Status (cur s) = StatusFailed \<and> i \<notin> set (cancels s) \<or>
      Status (cur s) = StatusReversed \<and> (\<exists>w. rt_Cancelled (e_rt e) w))"

lemma cancelled_world: "cancelled e c s \<Longrightarrow> \<exists>w. rt_Cancelled (e_rt e) w"
  by (auto simp: cancelled_def ctx_err_def)

lemma unwind_stopped: "cancelled e c s \<Longrightarrow> stopped e (ID (cur s)) (unwindWith e w s)"
  using unwindWith_status [of e w s] by (auto simp: stopped_def dest: cancelled_world)

lemma fail_stopped: "stopped e (ID (cur s)) (fail e er s)"
  by (simp add: stopped_def fail_stored)

lemma failOrUnwind_stopped: "stopped e (ID (cur s)) (failOrUnwind e w er s)"
  by (simp add: failOrUnwind_def unwind_stopped fail_stopped)

text \<open>What a phase does to the job: it may return, with the run stopped, or go on.\<close>

definition phase :: "'w engine \<Rightarrow> nat \<Rightarrow> 'w est \<Rightarrow> 'w est + 'w est \<Rightarrow> bool" where
  "phase e n s r = (case r of
     Inl s' \<Rightarrow> extends anystep s s' \<and> borrows s' \<le> borrows s + n \<and> stopped e (ID (cur s)) s'
   | Inr s' \<Rightarrow> extends anystep s s' \<and> borrows s' = borrows s + n)"

lemma phase_fail: "extends anystep s t \<Longrightarrow> borrows t \<le> borrows s + n \<Longrightarrow> phase e n s (Inl (failOrUnwind e w er t))"
  using failOrUnwind_quiet [of t e w er] failOrUnwind_stopped [of e t w er] extends_ID [of anystep s t]
  by (auto simp: phase_def quiet_borrows intro: extends_trans to_any)

lemma phase_cancel: "cancelled e c s \<Longrightarrow> phase e n s (Inl (unwindWith e w s))"
  using unwindWith_quiet [of s e w] unwind_stopped [of e c s w]
  by (auto simp: phase_def quiet_borrows intro: to_any)

lemma phase_quiet: "extends quiet s t \<Longrightarrow> phase e 0 t r \<Longrightarrow> phase e 0 s r"
  using extends_ID [of quiet s t] quiet_borrows [of s t]
  by (auto simp: phase_def split: sum.splits intro: extends_trans to_any)

lemma trade_phase:
  assumes "tradeAll e c w f t s = (r, s')"
  shows "phase e 0 s (case (r, s') of (Inl er, s) \<Rightarrow> Inl (failOrUnwind e w (g er) s) | (Inr _, s) \<Rightarrow> Inr s)"
proof -
  have q: "extends quiet s s'" by (rule trade_quiet [OF assms])
  show ?thesis
  proof (cases r)
    case (Inl er)
    then show ?thesis using phase_fail [OF to_any [OF q]] quiet_borrows [OF q] by simp
  next
    case (Inr x)
    then show ?thesis using q quiet_borrows [OF q] by (simp add: phase_def to_any)
  qed
qed

lemma phase_go: "phase e 0 s (Inr s)"
  by (simp add: phase_def)

lemma initial_phase_ok: "phase e 0 s (initial_phase e w traded resuming s)"
proof -
  let ?j = "cur s"
  obtain r1 s1 where t1: "tradeAll e LoopCtx w (CollateralUnit ?j) (TargetUnit ?j) s = (r1, s1)" by fastforce
  obtain b s2 where b: "on_env (AssetAt (e_chain e) (w_Address w) (CollateralUnit ?j)) s = (b, s2)" by fastforce
  obtain r3 s3 where t3: "tradeAll e LoopCtx w (CollateralUnit ?j) (TargetUnit ?j) s2 = (r3, s3)" by fastforce
  have q2: "extends quiet s s2" by (rule extends_on_env [OF b])
  show ?thesis
    using trade_phase [OF t1, of "wrap ''initial trade: %w''"] phase_quiet [OF q2 phase_go]
      phase_quiet [OF q2 trade_phase [OF t3, of "wrap ''resume catch-up trade: %w''"]]
      phase_cancel [of e LoopCtx s 0 w] phase_go [of e s]
    by (simp add: initial_phase_def Let_def t1 b t3 split: sum.splits)
qed

lemma one_leg_ok: "phase e 1 s (one_leg e w col bor i s)"
proof (cases "cancelled e LoopCtx s")
  case True
  then show ?thesis using phase_cancel [OF True] by (simp add: one_leg_def)
next
  case False
  define s0 where "s0 = record_step e (step0\<lparr>st_Kind := ''leg'', st_Note := Fmt ''leg %d/%d start''
                   [AI (int i + 1), AI (int (length (Legs (plan_of (cur s)))))]\<rparr>) s"
  have q0: "extends quiet s s0" unfolding s0_def by (rule record_quiet) simp
  obtain m s1 where m: "on_env (pickBorrowMarket e LoopCtx col bor) s0 = (m, s1)" by fastforce
  have q1: "extends quiet s s1" by (rule extends_trans [OF q0 extends_on_env [OF m]])
  show ?thesis
  proof (cases m)
    case (Inl er)
    then show ?thesis using False m phase_fail [OF to_any [OF q1], of 1 e w] quiet_borrows [OF q1]
      by (simp add: one_leg_def Let_def s0_def [symmetric])
  next
    case (Inr mk)
    obtain l s2 where l: "openLeg e LoopCtx w mk col bor s1 = (l, s2)" by fastforce
    have g: "grows l s s2" using openLeg_borrow [of e LoopCtx w mk col bor] l q1
      by (auto simp: one_borrow_def intro: grows_pre)
    show ?thesis
    proof (cases l)
      case er: (Inl er)
      then show ?thesis using False m Inr l g phase_fail [of s s2 1 e w]
        by (simp add: one_leg_def Let_def s0_def [symmetric] grows_def)
    next
      case u: (Inr u)
      obtain t s3 where t: "leg_trade e w s2 = (t, s3)" by fastforce
      then have q3: "extends quiet s2 s3"
        by (auto simp: leg_trade_def Let_def split: if_splits intro: trade_quiet)
      have x: "extends anystep s s3" "borrows s3 = borrows s + 1"
        using g u q3 quiet_borrows [OF q3] by (auto simp: grows_def intro: extends_trans to_any)
      show ?thesis
      proof (cases t)
        case (Inl er)
        then show ?thesis using False m Inr l u t x phase_fail [of s s3 1 e w]
          by (simp add: one_leg_def Let_def s0_def [symmetric])
      next
        case v: (Inr v)
        then show ?thesis using False m Inr l u t x
          by (simp add: one_leg_def Let_def s0_def [symmetric] phase_def)
      qed
    qed
  qed
qed

lemma legs_loop_ok: "phase e n s (legs_loop e w col bor i n s)"
proof (induction n arbitrary: i s)
  case 0
  then show ?case by (simp add: phase_def)
next
  case (Suc n)
  show ?case
  proof (cases "one_leg e w col bor i s")
    case (Inl s1)
    then show ?thesis using one_leg_ok [of e s w col bor i] by (simp add: phase_def)
  next
    case (Inr s1)
    then have x: "extends anystep s s1" "borrows s1 = borrows s + 1" using one_leg_ok [of e s w col bor i] by (simp_all add: phase_def)
    from Suc [of s1 "i + 1"] x show ?thesis
      using extends_ID [OF x(1)] by (auto simp: phase_def Inr split: sum.splits intro: extends_trans)
  qed
qed

definition opened :: "job \<Rightarrow> 'w est \<Rightarrow> bool" where
  "opened j s \<longleftrightarrow> store_Get (jobs s) (ID j) = Inr (cur s) \<and> Status (cur s) = StatusOpen \<and>
     Exposure (cur s) = TotalExposure (plan_of j) \<and> ID j \<notin> set (cancels s)"

lemma plan_of_terms: "terms j = terms k \<Longrightarrow> plan_of j = plan_of k"
  using terms_eq(6) [of j k] by (simp add: plan_of_def)

lemma finalize_ok:
  "extends quiet s (finalize e w s) \<and> (stopped e (ID (cur s)) (finalize e w s) \<or> opened (cur s) (finalize e w s))"
proof (cases "cancelled e LoopCtx s")
  case True
  then show ?thesis by (simp add: finalize_def unwindWith_quiet unwind_stopped)
next
  case False
  define s1 where "s1 = unregister (ID (cur s)) s"
  define s2 where "s2 = s1\<lparr>cur := (cur s1)\<lparr>Status := StatusOpen, Exposure := TotalExposure (plan_of (cur s))\<rparr>\<rparr>"
  define st where "st = status_step (Fmt (''position OPEN '' @ utf8_emdash @ '' %.2fx exposure'') [AF (AchievedLeverage (plan_of (cur s)))])"
  have c: "cur s1 = cur s" by (simp add: s1_def unregister_def)
  have f: "finalize e w s = record_step e st s2"
    using False c by (simp add: finalize_def Let_def s1_def [symmetric] s2_def st_def)
  have "extends quiet s s2" by (simp add: extends_def s2_def s1_def unregister_def)
  moreover have "extends quiet s2 (record_step e st s2)" by (rule record_quiet) (simp add: st_def)
  ultimately have "extends quiet s (finalize e w s)" unfolding f by (rule extends_trans)
  moreover have "opened (cur s) (finalize e w s)"
    using record_stored [of e st s2] c
    by (simp add: f opened_def s2_def) (simp add: s1_def unregister_def record_step_def save_def)
  ultimately show ?thesis by blast
qed

lemma run_ok:
  "extends anystep s (run e s) \<and> borrows (run e s) \<le> max (borrows s) (length (Legs (plan_of (cur s)))) \<and>
   (stopped e (ID (cur s)) (run e s) \<or>
    opened (cur s) (run e s) \<and> borrows (run e s) = max (borrows s) (length (Legs (plan_of (cur s)))))"
proof (cases "open_seal e (cur s)")
  case (Inl er)
  have "borrows (fail e er' s) = borrows s" for er' by (rule quiet_borrows [OF fail_quiet])
  then show ?thesis using Inl fail_quiet [of s e] by (auto simp: run_def fail_stopped intro: to_any)
next
  case (Inr w)
  let ?L = "length (Legs (plan_of (cur s)))"
  define k where "k = min (borrows s) ?L"
  define tr where "tr = (0 < countStepKind (cur s) ''trade'')"
  define s0 where "s0 = record_step e (status_step (resume_note (cur s) (tr \<or> 0 < k) k)) s"
  obtain col bor where u: "legUnits (Direction (cur s)) (CollateralUnit (cur s)) (TargetUnit (cur s)) = (col, bor)"
    by fastforce
  have run: "run e s = (case initial_phase e w tr (tr \<or> 0 < k) s0 of Inl s \<Rightarrow> s
      | Inr s1 \<Rightarrow> (case legs_loop e w col bor k (?L - k) s1 of Inl s \<Rightarrow> s | Inr s \<Rightarrow> finalize e w s))"
    unfolding run_def Inr u Let_def sum.case prod.case k_def [symmetric] tr_def [symmetric] s0_def [symmetric] ..
  have q0: "extends quiet s s0" unfolding s0_def by (rule record_quiet) simp
  note P = phase_quiet [OF q0 initial_phase_ok [of e s0 w tr "tr \<or> 0 < k"]]
  have kL: "borrows s + (?L - k) = max (borrows s) ?L" by (simp add: k_def)
  show ?thesis
  proof (cases "initial_phase e w tr (tr \<or> 0 < k) s0")
    case (Inl s1)
    then show ?thesis using P by (simp add: run phase_def le_max_iff_disj)
  next
    case i: (Inr s1)
    then have x1: "extends anystep s s1" "borrows s1 = borrows s" using P by (simp_all add: phase_def)
    note Q = legs_loop_ok [of e "?L - k" s1 w col bor k]
    show ?thesis
    proof (cases "legs_loop e w col bor k (?L - k) s1")
      case (Inl s2)
      then show ?thesis using i Q x1 extends_ID [OF x1(1)] kL
        by (auto simp: run phase_def intro: extends_trans)
    next
      case l: (Inr s2)
      then have x2: "extends anystep s s2" "borrows s2 = max (borrows s) ?L"
        using Q x1 kL by (auto simp: phase_def intro: extends_trans)
      have t: "terms (cur s2) = terms (cur s)" using x2(1) by (simp add: extends_def)
      have fin: "run e s = finalize e w s2" by (simp add: run i l)
      have f: "extends quiet s2 (finalize e w s2)" "stopped e (ID (cur s)) (finalize e w s2) \<or> opened (cur s2) (finalize e w s2)"
        using finalize_ok [of s2 e w] extends_ID [OF x2(1)] by auto
      have "opened (cur s2) z = opened (cur s) z" for z
        using terms_eq(1) [OF t] plan_of_terms [OF t] by (simp add: opened_def)
      then show ?thesis using f x2 quiet_borrows [OF f(1)] by (auto simp: fin intro: extends_trans to_any)
    qed
  qed
qed


text \<open>C11. A run resumes and never borrows a leg twice: whatever fails, the recorded borrows never exceed the
  plan's legs (or what was recorded before), a run that opens the position has recorded exactly one
  borrow for each leg the earlier runs left, and the step log only grows.\<close>

theorem run_borrows_each_leg_once:
  "let k = countStepKind (cur s) ''borrow''; L = length (Legs (plan_of (cur s))); s' = run e s in
     countStepKind (cur s') ''borrow'' \<le> max k L \<and>
     (Status (cur s') = StatusOpen \<longrightarrow> countStepKind (cur s') ''borrow'' = max k L) \<and>
     (\<exists>new. Steps (cur s') = Steps (cur s) @ new)"
  using run_ok [of s e] by (auto simp: Let_def stopped_def opened_def extends_def)

theorem run_borrows_each_leg_once_witness:
  "let s' = run demo_engine demo_est in countStepKind (cur s') ''borrow'' \<le> max 0 0 \<and>
     (\<exists>new. Steps (cur s') = Steps demo_job @ new)"
  using run_borrows_each_leg_once [of demo_est demo_engine]
  by (simp add: Let_def demo_est_def demo_job_def countStepKind_def plan_of_def plan_zero_def)

end
