(* ===== verification/Lifecycle.thy ===== *)
theory Lifecycle
  imports Engine_Loop
begin

text \<open>
  The life of a job (\<open>common/engine/engine.go\<close>): \<open>Open\<close>, \<open>Start\<close>, \<open>Retry\<close>, \<open>Reverse\<close>, \<open>Sweep\<close>, the recovery after
  a restart, and the goroutines they start. A handler returns which goroutine it starts, on the job
  copy left in \<open>cur\<close>, and whether it cancelled the loop context of a registered one; the goroutine
  bodies are \<open>run\<close>, \<open>waitFundingThenRun\<close>, \<open>unwind\<close> and the body of \<open>Sweep\<close>.
\<close>

definition fundingWaitTimeout :: int where "fundingWaitTimeout = 10 * minute"
definition fundingPollInterval :: int where "fundingPollInterval = 15 * second"

datatype goroutine = GRun | GWaitFunding | GUnwind | GSweep temp_wallet

definition errLegacyWallet :: msg where
  "errLegacyWallet = errm (''this position predates the two-key wallet fix and can'' @ [CHR 0x27] @ ''t run swaps (its stake key wasn''
     @ [CHR 0x27] @ ''t saved) '' @ utf8_emdash @ '' Reverse it to recover funds, then open a new position'')"

definition isLegacyWallet :: "job \<Rightarrow> bool" where
  "isLegacyWallet j = (case SealK j of None \<Rightarrow> False | Some k \<Rightarrow> k_StakeVKeyHex k = [])"

definition set_status :: "string \<Rightarrow> 'w est \<Rightarrow> 'w est" where
  "set_status st s = s\<lparr>cur := (cur s)\<lparr>Status := st\<rparr>\<rparr>"

definition register :: "string \<Rightarrow> 'w est \<Rightarrow> 'w est" where
  "register i s = s\<lparr>cancels := i # cancels s\<rparr>"

section \<open>Funding\<close>

text \<open>At least half the expected funding is at the temp address.\<close>

definition funded_at :: "'w engine \<Rightarrow> job \<Rightarrow> 'w \<Rightarrow> bool \<times> 'w" where
  "funded_at e j w = (case LovelaceAt (e_chain e) (TempAddress j) w of
     (Inl er, w1) \<Rightarrow> (False, w1)
   | (Inr bal, w1) \<Rightarrow> (quot (FundingLovelace j) 2 \<le> bal, w1))"

definition beginLifecycle :: "'w engine \<Rightarrow> 'w est \<Rightarrow> goroutine option \<times> 'w est" where
  "beginLifecycle e s =
     (let i = ID (cur s) in
      if i \<in> set (cancels s) then (None, s)
      else case on_env (funded_at e (cur s)) (register i s) of
          (True, s) \<Rightarrow> (Some GRun, save (set_status StatusRunning s))
        | (False, s) \<Rightarrow> (Some GWaitFunding, s))"

definition sweepOnCancel :: "'w engine \<Rightarrow> 'w est \<Rightarrow> 'w est" where
  "sweepOnCancel e s =
     (let s = unregister (ID (cur s)) s;
          s = (case open_seal e (cur s) of Inl er \<Rightarrow> s | Inr w \<Rightarrow> sweepAll e w s)
      in record_step e (status_step (errm (''reversed '' @ utf8_emdash @ '' cancelled before funding''))) (set_status StatusReversed s))"

text \<open>One look of the wait: cancelled, funded, or neither.\<close>

datatype wait_end = WCancelled | WFunded

definition funding_check :: "'w engine \<Rightarrow> job \<Rightarrow> unit \<Rightarrow> 'w \<Rightarrow> (wait_end + unit) \<times> 'w" where
  "funding_check e j a w =
     (if ctx_err (e_rt e) LoopCtx w then (Inl WCancelled, w)
      else case funded_at e j w of (b, w1) \<Rightarrow> (if b then Inl WFunded else Inr (), w1))"

definition waitFundingThenRun :: "'w engine \<Rightarrow> 'w est \<Rightarrow> 'w est" where
  "waitFundingThenRun e s =
     (case poll_est e LoopCtx fundingPollInterval fundingWaitTimeout (funding_check e (cur s)) () s of
        (Done WCancelled, s) \<Rightarrow> sweepOnCancel e s
      | (Done WFunded, s) \<Rightarrow> run e (save (set_status StatusRunning s))
      | (TimedOut _, s) \<Rightarrow> unregister (ID (cur s)) s
      | (CtxDone _, s) \<Rightarrow> sweepOnCancel e s)"

section \<open>Handlers\<close>

definition with_job :: "string \<Rightarrow> ('w est \<Rightarrow> 'a res \<times> 'w est) \<Rightarrow> 'w est \<Rightarrow> 'a res \<times> 'w est" where
  "with_job i k s = (case store_Get (jobs s) i of Inl er \<Rightarrow> (Inl er, s) | Inr j \<Rightarrow> k (s\<lparr>cur := j\<rparr>))"

definition Start :: "'w engine \<Rightarrow> string \<Rightarrow> 'w est \<Rightarrow> goroutine option res \<times> 'w est" where
  "Start e i = with_job i (\<lambda>s.
     if Status (cur s) \<noteq> StatusAwaitingFunding \<and> Status (cur s) \<noteq> StatusFailed
     then (Inl (Fmt ''engine: job %s not startable (status %s)'' [AS i, AS (Status (cur s))]), s)
     else if isLegacyWallet (cur s) then (Inl errLegacyWallet, s)
     else case beginLifecycle e s of (g, s) \<Rightarrow> (Inr g, s))"

record opened_pos =
  op_JobID :: string
  op_TempAddress :: string
  op_FundingCBOR :: string

text \<open>\<open>Open\<close>: the random key pairs, nonce and job id and the outcome of the price probe are arguments.\<close>

definition new_job :: "open_request \<Rightarrow> quote \<Rightarrow> temp_wallet \<Rightarrow> sealed_key \<Rightarrow> string \<Rightarrow> int \<Rightarrow> int \<Rightarrow> f64 \<Rightarrow> int \<Rightarrow> job" where
  "new_job req q w sealed newID funding feeReserve entryPrice now =
     \<lparr>ID = newID, Owner = r_Owner req, Direction = r_Direction req, CollateralUnit = r_CollateralUnit req,
      TargetUnit = r_TargetUnit req, j_InitialAmount = r_Amount req, Leverage = TargetLeverage (qt_Plan q),
      Plan = Some (qt_Plan q), TempAddress = w_Address w, SealK = Some sealed, FundingLovelace = funding,
      FeeReserveLovelace = feeReserve, Status = StatusAwaitingFunding, Steps = [], Exposure = 0, j_HealthFactor = 0,
      EntryPrice = entryPrice, CurrentPrice = 0, PnLPct = 0, LiqThreshold = qt_LiqThreshold q, HealthUpdatedAt = 0,
      Error = errm [], CreatedAt = now, UpdatedAt = now\<rparr>"

definition Open_pos ::
  "'w engine \<Rightarrow> (bytes \<times> bytes) res \<Rightarrow> (bytes \<times> bytes) res \<Rightarrow> bytes res \<Rightarrow> string \<Rightarrow> ('w \<Rightarrow> f64 \<times> 'w) \<Rightarrow>
     open_request \<Rightarrow> 'w est \<Rightarrow> (opened_pos \<times> goroutine option) res \<times> 'w est" where
  "Open_pos e payKP stakeKP nonce newID probe req s =
     (if e_encSecret e = [] then (Inl (errm ''engine: ENGINE_ENC_KEY not configured''), s)
      else if r_Owner req = [] then (Inl (errm ''engine: owner address required''), s)
      else chks (on_env (Quote e Background req)) id (\<lambda>q.
        chks (pure_res (NewTempWallet (e_crypto e) payKP stakeKP (e_network e))) id (\<lambda>w.
        chks (pure_res (Seal (e_crypto e) w (e_encSecret e) nonce)) id (\<lambda>sealed.
        let feeReserve = feeReserveFor (int (length (Legs (qt_Plan q))));
            funding = i64 (toRaw (r_Amount req) 6 + feeReserve) in
        chks (on_env (BuildFundingTx (e_chain e) (r_Owner req) (r_ChangeAddress req) (w_Address w) funding (r_Utxos req)))
             (wrap ''engine: build funding tx: %w'') (\<lambda>fundingCbor s.
        case on_env probe s of (entryPrice, s) \<Rightarrow>
        let s = save (s\<lparr>cur := new_job req q w sealed newID funding feeReserve entryPrice (clk s)\<rparr>) in
        case beginLifecycle e s of (g, s) \<Rightarrow>
          (Inr (\<lparr>op_JobID = newID, op_TempAddress = w_Address w, op_FundingCBOR = fundingCbor\<rparr>, g), s))))) s)"

text \<open>\<open>Reverse\<close>: the flag says that the loop context of the registered goroutine was cancelled.\<close>

definition Reverse :: "string \<Rightarrow> 'w est \<Rightarrow> (bool \<times> goroutine option) res \<times> 'w est" where
  "Reverse i = with_job i (\<lambda>s.
     if Status (cur s) = StatusReversing
     then (Inl (Fmt ''engine: job %s is already reversing'' [AS i]), s)
     else let s = save (set_status StatusReversing s); running = (i \<in> set (cancels s)) in
          if running then (Inr (True, None), unregister i s) else (Inr (False, Some GUnwind), s))"

definition hasOpenPositions :: "'w engine \<Rightarrow> temp_wallet \<Rightarrow> 'w est \<Rightarrow> bool \<times> 'w est" where
  "hasOpenPositions e w s =
     (case sourceByName e engineSource of
        None \<Rightarrow> (False, s)
      | Some src \<Rightarrow>
          (case on_env (src_FetchOrders src Background \<lparr>q_Address = w_Address w, q_Limit = 0, q_Refresh = True\<rparr>) s of
             (Inl er, s) \<Rightarrow> (True, s)
           | (Inr orders, s) \<Rightarrow> (list_ex is_open_order orders, s)))"

definition Sweep :: "'w engine \<Rightarrow> string \<Rightarrow> 'w est \<Rightarrow> goroutine res \<times> 'w est" where
  "Sweep e i = with_job i (\<lambda>s.
     if Status (cur s) = StatusRunning \<or> Status (cur s) = StatusReversing
     then (Inl (Fmt (''engine: job %s is %s '' @ utf8_emdash @ '' wait for it to settle before sweeping'') [AS i, AS (Status (cur s))]), s)
     else if i \<in> set (cancels s) then (Inl (Fmt (''engine: job %s is active '' @ utf8_emdash @ '' cannot sweep now'') [AS i]), s)
     else case SealK (cur s) of
         None \<Rightarrow> (Inl (Fmt ''engine: job %s has no sealed key to sweep'' [AS i]), s)
       | Some k \<Rightarrow> chks (pure_res (Open_key (e_crypto e) k (e_encSecret e) (e_network e)))
            (wrap ''engine: open temp wallet: %w'') (\<lambda>w. pure_res (Inr (GSweep w))) s)"

definition sweep_body :: "'w engine \<Rightarrow> temp_wallet \<Rightarrow> 'w est \<Rightarrow> 'w est" where
  "sweep_body e w s =
     (case hasOpenPositions e w s of
        (True, s) \<Rightarrow>
          let s = record_step e (status_step (errm (''sweep: open positions found '' @ utf8_emdash @ '' unwinding first''))) s;
              s = save (set_status StatusReversing s)
          in unwindWith e w s
      | (False, s) \<Rightarrow>
          let s = record_step e (status_step (errm ''sweeping remaining funds (no open positions)'')) s;
              s = set_status StatusReversed (sweepAll e w s)
          in record_step e (status_step (Fmt (''swept remaining '' @ utf8_arrow @ '' %s'') [AS (short (Owner (cur s)))])) s)"

definition Retry :: "'w engine \<Rightarrow> string \<Rightarrow> 'w est \<Rightarrow> goroutine res \<times> 'w est" where
  "Retry e i = with_job i (\<lambda>s.
     if Status (cur s) \<noteq> StatusFailed
     then (Inl (Fmt ''engine: only failed positions can be retried (job %s is %s)'' [AS i, AS (Status (cur s))]), s)
     else if isLegacyWallet (cur s) then (Inl errLegacyWallet, s)
     else if i \<in> set (cancels s) then (Inl (Fmt ''engine: job %s is already running'' [AS i]), s)
     else let s = register i s;
              s = s\<lparr>cur := (cur s)\<lparr>Status := StatusRunning, Error := errm []\<rparr>\<rparr>
          in (Inr GRun, record_step e (status_step (errm (''retry requested '' @ utf8_emdash @ '' resuming''))) s))"

text \<open>\<open>Status\<close> and \<open>ListJobs\<close>: what a client sees of a job has no key.\<close>

definition strip_seal :: "job \<Rightarrow> job" where
  "strip_seal j = j\<lparr>SealK := None\<rparr>"

definition Status_of :: "job_map \<Rightarrow> string \<Rightarrow> job res" where
  "Status_of m i = chk (store_Get m i) id (\<lambda>j. Inr (strip_seal j))"

definition ListJobs :: "job_map \<Rightarrow> string \<Rightarrow> job list" where
  "ListJobs m owner = map strip_seal (store_ListByOwner m owner)"

section \<open>Goroutines\<close>

definition body :: "'w engine \<Rightarrow> goroutine \<Rightarrow> 'w est \<Rightarrow> 'w est" where
  "body e g s = (case g of GRun \<Rightarrow> run e s | GWaitFunding \<Rightarrow> waitFundingThenRun e s
     | GUnwind \<Rightarrow> unwind e s | GSweep w \<Rightarrow> sweep_body e w s)"

text \<open>
  \<open>RecoverInflight\<close>: the jobs awaiting funding and running re-enter the lifecycle, except legacy wallets,
  and the reversing ones are unwound. The result lists the goroutines it starts, with their jobs.
\<close>

fun recover_jobs :: "'w engine \<Rightarrow> job list \<Rightarrow> 'w est \<Rightarrow> (goroutine \<times> job) list \<times> 'w est" where
  "recover_jobs e [] s = ([], s)"
| "recover_jobs e (j # js) s =
     (if isLegacyWallet j then recover_jobs e js s
      else case beginLifecycle e (s\<lparr>cur := j\<rparr>) of (g, s1) \<Rightarrow>
        (case recover_jobs e js s1 of (gs, s2) \<Rightarrow>
           ((case g of None \<Rightarrow> [] | Some x \<Rightarrow> [(x, cur s1)]) @ gs, s2)))"

definition RecoverInflight :: "'w engine \<Rightarrow> 'w est \<Rightarrow> (goroutine \<times> job) list \<times> 'w est" where
  "RecoverInflight e s =
     (case recover_jobs e (store_ListByStatus (jobs s) StatusAwaitingFunding) s of (g1, s1) \<Rightarrow>
      case recover_jobs e (store_ListByStatus (jobs s1) StatusRunning) s1 of (g2, s2) \<Rightarrow>
        (g1 @ g2 @ map (\<lambda>j. (GUnwind, j)) (store_ListByStatus (jobs s2) StatusReversing), s2))"

section \<open>Who owns a job\<close>

lemma with_job_Inr: "store_Get (jobs s) i = Inr j \<Longrightarrow> with_job i k s = k (s\<lparr>cur := j\<rparr>)"
  by (simp add: with_job_def)

lemma set_status_simps [simp]:
  "cur (set_status st s) = (cur s)\<lparr>Status := st\<rparr>" "jobs (set_status st s) = jobs s"
  "cancels (set_status st s) = cancels s" "env (set_status st s) = env s" "clk (set_status st s) = clk s"
  by (simp_all add: set_status_def)

lemma save_simps [simp]:
  "cur (save s) = cur s" "jobs (save s) = store_Save (cur s) (jobs s)" "cancels (save s) = cancels s"
  "env (save s) = env s" "clk (save s) = clk s"
  by (simp_all add: save_def)

lemma unregister_simps [simp]:
  "cur (unregister i s) = cur s" "jobs (unregister i s) = jobs s" "i \<notin> set (cancels (unregister i s))"
  by (simp_all add: unregister_def)


text \<open>C7. The end of a run and a reversal cannot miss each other. If the loop is not cancelled when it
  finalizes, the job is open and unregistered, so a later \<open>Reverse\<close> starts the unwind; if \<open>Reverse\<close> came
  first it cancelled the registered loop and started nothing, and the cancelled loop unwinds the
  position itself: in either order there is exactly one unwind.\<close>

theorem finalize_vs_Reverse:
  assumes "i = ID (cur s)" and "i \<in> set (cancels s)" and "\<not> cancelled e LoopCtx s"
    and "store_Get (jobs s) i = Inr j" and "Status j \<noteq> StatusReversing"
  shows "fst (Reverse i (finalize e w s)) = Inr (False, Some GUnwind) \<and>
         fst (Reverse i s) = Inr (True, None) \<and>
         (\<forall>t. cancelled e LoopCtx t \<longrightarrow> finalize e w t = unwindWith e w t \<and> Status (cur (finalize e w t)) = StatusReversed)"
proof (intro conjI allI impI)
  have "opened (cur s) (finalize e w s)"
    using finalize_ok [of s e w] assms(3)
    by (auto simp: stopped_def finalize_def Let_def)
  then have "store_Get (jobs (finalize e w s)) i = Inr (cur (finalize e w s))"
    "Status (cur (finalize e w s)) \<noteq> StatusReversing" "i \<notin> set (cancels (finalize e w s))"
    using assms(1) by (simp_all add: opened_def)
  then show "fst (Reverse i (finalize e w s)) = Inr (False, Some GUnwind)"
    by (simp add: Reverse_def with_job_Inr Let_def)
  show "fst (Reverse i s) = Inr (True, None)"
    using assms(2,4,5) by (simp add: Reverse_def with_job_Inr Let_def)
next
  fix t assume c: "cancelled e LoopCtx t"
  show "finalize e w t = unwindWith e w t" by (simp add: finalize_def c)
  then show "Status (cur (finalize e w t)) = StatusReversed" by (simp add: unwindWith_status)
qed

theorem finalize_vs_Reverse_witness:
  "fst (Reverse ''j1'' (finalize demo_engine demo_wallet (save demo_est))) = Inr (False, Some GUnwind) \<and>
   fst (Reverse ''j1'' (save demo_est)) = Inr (True, None)"
proof -
  have "\<not> cancelled demo_engine LoopCtx (save demo_est)"
    by (simp add: cancelled_def ctx_err_def demo_engine_def demo_runtime_def)
  moreover have "store_Get (jobs (save demo_est)) ''j1'' = Inr demo_job"
    by (simp add: demo_est_def demo_job_def)
  ultimately show ?thesis
    using finalize_vs_Reverse [of "''j1''" "save demo_est" demo_engine demo_job demo_wallet]
    by (simp add: demo_est_def demo_job_def)
qed



text \<open>Only a failed position on a two-key wallet is retried: an accepted \<open>Retry\<close> clears the error, registers
  the loop and stores the job as running with a status step; in every other case the store and the
  registrations are left alone.\<close>

theorem Retry_guards:
  "case Retry e i s of (r, s') \<Rightarrow>
     (case r of
        Inr g \<Rightarrow> g = GRun \<and> (\<exists>j. store_Get (jobs s) i = Inr j \<and> Status j = StatusFailed \<and> \<not> isLegacyWallet j \<and>
            i \<notin> set (cancels s) \<and> cancels s' = i # cancels s \<and> store_Get (jobs s') (ID j) = Inr (cur s') \<and>
            Status (cur s') = StatusRunning \<and> Error (cur s') = errm [] \<and> length (Steps (cur s')) = length (Steps j) + 1)
      | Inl er \<Rightarrow> jobs s' = jobs s \<and> cancels s' = cancels s)"
  by (auto simp: Retry_def with_job_def Let_def register_def record_step_def split: sum.splits)



text \<open>C39. A running loop undoes the mark of a reversal: after \<open>Reverse\<close> has cancelled a running loop, the
  next step that loop records stores its own copy of the job, still running, so a second
  \<open>Reverse\<close> is accepted and, finding no registration, starts an unwind beside the one the cancelled loop performs.\<close>

theorem second_Reverse_accepted:
  assumes "store_Get (jobs s) i = Inr j" and "ID j = i" and "Status j = StatusRunning" and "i \<in> set (cancels s)"
  shows "\<exists>s1 s2 s3. Reverse i s = (Inr (True, None), s1) \<and>
           s2 = record_step e st (s1\<lparr>cur := j\<rparr>) \<and>
           Reverse i s2 = (Inr (False, Some GUnwind), s3)"
proof -
  obtain s1 where r: "Reverse i s = (Inr (True, None), s1)" "i \<notin> set (cancels s1)"
    using assms(1,3,4) by (simp add: Reverse_def with_job_Inr Let_def)
  define s2 where "s2 = record_step e st (s1\<lparr>cur := j\<rparr>)"
  have "store_Get (jobs s2) i = Inr (cur s2)" "Status (cur s2) = StatusRunning" "i \<notin> set (cancels s2)"
    using record_stored [of e st "s1\<lparr>cur := j\<rparr>"] assms(2,3) r(2) by (simp_all add: s2_def)
  then have "fst (Reverse i s2) = Inr (False, Some GUnwind)"
    by (simp add: Reverse_def with_job_Inr Let_def)
  then show ?thesis using r(1) s2_def by (metis prod.collapse)
qed

theorem second_Reverse_accepted_witness:
  "\<exists>s1 s2 s3. Reverse ''j1'' (save demo_est) = (Inr (True, None), s1) \<and>
     s2 = record_step demo_engine step0 (s1\<lparr>cur := demo_job\<rparr>) \<and> Reverse ''j1'' s2 = (Inr (False, Some GUnwind), s3)"
  by (rule second_Reverse_accepted) (simp_all add: demo_est_def demo_job_def)

text \<open>A reversal can be lost to a failure: \<open>failOrUnwind\<close> looks for a cancellation and then fails the job without the
  lock that \<open>finalize\<close> takes, so a \<open>Reverse\<close> in between is accepted, cancels the loop and starts nothing, and
  the loop, past its look, marks the job failed: nobody unwinds, and the job is registered no more.\<close>

theorem reversal_lost_to_failure:
  assumes "store_Get (jobs s) i = Inr j" and "ID j = i" and "Status j = StatusRunning" and "i \<in> set (cancels s)"
  shows "\<exists>s1 s2 j'. Reverse i s = (Inr (True, None), s1) \<and> s2 = fail e er (s1\<lparr>cur := j\<rparr>) \<and>
           store_Get (jobs s2) i = Inr j' \<and> Status j' = StatusFailed \<and> i \<notin> set (cancels s2)"
proof -
  obtain s1 where r: "Reverse i s = (Inr (True, None), s1)"
    using assms(1,3,4) by (simp add: Reverse_def with_job_Inr Let_def)
  show ?thesis
    using r assms(2)
    by (intro exI [of _ s1] exI [of _ "fail e er (s1\<lparr>cur := j\<rparr>)"]) (simp add: fail_def Let_def)
qed

theorem reversal_lost_to_failure_witness:
  "\<exists>s1 s2 j'. Reverse ''j1'' (save demo_est) = (Inr (True, None), s1) \<and>
     s2 = fail demo_engine (errm ''boom'') (s1\<lparr>cur := demo_job\<rparr>) \<and>
     store_Get (jobs s2) ''j1'' = Inr j' \<and> Status j' = StatusFailed \<and> ''j1'' \<notin> set (cancels s2)"
  by (rule reversal_lost_to_failure) (simp_all add: demo_est_def demo_job_def)

end
