(* ===== verification/Health.thy ===== *)
theory Health
  imports Lifecycle
begin

text \<open>
  The health monitor (\<open>common/engine/health.go\<close>): the price probe, the refresh of one position from
  the move of its price since entry, and the poll over the open positions. The ticker that calls
  \<open>pollHealth\<close> every minute is the runtime's.
\<close>

definition healthPollInterval :: int where "healthPollInterval = 60 * second"
definition liqWarnHealth :: f64 where "liqWarnHealth = mk (115 / 100)"
definition priceProbeAda :: f64 where "priceProbeAda = Fin 50"

definition priceOf :: "'w engine \<Rightarrow> gctx \<Rightarrow> string \<Rightarrow> 'w \<Rightarrow> f64 res \<times> 'w" where
  "priceOf e c targetUnit =
     (case e_dex e of
        None \<Rightarrow> pure_res (Inl (errm ''dexhunter client not configured''))
      | Some dx \<Rightarrow>
          if targetUnit = [] then pure_res (Inr 1)
          else chks (dx_EstimateSwap dx c priceProbeAda [] (dexToken targetUnit) defaultSlippage)
                 (wrap ''price probe: %w'') (\<lambda>out.
               if out \<le> 0 then pure_res (Inl (errm ''price probe: zero output''))
               else pure_res (Inr (priceProbeAda / out))))"

text \<open>Health and P\&L of a position from the ratio of the price to the entry price.\<close>

definition entry_health :: "job \<Rightarrow> plan \<Rightarrow> f64" where
  "entry_health j p =
     (let liqT = (if LiqThreshold j \<le> 0 then mk (8 / 10) else LiqThreshold j)
      in liqT * TotalExposure p / TotalBorrowed p)"

definition position_health :: "direction \<Rightarrow> f64 \<Rightarrow> f64 \<Rightarrow> f64" where
  "position_health dir entryHealth ratio = (if dir = Long then entryHealth * ratio else entryHealth / ratio)"

definition position_pnl :: "direction \<Rightarrow> f64 \<Rightarrow> f64 \<Rightarrow> f64" where
  "position_pnl dir lev ratio = (if dir = Long then (ratio - 1) * lev * Fin 100 else (1 - ratio) * lev * Fin 100)"

definition nothing_to_value :: "job \<Rightarrow> bool" where
  "nothing_to_value j \<longleftrightarrow> (case Plan j of None \<Rightarrow> True | Some p \<Rightarrow> TotalBorrowed p \<le> 0 \<or> EntryPrice j \<le> 0)"

definition refreshed :: "job \<Rightarrow> f64 \<Rightarrow> int \<Rightarrow> job" where
  "refreshed j price now =
     (let p = plan_of j; ratio = price / EntryPrice j
      in j\<lparr>CurrentPrice := price, j_HealthFactor := position_health (Direction j) (entry_health j p) ratio,
           PnLPct := position_pnl (Direction j) (TotalExposure p / j_InitialAmount j) ratio, HealthUpdatedAt := now\<rparr>)"

definition RefreshHealth :: "'w engine \<Rightarrow> gctx \<Rightarrow> job \<Rightarrow> 'w est \<Rightarrow> unit res \<times> 'w est" where
  "RefreshHealth e c j s =
     (if nothing_to_value j then (Inr (), s)
      else chks (on_env (priceOf e c (TargetUnit j))) id (\<lambda>price s.
             (Inr (), save (s\<lparr>cur := refreshed j price (clk s)\<rparr>))) s)"

text \<open>Errors of single positions are logged and the poll goes on.\<close>

definition pollHealth :: "'w engine \<Rightarrow> gctx \<Rightarrow> 'w est \<Rightarrow> 'w est" where
  "pollHealth e c s = fold (\<lambda>j s. snd (RefreshHealth e c j s)) (store_ListByStatus (jobs s) StatusOpen) s"

definition StartHealthMonitor :: "'w engine \<Rightarrow> gctx \<Rightarrow> nat \<Rightarrow> 'w est \<Rightarrow> 'w est" where
  "StartHealthMonitor e c ticks s = (if e_dex e = None then s else (pollHealth e c ^^ (ticks + 1)) s)"

section \<open>What a refresh does\<close>

lemma refreshed_ID [simp]: "ID (refreshed j p t) = ID j" and refreshed_Status [simp]: "Status (refreshed j p t) = Status j"
  by (simp_all add: refreshed_def Let_def)

text \<open>A refresh only touches health: whatever the price probe answers, either nothing is stored, or the
  job is stored with its price, health factor, P\&L and stamp changed and every other field (status,
  steps, key, plan, owner) as it was given.\<close>

theorem RefreshHealth_stores:
  "case RefreshHealth e c j s of (r, s') \<Rightarrow>
     jobs s' = jobs s \<or>
     r = Inr () \<and> (\<exists>price w. priceOf e c (TargetUnit j) (env s) = (Inr price, w) \<and> CurrentPrice (cur s') = price \<and>
       jobs s' = store_Save (cur s') (jobs s) \<and>
       (cur s')\<lparr>CurrentPrice := CurrentPrice j, j_HealthFactor := j_HealthFactor j, PnLPct := PnLPct j,
                HealthUpdatedAt := HealthUpdatedAt j\<rparr> = j)"
  by (auto simp: RefreshHealth_def chks_def on_env_def refreshed_def Let_def split: prod.splits sum.splits)

text \<open>In the range real prices have, no rounding leaves the normal numbers.\<close>

lemma rnd_pos: "1 / 10 ^ 50 \<le> x \<Longrightarrow> 0 < rnd x"
proof -
  assume x: "1 / 10 ^ 50 \<le> x"
  have "x * (1 - 1 / 2 ^ 53) \<le> rnd x" by (rule rnd_lower [OF normal_minI [OF x]])
  moreover have "0 < x * (1 - 1 / 2 ^ 53)" using x by (simp add: less_le_trans [OF _ x])
  ultimately show ?thesis by linarith
qed

lemma ratio_range:
  assumes "1 / 10 ^ 9 \<le> p" "p \<le> 10 ^ 9" "1 / 10 ^ 9 \<le> q" "q \<le> (10 ^ 9 :: rat)"
  shows "1 / 10 ^ 18 \<le> p / q" "p / q \<le> 10 ^ 18"
proof -
  have q: "0 < q" by (rule less_le_trans [OF _ assms(3)]) simp
  have "1 / 10 ^ 18 * q \<le> 1 / 10 ^ 9" using assms(4) by simp
  then show "1 / 10 ^ 18 \<le> p / q" using assms(1) q by (simp add: le_divide_eq)
  have "10 ^ 9 \<le> 10 ^ 18 * q" using assms(3) by simp
  then show "p / q \<le> 10 ^ 18" using assms(2) q by (simp add: divide_le_eq)
qed

lemma rnd_ratio_range:
  assumes "1 / 10 ^ 18 \<le> x" "x \<le> 10 ^ 18"
  shows "1 / 10 ^ 19 \<le> rnd x \<and> rnd x \<le> 10 ^ 19"
proof -
  have n: "normal_min \<le> x" by (rule normal_minI, rule order.trans [OF _ assms(1)]) simp
  show ?thesis using rnd_lower [OF n] rnd_upper [OF n] assms by (simp; linarith)
qed

lemma rnd_bound: "1 / 10 ^ 19 \<le> r \<Longrightarrow> r \<le> 10 ^ 19 \<Longrightarrow> 0 < h \<Longrightarrow> h \<le> 10 ^ 9 \<Longrightarrow>
    mk (h * r) = Fin (rnd (h * r)) \<and> mk (h / r) = Fin (rnd (h / r))"
proof
  assume a: "1 / 10 ^ 19 \<le> r" "r \<le> 10 ^ 19" "0 < h" "h \<le> 10 ^ 9"
  have r: "0 < r" by (rule less_le_trans [OF _ a(1)]) simp
  have "h * r \<le> 10 ^ 9 * 10 ^ 19" using a r by (intro mult_mono) simp_all
  also have "\<dots> \<le> 2 ^ 1000" by simp
  finally show "mk (h * r) = Fin (rnd (h * r))" using a r by (intro mk_Fin_1000) simp
  have "h / r \<le> 10 ^ 9 / (1 / 10 ^ 19)" using a r by (intro frac_le) simp_all
  also have "\<dots> \<le> 2 ^ 1000" by simp
  finally show "mk (h / r) = Fin (rnd (h / r))" using a r by (intro mk_Fin_1000) simp
qed

text \<open>C23. Health moves the right way with the price, roundings included: a higher price never lowers the
  computed health factor of a long and never raises that of a short.\<close>

theorem position_health_monotone:
  assumes "1 / 10 ^ 9 \<le> p1" "p1 \<le> p2" "p2 \<le> 10 ^ 9" "1 / 10 ^ 9 \<le> q" "q \<le> 10 ^ 9" "0 < h" "h \<le> 10 ^ 9"
  shows "position_health Long (Fin h) (Fin p1 / Fin q) \<le> position_health Long (Fin h) (Fin p2 / Fin q) \<and>
         position_health Short (Fin h) (Fin p2 / Fin q) \<le> position_health Short (Fin h) (Fin p1 / Fin q)"
proof -
  have q: "0 < q" by (rule less_le_trans [OF _ assms(4)]) simp
  have b1: "1 / 10 ^ 18 \<le> p1 / q" "p1 / q \<le> 10 ^ 18" and b2: "1 / 10 ^ 18 \<le> p2 / q" "p2 / q \<le> 10 ^ 18"
    using ratio_range assms by (meson order.trans)+
  define r1 where "r1 = rnd (p1 / q)"
  define r2 where "r2 = rnd (p2 / q)"
  have R: "1 / 10 ^ 19 \<le> r1" "r1 \<le> 10 ^ 19" "1 / 10 ^ 19 \<le> r2" "r2 \<le> 10 ^ 19"
    using rnd_ratio_range [OF b1] rnd_ratio_range [OF b2] by (simp_all add: r1_def r2_def)
  have pos: "0 < r1" "0 < r2" by (rule less_le_trans [OF _ R(1)], simp, rule less_le_trans [OF _ R(3)], simp)
  have "p1 / q \<le> p2 / q" using assms(2) q by (simp add: divide_right_mono)
  then have le: "r1 \<le> r2" unfolding r1_def r2_def by (rule rnd_mono)
  have big: "x \<le> 10 ^ 18 \<Longrightarrow> 1 / 10 ^ 18 \<le> x \<Longrightarrow> mk x = Fin (rnd x)" for x :: rat
  proof (rule mk_Fin_1000)
    assume a: "x \<le> 10 ^ 18" "1 / 10 ^ 18 \<le> x"
    have "0 < x" by (rule less_le_trans [OF _ a(2)]) simp
    moreover have "x \<le> 2 ^ 1000" by (rule order.trans [OF a(1)]) simp
    ultimately show "\<bar>x\<bar> \<le> 2 ^ 1000" by simp
  qed
  have ratios: "Fin p1 / Fin q = Fin r1" "Fin p2 / Fin q = Fin r2"
    using big b1 b2 q by (simp_all add: r1_def r2_def)
  have "rnd (h * r1) \<le> rnd (h * r2)" "rnd (h / r2) \<le> rnd (h / r1)"
    using le assms(6) pos by (auto intro!: rnd_mono mult_left_mono divide_left_mono)
  then show ?thesis
    using rnd_bound [OF R(1,2) assms(6,7)] rnd_bound [OF R(3,4) assms(6,7)] pos
    by (simp add: position_health_def ratios)
qed

theorem position_health_monotone_witness:
  "position_health Long (Fin 2) (Fin 3 / Fin 4) \<le> position_health Long (Fin 2) (Fin 5 / Fin 4) \<and>
   position_health Short (Fin 2) (Fin 5 / Fin 4) \<le> position_health Short (Fin 2) (Fin 3 / Fin 4)"
  by (rule position_health_monotone) simp_all

text \<open>C40. A refresh of the monitor undoes the mark of a reversal: when a \<open>Reverse\<close> of an open position is accepted between
  the listing of the open jobs and the save of the refreshed copy, the stored job is open again while its unwind
  runs, and a second \<open>Reverse\<close> is accepted and starts a second unwind.\<close>

theorem stale_refresh_reopens:
  assumes "store_Get (jobs s) i = Inr j" and "ID j = i" and "Status j = StatusOpen" and "i \<notin> set (cancels s)"
    and "\<not> nothing_to_value j" and "priceOf e c (TargetUnit j) (env s) = (Inr price, w)"
  shows "\<exists>s1 s2 s3. Reverse i s = (Inr (False, Some GUnwind), s1) \<and> RefreshHealth e c j s1 = (Inr (), s2) \<and>
     store_Get (jobs s2) i = Inr (refreshed j price (clk s)) \<and> Status (refreshed j price (clk s)) = StatusOpen \<and>
     Reverse i s2 = (Inr (False, Some GUnwind), s3)"
  using assms
  by (auto simp: Reverse_def with_job_Inr RefreshHealth_def chks_def on_env_def Let_def)

definition demo_open :: job where
  "demo_open = demo_job\<lparr>Status := StatusOpen, TargetUnit := [], EntryPrice := 1, Plan := Some (plan_zero\<lparr>TotalBorrowed := 1\<rparr>)\<rparr>"

definition demo_watched :: "nat est" where
  "demo_watched = demo_est\<lparr>jobs := [(''j1'', demo_open)], cancels := []\<rparr>"

theorem stale_refresh_reopens_witness:
  "\<exists>s1 s2 s3. Reverse ''j1'' demo_watched = (Inr (False, Some GUnwind), s1) \<and>
     RefreshHealth demo_engine2 Background demo_open s1 = (Inr (), s2) \<and>
     store_Get (jobs s2) ''j1'' = Inr (refreshed demo_open 1 (clk demo_watched)) \<and>
     Status (refreshed demo_open 1 (clk demo_watched)) = StatusOpen \<and> Reverse ''j1'' s2 = (Inr (False, Some GUnwind), s3)"
proof (rule stale_refresh_reopens)
  show "priceOf demo_engine2 Background (TargetUnit demo_open) (env demo_watched) = (Inr 1, env demo_watched)"
    by (simp add: priceOf_def demo_engine2_def demo_open_def pure_res_def)
qed (simp_all add: demo_watched_def demo_open_def demo_job_def store_Get_def nothing_to_value_def)

end
