(* ===== verification/Engine_System.thy ===== *)
theory Engine_System
  imports Health
begin

text \<open>
  The engine as a transition system: the shared state (store, registrations, clock, outside world) with
  the goroutines that were started, each with the copy of the job it works on. A step is a handler, the
  body of a goroutine, one write of a goroutine that is still running, the health monitor reading a job
  and later refreshing the copy it read, or a move of the outside world; the bodies and handlers are
  those of \<open>Lifecycle\<close> and \<open>Health\<close>. What is proved holds for every interleaving of such steps: custody of
  the funds is never lost.
\<close>

text \<open>
  What works on a copy of a job: a goroutine of its life, or who has read it from the store, which is the
  monitor with its price probe or a handler between its read and its save.
\<close>

datatype task = Go goroutine | Reader

type_synonym pending = "(task \<times> job) list"

definition spawn :: "goroutine option \<Rightarrow> job \<Rightarrow> pending \<Rightarrow> pending" where
  "spawn g j ts = (case g of None \<Rightarrow> ts | Some x \<Rightarrow> ts @ [(Go x, j)])"

text \<open>
  A goroutine or a handler that is interrupted has stored its own copy, whose terms no body and no handler
  changes, with any progress (\<open>writes\<close>); the body as one step is \<open>goroutine\<close>. Between the reading of a job (\<open>poll\<close>)
  and the write or refresh of that copy, anything can happen to the stored one.
\<close>

inductive sys_step :: "'w engine \<Rightarrow> 'w est \<times> pending \<Rightarrow> 'w est \<times> pending \<Rightarrow> bool" for e where
  world: "clk s \<le> t \<Longrightarrow> sys_step e (s, ts) (s\<lparr>env := w, clk := t\<rparr>, ts)"
| opens: "Open_pos e kp1 kp2 nonce newID probe req s = (r, s') \<Longrightarrow> \<not> is_ok (store_Get (jobs s) newID) \<Longrightarrow>
    sys_step e (s, ts) (s', case r of Inl er \<Rightarrow> ts | Inr (res, g) \<Rightarrow> spawn g (cur s') ts)"
| start: "Start e i s = (r, s') \<Longrightarrow>
    sys_step e (s, ts) (s', case r of Inl er \<Rightarrow> ts | Inr g \<Rightarrow> spawn g (cur s') ts)"
| retry: "Retry e i s = (r, s') \<Longrightarrow>
    sys_step e (s, ts) (s', case r of Inl er \<Rightarrow> ts | Inr g \<Rightarrow> spawn (Some g) (cur s') ts)"
| reverse: "Reverse i s = (r, s') \<Longrightarrow>
    sys_step e (s, ts) (s', case r of Inl er \<Rightarrow> ts | Inr (c, g) \<Rightarrow> spawn g (cur s') ts)"
| sweeps: "Sweep e i s = (r, s') \<Longrightarrow>
    sys_step e (s, ts) (s', case r of Inl er \<Rightarrow> ts | Inr g \<Rightarrow> spawn (Some g) (cur s') ts)"
| goroutine: "(Go g, j) \<in> set ts \<Longrightarrow> sys_step e (s, ts) (body e g (s\<lparr>cur := j\<rparr>), remove1 (Go g, j) ts)"
| writes: "(x, j) \<in> set ts \<Longrightarrow> terms j' = terms j \<Longrightarrow>
    sys_step e (s, ts) (s\<lparr>jobs := store_Save j' (jobs s)\<rparr>, (x, j') # remove1 (x, j) ts)"
| poll: "store_Get (jobs s) i = Inr j \<Longrightarrow> sys_step e (s, ts) (s, (Reader, j) # ts)"
| refresh: "(Reader, j) \<in> set ts \<Longrightarrow> RefreshHealth e c j s = (r, s') \<Longrightarrow> sys_step e (s, ts) (s', remove1 (Reader, j) ts)"

inductive sys_reach :: "'w engine \<Rightarrow> 'w est \<times> pending \<Rightarrow> 'w est \<times> pending \<Rightarrow> bool" for e where
  here: "sys_reach e x x"
| step: "sys_reach e x y \<Longrightarrow> sys_step e y z \<Longrightarrow> sys_reach e x z"

inductive_cases reach_cases: "sys_reach e x y"
inductive_cases step_cases: "sys_step e (s, ts) (s', ts')"

section \<open>Custody\<close>

text \<open>What the recovery of the funds of a job depends on.\<close>

definition custody :: "job \<Rightarrow> string \<times> string \<times> string \<times> sealed_key option \<times> string \<times> string \<times> direction \<times> plan option" where
  "custody j = (ID j, Owner j, TempAddress j, SealK j, CollateralUnit j, TargetUnit j, Direction j, Plan j)"

lemma custody_ID: "custody j = custody k \<Longrightarrow> ID j = ID k"
  by (simp add: custody_def)

lemma custody_terms: "terms j = terms k \<Longrightarrow> custody j = custody k"
  using terms_eq [of j k] by (simp add: custody_def)

lemma custody_simps [simp]:
  "custody (j\<lparr>Status := a\<rparr>) = custody j" "custody (j\<lparr>Error := b\<rparr>) = custody j" "custody (refreshed j p t) = custody j"
  by (simp_all add: custody_def refreshed_def Let_def)

definition keeps :: "job_map \<Rightarrow> job_map \<Rightarrow> bool" where
  "keeps m m' \<longleftrightarrow> (store_ok m \<longrightarrow> store_ok m') \<and>
     (\<forall>i j. store_Get m i = Inr j \<longrightarrow> (\<exists>j'. store_Get m' i = Inr j' \<and> custody j' = custody j))"

definition held :: "job_map \<Rightarrow> job \<Rightarrow> bool" where
  "held m j \<longleftrightarrow> (\<exists>j'. store_Get m (ID j) = Inr j' \<and> custody j' = custody j)"

lemma keeps_refl [simp]: "keeps m m"
  by (simp add: keeps_def)

lemma keeps_trans: "keeps m n \<Longrightarrow> keeps n p \<Longrightarrow> keeps m p"
  by (fastforce simp: keeps_def)

lemma keeps_held: "keeps m n \<Longrightarrow> held m j \<Longrightarrow> held n j"
  by (fastforce simp: keeps_def held_def)

lemma keeps_Save: "held m j \<Longrightarrow> keeps m (store_Save j m)"
  by (auto simp: keeps_def held_def)

lemma held_Save [simp]: "held (store_Save j m) j"
  by (simp add: held_def)

lemma held_cong: "custody j = custody k \<Longrightarrow> held m j \<longleftrightarrow> held m k"
  using custody_ID [of j k] by (simp add: held_def)

lemma keeps_extends:
  assumes "extends K s s'" "held (jobs s) (cur s)"
  shows "keeps (jobs s) (jobs s') \<and> held (jobs s') (cur s')"
proof -
  have t: "custody (cur s') = custody (cur s)" using assms(1) by (intro custody_terms) (simp add: extends_def)
  have k: "keeps (jobs s) (jobs s')"
    unfolding keeps_def
  proof (intro conjI allI impI)
    show "store_ok (jobs s) \<Longrightarrow> store_ok (jobs s')" using assms(1) by (simp add: extends_def)
    fix i j assume g: "store_Get (jobs s) i = Inr j"
    show "\<exists>j'. store_Get (jobs s') i = Inr j' \<and> custody j' = custody j"
    proof (cases "i = ID (cur s)")
      case False
      then have "store_Get (jobs s') i = store_Get (jobs s) i" using assms(1) by (simp add: extends_def)
      then show ?thesis using g by simp
    next
      case True
      then have c: "custody j = custody (cur s)" using g assms(2) by (simp add: held_def)
      have "store_Get (jobs s') i = Inr j \<or> (\<exists>j'. store_Get (jobs s') i = Inr j' \<and> terms j' = terms (cur s))"
        using assms(1) g True unfolding extends_def by metis
      then show ?thesis using c custody_terms by metis
    qed
  qed
  then show ?thesis using keeps_held [OF k assms(2)] held_cong [OF t] by blast
qed

section \<open>Every body keeps it\<close>

lemma any_record: "extends anystep s (record_step e st s)"
  by (rule extends_record) (simp add: anystep_def)

lemma any_status: "extends anystep s (set_status x s)"
  unfolding set_status_def by (rule extends_status)

lemma sweepOnCancel_extends: "extends anystep s (sweepOnCancel e s)"
proof -
  let ?s1 = "unregister (ID (cur s)) s"
  have 1: "extends anystep s ?s1" by (rule extends_unregister)
  have 2: "extends anystep ?s1 (case open_seal e (cur ?s1) of Inl er \<Rightarrow> ?s1 | Inr w \<Rightarrow> sweepAll e w ?s1)"
    by (auto split: sum.split intro: to_any sweepAll_extends)
  show ?thesis unfolding sweepOnCancel_def Let_def
    by (rule extends_trans [OF extends_trans [OF extends_trans [OF 1 2] any_status] any_record])
qed

lemma run_extends: "extends anystep s (run e s)"
  using run_ok by blast

lemma waitFunding_extends: "extends anystep s (waitFundingThenRun e s)"
proof -
  obtain oc s1 where p: "poll_est e LoopCtx fundingPollInterval fundingWaitTimeout (funding_check e (cur s)) () s = (oc, s1)"
    by fastforce
  have x: "extends anystep s s1" "cur s1 = cur s" using poll_est_keeps [OF p] by blast+
  have st: "extends anystep s1 (save (set_status StatusRunning s1))"
    unfolding set_status_def by (intro extends_save extends_status)
  show ?thesis
  proof (cases oc)
    case (Done r)
    then show ?thesis using p x st
      by (cases r) (auto simp: waitFundingThenRun_def intro: extends_trans sweepOnCancel_extends run_extends)
  next
    case (TimedOut u)
    have "extends anystep s1 (unregister (ID (cur s1)) s1)" by (rule extends_unregister)
    then show ?thesis using p x TimedOut by (auto simp: waitFundingThenRun_def intro: extends_trans)
  next
    case (CtxDone u)
    then show ?thesis using p x by (auto simp: waitFundingThenRun_def intro: extends_trans sweepOnCancel_extends)
  qed
qed

lemma unwind_extends: "extends anystep s (unwind e s)"
  by (auto simp: unwind_def split: sum.split intro: to_any unwindWith_extends fail_quiet)

lemma hasOpenPositions_extends: "hasOpenPositions e w s = (b, s') \<Longrightarrow> extends K s s'"
  by (auto simp: hasOpenPositions_def split: option.splits prod.splits sum.splits elim: extends_on_env)

lemma sweep_body_extends: "extends anystep s (sweep_body e w s)"
proof -
  obtain b s1 where h: "hasOpenPositions e w s = (b, s1)" by fastforce
  have x: "extends anystep s s1" by (rule hasOpenPositions_extends [OF h])
  show ?thesis
  proof (cases b)
    case True
    let ?s2 = "record_step e (status_step (errm (''sweep: open positions found '' @ utf8_emdash @ '' unwinding first''))) s1"
    have "extends anystep ?s2 (save (set_status StatusReversing ?s2))"
      unfolding set_status_def by (intro extends_save extends_status)
    also have "extends anystep \<dots> (unwindWith e w (save (set_status StatusReversing ?s2)))"
      by (rule to_any [OF unwindWith_extends])
    finally show ?thesis using h True x any_record [of s1 e] by (auto simp: sweep_body_def Let_def intro: extends_trans)
  next
    case False
    let ?s2 = "record_step e (status_step (errm ''sweeping remaining funds (no open positions)'')) s1"
    have 2: "extends anystep s ?s2" by (rule extends_trans [OF x any_record])
    have 3: "extends anystep ?s2 (sweepAll e w ?s2)" by (rule to_any [OF sweepAll_extends])
    have "extends anystep s (record_step e st (set_status StatusReversed (sweepAll e w ?s2)))" for st
      by (rule extends_trans [OF extends_trans [OF extends_trans [OF 2 3] any_status] any_record])
    then show ?thesis using h False by (simp add: sweep_body_def Let_def)
  qed
qed

lemma body_extends: "extends anystep s (body e g s)"
  by (cases g) (simp_all add: body_def run_extends waitFunding_extends unwind_extends sweep_body_extends)

section \<open>Every handler keeps it\<close>

lemma beginLifecycle_keeps:
  assumes "beginLifecycle e s = (g, s')" "held (jobs s) (cur s)"
  shows "keeps (jobs s) (jobs s') \<and> held (jobs s') (cur s')"
proof -
  obtain b s1 where f: "on_env (funded_at e (cur s)) (register (ID (cur s)) s) = (b, s1)" by fastforce
  have s1: "jobs s1 = jobs s" "cur s1 = cur s" using f by (auto simp: on_env_simps register_def)
  have "held (jobs s) ((cur s)\<lparr>Status := StatusRunning\<rparr>)" using assms(2) held_cong custody_simps(1) by blast
  then show ?thesis using assms f s1 keeps_Save
    by (auto simp: beginLifecycle_def Let_def split: if_splits bool.splits)
qed

lemma job_held: "store_ok (jobs s) \<Longrightarrow> store_Get (jobs s) i = Inr j \<Longrightarrow> held (jobs s) j"
  using mem.get_ID by (auto simp: held_def)

lemma Start_keeps:
  assumes "Start e i s = (r, s')" "store_ok (jobs s)"
  shows "keeps (jobs s) (jobs s') \<and> (is_ok r \<longrightarrow> held (jobs s') (cur s'))"
proof (cases "store_Get (jobs s) i")
  case (Inl er)
  then show ?thesis using assms(1) by (auto simp: Start_def with_job_def)
next
  case (Inr j)
  have h: "held (jobs s) j" by (rule job_held [OF assms(2) Inr])
  obtain g s1 where b: "beginLifecycle e (s\<lparr>cur := j\<rparr>) = (g, s1)" by fastforce
  show ?thesis using assms(1) beginLifecycle_keeps [OF b] h b
    by (auto simp: Start_def with_job_Inr [OF Inr] split: if_splits)
qed

lemma Retry_keeps:
  assumes "Retry e i s = (r, s')" "store_ok (jobs s)"
  shows "keeps (jobs s) (jobs s') \<and> (is_ok r \<longrightarrow> held (jobs s') (cur s'))"
proof (cases "store_Get (jobs s) i")
  case (Inl er)
  then show ?thesis using assms(1) by (auto simp: Retry_def with_job_def)
next
  case (Inr j)
  have h: "held (jobs s) j" by (rule job_held [OF assms(2) Inr])
  define s1 where "s1 = register i (s\<lparr>cur := j\<rparr>)"
  define s2 where "s2 = s1\<lparr>cur := (cur s1)\<lparr>Status := StatusRunning, Error := errm []\<rparr>\<rparr>"
  have "jobs s2 = jobs s" "held (jobs s2) (cur s2)"
    using h held_cong [of "cur s2" j] by (simp_all add: s2_def s1_def register_def)
  then have "keeps (jobs s) (jobs (record_step e st s2)) \<and> held (jobs (record_step e st s2)) (cur (record_step e st s2))" for st
    using keeps_extends [OF any_record, of s2 e st] by simp
  then show ?thesis using assms(1)
    by (auto simp: Retry_def with_job_Inr [OF Inr] Let_def s2_def s1_def split: if_splits)
qed

lemma Reverse_keeps:
  assumes "Reverse i s = (r, s')" "store_ok (jobs s)"
  shows "keeps (jobs s) (jobs s') \<and> (is_ok r \<longrightarrow> held (jobs s') (cur s'))"
proof (cases "store_Get (jobs s) i")
  case (Inl er)
  then show ?thesis using assms(1) by (auto simp: Reverse_def with_job_def)
next
  case (Inr j)
  have "held (jobs s) (j\<lparr>Status := StatusReversing\<rparr>)"
    using job_held [OF assms(2) Inr] held_cong custody_simps(1) by blast
  then show ?thesis using assms(1) keeps_Save
    by (auto simp: Reverse_def with_job_Inr [OF Inr] Let_def split: if_splits)
qed

lemma Sweep_keeps:
  assumes "Sweep e i s = (r, s')" "store_ok (jobs s)"
  shows "jobs s' = jobs s \<and> (is_ok r \<longrightarrow> held (jobs s') (cur s'))"
proof (cases "store_Get (jobs s) i")
  case (Inl er)
  then show ?thesis using assms(1) by (auto simp: Sweep_def with_job_def)
next
  case (Inr j)
  then show ?thesis using assms job_held [OF assms(2) Inr]
    by (auto simp: Sweep_def with_job_Inr [OF Inr] chks_def split: if_splits option.splits sum.splits)
qed

lemma keeps_new: "\<not> is_ok (store_Get m (ID j)) \<Longrightarrow> keeps m (store_Save j m)"
  by (auto simp: keeps_def)

lemma new_job_ID: "ID (new_job req q w k newID funding fee price now) = newID"
  by (simp add: new_job_def)

lemma on_env_jobs: "on_env f s = (a, s') \<Longrightarrow> jobs s' = jobs s"
  by (auto simp: on_env_simps)

lemma Open_keeps:
  assumes "Open_pos e kp1 kp2 nonce newID probe req s = (r, s')" "\<not> is_ok (store_Get (jobs s) newID)"
  shows "keeps (jobs s) (jobs s') \<and> (is_ok r \<longrightarrow> held (jobs s') (cur s'))"
proof -
  have fin: "keeps (jobs s) (jobs s4) \<and> held (jobs s4) (cur s4)"
    if "beginLifecycle e (save (s3\<lparr>cur := j\<rparr>)) = (g, s4)" "ID j = newID" "jobs s3 = jobs s" for s3 j g s4
  proof -
    have "keeps (jobs s) (jobs (save (s3\<lparr>cur := j\<rparr>)))" using assms(2) that keeps_new by simp
    moreover have "held (jobs (save (s3\<lparr>cur := j\<rparr>))) (cur (save (s3\<lparr>cur := j\<rparr>)))" by simp
    ultimately show ?thesis using beginLifecycle_keeps [OF that(1)] keeps_trans by blast
  qed
  from assms(1) show ?thesis
    unfolding Open_pos_def chks_def Let_def pure_res_def
    by (auto split: if_splits sum.splits prod.splits dest!: on_env_jobs dest: fin [OF _ new_job_ID])
qed

section \<open>Custody is never lost\<close>

text \<open>Every goroutine works on a copy of a stored job.\<close>

definition sys_inv :: "'w est \<times> pending \<Rightarrow> bool" where
  "sys_inv x \<longleftrightarrow> store_ok (jobs (fst x)) \<and> (\<forall>(g, j) \<in> set (snd x). held (jobs (fst x)) j)"

lemma sys_inv_I: "store_ok (jobs s) \<Longrightarrow> (\<And>g j. (g, j) \<in> set ts \<Longrightarrow> held (jobs s) j) \<Longrightarrow> sys_inv (s, ts)"
  by (auto simp: sys_inv_def)

lemma spawn_inv:
  assumes "sys_inv (s, ts)" "keeps (jobs s) (jobs s')" "held (jobs s') j"
  shows "sys_inv (s', spawn g j ts)"
  using assms keeps_held [OF assms(2)]
  by (auto simp: sys_inv_def keeps_def spawn_def split: option.splits)

lemma same_inv:
  assumes "sys_inv (s, ts)" "keeps (jobs s) (jobs s')" "set us \<subseteq> set ts"
  shows "sys_inv (s', us)"
proof (rule sys_inv_I)
  show "store_ok (jobs s')" using assms by (simp add: sys_inv_def keeps_def)
  fix g j assume "(g, j) \<in> set us"
  then have "held (jobs s) j" using assms by (auto simp: sys_inv_def)
  then show "held (jobs s') j" by (rule keeps_held [OF assms(2)])
qed

lemma refresh_keeps:
  assumes "held (jobs s) j" "RefreshHealth e c j s = (r, s')"
  shows "keeps (jobs s) (jobs s')"
proof -
  have "held (jobs s) (refreshed j p t)" for p t using assms(1) held_cong custody_simps(3) by blast
  then show ?thesis using assms(2) keeps_Save
    by (auto simp: RefreshHealth_def chks_def on_env_def Let_def split: if_splits sum.splits prod.splits)
qed

lemma write_inv:
  assumes "sys_inv (s, ts)" "(g, j) \<in> set ts" "terms j' = terms j"
  shows "keeps (jobs s) (store_Save j' (jobs s)) \<and>
    sys_inv (s\<lparr>jobs := store_Save j' (jobs s)\<rparr>, (g, j') # remove1 (g, j) ts)"
proof -
  have "held (jobs s) j" using assms(1,2) by (auto simp: sys_inv_def)
  then have k: "keeps (jobs s) (store_Save j' (jobs s))"
    using keeps_Save held_cong [OF custody_terms [OF assms(3)]] by blast
  then have "keeps (jobs s) (jobs (s\<lparr>jobs := store_Save j' (jobs s)\<rparr>))" by simp
  from same_inv [OF assms(1) this set_remove1_subset] k show ?thesis by (simp add: sys_inv_def)
qed

lemma sys_step_keeps:
  "sys_step e x y \<Longrightarrow> sys_inv x \<Longrightarrow> keeps (jobs (fst x)) (jobs (fst y)) \<and> sys_inv y"
proof (induction rule: sys_step.induct)
  case (world s t ts w)
  then show ?case by (simp add: sys_inv_def)
next
  case (opens kp1 kp2 nonce newID probe req s r s' ts)
  then show ?case using Open_keeps [OF opens(1,2)]
    by (auto split: sum.split intro: spawn_inv same_inv)
next
  case (start i s r s' ts)
  then have "store_ok (jobs s)" by (simp add: sys_inv_def)
  from Start_keeps [OF start(1) this] show ?case using start
    by (auto split: sum.split intro: spawn_inv same_inv)
next
  case (retry i s r s' ts)
  then have "store_ok (jobs s)" by (simp add: sys_inv_def)
  from Retry_keeps [OF retry(1) this] show ?case using retry
    by (auto split: sum.split intro: spawn_inv same_inv)
next
  case (reverse i s r s' ts)
  then have "store_ok (jobs s)" by (simp add: sys_inv_def)
  from Reverse_keeps [OF reverse(1) this] show ?case using reverse
    by (auto split: sum.split intro: spawn_inv same_inv)
next
  case (sweeps i s r s' ts)
  then have "store_ok (jobs s)" by (simp add: sys_inv_def)
  from Sweep_keeps [OF sweeps(1) this] show ?case using sweeps
    by (auto split: sum.split intro: spawn_inv same_inv)
next
  case (goroutine g j ts s)
  then have "held (jobs (s\<lparr>cur := j\<rparr>)) (cur (s\<lparr>cur := j\<rparr>))" by (auto simp: sys_inv_def)
  from keeps_extends [OF body_extends this] have k: "keeps (jobs s) (jobs (body e g (s\<lparr>cur := j\<rparr>)))" by simp
  then show ?case using same_inv [OF goroutine(2) k set_remove1_subset] by simp
next
  case (writes x j ts j' s)
  then show ?case using write_inv [OF writes(3,1,2)] by simp
next
  case (poll s i j ts)
  then show ?case using job_held [OF _ poll(1)] by (simp add: sys_inv_def)
next
  case (refresh j ts c s r s')
  then have "held (jobs s) j" by (auto simp: sys_inv_def)
  from refresh_keeps [OF this refresh(2)] show ?case
    using same_inv [OF refresh(3) _ set_remove1_subset] by simp
qed

lemma sys_reach_keeps:
  "sys_reach e x y \<Longrightarrow> sys_inv x \<Longrightarrow> keeps (jobs (fst x)) (jobs (fst y)) \<and> sys_inv y"
proof (induction rule: sys_reach.induct)
  case (here x)
  then show ?case by simp
next
  case (step x y z)
  then show ?case using sys_step_keeps [OF step(2)] keeps_trans by blast
qed

text \<open>C2. Custody is never lost. From a consistent state, whatever handlers are called, whatever goroutines
  run and however their writes interleave, fail, are cancelled or race, also with refreshes of stale copies by
  the health monitor, every stored job stays stored under its id with the same owner, temp address, sealed key, units, direction and plan: the funds at its temp
  address can always be swept back to its owner.\<close>

theorem custody_never_lost:
  assumes "sys_reach e (s, ts) (s', ts')" and "sys_inv (s, ts)" and "store_Get (jobs s) i = Inr j"
  shows "\<exists>j'. store_Get (jobs s') i = Inr j' \<and> ID j' = i \<and> Owner j' = Owner j \<and> TempAddress j' = TempAddress j \<and>
     SealK j' = SealK j \<and> CollateralUnit j' = CollateralUnit j \<and> TargetUnit j' = TargetUnit j \<and>
     Direction j' = Direction j \<and> Plan j' = Plan j"
proof -
  have k: "keeps (jobs s) (jobs s')" "sys_inv (s', ts')" using sys_reach_keeps [OF assms(1,2)] by simp_all
  obtain j' where j': "store_Get (jobs s') i = Inr j'" "custody j' = custody j"
    using k(1) assms(3) by (auto simp: keeps_def)
  have "ID j' = i" using mem.get_ID [OF _ j'(1)] k(2) by (simp add: sys_inv_def)
  then show ?thesis using j' by (auto simp: custody_def)
qed

theorem custody_never_lost_witness:
  "\<exists>j'. store_Get (jobs (body demo_engine GUnwind
       ((snd (Reverse ''j1'' (demo_est\<lparr>jobs := [(''j1'', demo_job)]\<rparr>)))\<lparr>cur := demo_job\<rparr>))) ''j1'' = Inr j' \<and>
     SealK j' = SealK demo_job"
proof -
  let ?s = "demo_est\<lparr>jobs := [(''j1'', demo_job)]\<rparr>"
  have id: "ID demo_job = ''j1''" and st: "Status demo_job \<noteq> StatusReversing" and cs: "''j1'' \<in> set (cancels ?s)"
    by (simp_all add: demo_job_def demo_est_def)
  obtain s1 where r: "Reverse ''j1'' ?s = (Inr (True, None), s1)"
    using st cs by (simp add: Reverse_def with_job_def store_Get_def Let_def)
  have inv: "sys_inv (?s, [(Go GUnwind, demo_job)])"
    by (rule sys_inv_I) (simp_all add: store_ok_def id held_def store_Get_def)
  have reach: "sys_reach demo_engine (?s, [(Go GUnwind, demo_job)]) (body demo_engine GUnwind (s1\<lparr>cur := demo_job\<rparr>), [])"
  proof (rule sys_reach.step [OF sys_reach.step [OF sys_reach.here]])
    show "sys_step demo_engine (?s, [(Go GUnwind, demo_job)]) (s1, [(Go GUnwind, demo_job)])"
      using sys_step.reverse [OF r, of demo_engine "[(Go GUnwind, demo_job)]"] by (simp add: spawn_def)
    show "sys_step demo_engine (s1, [(Go GUnwind, demo_job)]) (body demo_engine GUnwind (s1\<lparr>cur := demo_job\<rparr>), [])"
      using sys_step.goroutine [of GUnwind demo_job "[(Go GUnwind, demo_job)]" demo_engine s1] by simp
  qed
  have g: "store_Get (jobs ?s) ''j1'' = Inr demo_job" by (simp add: store_Get_def)
  have "\<exists>j'. store_Get (jobs (body demo_engine GUnwind (s1\<lparr>cur := demo_job\<rparr>))) ''j1'' = Inr j' \<and>
      ID j' = ''j1'' \<and> Owner j' = Owner demo_job \<and> TempAddress j' = TempAddress demo_job \<and>
      SealK j' = SealK demo_job \<and> CollateralUnit j' = CollateralUnit demo_job \<and> TargetUnit j' = TargetUnit demo_job \<and>
      Direction j' = Direction demo_job \<and> Plan j' = Plan demo_job"
    by (rule custody_never_lost [OF reach inv g])
  then show ?thesis using r by auto
qed

end
