(* ===== verification/Engine_Restart.thy ===== *)
theory Engine_Restart
  imports Engine_System
begin

text \<open>
  What a restart does (\<open>RecoverInflight\<close> of \<open>common/engine/engine.go\<close>): nothing is registered and no goroutine
  runs, and the jobs of the store re-enter their lives. The store here is the one that survived.
\<close>

section \<open>One job\<close>

lemma beginLifecycle_registered: "ID (cur s) \<in> set (cancels s) \<Longrightarrow> beginLifecycle e s = (None, s)"
  by (simp add: beginLifecycle_def)

lemma beginLifecycle_begins:
  assumes "ID (cur s) \<notin> set (cancels s)" and "store_Get (jobs s) (ID (cur s)) = Inr (cur s)"
  obtains g s' where "beginLifecycle e s = (Some g, s')" "g = GRun \<or> g = GWaitFunding"
    "set (cancels s') = insert (ID (cur s)) (set (cancels s))" "store_ok (jobs s) \<longrightarrow> store_ok (jobs s')"
    "cur s' = cur s \<or> cur s' = (cur s)\<lparr>Status := StatusRunning\<rparr>"
    "\<And>i. store_Get (jobs s') i = (if i = ID (cur s) then Inr (cur s') else store_Get (jobs s) i)"
proof -
  obtain b s1 where f: "on_env (funded_at e (cur s)) (register (ID (cur s)) s) = (b, s1)" by fastforce
  then have s1: "jobs s1 = jobs s" "cur s1 = cur s" "cancels s1 = ID (cur s) # cancels s"
    by (auto simp: on_env_simps register_def)
  show thesis
  proof (cases b)
    case True
    then show thesis using assms f s1
      by (intro that [of GRun "save (set_status StatusRunning s1)"]) (simp_all add: beginLifecycle_def)
  next
    case False
    then show thesis using assms f s1 by (intro that [of GWaitFunding s1]) (simp_all add: beginLifecycle_def)
  qed
qed

section \<open>A listing\<close>

text \<open>The ids of the jobs a listing has to start, those that goroutines were started for, and what a started goroutine
  works on: the stored job, which is a listed one, perhaps running by now.\<close>

definition to_start :: "string list \<Rightarrow> job list \<Rightarrow> string list" where
  "to_start registered js = map ID (filter (\<lambda>j. \<not> isLegacyWallet j \<and> ID j \<notin> set registered) js)"

definition started_ids :: "(goroutine \<times> job) list \<Rightarrow> string list" where
  "started_ids gs = map (\<lambda>(g, k). ID k) gs"

definition restarted :: "job_map \<Rightarrow> job list \<Rightarrow> goroutine \<times> job \<Rightarrow> bool" where
  "restarted m js x = (case x of (g, k) \<Rightarrow> (g = GRun \<or> g = GWaitFunding) \<and> store_Get m (ID k) = Inr k \<and>
     (\<exists>j \<in> set js. k = j \<or> k = j\<lparr>Status := StatusRunning\<rparr>))"

definition restarts :: "'w est \<Rightarrow> job list \<Rightarrow> (goroutine \<times> job) list \<Rightarrow> 'w est \<Rightarrow> bool" where
  "restarts s js gs s' \<longleftrightarrow>
     started_ids gs = to_start (cancels s) js \<and> set (cancels s') = set (cancels s) \<union> set (started_ids gs) \<and>
     (store_ok (jobs s) \<longrightarrow> store_ok (jobs s')) \<and> (\<forall>x \<in> set gs. restarted (jobs s') js x) \<and>
     (\<forall>i. i \<notin> set (started_ids gs) \<longrightarrow> store_Get (jobs s') i = store_Get (jobs s) i)"

lemma started_simps [simp]: "started_ids [] = []" "started_ids ((g, k) # gs) = ID k # started_ids gs"
  "started_ids (gs @ hs) = started_ids gs @ started_ids hs"
  by (simp_all add: started_ids_def)

lemma started_ids_iff: "i \<in> set (started_ids gs) \<longleftrightarrow> (\<exists>g k. (g, k) \<in> set gs \<and> ID k = i)"
  by (force simp: started_ids_def)

lemma to_start_simps [simp]: "to_start r [] = []"
  "to_start r (j # js) = (if isLegacyWallet j \<or> ID j \<in> set r then to_start r js else ID j # to_start r js)"
  by (auto simp: to_start_def)

lemma to_start_subset: "i \<in> set (to_start r js) \<Longrightarrow> i \<in> ID ` set js"
  by (auto simp: to_start_def)

lemma to_start_insert: "ID j \<notin> ID ` set js \<Longrightarrow> set r' = insert (ID j) (set r) \<Longrightarrow> to_start r' js = to_start r js"
  by (induction js) auto

lemma restarted_more: "restarted m js x \<Longrightarrow> restarted m (j # js) x"
  by (auto simp: restarted_def split: prod.splits)

lemma restarts_skip: "restarts s js gs s' \<Longrightarrow> isLegacyWallet j \<or> ID j \<in> set (cancels s) \<Longrightarrow> restarts s (j # js) gs s'"
  by (simp add: restarts_def restarted_more)

lemma restarts_begin:
  assumes r: "restarts s1 js gs s2" and j: "\<not> isLegacyWallet j" "ID j \<notin> set (cancels s)" "ID j \<notin> ID ` set js"
    and g: "g = GRun \<or> g = GWaitFunding" "k = j \<or> k = j\<lparr>Status := StatusRunning\<rparr>"
    and s1: "set (cancels s1) = insert (ID j) (set (cancels s))" "store_ok (jobs s) \<longrightarrow> store_ok (jobs s1)"
      "\<And>i. store_Get (jobs s1) i = (if i = ID j then Inr k else store_Get (jobs s) i)"
  shows "restarts s (j # js) ((g, k) # gs) s2"
proof -
  have k: "ID k = ID j" using g(2) by auto
  have ids: "started_ids gs = to_start (cancels s) js"
    using r to_start_insert [OF j(3) s1(1)] by (simp add: restarts_def)
  then have "ID j \<notin> set (started_ids gs)" using j(3) to_start_subset by metis
  then have "store_Get (jobs s2) (ID j) = Inr k" using r s1(3) unfolding restarts_def by metis
  then have "restarted (jobs s2) (j # js) (g, k)" using g k by (auto simp: restarted_def)
  then show ?thesis using r ids j(1,2) s1 k by (simp add: restarts_def restarted_more)
qed

lemma recover_jobs_restarts:
  assumes "recover_jobs e js s = (gs, s')" and "distinct (map ID js)"
    and "\<forall>j \<in> set js. store_Get (jobs s) (ID j) = Inr j"
  shows "restarts s js gs s'"
  using assms
proof (induction js arbitrary: s gs)
  case Nil
  then show ?case by (simp add: restarts_def)
next
  case (Cons j js)
  show ?case
  proof (cases "isLegacyWallet j \<or> ID j \<in> set (cancels s)")
    case True
    then obtain s1 where s1: "recover_jobs e js s1 = (gs, s')" "jobs s1 = jobs s" "cancels s1 = cancels s"
      using Cons.prems(1) by (cases "isLegacyWallet j") (auto simp: beginLifecycle_registered split: prod.splits)
    have "restarts s1 js gs s'" using Cons.IH [OF s1(1)] Cons.prems(2,3) s1(2) by simp
    then have "restarts s js gs s'" unfolding restarts_def s1(2,3) .
    then show ?thesis using True by (rule restarts_skip)
  next
    case False
    then have new: "ID (cur (s\<lparr>cur := j\<rparr>)) \<notin> set (cancels (s\<lparr>cur := j\<rparr>))"
      and "store_Get (jobs (s\<lparr>cur := j\<rparr>)) (ID (cur (s\<lparr>cur := j\<rparr>))) = Inr (cur (s\<lparr>cur := j\<rparr>))"
      using Cons.prems(3) by simp_all
    then obtain g s1 where b: "beginLifecycle e (s\<lparr>cur := j\<rparr>) = (Some g, s1)" "g = GRun \<or> g = GWaitFunding"
      "set (cancels s1) = insert (ID j) (set (cancels s))" "store_ok (jobs s) \<longrightarrow> store_ok (jobs s1)"
      "cur s1 = j \<or> cur s1 = j\<lparr>Status := StatusRunning\<rparr>"
      "\<And>i. store_Get (jobs s1) i = (if i = ID j then Inr (cur s1) else store_Get (jobs s) i)"
      by (rule beginLifecycle_begins [of "s\<lparr>cur := j\<rparr>" e]) simp
    obtain hs where hs: "recover_jobs e js s1 = (hs, s')" "gs = (g, cur s1) # hs"
      using Cons.prems(1) False b(1) by (auto split: prod.splits)
    have "restarts s1 js hs s'"
    proof (rule Cons.IH [OF hs(1)])
      show "distinct (map ID js)" using Cons.prems(2) by simp
      show "\<forall>x \<in> set js. store_Get (jobs s1) (ID x) = Inr x"
      proof
        fix x assume x: "x \<in> set js"
        then have "ID x \<noteq> ID j" using Cons.prems(2) by (metis distinct.simps(2) image_eqI list.simps(9) list.set_map)
        then show "store_Get (jobs s1) (ID x) = Inr x" using b(6) Cons.prems(3) x by simp
      qed
    qed
    then show ?thesis unfolding hs(2)
      by (rule restarts_begin) (use False Cons.prems(2) b in auto)
  qed
qed

section \<open>The whole recovery\<close>

lemma listed_distinct: "store_ok m \<Longrightarrow> distinct (map ID (store_ListByStatus m st))"
proof -
  assume ok: "store_ok m"
  then have "map ID (map snd m) = map fst m" by (auto simp: store_ok_def)
  moreover have "distinct (map fst m)" using ok by (simp add: store_ok_def)
  ultimately have "distinct (map ID (map snd m))" by (simp only:)
  then show ?thesis unfolding store_ListByStatus_def by (rule distinct_map_filter)
qed

lemma listed_restarts:
  assumes "recover_jobs e (store_ListByStatus (jobs s) st) s = (gs, s')" and "store_ok (jobs s)"
  shows "restarts s (store_ListByStatus (jobs s) st) gs s'"
  by (rule recover_jobs_restarts [OF assms(1) listed_distinct [OF assms(2)]])
    (use mem.by_status_iff [OF assms(2)] in blast)

lemma distinct_started: "store_ok m \<Longrightarrow> distinct (to_start r (store_ListByStatus m st))"
  unfolding to_start_def by (intro distinct_map_filter listed_distinct)

text \<open>What one listing does to a stored job: it keeps the jobs of another status, and starts those of its own that
  are not registered and not of a legacy wallet.\<close>

lemma restarts_other:
  assumes r: "restarts s (store_ListByStatus (jobs s) st) gs s'" and ok: "store_ok (jobs s)"
    and j: "store_Get (jobs s) i = Inr j" "Status j \<noteq> st \<or> i \<in> set (cancels s)"
  shows "i \<notin> set (started_ids gs) \<and> store_Get (jobs s') i = Inr j"
proof -
  have "i \<notin> set (to_start (cancels s) (store_ListByStatus (jobs s) st))"
    using j by (auto simp: to_start_def mem.by_status_iff [OF ok])
  then show ?thesis using r j(1) by (simp add: restarts_def)
qed

lemma restarts_legacy:
  assumes r: "restarts s (store_ListByStatus (jobs s) st) gs s'" and ok: "store_ok (jobs s)"
    and j: "store_Get (jobs s) i = Inr j" "isLegacyWallet j"
  shows "store_Get (jobs s') i = Inr j"
proof -
  have "i \<notin> set (to_start (cancels s) (store_ListByStatus (jobs s) st))"
    using j by (auto simp: to_start_def mem.by_status_iff [OF ok])
  then show ?thesis using r j(1) by (simp add: restarts_def)
qed

lemma restarts_own:
  assumes r: "restarts s (store_ListByStatus (jobs s) st) gs s'" and ok: "store_ok (jobs s)"
    and j: "store_Get (jobs s) i = Inr j" "Status j = st" "\<not> isLegacyWallet j" "i \<notin> set (cancels s)"
  shows "\<exists>k. store_Get (jobs s') i = Inr k \<and> (k = j \<or> k = j\<lparr>Status := StatusRunning\<rparr>) \<and>
    i \<in> set (cancels s') \<and> ((GRun, k) \<in> set gs \<or> (GWaitFunding, k) \<in> set gs)"
proof -
  have id: "ID j = i" by (rule mem.get_ID [OF ok j(1)])
  then have "j \<in> set (store_ListByStatus (jobs s) st)" using j(1,2) by (simp add: mem.by_status_iff [OF ok])
  then have i: "i \<in> set (started_ids gs)" using r id j(3,4) by (auto simp: restarts_def to_start_def)
  then obtain g k where k: "(g, k) \<in> set gs" "ID k = i" by (auto simp: started_ids_def)
  then have "restarted (jobs s') (store_ListByStatus (jobs s) st) (g, k)" using r by (simp add: restarts_def)
  then obtain j0 where j0: "g = GRun \<or> g = GWaitFunding" "store_Get (jobs s') i = Inr k" "k = j0 \<or> k = j0\<lparr>Status := StatusRunning\<rparr>"
    "j0 \<in> set (store_ListByStatus (jobs s) st)" using k(2) by (auto simp: restarted_def)
  have "ID j0 = i" using j0(3) k(2) by auto
  then have "j0 = j" using j0(4) j(1) by (simp add: mem.by_status_iff [OF ok])
  then show ?thesis using r i j0 k(1) by (auto simp: restarts_def)
qed

lemma restarts_stored:
  assumes "restarts s js gs s'" and "(g, k) \<in> set gs"
  shows "store_Get (jobs s') (ID k) = Inr k" and "(\<forall>j \<in> set js. Status j = st) \<Longrightarrow> Status k = st \<or> Status k = StatusRunning"
  using assms by (auto simp: restarts_def restarted_def)

lemma started_from: "restarts s js gs s' \<Longrightarrow> i \<in> set (started_ids gs) \<Longrightarrow> i \<notin> set (cancels s) \<and> i \<in> set (cancels s')"
  by (auto simp: restarts_def to_start_def)

text \<open>The goroutines of a recovery, their jobs being the stored ones.\<close>

lemma RecoverInflight_stages:
  assumes "store_ok (jobs s)" and "RecoverInflight e s = (gs, s')"
  obtains g1 s1 g2 where "restarts s (store_ListByStatus (jobs s) StatusAwaitingFunding) g1 s1"
    "restarts s1 (store_ListByStatus (jobs s1) StatusRunning) g2 s'" "store_ok (jobs s1)" "store_ok (jobs s')"
    "gs = g1 @ g2 @ map (\<lambda>j. (GUnwind, j)) (store_ListByStatus (jobs s') StatusReversing)"
proof -
  obtain g1 s1 g2 where r: "recover_jobs e (store_ListByStatus (jobs s) StatusAwaitingFunding) s = (g1, s1)"
    "recover_jobs e (store_ListByStatus (jobs s1) StatusRunning) s1 = (g2, s')"
    "gs = g1 @ g2 @ map (\<lambda>j. (GUnwind, j)) (store_ListByStatus (jobs s') StatusReversing)"
    using assms(2) by (auto simp: RecoverInflight_def split: prod.splits)
  have 1: "restarts s (store_ListByStatus (jobs s) StatusAwaitingFunding) g1 s1"
    by (rule listed_restarts [OF r(1) assms(1)])
  then have ok1: "store_ok (jobs s1)" using assms(1) by (simp add: restarts_def)
  have 2: "restarts s1 (store_ListByStatus (jobs s1) StatusRunning) g2 s'" by (rule listed_restarts [OF r(2) ok1])
  then have "store_ok (jobs s')" using ok1 by (simp add: restarts_def)
  then show thesis using that [OF 1 2 ok1] r(3) by blast
qed

lemma RecoverInflight_works_on_stored:
  assumes "store_ok (jobs s)" and "RecoverInflight e s = (gs, s')" and "(g, k) \<in> set gs"
  shows "store_Get (jobs s') (ID k) = Inr k"
proof -
  obtain g1 s1 g2 where st: "restarts s (store_ListByStatus (jobs s) StatusAwaitingFunding) g1 s1"
    "restarts s1 (store_ListByStatus (jobs s1) StatusRunning) g2 s'" "store_ok (jobs s1)" "store_ok (jobs s')"
    "gs = g1 @ g2 @ map (\<lambda>j. (GUnwind, j)) (store_ListByStatus (jobs s') StatusReversing)"
    by (rule RecoverInflight_stages [OF assms(1,2)])
  consider "(g, k) \<in> set g1" | "(g, k) \<in> set g2" | "k \<in> set (store_ListByStatus (jobs s') StatusReversing)"
    using assms(3) st(5) by auto
  then show ?thesis
  proof cases
    case 1
    have "ID k \<in> set (started_ids g1)" using 1 by (force simp: started_ids_def)
    then have "ID k \<in> set (cancels s1)" using started_from [OF st(1)] by blast
    then show ?thesis using restarts_other [OF st(2,3) restarts_stored(1) [OF st(1) 1]] by blast
  next
    case 2
    then show ?thesis by (rule restarts_stored(1) [OF st(2)])
  next
    case 3
    then show ?thesis by (simp add: mem.by_status_iff [OF st(4)])
  qed
qed

lemma RecoverInflight_one_each:
  assumes "store_ok (jobs s)" and "RecoverInflight e s = (gs, s')"
  shows "distinct (started_ids gs)"
proof -
  obtain g1 s1 g2 where st: "restarts s (store_ListByStatus (jobs s) StatusAwaitingFunding) g1 s1"
    "restarts s1 (store_ListByStatus (jobs s1) StatusRunning) g2 s'" "store_ok (jobs s1)" "store_ok (jobs s')"
    "gs = g1 @ g2 @ map (\<lambda>j. (GUnwind, j)) (store_ListByStatus (jobs s') StatusReversing)"
    by (rule RecoverInflight_stages [OF assms])
  let ?U = "map (\<lambda>j. (GUnwind, j)) (store_ListByStatus (jobs s') StatusReversing)"
  have building: "Status k \<noteq> StatusReversing" if "(g, k) \<in> set (g1 @ g2)" for g k
    using that restarts_stored(2) [OF st(1), of g k StatusAwaitingFunding] restarts_stored(2) [OF st(2), of g k StatusRunning]
    by (auto simp: mem.by_status_iff [OF assms(1)] mem.by_status_iff [OF st(3)])
  have "distinct (started_ids g1)" "distinct (started_ids g2)"
    using st(1,2) distinct_started [OF assms(1)] distinct_started [OF st(3)] by (simp_all add: restarts_def)
  moreover have "distinct (started_ids ?U)"
    using listed_distinct [OF st(4)] by (simp add: started_ids_def o_def)
  moreover have "i \<notin> set (started_ids g2)" if "i \<in> set (started_ids g1)" for i
    using started_from [OF st(1) that] started_from [OF st(2)] by blast
  moreover have "i \<notin> set (started_ids ?U)" if b: "i \<in> set (started_ids (g1 @ g2))" for i
  proof
    obtain g k where k: "(g, k) \<in> set (g1 @ g2)" "ID k = i" using b unfolding started_ids_iff by blast
    then have "store_Get (jobs s') i = Inr k"
      using RecoverInflight_works_on_stored [OF assms, of g k] st(5) by auto
    moreover assume "i \<in> set (started_ids ?U)"
    then have "\<exists>j. store_Get (jobs s') i = Inr j \<and> Status j = StatusReversing"
      by (auto simp: started_ids_def mem.by_status_iff [OF st(4)])
    ultimately show False using building [OF k(1)] by simp
  qed
  ultimately show ?thesis unfolding st(5) by auto
qed

lemma recovered_job:
  assumes "store_ok (jobs s)" and "cancels s = []" and "RecoverInflight e s = (gs, s')" and j: "store_Get (jobs s) i = Inr j"
  shows "\<exists>k. store_Get (jobs s') i = Inr k \<and> custody k = custody j \<and>
         (Status j \<in> {StatusAwaitingFunding, StatusRunning} \<and> \<not> isLegacyWallet j \<longrightarrow>
            i \<in> set (cancels s') \<and> ((GRun, k) \<in> set gs \<or> (GWaitFunding, k) \<in> set gs)) \<and>
         (Status j = StatusReversing \<longrightarrow> (GUnwind, k) \<in> set gs)"
proof -
  obtain g1 s1 g2 where st: "restarts s (store_ListByStatus (jobs s) StatusAwaitingFunding) g1 s1"
    "restarts s1 (store_ListByStatus (jobs s1) StatusRunning) g2 s'" "store_ok (jobs s1)" "store_ok (jobs s')"
    "gs = g1 @ g2 @ map (\<lambda>j. (GUnwind, j)) (store_ListByStatus (jobs s') StatusReversing)"
    by (rule RecoverInflight_stages [OF assms(1,3)])
  have id: "ID j = i" by (rule mem.get_ID [OF assms(1) j])
  consider (waiting) "Status j = StatusAwaitingFunding" "\<not> isLegacyWallet j"
    | (running) "Status j = StatusRunning" "\<not> isLegacyWallet j"
    | (legacy) "isLegacyWallet j" | (other) "Status j \<noteq> StatusAwaitingFunding" "Status j \<noteq> StatusRunning"
    by blast
  then show ?thesis
  proof cases
    case waiting
    then obtain k where k: "store_Get (jobs s1) i = Inr k" "k = j \<or> k = j\<lparr>Status := StatusRunning\<rparr>"
      "i \<in> set (cancels s1)" "(GRun, k) \<in> set g1 \<or> (GWaitFunding, k) \<in> set g1"
      using restarts_own [OF st(1) assms(1) j] assms(2) by auto
    then have "store_Get (jobs s') i = Inr k" "i \<in> set (cancels s')"
      using restarts_other [OF st(2,3)] st(2) by (auto simp: restarts_def)
    moreover have "custody k = custody j" using k(2) by auto
    ultimately show ?thesis using k(4) waiting(1) st(5) by auto
  next
    case running
    then have s1: "i \<notin> set (started_ids g1)" "store_Get (jobs s1) i = Inr j"
      using restarts_other [OF st(1) assms(1) j] by simp_all
    then have "i \<notin> set (cancels s1)" using st(1) assms(2) by (simp add: restarts_def)
    then obtain k where k: "store_Get (jobs s') i = Inr k" "k = j \<or> k = j\<lparr>Status := StatusRunning\<rparr>"
      "i \<in> set (cancels s')" "(GRun, k) \<in> set g2 \<or> (GWaitFunding, k) \<in> set g2"
      using restarts_own [OF st(2,3) s1(2) running] by blast
    moreover have "custody k = custody j" using k(2) by auto
    ultimately show ?thesis using running(1) st(5) by auto
  next
    case legacy
    have "store_Get (jobs s1) i = Inr j" by (rule restarts_legacy [OF st(1) assms(1) j legacy])
    then have "store_Get (jobs s') i = Inr j" by (rule restarts_legacy [OF st(2,3) _ legacy])
    then show ?thesis using legacy id st(5) by (simp add: mem.by_status_iff [OF st(4)])
  next
    case other
    then have "store_Get (jobs s1) i = Inr j" using restarts_other [OF st(1) assms(1) j] by blast
    then have "store_Get (jobs s') i = Inr j" using restarts_other [OF st(2,3)] other(2) by blast
    then show ?thesis using other id st(5) by (auto simp: mem.by_status_iff [OF st(4)])
  qed
qed


definition demo_crashed :: "nat est" where
  "demo_crashed = demo_est\<lparr>jobs := [(''j1'', demo_job)], cancels := []\<rparr>"


end
