(* ===== verification/Go_Http.thy ===== *)
theory Go_Http
  imports Engine_State "HOL-Library.AList"
begin

text \<open>
  What the clients of the remote services use of \<open>net/http\<close> and \<open>encoding/json\<close>. A body is parsed into
  a JSON value by the parameter \<open>ht_Parse\<close> (and printed by \<open>ht_Text\<close>); decoding the value into the Go
  type of a response is written out: the type with the names of its struct tags, when a value fits
  it, and the reading of a field, which leaves the zero value where a field is absent, null or of
  another type. Sending a request and reading its answer is the parameter \<open>ht_Do\<close>.
\<close>

section \<open>JSON values and Go types\<close>

text \<open>\<open>JInt\<close> is a number literal without fraction and exponent, the only kind an integer field accepts.\<close>

datatype json = JNull | JBool bool | JInt int | JFrac rat | JStr string | JArr "json list" | JObj "(string \<times> json) list"

datatype jtype = TStr | TBool | TInt | TFloat | TRaw | TArr jtype | TMap jtype | TObj "(string \<times> jtype) list"

text \<open>The field a key of an object goes to: the one of that name, else the one equal up to case.\<close>

definition field_type :: "(string \<times> jtype) list \<Rightarrow> string \<Rightarrow> jtype option" where
  "field_type fs k = (case map_of fs k of Some t \<Rightarrow> Some t
     | None \<Rightarrow> map_option snd (find (\<lambda>(n, t). equal_fold n k) fs))"

definition float_fits :: "rat \<Rightarrow> bool" where
  "float_fits x \<longleftrightarrow> (case mk x of Fin _ \<Rightarrow> True | _ \<Rightarrow> False)"

text \<open>Does a value decode into a type without an error.\<close>

fun fits :: "jtype \<Rightarrow> json \<Rightarrow> bool"
  and fits_all :: "jtype \<Rightarrow> json list \<Rightarrow> bool"
  and fits_map :: "jtype \<Rightarrow> (string \<times> json) list \<Rightarrow> bool"
  and fits_fields :: "(string \<times> jtype) list \<Rightarrow> (string \<times> json) list \<Rightarrow> bool" where
  "fits t JNull = True"
| "fits t (JBool b) = (t = TBool \<or> t = TRaw)"
| "fits t (JInt n) = (t = TRaw \<or> t = TInt \<and> in_i64 n \<or> t = TFloat \<and> float_fits (of_int n))"
| "fits t (JFrac x) = (t = TRaw \<or> t = TFloat \<and> float_fits x)"
| "fits t (JStr s) = (t = TStr \<or> t = TRaw)"
| "fits t (JArr xs) = (case t of TRaw \<Rightarrow> True | TArr u \<Rightarrow> fits_all u xs | _ \<Rightarrow> False)"
| "fits t (JObj kvs) = (case t of TRaw \<Rightarrow> True | TMap u \<Rightarrow> fits_map u kvs | TObj fs \<Rightarrow> fits_fields fs kvs | _ \<Rightarrow> False)"
| "fits_all t [] = True"
| "fits_all t (x # xs) = (fits t x \<and> fits_all t xs)"
| "fits_map t [] = True"
| "fits_map t ((k, v) # kvs) = (fits t v \<and> fits_map t kvs)"
| "fits_fields fs [] = True"
| "fits_fields fs ((k, v) # kvs) = ((case field_type fs k of None \<Rightarrow> True | Some t \<Rightarrow> fits t v) \<and> fits_fields fs kvs)"

text \<open>Reading a decoded value: the last non-null value of a key counts.\<close>

definition jraw :: "string \<Rightarrow> json \<Rightarrow> json option" where
  "jraw n j = (case j of JObj kvs \<Rightarrow> map_option snd (find (\<lambda>(k, v). equal_fold k n) (rev kvs)) | _ \<Rightarrow> None)"

definition jget :: "string \<Rightarrow> json \<Rightarrow> json" where
  "jget n j = (case j of
     JObj kvs \<Rightarrow> (case find (\<lambda>(k, v). equal_fold k n \<and> v \<noteq> JNull) (rev kvs) of None \<Rightarrow> JNull | Some (k, v) \<Rightarrow> v)
   | _ \<Rightarrow> JNull)"

definition jstr :: "json \<Rightarrow> string" where "jstr j = (case j of JStr s \<Rightarrow> s | _ \<Rightarrow> [])"
definition jbool :: "json \<Rightarrow> bool" where "jbool j = (case j of JBool b \<Rightarrow> b | _ \<Rightarrow> False)"
definition jint :: "json \<Rightarrow> int" where "jint j = (case j of JInt n \<Rightarrow> n | _ \<Rightarrow> 0)"
definition jfloat :: "json \<Rightarrow> f64" where "jfloat j = (case j of JInt n \<Rightarrow> mk (of_int n) | JFrac x \<Rightarrow> mk x | _ \<Rightarrow> 0)"
definition jlist :: "json \<Rightarrow> json list" where "jlist j = (case j of JArr xs \<Rightarrow> xs | _ \<Rightarrow> [])"

text \<open>A Go map decoded from an object: a later key replaces an earlier one. Go ranges over it in no
  fixed order, for which the order of the list stands.\<close>

definition jmap :: "json \<Rightarrow> (string \<times> json) list" where
  "jmap j = (case j of JObj kvs \<Rightarrow> fold (\<lambda>(k, v). AList.update k v) kvs [] | _ \<Rightarrow> [])"

lemmas json_readers = jget_def jstr_def jbool_def jint_def jfloat_def jlist_def

lemma jget_obj [simp]:
  "jget n (JObj ((k, v) # kvs)) = (case jget n (JObj kvs) of JNull \<Rightarrow> if equal_fold k n then v else JNull | w \<Rightarrow> w)"
proof -
  have "find P (xs @ [x]) = (case find P xs of None \<Rightarrow> if P x then Some x else None | Some y \<Rightarrow> Some y)"
    for P :: "string \<times> json \<Rightarrow> bool" and xs x by (induction xs) auto
  then show ?thesis
    by (auto simp: jget_def split: option.splits json.splits dest!: find_Some_set)
qed

lemma jget_empty [simp]: "jget n (JObj []) = JNull" "jget n JNull = JNull"
  by (simp_all add: jget_def)

lemma jread_simps [simp]:
  "jstr (JStr s) = s" "jbool (JBool b) = b" "jint (JInt n) = n" "jlist (JArr xs) = xs"
  "jstr JNull = []" "jint JNull = 0" "jlist JNull = []" "jfloat (JInt n) = mk (of_int n)" "jfloat (JFrac x) = mk x"
  "jfloat JNull = 0" "jbool JNull = False"
  by (simp_all add: json_readers)

section \<open>HTTP\<close>

datatype http_method = GET | POST

record http_req =
  rq_Method :: http_method
  rq_URL :: string
  rq_Headers :: "(string \<times> string) list"
  rq_Body :: string

text \<open>\<open>ht_BadURL\<close> is the error of \<open>http.NewRequestWithContext\<close>; \<open>ht_ff\<close> prints floats in messages.\<close>

record 'w http =
  ht_BadURL :: "string \<Rightarrow> msg option"
  ht_Do :: "gctx \<Rightarrow> http_req \<Rightarrow> 'w \<Rightarrow> (int \<times> string) res \<times> 'w"
  ht_Parse :: "string \<Rightarrow> json res"
  ht_Text :: "json \<Rightarrow> string"
  ht_ff :: "f64 \<Rightarrow> string"
  ht_rt :: "'w runtime"

definition typeError :: msg where "typeError = errm ''json: cannot unmarshal''"

definition unmarshal :: "'w http \<Rightarrow> jtype \<Rightarrow> (json \<Rightarrow> 'a) \<Rightarrow> string \<Rightarrow> 'a res" where
  "unmarshal h t rd body = chk (ht_Parse h body) id (\<lambda>j. if fits t j then Inr (rd j) else Inl typeError)"

text \<open>What \<open>json.Unmarshal\<close> leaves in the variable when its error is ignored.\<close>

definition unmarshal_lax :: "'w http \<Rightarrow> (json \<Rightarrow> 'a) \<Rightarrow> string \<Rightarrow> 'a" where
  "unmarshal_lax h rd body = (case ht_Parse h body of Inl e \<Rightarrow> rd JNull | Inr j \<Rightarrow> rd j)"

text \<open>\<open>http.NewRequestWithContext\<close> and \<open>Do\<close>, with the wrapping of the error of \<open>Do\<close>.\<close>

definition send :: "'w http \<Rightarrow> gctx \<Rightarrow> http_req \<Rightarrow> (msg \<Rightarrow> msg) \<Rightarrow> (int \<times> string \<Rightarrow> 'w \<Rightarrow> 'a res \<times> 'w) \<Rightarrow> 'w \<Rightarrow> 'a res \<times> 'w" where
  "send h c rq wr k =
     (case ht_BadURL h (rq_URL rq) of Some e \<Rightarrow> pure_res (Inl e) | None \<Rightarrow> chks (ht_Do h c rq) wr k)"

lemma snd_chks_pure: "snd (chks m w (\<lambda>r. pure_res (f r)) s) = snd (m s)"
  by (auto simp: chks_def split: prod.splits sum.splits)

lemma snd_chks_pure2: "snd (chks m w (\<lambda>(a, b). pure_res (f a b)) s) = snd (m s)"
  by (auto simp: chks_def split: prod.splits sum.splits)

definition json_accept :: "(string \<times> string) list" where
  "json_accept = [(''Accept'', ''application/json'')]"

definition json_post :: "(string \<times> string) list" where
  "json_post = [(''Content-Type'', ''application/json''), (''Accept'', ''application/json'')]"

text \<open>\<open>truncate\<close>, for an error body.\<close>

definition truncate_to :: "string \<Rightarrow> nat \<Rightarrow> string" where
  "truncate_to s n = (if length s \<le> n then s else take n s @ utf8_ellipsis)"

lemma truncate_length: "length (truncate_to s n) \<le> n + 3"
  by (simp add: truncate_to_def utf8_ellipsis_def)

end
