(* ===== verification/Surf_Client.thy ===== *)
theory Surf_Client
  imports Go_Http Tx_Finalize
begin

text \<open>
  The client of the Surf lending protocol (\<open>common/sources/surf/client.go\<close>): the wire types of its
  REST API and how they decode, the markets and orders built from them, the transaction builders with
  their amount scaling and retries, and the submission through the protocol. \<open>surf_source\<close> is the
  client as the \<open>Source\<close> the engine works with. Log lines are left out.
\<close>

definition surf_Name :: string where "surf_Name = ''surf''"
definition defaultBase :: string where "defaultBase = ''https://surflending.org''"
definition poolInfosPath :: string where "poolInfosPath = ''/api/getAllPoolInfos''"
definition adaPricePath :: string where "adaPricePath = ''/api/getAdaPrice''"
definition activitiesPath :: string where "activitiesPath = ''/api/getActivities''"
definition allPositionsPath :: string where "allPositionsPath = ''/api/getAllPositions''"
definition allOrdersPath :: string where "allOrdersPath = ''/api/getAllOrders''"
definition depositLiquidityPath :: string where "depositLiquidityPath = ''/api/depositLiquidity''"
definition withdrawLiqPath :: string where "withdrawLiqPath = ''/api/withdrawLiquidity''"
definition borrowPath :: string where "borrowPath = ''/api/borrow''"
definition repayCollateralSlippage :: int where "repayCollateralSlippage = 5"

record 'w surf_client =
  sc_base :: string
  sc_http :: "'w http"
  sc_cbor :: cbor

definition NewSurf :: "'w http \<Rightarrow> cbor \<Rightarrow> 'w surf_client" where
  "NewSurf h cb = \<lparr>sc_base = defaultBase, sc_http = h, sc_cbor = cb\<rparr>"

definition WithBase :: "'w surf_client \<Rightarrow> string \<Rightarrow> 'w surf_client" where
  "WithBase c url = c\<lparr>sc_base := url\<rparr>"

section \<open>Wire types\<close>

record surfAsset =
  sa_Ticker :: string
  sa_PolicyID :: string
  sa_AssetName :: string
  sa_Decimals :: int

definition ty_asset :: jtype where
  "ty_asset = TObj [(''ticker'', TStr), (''policyId'', TStr), (''assetName'', TStr), (''decimals'', TInt)]"

definition rd_asset :: "json \<Rightarrow> surfAsset" where
  "rd_asset j = \<lparr>sa_Ticker = jstr (jget ''ticker'' j), sa_PolicyID = jstr (jget ''policyId'' j),
     sa_AssetName = jstr (jget ''assetName'' j), sa_Decimals = jint (jget ''decimals'' j)\<rparr>"

record surfCollateral =
  co_Asset :: surfAsset
  co_Price :: f64
  co_MaxBorrowLTV :: f64
  co_RecommendedBorrowLTV :: f64
  co_LiquidationThresholdLTV :: f64

definition ty_collateral :: jtype where
  "ty_collateral = TObj [(''asset'', ty_asset), (''price'', TFloat), (''maxBorrowLTV'', TFloat),
     (''recommendedBorrowLTV'', TFloat), (''liquidationThresholdLTV'', TFloat)]"

definition rd_collateral :: "json \<Rightarrow> surfCollateral" where
  "rd_collateral j = \<lparr>co_Asset = rd_asset (jget ''asset'' j), co_Price = jfloat (jget ''price'' j),
     co_MaxBorrowLTV = jfloat (jget ''maxBorrowLTV'' j),
     co_RecommendedBorrowLTV = jfloat (jget ''recommendedBorrowLTV'' j),
     co_LiquidationThresholdLTV = jfloat (jget ''liquidationThresholdLTV'' j)\<rparr>"

record surfPool =
  sp_Asset :: surfAsset
  sp_Price :: f64
  sp_CollateralAssets :: "surfCollateral list"
  sp_MaxBorrowLTV :: f64
  sp_LiquidationThresholdLTV :: f64
  sp_TotalSupplied :: f64
  sp_TotalBorrowed :: f64
  sp_TotalCToken :: f64
  sp_Reserve :: f64
  sp_SupplyAPY :: f64
  sp_BorrowAPR :: f64
  sp_CToken_PolicyID :: string
  sp_CToken_AssetName :: string

definition ty_unit :: jtype where
  "ty_unit = TObj [(''policyId'', TStr), (''assetName'', TStr)]"

definition ty_pool :: jtype where
  "ty_pool = TObj [(''asset'', ty_asset), (''price'', TFloat), (''collateralAssets'', TArr ty_collateral),
     (''maxBorrowLTV'', TFloat), (''liquidationThresholdLTV'', TFloat), (''totalSupplied'', TFloat),
     (''totalBorrowed'', TFloat), (''totalCToken'', TFloat), (''reserve'', TFloat), (''supplyApy'', TFloat),
     (''borrowApr'', TFloat), (''cToken'', ty_unit)]"

definition rd_pool :: "json \<Rightarrow> surfPool" where
  "rd_pool j = \<lparr>sp_Asset = rd_asset (jget ''asset'' j), sp_Price = jfloat (jget ''price'' j),
     sp_CollateralAssets = map rd_collateral (jlist (jget ''collateralAssets'' j)),
     sp_MaxBorrowLTV = jfloat (jget ''maxBorrowLTV'' j),
     sp_LiquidationThresholdLTV = jfloat (jget ''liquidationThresholdLTV'' j),
     sp_TotalSupplied = jfloat (jget ''totalSupplied'' j), sp_TotalBorrowed = jfloat (jget ''totalBorrowed'' j),
     sp_TotalCToken = jfloat (jget ''totalCToken'' j), sp_Reserve = jfloat (jget ''reserve'' j),
     sp_SupplyAPY = jfloat (jget ''supplyApy'' j), sp_BorrowAPR = jfloat (jget ''borrowApr'' j),
     sp_CToken_PolicyID = jstr (jget ''policyId'' (jget ''cToken'' j)),
     sp_CToken_AssetName = jstr (jget ''assetName'' (jget ''cToken'' j))\<rparr>"

type_synonym pool_infos = "(string \<times> surfPool) list"

definition ty_poolInfos :: jtype where
  "ty_poolInfos = TObj [(''poolInfos'', TMap ty_pool)]"

definition rd_poolInfos :: "json \<Rightarrow> pool_infos" where
  "rd_poolInfos j = map (map_prod id rd_pool) (jmap (jget ''poolInfos'' j))"

record surfActivity =
  ac_Type :: string
  ac_Address :: string
  ac_Amount :: f64
  ac_Asset :: string
  ac_CollateralAmount :: f64
  ac_CollateralAsset :: string
  ac_PoolID :: string
  ac_TxHash :: string
  ac_Time :: int

definition ty_activity :: jtype where
  "ty_activity = TObj [(''type'', TStr), (''address'', TStr), (''amount'', TFloat), (''asset'', TStr),
     (''collateralAmount'', TFloat), (''collateralAsset'', TStr), (''poolId'', TStr), (''txHash'', TStr), (''time'', TInt)]"

definition rd_activity :: "json \<Rightarrow> surfActivity" where
  "rd_activity j = \<lparr>ac_Type = jstr (jget ''type'' j), ac_Address = jstr (jget ''address'' j),
     ac_Amount = jfloat (jget ''amount'' j), ac_Asset = jstr (jget ''asset'' j),
     ac_CollateralAmount = jfloat (jget ''collateralAmount'' j), ac_CollateralAsset = jstr (jget ''collateralAsset'' j),
     ac_PoolID = jstr (jget ''poolId'' j), ac_TxHash = jstr (jget ''txHash'' j), ac_Time = jint (jget ''time'' j)\<rparr>"

text \<open>A transaction output reference, and the unit of an asset given by policy and name.\<close>

type_synonym out_ref = "string \<times> int"

definition ty_outRef :: jtype where
  "ty_outRef = TObj [(''txHash'', TStr), (''outputIndex'', TInt)]"

definition rd_outRef :: "json \<Rightarrow> out_ref" where
  "rd_outRef j = (jstr (jget ''txHash'' j), jint (jget ''outputIndex'' j))"

definition rd_unit :: "json \<Rightarrow> string" where
  "rd_unit j = jstr (jget ''policyId'' j) @ jstr (jget ''assetName'' j)"

record surfPosition =
  ps_PoolID :: string
  ps_Address :: string
  ps_Principal :: f64
  ps_PrincipalAsset :: string
  ps_Collateral :: f64
  ps_CollateralAsset :: string
  ps_InterestRate :: f64
  ps_StartTime :: int
  ps_LTV :: f64
  ps_BorrowID :: out_ref
  ps_OutRef :: out_ref

definition ty_position :: jtype where
  "ty_position = TObj [(''poolId'', TStr), (''address'', TStr), (''principal'', TFloat), (''principalAsset'', ty_unit),
     (''collateral'', TFloat), (''collateralAsset'', ty_unit), (''interestRate'', TFloat), (''startTime'', TInt),
     (''ltv'', TFloat), (''borrowId'', ty_outRef), (''outRef'', ty_outRef)]"

definition rd_position :: "json \<Rightarrow> surfPosition" where
  "rd_position j = \<lparr>ps_PoolID = jstr (jget ''poolId'' j), ps_Address = jstr (jget ''address'' j),
     ps_Principal = jfloat (jget ''principal'' j), ps_PrincipalAsset = rd_unit (jget ''principalAsset'' j),
     ps_Collateral = jfloat (jget ''collateral'' j), ps_CollateralAsset = rd_unit (jget ''collateralAsset'' j),
     ps_InterestRate = jfloat (jget ''interestRate'' j), ps_StartTime = jint (jget ''startTime'' j),
     ps_LTV = jfloat (jget ''ltv'' j), ps_BorrowID = rd_outRef (jget ''borrowId'' j), ps_OutRef = rd_outRef (jget ''outRef'' j)\<rparr>"

text \<open>\<open>for group := range positions { for p := range group.Positions\<close>: the groups, flattened.\<close>

definition ty_allPositions :: jtype where
  "ty_allPositions = TObj [(''positions'', TArr (TObj [(''poolId'', TStr), (''positions'', TArr ty_position)]))]"

definition rd_allPositions :: "json \<Rightarrow> surfPosition list" where
  "rd_allPositions j = concat (map (\<lambda>g. map rd_position (jlist (jget ''positions'' g))) (jlist (jget ''positions'' j)))"

record surfOrder =
  so_PoolID :: string
  so_Type :: string
  so_Address :: string
  so_Amount :: f64
  so_Asset :: string
  so_Collateral :: f64
  so_CollateralAsset :: string
  so_LTV :: f64
  so_OutRef :: out_ref

definition ty_order :: jtype where
  "ty_order = TObj [(''poolId'', TStr), (''type'', TStr), (''address'', TStr), (''amount'', TFloat), (''asset'', ty_unit),
     (''collateral'', TFloat), (''collateralAsset'', ty_unit), (''ltv'', TFloat), (''outRef'', ty_outRef)]"

definition rd_order :: "json \<Rightarrow> surfOrder" where
  "rd_order j = \<lparr>so_PoolID = jstr (jget ''poolId'' j), so_Type = jstr (jget ''type'' j), so_Address = jstr (jget ''address'' j),
     so_Amount = jfloat (jget ''amount'' j), so_Asset = rd_unit (jget ''asset'' j),
     so_Collateral = jfloat (jget ''collateral'' j), so_CollateralAsset = rd_unit (jget ''collateralAsset'' j),
     so_LTV = jfloat (jget ''ltv'' j), so_OutRef = rd_outRef (jget ''outRef'' j)\<rparr>"

definition ty_allOrders :: jtype where
  "ty_allOrders = TObj [(''orders'', TArr (TObj [(''poolId'', TStr), (''orders'', TArr ty_order)]))]"

definition rd_allOrders :: "json \<Rightarrow> surfOrder list" where
  "rd_allOrders j = concat (map (\<lambda>g. map rd_order (jlist (jget ''orders'' g))) (jlist (jget ''orders'' j)))"

section \<open>Markets\<close>

definition pow10 :: "int \<Rightarrow> f64" where
  "pow10 n = ((\<lambda>v. v * Fin 10) ^^ nat n) 1"

definition fetchJSON :: "'w http \<Rightarrow> jtype \<Rightarrow> (json \<Rightarrow> 'a) \<Rightarrow> gctx \<Rightarrow> string \<Rightarrow> 'w \<Rightarrow> 'a res \<times> 'w" where
  "fetchJSON h t rd c url =
     send h c \<lparr>rq_Method = GET, rq_URL = url, rq_Headers = json_accept, rq_Body = []\<rparr> id (\<lambda>(code, body).
       if code \<noteq> 200 then pure_res (Inl (Fmt ''status %d'' [AI code])) else pure_res (unmarshal h t rd body))"

definition fetchPools :: "'w surf_client \<Rightarrow> gctx \<Rightarrow> 'w \<Rightarrow> pool_infos res \<times> 'w" where
  "fetchPools c x = fetchJSON (sc_http c) ty_poolInfos rd_poolInfos x (sc_base c @ poolInfosPath)"

text \<open>The row of a pool without collateral, and of one collateral of it, from the ADA price in USD.\<close>

definition pool_row :: "string \<Rightarrow> f64 \<Rightarrow> string \<Rightarrow> surfPool \<Rightarrow> market" where
  "pool_row base adaUSD ref p =
     (let a = sp_Asset p; scale = pow10 (sa_Decimals a);
          supplied = sp_TotalSupplied p / scale; borrowed = sp_TotalBorrowed p / scale;
          available = (if supplied - borrowed < 0 then 0 else supplied - borrowed);
          borrowUSD = sp_Price p * adaUSD
      in \<lparr>m_Source = surf_Name, m_PoolID = ref, m_Collateral = asset_zero,
          m_Borrow = \<lparr>PolicyID = sa_PolicyID a, AssetName = sa_AssetName a, Symbol = sa_Ticker a,
                      Decimals = sa_Decimals a, PriceUsd = borrowUSD\<rparr>,
          m_ReceiptAsset = \<lparr>PolicyID = sp_CToken_PolicyID p, AssetName = sp_CToken_AssetName p,
                            Symbol = ''f'' @ sa_Ticker a, Decimals = 0, PriceUsd = 0\<rparr>,
          m_CollateralID = [],
          m_SupplyExchangeRate = (if 0 < sp_TotalCToken p then (sp_TotalSupplied p / scale) / sp_TotalCToken p else 0),
          m_TotalSuppliedUSD = supplied * borrowUSD, m_TotalBorrowedUSD = borrowed * borrowUSD,
          m_AvailableLiquidityUSD = available * borrowUSD,
          m_SupplyAPY = sp_SupplyAPY p, m_BorrowAPY = sp_BorrowAPR p, m_LTV = sp_MaxBorrowLTV p,
          m_LiquidationThreshold = sp_LiquidationThresholdLTV p, m_MinSupply = 0, m_Active = True,
          m_URL = base @ ''/app''\<rparr>)"

definition collateral_row :: "string \<Rightarrow> f64 \<Rightarrow> string \<Rightarrow> surfPool \<Rightarrow> surfCollateral \<Rightarrow> market" where
  "collateral_row base adaUSD ref p col =
     (pool_row base adaUSD ref p)\<lparr>
        m_Collateral := \<lparr>PolicyID = sa_PolicyID (co_Asset col), AssetName = sa_AssetName (co_Asset col),
                         Symbol = sa_Ticker (co_Asset col), Decimals = sa_Decimals (co_Asset col),
                         PriceUsd = co_Price col * sp_Price p * adaUSD\<rparr>,
        m_LTV := co_MaxBorrowLTV col, m_LiquidationThreshold := co_LiquidationThresholdLTV col\<rparr>"

definition pool_rows :: "string \<Rightarrow> f64 \<Rightarrow> string \<times> surfPool \<Rightarrow> market list" where
  "pool_rows base adaUSD = (\<lambda>(ref, p).
     if sp_CollateralAssets p = [] then [pool_row base adaUSD ref p]
     else map (collateral_row base adaUSD ref p) (sp_CollateralAssets p))"

definition surf_FetchMarkets :: "'w surf_client \<Rightarrow> gctx \<Rightarrow> 'w \<Rightarrow> market list res \<times> 'w" where
  "surf_FetchMarkets c x =
     chks (fetchPools c x) (wrap ''surf getAllPoolInfos: %w'') (\<lambda>pools.
       or_zero (fetchJSON (sc_http c) (TObj [(''price'', TFloat)]) (\<lambda>j. jfloat (jget ''price'' j)) x (sc_base c @ adaPricePath)) 0
         (\<lambda>adaUSD w. (Inr (concat (map (pool_rows (sc_base c) adaUSD) pools)), w)))"

section \<open>Orders\<close>

definition normalizeSurfType :: "string \<Rightarrow> string" where
  "normalizeSurfType t =
     (if t = ''Borrow'' then TypeBorrow
      else if t = ''Repay'' then TypeRepay
      else if t = ''Repay With Collateral'' then TypeRepayCollateral
      else if t = ''Deposit'' then TypeDeposit
      else if t = ''Withdraw'' then TypeWithdraw
      else if t = ''Cancel Withdraw'' then TypeCancelWithdraw
      else if t = ''Leveraged Borrow'' then TypeLeveragedBorrow
      else if t = ''Liquidation'' then TypeLiquidation
      else TypeUnknown)"

definition surf_splitUnit :: "string \<Rightarrow> string \<times> string" where
  "surf_splitUnit u = (if length u \<le> 56 then (u, []) else (take 56 u, drop 56 u))"

definition scaleByDecimals :: "f64 \<Rightarrow> int \<Rightarrow> f64" where
  "scaleByDecimals amt decimals = (if decimals \<le> 0 then amt else amt / pow10 decimals)"

type_synonym asset_index = "string \<rightharpoonup> asset"

definition add_asset :: "surfAsset \<Rightarrow> asset_index \<Rightarrow> asset_index" where
  "add_asset a idx =
     (if sa_PolicyID a = [] \<and> sa_AssetName a = [] then idx
      else idx(sa_PolicyID a @ sa_AssetName a \<mapsto>
             \<lparr>PolicyID = sa_PolicyID a, AssetName = sa_AssetName a, Symbol = sa_Ticker a, Decimals = sa_Decimals a, PriceUsd = 0\<rparr>))"

definition buildAssetIndex :: "pool_infos \<Rightarrow> asset_index" where
  "buildAssetIndex pools =
     fold add_asset (concat (map (\<lambda>(ref, p). sp_Asset p # map co_Asset (sp_CollateralAssets p)) pools)) Map.empty"

definition lookup_asset :: "asset_index \<Rightarrow> string \<Rightarrow> asset" where
  "lookup_asset idx u =
     (if u = [] then asset_zero\<lparr>Symbol := ''ADA'', Decimals := 6\<rparr>
      else case idx u of
          Some a \<Rightarrow> a
        | None \<Rightarrow> case surf_splitUnit u of (policy, hex) \<Rightarrow> asset_zero\<lparr>PolicyID := policy, AssetName := hex\<rparr>)"

definition order_zero :: order where
  "order_zero = \<lparr>o_Source = [], o_ID = [], o_Type = [], o_Status = [], o_Owner = [], o_MarketID = [], o_Asset = asset_zero,
     o_Amount = 0, o_AmountUSD = 0, o_CollateralAsset = asset_zero, o_CollateralAmount = 0, o_Interest = 0, o_APY = 0,
     o_LTV = 0, o_HealthFactor = 0, o_TxHash = [], o_OutputIndex = 0, o_TimeMs = 0\<rparr>"

definition pending_order :: "asset_index \<Rightarrow> surfOrder \<Rightarrow> order" where
  "pending_order idx od =
     (let b = lookup_asset idx (so_Asset od); col = lookup_asset idx (so_CollateralAsset od)
      in order_zero\<lparr>o_Source := surf_Name, o_ID := fst (so_OutRef od), o_Type := normalizeSurfType (so_Type od),
           o_Status := OrderPending, o_Owner := so_Address od, o_MarketID := so_PoolID od, o_Asset := b,
           o_Amount := scaleByDecimals (so_Amount od) (Decimals b), o_CollateralAsset := col,
           o_CollateralAmount := scaleByDecimals (so_Collateral od) (Decimals col), o_LTV := so_LTV od,
           o_TxHash := fst (so_OutRef od), o_OutputIndex := snd (so_OutRef od)\<rparr>)"

text \<open>The current output of a position, or the one it was opened with where the API leaves it empty.\<close>

definition live_ref :: "surfPosition \<Rightarrow> out_ref" where
  "live_ref p = (if fst (ps_OutRef p) = [] then ps_BorrowID p else ps_OutRef p)"

definition position_order :: "asset_index \<Rightarrow> surfPosition \<Rightarrow> order" where
  "position_order idx p =
     (let b = lookup_asset idx (ps_PrincipalAsset p); col = lookup_asset idx (ps_CollateralAsset p)
      in order_zero\<lparr>o_Source := surf_Name, o_ID := fst (ps_BorrowID p), o_Type := TypeBorrow,
           o_Status := OrderActive, o_Owner := ps_Address p, o_MarketID := ps_PoolID p, o_Asset := b,
           o_Amount := scaleByDecimals (ps_Principal p) (Decimals b), o_CollateralAsset := col,
           o_CollateralAmount := scaleByDecimals (ps_Collateral p) (Decimals col), o_APY := ps_InterestRate p,
           o_LTV := ps_LTV p, o_TxHash := fst (live_ref p), o_OutputIndex := snd (live_ref p), o_TimeMs := ps_StartTime p\<rparr>)"

definition activity_order :: "asset_index \<Rightarrow> surfActivity \<Rightarrow> order" where
  "activity_order idx a =
     (let b = lookup_asset idx (ac_Asset a); col = lookup_asset idx (ac_CollateralAsset a)
      in order_zero\<lparr>o_Source := surf_Name, o_ID := ac_TxHash a, o_Type := normalizeSurfType (ac_Type a),
           o_Status := OrderClosed, o_Owner := ac_Address a, o_MarketID := ac_PoolID a, o_Asset := b,
           o_Amount := scaleByDecimals (ac_Amount a) (Decimals b), o_CollateralAsset := col,
           o_CollateralAmount := scaleByDecimals (ac_CollateralAmount a) (Decimals col),
           o_TxHash := ac_TxHash a, o_TimeMs := ac_Time a\<rparr>)"

definition fetchPendingOrders :: "'w surf_client \<Rightarrow> gctx \<Rightarrow> string \<Rightarrow> asset_index \<Rightarrow> 'w \<Rightarrow> order list res \<times> 'w" where
  "fetchPendingOrders c x address idx =
     chks (fetchJSON (sc_http c) ty_allOrders rd_allOrders x (sc_base c @ allOrdersPath @ ''?address='' @ address))
       (wrap ''surf getAllOrders: %w'') (\<lambda>os. pure_res (Inr (map (pending_order idx) os)))"

definition fetchPositions :: "'w surf_client \<Rightarrow> gctx \<Rightarrow> string \<Rightarrow> asset_index \<Rightarrow> 'w \<Rightarrow> order list res \<times> 'w" where
  "fetchPositions c x address idx =
     chks (fetchJSON (sc_http c) ty_allPositions rd_allPositions x (sc_base c @ allPositionsPath @ ''?address='' @ address))
       (wrap ''surf getAllPositions: %w'') (\<lambda>ps. pure_res (Inr (map (position_order idx) ps)))"

definition fetchActivities :: "'w surf_client \<Rightarrow> gctx \<Rightarrow> int \<Rightarrow> asset_index \<Rightarrow> 'w \<Rightarrow> order list res \<times> 'w" where
  "fetchActivities c x limit idx =
     chks (fetchJSON (sc_http c) (TArr ty_activity) (\<lambda>j. map rd_activity (jlist j)) x
             (sc_base c @ activitiesPath @ (if 0 < limit then ''?limit='' @ dec_int limit else [])))
       (wrap ''surf getActivities: %w'') (\<lambda>as. pure_res (Inr (map (activity_order idx) as)))"

text \<open>With an address: the active positions and the pending orders, an error only if both calls fail.\<close>

definition both_orders :: "order list res \<Rightarrow> order list res \<Rightarrow> order list res" where
  "both_orders positions pending =
     (case (positions, pending) of
        (Inl pe, Inl oe) \<Rightarrow> Inl (Fmt ''surf positions+orders: %v; %v'' [AM pe, AM oe])
      | _ \<Rightarrow> Inr ((case positions of Inl _ \<Rightarrow> [] | Inr ps \<Rightarrow> ps) @ (case pending of Inl _ \<Rightarrow> [] | Inr os \<Rightarrow> os)))"

definition surf_FetchOrders :: "'w surf_client \<Rightarrow> gctx \<Rightarrow> order_query \<Rightarrow> 'w \<Rightarrow> order list res \<times> 'w" where
  "surf_FetchOrders c x q =
     chks (fetchPools c x) (wrap ''surf getAllPoolInfos: %w'') (\<lambda>pools.
       let assets = buildAssetIndex pools in
       if q_Address q \<noteq> [] then
         (\<lambda>w. case fetchPositions c x (q_Address q) assets w of (positions, w1) \<Rightarrow>
              case fetchPendingOrders c x (q_Address q) assets w1 of (pending, w2) \<Rightarrow>
                (both_orders positions pending, w2))
       else fetchActivities c x (q_Limit q) assets)"

section \<open>Talking to the transaction builder\<close>

definition tx_request :: "string \<Rightarrow> string \<Rightarrow> int \<Rightarrow> int \<Rightarrow> json" where
  "tx_request pool address amount collateral =
     JObj ([(''poolId'', JStr pool), (''address'', JStr address), (''amount'', JInt amount)] @
           (if collateral = 0 then [] else [(''collateralAmount'', JInt collateral)]) @ [(''canonical'', JBool False)])"

record surfTxResponse =
  tr_CBOR :: string
  tr_Tx :: string
  tr_Witness :: "string list"
  tr_Error :: string
  tr_TrackedOrder :: "string option"
  tr_SignedTx :: string
  tr_TxHash :: string

definition ty_txResponse :: jtype where
  "ty_txResponse = TObj [(''cbor'', TStr), (''tx'', TStr), (''witnesses'', TArr TStr), (''error'', TStr),
     (''trackedOrder'', TRaw), (''signedTx'', TStr), (''txHash'', TStr)]"

definition rd_txResponse :: "'w http \<Rightarrow> json \<Rightarrow> surfTxResponse" where
  "rd_txResponse h j = \<lparr>tr_CBOR = jstr (jget ''cbor'' j), tr_Tx = jstr (jget ''tx'' j),
     tr_Witness = map jstr (jlist (jget ''witnesses'' j)), tr_Error = jstr (jget ''error'' j),
     tr_TrackedOrder = map_option (ht_Text h) (jraw ''trackedOrder'' j),
     tr_SignedTx = jstr (jget ''signedTx'' j), tr_TxHash = jstr (jget ''txHash'' j)\<rparr>"

definition surfDecimalsForPool :: "'w surf_client \<Rightarrow> gctx \<Rightarrow> string \<Rightarrow> 'w \<Rightarrow> int res \<times> 'w" where
  "surfDecimalsForPool c x poolID =
     chks (fetchPools c x) id (\<lambda>pools. pure_res (Inr (case map_of pools poolID of
       Some p \<Rightarrow> sa_Decimals (sp_Asset p) | None \<Rightarrow> 6)))"

definition collateral_decimals :: "pool_infos \<Rightarrow> string \<Rightarrow> string \<Rightarrow> int" where
  "collateral_decimals pools poolID u =
     (case map_of pools poolID of
        None \<Rightarrow> 0
      | Some p \<Rightarrow>
          (case find (\<lambda>col. sa_PolicyID (co_Asset col) @ sa_AssetName (co_Asset col) = u) (sp_CollateralAssets p) of
             Some col \<Rightarrow> sa_Decimals (co_Asset col)
           | None \<Rightarrow> if u = [] then 6
               else case sp_CollateralAssets p of [] \<Rightarrow> 0 | col # _ \<Rightarrow> sa_Decimals (co_Asset col)))"

definition surfCollateralDecimalsForPool :: "'w surf_client \<Rightarrow> gctx \<Rightarrow> string \<Rightarrow> string \<Rightarrow> 'w \<Rightarrow> int res \<times> 'w" where
  "surfCollateralDecimalsForPool c x poolID u =
     chks (fetchPools c x) id (\<lambda>pools. pure_res (Inr (collateral_decimals pools poolID u)))"

definition surfBlockfrostRetryable :: "string \<Rightarrow> bool" where
  "surfBlockfrostRetryable m \<longleftrightarrow> contains m ''Could not fetch UTxOs from Blockfrost'' \<or>
     contains m ''Blockfrost'' \<and> contains m ''Try again''"

text \<open>What an error answer says: its \<open>error\<close> field if it has one, else the start of the body.\<close>

definition answer_error :: "'w http \<Rightarrow> string \<Rightarrow> string" where
  "answer_error h body =
     (case unmarshal h ty_txResponse (rd_txResponse h) body of
        Inr r \<Rightarrow> if tr_Error r \<noteq> [] then tr_Error r else truncate_to body 240
      | Inl _ \<Rightarrow> truncate_to body 240)"

definition postTxBuildOnceResp :: "'w surf_client \<Rightarrow> gctx \<Rightarrow> string \<Rightarrow> json \<Rightarrow> 'w \<Rightarrow> surfTxResponse res \<times> 'w" where
  "postTxBuildOnceResp c x path body =
     (let h = sc_http c in
      send h x \<lparr>rq_Method = POST, rq_URL = sc_base c @ path, rq_Headers = json_post,
                rq_Body = ht_Text h (JObj [(''request'', body)])\<rparr>
        (\<lambda>e. Fmt ''surf %s: %w'' [AS path, AM e]) (\<lambda>(code, resp). pure_res (
          if code \<noteq> 200 then Inl (Fmt ''surf %s: status %d: %s'' [AS path, AI code, AS (answer_error h resp)])
          else chk (unmarshal h ty_txResponse (rd_txResponse h) resp) (\<lambda>e. Fmt ''surf %s decode: %w'' [AS path, AM e])
                 (\<lambda>r. if tr_Error r \<noteq> [] then Inl (Fmt ''surf %s: %s'' [AS path, AS (tr_Error r)]) else Inr r))))"

definition emptyCbor :: "string \<Rightarrow> msg" where
  "emptyCbor path = Fmt ''surf %s: empty cbor in response'' [AS path]"

definition response_cbor :: "surfTxResponse \<Rightarrow> string" where
  "response_cbor r = (if tr_CBOR r = [] then tr_Tx r else tr_CBOR r)"

definition postTxBuildOnce :: "'w surf_client \<Rightarrow> gctx \<Rightarrow> string \<Rightarrow> json \<Rightarrow> 'w \<Rightarrow> string res \<times> 'w" where
  "postTxBuildOnce c x path body =
     chks (postTxBuildOnceResp c x path body) id (\<lambda>r. pure_res (
       if response_cbor r = [] then Inl (emptyCbor path) else Inr (response_cbor r)))"

text \<open>Up to \<open>n\<close> more attempts, the one numbered \<open>k\<close> first, with a wait before every one but the first;
  only an error the service calls transient is tried again.\<close>

primrec retry :: "'w http \<Rightarrow> gctx \<Rightarrow> ('w \<Rightarrow> 'a res \<times> 'w) \<Rightarrow> nat \<Rightarrow> int \<Rightarrow> msg \<Rightarrow> 'w \<Rightarrow> 'a res \<times> 'w" where
  "retry h x once 0 k lastErr w = (Inl lastErr, w)"
| "retry h x once (Suc n) k lastErr w =
     (case (if k = 0 then (True, 0, w) else select_wait (ht_rt h) x (k * 800 * (10 ^ 6)) 0 w) of
        (False, _, w1) \<Rightarrow> (Inl ContextCanceled, w1)
      | (True, _, w1) \<Rightarrow>
          (case once w1 of
             (Inr r, w2) \<Rightarrow> (Inr r, w2)
           | (Inl e, w2) \<Rightarrow>
               if surfBlockfrostRetryable (render (ht_ff h) e) then retry h x once n (k + 1) e w2 else (Inl e, w2)))"

definition postTxBuild :: "'w surf_client \<Rightarrow> gctx \<Rightarrow> string \<Rightarrow> json \<Rightarrow> 'w \<Rightarrow> string res \<times> 'w" where
  "postTxBuild c x path body = retry (sc_http c) x (postTxBuildOnce c x path body) 3 0 (errm [])"

definition postTxBuildResp :: "'w surf_client \<Rightarrow> gctx \<Rightarrow> string \<Rightarrow> json \<Rightarrow> 'w \<Rightarrow> surfTxResponse res \<times> 'w" where
  "postTxBuildResp c x path body =
     chks (retry (sc_http c) x (postTxBuildOnceResp c x path body) 3 0 (errm [])) id (\<lambda>r. pure_res (
       if tr_CBOR r = [] \<and> tr_Tx r = [] then Inl (emptyCbor path) else Inr r))"

text \<open>The wallet endpoints take the fields directly; an \<open>error\<close> field counts whatever else the body holds.\<close>

definition postWalletAction :: "'w surf_client \<Rightarrow> gctx \<Rightarrow> string \<Rightarrow> json \<Rightarrow> 'w \<Rightarrow> surfTxResponse res \<times> 'w" where
  "postWalletAction c x path body =
     (let h = sc_http c in
      send h x \<lparr>rq_Method = POST, rq_URL = sc_base c @ path, rq_Headers = json_post, rq_Body = ht_Text h body\<rparr>
        (\<lambda>e. Fmt ''surf %s: %w'' [AS path, AM e]) (\<lambda>(code, resp). pure_res (
          let out = unmarshal_lax h (rd_txResponse h) resp in
          if tr_Error out \<noteq> [] then Inl (Fmt ''surf %s: %s'' [AS path, AS (tr_Error out)])
          else if code \<noteq> 200 then Inl (Fmt ''surf %s: status %d: %s'' [AS path, AI code, AS (truncate_to resp 240)])
          else Inr out)))"

definition surf_Submit :: "'w surf_client \<Rightarrow> gctx \<Rightarrow> string \<Rightarrow> string \<Rightarrow> 'w \<Rightarrow> string res \<times> 'w" where
  "surf_Submit c x address signedTx =
     chks (postWalletAction c x ''/api/wallet/submit'' (JObj [(''address'', JStr address), (''tx'', JStr signedTx)]))
       (wrap ''surf submit: %w'') (\<lambda>out. pure_res (
         if tr_TxHash out = [] then Inl (errm ''surf submit: empty txHash'') else Inr (tr_TxHash out)))"

definition surf_Assemble :: "'w surf_client \<Rightarrow> gctx \<Rightarrow> string \<Rightarrow> string \<Rightarrow> string list \<Rightarrow> bool \<Rightarrow> 'w \<Rightarrow> string res \<times> 'w" where
  "surf_Assemble c x address utx witnesses canonical =
     chks (postWalletAction c x ''/api/wallet/assemble''
             (JObj [(''address'', JStr address), (''tx'', JStr utx), (''witnesses'', JArr (map JStr witnesses)),
                    (''canonical'', JBool canonical)]))
       (wrap ''surf assemble: %w'') (\<lambda>out. pure_res (
         if tr_SignedTx out = [] then Inl (errm ''surf assemble: empty signedTx'') else Inr (tr_SignedTx out)))"

text \<open>The tracked order is raw JSON, which \<open>json.Marshal\<close> embeds if it is well formed.\<close>

definition surf_SubmitTracked :: "'w surf_client \<Rightarrow> gctx \<Rightarrow> string \<Rightarrow> string \<Rightarrow> string \<Rightarrow> string \<Rightarrow> 'w \<Rightarrow> string res \<times> 'w" where
  "surf_SubmitTracked c x address utx witnessHex tracked =
     chks (surf_Assemble c x address utx [witnessHex] False) id (\<lambda>signedTx.
     chks (pure_res (ht_Parse (sc_http c) tracked)) (wrap ''surf submitTrackedOrder: %w'') (\<lambda>raw.
     chks (postWalletAction c x ''/api/wallet/submitTrackedOrder''
             (JObj [(''address'', JStr address), (''tx'', JStr signedTx), (''trackedOrder'', raw)]))
       (wrap ''surf submitTrackedOrder: %w'') (\<lambda>out. pure_res (
         if tr_TxHash out = [] then Inl (errm ''surf submitTrackedOrder: empty txHash'') else Inr (tr_TxHash out)))))"

definition isAlreadySubmittedError :: "string \<Rightarrow> bool" where
  "isAlreadySubmittedError m \<longleftrightarrow> contains m ''All inputs are spent'' \<or> contains m ''already been included'' \<or>
     contains m ''BadInputsUTxO''"

definition postWallet :: "'w surf_client \<Rightarrow> gctx \<Rightarrow> string \<Rightarrow> json \<Rightarrow> 'w \<Rightarrow> string res \<times> 'w" where
  "postWallet c x action body =
     (let h = sc_http c in
      send h x \<lparr>rq_Method = POST, rq_URL = sc_base c @ ''/api/wallet/'' @ action, rq_Headers = json_post,
                rq_Body = ht_Text h body\<rparr>
        (\<lambda>e. Fmt ''surf wallet/%s: %w'' [AS action, AM e]) (\<lambda>(code, resp). pure_res (
          if code \<noteq> 200 then Inl (Fmt ''status %d: %s'' [AI code, AS (answer_error h resp)]) else Inr resp)))"

definition rd_submitted :: "json \<Rightarrow> string" where
  "rd_submitted j = (if jstr (jget ''txHash'' j) = [] then jstr (jget ''hash'' j) else jstr (jget ''txHash'' j))"

definition surf_SubmitTx :: "'w surf_client \<Rightarrow> gctx \<Rightarrow> submit_params \<Rightarrow> 'w \<Rightarrow> string res \<times> 'w" where
  "surf_SubmitTx c x p =
     (if s_CBOR p = [] \<or> s_WitnessSet p = [] \<or> s_Address p = []
      then pure_res (Inl (errm ''surf submit: cbor, witnessSet, and address required''))
      else chks (pure_res (MergeTxWitnesses (sc_cbor c) (s_CBOR p) (s_WitnessSet p))) (wrap ''surf merge witnesses: %w'') (\<lambda>signed w.
        case postWallet c x ''submit'' (JObj [(''address'', JStr (s_Address p)), (''tx'', JStr signed)]) w of
          (Inl e, w1) \<Rightarrow> (if isAlreadySubmittedError (render (ht_ff (sc_http c)) e) then Inr ''already-on-chain''
                         else Inl (Fmt ''surf submit: %w'' [AM e]), w1)
        | (Inr submitted, w1) \<Rightarrow>
            (chk (unmarshal (sc_http c) (TObj [(''txHash'', TStr), (''hash'', TStr)]) rd_submitted submitted)
               (wrap ''surf submit decode: %w'') (\<lambda>hash.
                 if hash = [] then Inl (Fmt ''surf submit: no txHash in response: %s'' [AS (truncate_to submitted 240)])
                 else Inr hash), w1)))"

section \<open>Building transactions\<close>

definition raw_amount :: "f64 \<Rightarrow> int \<Rightarrow> int" where
  "raw_amount amount dec = f64_to_int64 (f64_round (amount * pow10 dec))"

definition surf_built :: "string \<Rightarrow> string \<Rightarrow> msg \<Rightarrow> built_tx" where
  "surf_built action cbor hint = \<lparr>b_Source = surf_Name, b_Action = action, b_CBOR = cbor, b_Hint = hint,
     b_TrackedOrder = None, b_Witnesses = []\<rparr>"

definition surf_BuildSupply :: "'w surf_client \<Rightarrow> gctx \<Rightarrow> tx_params \<Rightarrow> 'w \<Rightarrow> built_tx res \<times> 'w" where
  "surf_BuildSupply c x p =
     chks (surfDecimalsForPool c x (p_MarketID p)) id (\<lambda>dec.
     chks (postTxBuild c x depositLiquidityPath
             (tx_request (p_MarketID p) (p_Address p) (raw_amount (p_Amount p) dec) 0)) id (\<lambda>cbor.
     pure_res (Inr (surf_built ''supply'' cbor
       (Fmt ''Supply %.6f to Surf pool %s'' [AF (p_Amount p), AS (truncate_to (p_MarketID p) 16)])))))"

text \<open>Underlying raw units per fToken, 0 where it is unknown.\<close>

definition surfPoolRate :: "'w surf_client \<Rightarrow> gctx \<Rightarrow> string \<Rightarrow> 'w \<Rightarrow> f64 \<times> 'w" where
  "surfPoolRate c x poolID =
     or_zero (fetchPools c x) [] (\<lambda>pools w.
       (case map_of pools poolID of
          Some p \<Rightarrow> if 0 < sp_TotalCToken p then sp_TotalSupplied p / sp_TotalCToken p else 0
        | None \<Rightarrow> 0, w))"

definition fTokens :: "f64 \<Rightarrow> f64 \<Rightarrow> bool \<Rightarrow> int" where
  "fTokens underlyingRaw rate full =
     (let n = (if 0 < rate then f64_to_int64 (f64_floor (underlyingRaw / rate)) else f64_to_int64 underlyingRaw)
      in if full \<and> 0 < n then n - 1 else n)"

definition surf_BuildWithdraw :: "'w surf_client \<Rightarrow> gctx \<Rightarrow> tx_params \<Rightarrow> 'w \<Rightarrow> built_tx res \<times> 'w" where
  "surf_BuildWithdraw c x p =
     chks (surfDecimalsForPool c x (p_MarketID p)) id (\<lambda>dec w.
       case surfPoolRate c x (p_MarketID p) w of (rate, w1) \<Rightarrow>
         chks (postTxBuild c x withdrawLiqPath (tx_request (p_MarketID p) (p_Address p)
                 (fTokens (f64_round (p_Amount p * pow10 dec)) rate (p_Full p)) 0)) id (\<lambda>cbor.
         pure_res (Inr (surf_built ''withdraw'' cbor
           (Fmt ''Withdraw %.6f from Surf pool %s'' [AF (p_Amount p), AS (truncate_to (p_MarketID p) 16)])))) w1)"

definition surf_BuildBorrow :: "'w surf_client \<Rightarrow> gctx \<Rightarrow> tx_params \<Rightarrow> 'w \<Rightarrow> built_tx res \<times> 'w" where
  "surf_BuildBorrow c x p =
     chks (surfDecimalsForPool c x (p_MarketID p)) id (\<lambda>dec.
     chks (surfCollateralDecimalsForPool c x (p_MarketID p) (p_CollateralUnit p)) id (\<lambda>colDec.
     chks (postTxBuild c x borrowPath (tx_request (p_MarketID p) (p_Address p)
             (raw_amount (p_Amount p) dec) (raw_amount (p_CollateralAmount p) colDec))) id (\<lambda>cbor.
     pure_res (Inr (surf_built ''borrow'' cbor
       (Fmt ''Borrow %.6f from Surf pool %s'' [AF (p_Amount p), AS (truncate_to (p_MarketID p) 16)]))))))"

text \<open>The output of the first position of the address in the pool.\<close>

definition freshOutRef :: "'w surf_client \<Rightarrow> gctx \<Rightarrow> string \<Rightarrow> string \<Rightarrow> 'w \<Rightarrow> out_ref option res \<times> 'w" where
  "freshOutRef c x address poolID =
     chks (fetchJSON (sc_http c) ty_allPositions rd_allPositions x (sc_base c @ allPositionsPath @ ''?address='' @ address)) id
       (\<lambda>ps. pure_res (Inr (map_option live_ref (find (\<lambda>p. ps_PoolID p = poolID) ps))))"

definition close_path :: "string \<Rightarrow> string option" where
  "close_path kind =
     (if kind = ''repay'' then Some ''/api/repay''
      else if kind = ''repayWithCollateral'' then Some ''/api/repayWithCollateral''
      else if kind = ''cancel'' then Some ''/api/cancelOrder''
      else None)"

definition close_body :: "close_params \<Rightarrow> string \<Rightarrow> out_ref \<Rightarrow> json" where
  "close_body p kind ref =
     JObj ([(''poolId'', JStr (c_MarketID p)), (''address'', JStr (c_Address p)),
            (''outRef'', JObj [(''txHash'', JStr (fst ref)), (''outputIndex'', JInt (snd ref))]),
            (''canonical'', JBool False)] @
           (if kind = ''repayWithCollateral'' then [(''slippage'', JInt repayCollateralSlippage)] else []))"

text \<open>Repayments re-read the output of the position and keep the given one where there is none.\<close>

definition close_ref :: "'w surf_client \<Rightarrow> gctx \<Rightarrow> close_params \<Rightarrow> string \<Rightarrow> 'w \<Rightarrow> out_ref \<times> 'w" where
  "close_ref c x p kind w =
     (let given = (c_TxHash p, c_OutputIndex p) in
      if kind = ''repay'' \<or> kind = ''repayWithCollateral''
      then (case freshOutRef c x (c_Address p) (c_MarketID p) w of
              (Inr (Some ref), w1) \<Rightarrow> (ref, w1) | (_, w1) \<Rightarrow> (given, w1))
      else (given, w))"

definition surf_BuildClose :: "'w surf_client \<Rightarrow> gctx \<Rightarrow> close_params \<Rightarrow> 'w \<Rightarrow> built_tx res \<times> 'w" where
  "surf_BuildClose c x p w =
     (if c_MarketID p = [] \<or> c_Address p = [] \<or> c_TxHash p = []
      then (Inl (errm ''surf close: marketId, address and txHash required''), w)
      else let kind = (if c_Kind p = [] then ''repay'' else c_Kind p) in
        case close_path kind of
          None \<Rightarrow> (Inl (Fmt ''surf close: unknown kind %q'' [AS kind]), w)
        | Some path \<Rightarrow>
            (case close_ref c x p kind w of (ref, w1) \<Rightarrow>
               chks (postTxBuildResp c x path (close_body p kind ref)) id (\<lambda>r. pure_res (Inr (
                 (surf_built kind (response_cbor r)
                    (Fmt ''%s Surf position %s#%d'' [AS kind, AS (truncate_to (fst ref) 12), AI (snd ref)]))
                 \<lparr>b_TrackedOrder := tr_TrackedOrder r, b_Witnesses := tr_Witness r\<rparr>))) w1))"

section \<open>The client as a source\<close>

definition surf_builder :: "'w surf_client \<Rightarrow> 'w tx_builder" where
  "surf_builder c = \<lparr>tb_BuildSupply = surf_BuildSupply c, tb_BuildWithdraw = surf_BuildWithdraw c,
     tb_BuildBorrow = surf_BuildBorrow c, tb_BuildClose = surf_BuildClose c, tb_SubmitTx = surf_SubmitTx c\<rparr>"

definition surf_tracked :: "'w surf_client \<Rightarrow> 'w tracked_submitter" where
  "surf_tracked c = \<lparr>ts_SubmitTracked = surf_SubmitTracked c, ts_Assemble = surf_Assemble c, ts_Submit = surf_Submit c\<rparr>"

definition surf_source :: "'w surf_client \<Rightarrow> 'w source" where
  "surf_source c = \<lparr>src_Name = surf_Name, src_FetchMarkets = surf_FetchMarkets c, src_FetchOrders = surf_FetchOrders c,
     src_Builder = Some (surf_builder c), src_Tracked = Some (surf_tracked c)\<rparr>"

section \<open>Amounts\<close>

lemma pow10_exact: "n \<le> 15 \<Longrightarrow> pow10 (int n) = Fin (10 ^ n)"
proof (induction n)
  case (Suc n)
  have "(10 :: rat) ^ Suc n \<le> 10 ^ 15" using Suc.prems by (intro power_increasing) simp_all
  then have "mk (10 ^ Suc n) = Fin (10 ^ Suc n)"
    using f64_pow10_exact [OF Suc.prems] by (simp add: f64_pow10_def del: of_nat_Suc)
  moreover have "pow10 (int n) = Fin (10 ^ n)" using Suc by simp
  ultimately show ?case by (simp add: pow10_def mult.commute del: of_nat_Suc)
qed (simp add: pow10_def)

lemma raw_amount_toRaw: "d \<le> 15 \<Longrightarrow> raw_amount amount (int d) = toRaw amount (int d)"
  by (simp add: raw_amount_def toRaw_def pow10_exact f64_pow10_exact)

text \<open>C20. A full withdrawal never asks for more than is there: the fTokens requested are worth, at the pool's
  rate, at most the underlying amount and at least that amount less three fTokens, for every rate,
  the rounding of the quotient included.\<close>

theorem full_withdrawal_affordable:
  assumes "0 \<le> u" and "0 < rate" and "u / rate \<le> 2 ^ 50"
  shows "0 \<le> fTokens (Fin u) (Fin rate) True \<and>
         of_int (fTokens (Fin u) (Fin rate) True) * rate \<le> u \<and>
         u - 3 * rate \<le> of_int (fTokens (Fin u) (Fin rate) True) * rate"
proof -
  define q where "q = u / rate"
  have q: "0 \<le> q" "q \<le> 2 ^ 50" "u = q * rate" using assms by (simp_all add: q_def)
  define n where "n = \<lfloor>rnd q\<rfloor>"
  have n: "0 \<le> n" "of_int n \<le> rnd q" "rnd q < of_int n + 1" using rnd_nonneg [OF q(1)] unfolding n_def by linarith+
  have up: "rnd q \<le> max 1 (q + 1 / 4) \<and> q \<le> rnd q + 1"
  proof (cases "1 \<le> q")
    case True
    then have m: "normal_min \<le> q" by (intro normal_minI) simp
    show ?thesis using rnd_upper [OF m] rnd_lower [OF m] q(2) by (simp; linarith)
  next
    case False
    then show ?thesis using rnd_le_rep [of q 1] rnd_nonneg [OF q(1)] by simp
  qed
  then have "n \<le> 2 ^ 51" using n q(2) by (simp; linarith)
  then have "f64_to_int64 (f64_floor (Fin u / Fin rate)) = n"
    using assms q n by (simp add: q_def [symmetric] mk_Fin_60 trunc_rat_def in_i64_def n_def [symmetric])
  then have f: "fTokens (Fin u) (Fin rate) True = (if 0 < n then n - 1 else n)"
    using assms(2) by (simp add: fTokens_def)
  define m where "m = fTokens (Fin u) (Fin rate) True"
  have "0 \<le> m" "of_int m \<le> q" "q - 3 \<le> of_int m"
    using f n up q(1) unfolding m_def by (auto split: if_splits)
  then show ?thesis using assms(2) mult_right_mono [of "of_int m" q rate] mult_right_mono [of "q - 3" "of_int m" rate] q(3)
    unfolding m_def [symmetric] by (simp add: left_diff_distrib)
qed

theorem full_withdrawal_affordable_witness:
  "of_int (fTokens (Fin 195311696) (Fin (105 / 100)) True) * (105 / 100 :: rat) \<le> 195311696"
  using full_withdrawal_affordable [of 195311696 "105 / 100"] by simp

section \<open>Retries\<close>

lemma retry_calls:
  assumes "\<And>v. N (snd (once v)) = N v + (1 :: nat)" and "\<And>d v. N (snd (rt_Wait (ht_rt h) d v)) = N v"
  shows "retry h x once n k e w = (r, w') \<Longrightarrow>
     N w \<le> N w' \<and> N w' \<le> N w + n \<and> (\<forall>v. r = Inr v \<longrightarrow> (\<exists>w0. once w0 = (Inr v, w')))"
proof (induction n arbitrary: k e w)
  case (Suc n)
  obtain b t w1 where s: "(if k = 0 then (True, 0, w) else select_wait (ht_rt h) x (k * 800 * (10 ^ 6)) 0 w) = (b, t, w1)"
    by (cases "if k = 0 then (True, 0, w) else select_wait (ht_rt h) x (k * 800 * (10 ^ 6)) 0 w") auto
  have w1: "N w1 = N w"
  proof (cases "k = 0")
    case False
    obtain f l w2 where "rt_Wait (ht_rt h) (k * 800 * (10 ^ 6)) w = ((f, l), w2)" by (metis surj_pair)
    then show ?thesis using s False assms(2) [of "k * 800 * (10 ^ 6)" w]
      by (auto simp: select_wait_def split: if_splits)
  qed (use s in auto)
  obtain o1 w2 where o: "once w1 = (o1, w2)" by fastforce
  have w2: "N w2 = N w1 + 1" using assms(1) [of w1] o by simp
  show ?case
  proof (cases b)
    case True
    show ?thesis
    proof (cases o1)
      case (Inl er)
      then show ?thesis using Suc.prems Suc.IH [of "k + 1" er w2] s True o w1 w2
        by (auto split: if_splits)
    next
      case (Inr v)
      then show ?thesis using Suc.prems s True o w1 w2 by auto
    qed
  next
    case False
    then show ?thesis using Suc.prems s w1 by auto
  qed
qed auto

lemma postTxBuildOnce_calls:
  assumes "\<And>rq v. N (snd (ht_Do (sc_http c) x rq v)) = N v + (1 :: nat)" and "ht_BadURL (sc_http c) (sc_base c @ path) = None"
  shows "N (snd (postTxBuildOnce c x path body v)) = N v + 1"
proof -
  let ?rq = "\<lparr>rq_Method = POST, rq_URL = sc_base c @ path, rq_Headers = json_post,
    rq_Body = ht_Text (sc_http c) (JObj [(''request'', body)])\<rparr>"
  obtain a v1 where d: "ht_Do (sc_http c) x ?rq v = (a, v1)" by fastforce
  then have "N v1 = N v + 1" using assms(1) [of ?rq v] by simp
  then show ?thesis using assms(2) d
    by (simp add: postTxBuildOnce_def postTxBuildOnceResp_def send_def snd_chks_pure snd_chks_pure2 Let_def)
qed


section \<open>Closing a position\<close>

text \<open>C38. A repayment does not close the position it was asked for: if the address has a position in the pool,
  the transaction built repays the first one listed there, whatever output the caller named; two
  positions of one pool cannot be told apart.\<close>

theorem repay_ignores_the_named_position:
  assumes "c_MarketID p \<noteq> []" "c_Address p \<noteq> []" and "c_Kind p \<in> {[], ''repay'', ''repayWithCollateral''}"
    and "fst (freshOutRef c x (c_Address p) (c_MarketID p) w) = Inr (Some ref)" and "a \<noteq> []" "b \<noteq> []"
  shows "surf_BuildClose c x (p\<lparr>c_TxHash := a, c_OutputIndex := i\<rparr>) w =
         surf_BuildClose c x (p\<lparr>c_TxHash := b, c_OutputIndex := j\<rparr>) w"
proof -
  obtain w1 where "freshOutRef c x (c_Address p) (c_MarketID p) w = (Inr (Some ref), w1)"
    using assms(4) by (metis prod.collapse)
  then show ?thesis using assms by (auto simp: surf_BuildClose_def close_ref_def close_body_def close_path_def Let_def)
qed

section \<open>Example\<close>

text \<open>A server that knows one pool and one position, and answers every build with a transaction.\<close>

definition demo_position :: json where
  "demo_position = JObj [(''poolId'', JStr ''pool1''), (''address'', JStr ''addr''), (''principal'', JInt 20000000),
     (''outRef'', JObj [(''txHash'', JStr ''aa''), (''outputIndex'', JInt 1)])]"

definition demo_answer :: "string \<Rightarrow> json" where
  "demo_answer url =
     (if contains url allPositionsPath then JObj [(''positions'', JArr [JObj [(''poolId'', JStr ''pool1''), (''positions'', JArr [demo_position])]])]
      else if contains url allOrdersPath then JObj [(''orders'', JArr [])]
      else if contains url poolInfosPath then JObj [(''poolInfos'', JObj [(''pool1'', JObj [(''totalSupplied'', JInt 5)])])]
      else JObj [(''cbor'', JStr ''84a0'')])"

text \<open>The body of an answer is the URL asked for, which \<open>ht_Parse\<close> maps to the answer; \<open>down\<close> lists the
  paths that answer 500.\<close>

definition demo_http :: "string list \<Rightarrow> nat http" where
  "demo_http down = \<lparr>ht_BadURL = \<lambda>_. None,
     ht_Do = (\<lambda>c rq w. (Inr (if list_ex (contains (rq_URL rq)) down then 500 else 200, rq_URL rq), w + 1)),
     ht_Parse = (\<lambda>b. Inr (demo_answer b)), ht_Text = (\<lambda>_. ''json''), ht_ff = (\<lambda>_. ''f''), ht_rt = demo_runtime\<rparr>"

definition demo_surf :: "string list \<Rightarrow> nat surf_client" where
  "demo_surf down = NewSurf (demo_http down) demo_cbor"

lemmas demo_surf_defs = demo_surf_def demo_http_def NewSurf_def demo_runtime_def


lemma demo_get:
  "fetchJSON (demo_http down) t rd c url v =
     (if list_ex (contains url) down then Inl (Fmt ''status %d'' [AI 500])
      else if fits t (demo_answer url) then Inr (rd (demo_answer url)) else Inl typeError, v + 1)"
  by (simp add: fetchJSON_def send_def demo_http_def chks_def unmarshal_def)

definition demo_close :: close_params where
  "demo_close = \<lparr>c_Source = ''surf'', c_MarketID = ''pool1'', c_Address = ''addr1'', c_Wallet = [], c_TxHash = ''bb'',
     c_OutputIndex = 0, c_Kind = ''repay'', c_ChangeAddress = [], c_OtherAddresses = [], c_UTXOs = [], c_Pkh = [],
     c_RedeemCollateral = False\<rparr>"

lemma demo_fresh: "fst (freshOutRef (demo_surf []) Background ''addr1'' ''pool1'' w) = Inr (Some (''aa'', 1))"
proof -
  have "fits ty_allPositions (demo_answer (defaultBase @ allPositionsPath @ ''?address=addr1''))" by code_simp
  moreover have "map_option live_ref (find (\<lambda>p. ps_PoolID p = ''pool1'')
      (rd_allPositions (demo_answer (defaultBase @ allPositionsPath @ ''?address=addr1'')))) = Some (''aa'', 1)" by code_simp
  ultimately show ?thesis by (simp add: freshOutRef_def demo_surf_def NewSurf_def demo_get chks_def)
qed

theorem repay_ignores_the_named_position_witness:
  "surf_BuildClose (demo_surf []) Background (demo_close\<lparr>c_TxHash := ''bb'', c_OutputIndex := 0\<rparr>) 0 =
   surf_BuildClose (demo_surf []) Background (demo_close\<lparr>c_TxHash := ''cc'', c_OutputIndex := 7\<rparr>) 0"
  by (rule repay_ignores_the_named_position) (simp_all add: demo_fresh demo_close_def)

end
