(* ===== verification/Source_Cache.thy ===== *)
theory Source_Cache
  imports Engine_State
begin

text \<open>
  The wrappers every lending source runs behind: the caches of markets and orders with their in-memory
  fallback (\<open>common/sources/memory_cache.go\<close>), \<open>CachedSource\<close> with its single-flight refresh
  (\<open>common/sources/cache.go\<close>) and \<open>PersistedSource\<close> (\<open>common/sources/persister.go\<close>). A wrapper takes a
  source and is one again. The Redis and Mongo backends are the parameters \<open>cache\<close> and \<open>persister\<close>.
\<close>

section \<open>Expiring maps\<close>

text \<open>
  What a cache owes its users: a value just set is read back until its time to live has passed and
  not after, other keys are untouched, and what has expired stays expired.
\<close>

locale ttl_cache =
  fixes get :: "int \<Rightarrow> string \<Rightarrow> 's \<Rightarrow> 'v option"
    and set :: "int \<Rightarrow> string \<Rightarrow> 'v \<Rightarrow> int \<Rightarrow> 's \<Rightarrow> 's"
  assumes get_set: "get u k (set t k v ttl s) = (if u \<le> t + ttl then Some v else None)"
    and get_other: "k' \<noteq> k \<Longrightarrow> get u k' (set t k v ttl s) = get u k' s"
    and expired: "get t k s = None \<Longrightarrow> t \<le> u \<Longrightarrow> get u k s = None"
begin

lemma read_own_write: "0 \<le> ttl \<Longrightarrow> get t k (set t k v ttl s) = Some v"
  by (simp add: get_set)

lemma last_write: "get u k (set t2 k v2 ttl2 (set t1 k v1 ttl1 s)) = (if u \<le> t2 + ttl2 then Some v2 else None)"
  by (simp add: get_set)

lemma fresh: "get u k (set t k v ttl s) = Some x \<Longrightarrow> x = v \<and> u - t \<le> ttl"
  by (simp add: get_set split: if_splits)

lemma hit_was_hit: "get u k s = Some v \<Longrightarrow> t \<le> u \<Longrightarrow> get t k s \<noteq> None"
  using expired by fastforce

end

type_synonym 'v mem_entries = "string \<rightharpoonup> 'v \<times> int"

definition NewMemoryCache :: "market list mem_entries" where "NewMemoryCache = Map.empty"

definition MemoryCache_Get :: "int \<Rightarrow> string \<Rightarrow> market list mem_entries \<Rightarrow> market list option" where
  "MemoryCache_Get now key m =
     (case m key of None \<Rightarrow> None | Some (v, expires) \<Rightarrow> if expires < now then None else Some v)"

definition MemoryCache_Set :: "int \<Rightarrow> string \<Rightarrow> market list \<Rightarrow> int \<Rightarrow> market list mem_entries \<Rightarrow> market list mem_entries" where
  "MemoryCache_Set now key v ttl m = m(key \<mapsto> (v, now + ttl))"

definition NewMemoryOrderCache :: "order list mem_entries" where "NewMemoryOrderCache = Map.empty"

definition MemoryOrderCache_Get :: "int \<Rightarrow> string \<Rightarrow> order list mem_entries \<Rightarrow> order list option" where
  "MemoryOrderCache_Get now key m =
     (case m key of None \<Rightarrow> None | Some (v, expires) \<Rightarrow> if expires < now then None else Some v)"

definition MemoryOrderCache_Set :: "int \<Rightarrow> string \<Rightarrow> order list \<Rightarrow> int \<Rightarrow> order list mem_entries \<Rightarrow> order list mem_entries" where
  "MemoryOrderCache_Set now key v ttl m = m(key \<mapsto> (v, now + ttl))"

interpretation mc: ttl_cache MemoryCache_Get MemoryCache_Set
  by unfold_locales (auto simp: MemoryCache_Get_def MemoryCache_Set_def split: option.splits if_splits)

interpretation moc: ttl_cache MemoryOrderCache_Get MemoryOrderCache_Set
  by unfold_locales (auto simp: MemoryOrderCache_Get_def MemoryOrderCache_Set_def split: option.splits if_splits)

section \<open>PersistedSource\<close>

text \<open>\<open>ErrUnsupportedTxBuilder\<close> from every method where the inner source has no builder.\<close>

definition no_builder :: "'w tx_builder" where
  "no_builder = \<lparr>tb_BuildSupply = (\<lambda>c p. pure_res (Inl ErrUnsupportedTxBuilder)),
     tb_BuildWithdraw = (\<lambda>c p. pure_res (Inl ErrUnsupportedTxBuilder)),
     tb_BuildBorrow = (\<lambda>c p. pure_res (Inl ErrUnsupportedTxBuilder)),
     tb_BuildClose = (\<lambda>c p. pure_res (Inl ErrUnsupportedTxBuilder)),
     tb_SubmitTx = (\<lambda>c p. pure_res (Inl ErrUnsupportedTxBuilder))\<rparr>"

definition no_tracked :: "'w tracked_submitter" where
  "no_tracked = \<lparr>ts_SubmitTracked = (\<lambda>c a u w t. pure_res (Inl ErrUnsupportedTxBuilder)),
     ts_Assemble = (\<lambda>c a u ws k. pure_res (Inl ErrUnsupportedTxBuilder)),
     ts_Submit = (\<lambda>c a t. pure_res (Inl ErrUnsupportedTxBuilder))\<rparr>"

text \<open>The builder methods of the wrappers: passed on, or the error above.\<close>

definition persisted_builder :: "'w source \<Rightarrow> 'w tx_builder" where
  "persisted_builder inner = (case src_Builder inner of Some b \<Rightarrow> b | None \<Rightarrow> no_builder)"

definition persisted_tracked :: "'w source \<Rightarrow> 'w tracked_submitter" where
  "persisted_tracked inner = (case src_Tracked inner of Some t \<Rightarrow> t | None \<Rightarrow> no_tracked)"

type_synonym 'w persister = "gctx \<Rightarrow> string \<Rightarrow> market list \<Rightarrow> 'w \<Rightarrow> unit res \<times> 'w"

definition NoopPersister :: "'w persister" where
  "NoopPersister c name ms = pure_res (Inr ())"

definition persisted_FetchMarkets :: "'w source \<Rightarrow> 'w persister \<Rightarrow> gctx \<Rightarrow> 'w \<Rightarrow> market list res \<times> 'w" where
  "persisted_FetchMarkets inner p c =
     chks (src_FetchMarkets inner c) id (\<lambda>ms w. (Inr ms, snd (p c (src_Name inner) ms w)))"

definition NewPersistedSource :: "'w source \<Rightarrow> 'w persister option \<Rightarrow> 'w source" where
  "NewPersistedSource inner p =
     \<lparr>src_Name = src_Name inner,
      src_FetchMarkets = persisted_FetchMarkets inner (case p of None \<Rightarrow> NoopPersister | Some q \<Rightarrow> q),
      src_FetchOrders = src_FetchOrders inner,
      src_Builder = Some (persisted_builder inner), src_Tracked = Some (persisted_tracked inner)\<rparr>"

section \<open>CachedSource\<close>

text \<open>The cache interface: a hit, a miss or an error, and a write that may fail.\<close>

record ('v, 'w) cache =
  ca_Get :: "gctx \<Rightarrow> string \<Rightarrow> 'w \<Rightarrow> 'v option res \<times> 'w"
  ca_Set :: "gctx \<Rightarrow> string \<Rightarrow> 'v \<Rightarrow> int \<Rightarrow> 'w \<Rightarrow> unit res \<times> 'w"

record 'w cached_source =
  cs_inner :: "'w source"
  cs_cache :: "(market list, 'w) cache option"
  cs_ttl :: int
  cs_key :: string
  cs_orderCache :: "(order list, 'w) cache option"
  cs_orderTTL :: int

definition NewCachedSource :: "'w source \<Rightarrow> (market list, 'w) cache option \<Rightarrow> int \<Rightarrow> 'w cached_source" where
  "NewCachedSource inner cache ttl =
     \<lparr>cs_inner = inner, cs_cache = cache, cs_ttl = ttl, cs_key = ''markets:'' @ src_Name inner,
      cs_orderCache = None, cs_orderTTL = 0\<rparr>"

definition WithOrderCache :: "'w cached_source \<Rightarrow> (order list, 'w) cache option \<Rightarrow> int \<Rightarrow> 'w cached_source" where
  "WithOrderCache c oc ttl = c\<lparr>cs_orderCache := oc, cs_orderTTL := ttl\<rparr>"

text \<open>A read that hits; errors of the cache count as misses.\<close>

definition cache_hit :: "'v option res \<Rightarrow> 'v option" where
  "cache_hit r = (case r of Inl e \<Rightarrow> None | Inr v \<Rightarrow> v)"

text \<open>\<open>FetchMarkets\<close> of a caller that finds no refresh in flight.\<close>

definition cached_FetchMarkets :: "'w cached_source \<Rightarrow> gctx \<Rightarrow> 'w \<Rightarrow> market list res \<times> 'w" where
  "cached_FetchMarkets s c w =
     (case cs_cache s of
        None \<Rightarrow> src_FetchMarkets (cs_inner s) c w
      | Some ca \<Rightarrow>
          if cs_ttl s \<le> 0 then src_FetchMarkets (cs_inner s) c w
          else case ca_Get ca c (cs_key s) w of (r, w1) \<Rightarrow>
            (case cache_hit r of
               Some v \<Rightarrow> (Inr v, w1)
             | None \<Rightarrow>
                 (case src_FetchMarkets (cs_inner s) c w1 of
                    (Inl e, w2) \<Rightarrow> (Inl e, w2)
                  | (Inr v, w2) \<Rightarrow> (Inr v, snd (ca_Set ca c (cs_key s) v (cs_ttl s) w2)))))"

text \<open>\<open>itoa\<close>: the digits are written from the last one; \<open>-n\<close> of the least integer wraps.\<close>

function itoa_loop :: "int \<Rightarrow> string \<Rightarrow> string" where
  "itoa_loop n acc = (if 0 < n then itoa_loop (n div 10) (digit (nat (n mod 10)) # acc) else acc)"
  by pat_completeness auto
termination
  by (relation "measure (\<lambda>(n, acc). nat n)") auto

declare itoa_loop.simps [simp del]

definition itoa :: "int \<Rightarrow> string" where
  "itoa n =
     (if n = 0 then ''0''
      else let ds = itoa_loop (if n < 0 then i64 (- n) else n) [] in if n < 0 then CHR ''-'' # ds else ds)"

definition orderKey :: "string \<Rightarrow> order_query \<Rightarrow> string" where
  "orderKey name q = ''orders:'' @ name @ '':'' @ q_Address q @ '':'' @ itoa (q_Limit q)"

definition cached_FetchOrders :: "'w cached_source \<Rightarrow> gctx \<Rightarrow> order_query \<Rightarrow> 'w \<Rightarrow> order list res \<times> 'w" where
  "cached_FetchOrders s c q w =
     (case cs_orderCache s of
        None \<Rightarrow> src_FetchOrders (cs_inner s) c q w
      | Some oc \<Rightarrow>
          if cs_orderTTL s \<le> 0 then src_FetchOrders (cs_inner s) c q w
          else let key = orderKey (src_Name (cs_inner s)) q in
            case (if q_Refresh q then (None, w)
                  else (case ca_Get oc c key w of (r, w1) \<Rightarrow> (cache_hit r, w1))) of
              (Some v, w1) \<Rightarrow> (Inr v, w1)
            | (None, w1) \<Rightarrow>
                chks (src_FetchOrders (cs_inner s) c q) id (\<lambda>v w2. (Inr v, snd (ca_Set oc c key v (cs_orderTTL s) w2))) w1)"

definition cached_builder :: "'w cached_source \<Rightarrow> 'w tx_builder" where
  "cached_builder s = (case src_Builder (cs_inner s) of Some b \<Rightarrow> b | None \<Rightarrow> no_builder)"

definition cached_tracked :: "'w cached_source \<Rightarrow> 'w tracked_submitter" where
  "cached_tracked s = (case src_Tracked (cs_inner s) of Some t \<Rightarrow> t | None \<Rightarrow> no_tracked)"

definition as_source :: "'w cached_source \<Rightarrow> 'w source" where
  "as_source s =
     \<lparr>src_Name = src_Name (cs_inner s), src_FetchMarkets = cached_FetchMarkets s,
      src_FetchOrders = cached_FetchOrders s,
      src_Builder = Some (cached_builder s), src_Tracked = Some (cached_tracked s)\<rparr>"

section \<open>Keys\<close>

lemma itoa_loop_dec: "0 < n \<Longrightarrow> itoa_loop n acc = dec_nat (nat n) @ acc"
proof (induction n acc rule: itoa_loop.induct)
  case (1 n acc)
  have d: "nat (n mod 10) = nat n mod 10" "nat (n div 10) = nat n div 10"
    using 1(2) by (simp_all add: nat_mod_distrib nat_div_distrib)
  show ?case
  proof (cases "n < 10")
    case True
    then have "n div 10 = 0" "nat n < 10" using 1(2) by simp_all
    then show ?thesis using 1(2) d
      by (simp add: itoa_loop.simps [of n] itoa_loop.simps [of 0] dec_nat.simps [of "nat n"])
  next
    case False
    then have "0 < n div 10" "\<not> nat n < 10" by simp_all
    then show ?thesis using 1 d by (simp add: itoa_loop.simps [of n] dec_nat.simps [of "nat n"])
  qed
qed

lemma digit_0: "digit 0 = CHR ''0''"
  by code_simp

lemma itoa_dec: "in_i64 n \<Longrightarrow> n \<noteq> - (2 ^ 63) \<Longrightarrow> itoa n = dec_int n"
  by (auto simp: itoa_def dec_int_def itoa_loop_dec i64_id in_i64_def Let_def dec_nat.simps [of 0] digit_0)

text \<open>Two order queries share a cache entry only if they ask the same: from the key of a source whose
  name has no colon, the address and the limit are recovered, whatever the address holds.\<close>

theorem orderKey_inj:
  assumes "orderKey n q = orderKey n' q'" and "CHR '':'' \<notin> set n" "CHR '':'' \<notin> set n'"
    and "in_i64 (q_Limit q)" "in_i64 (q_Limit q')" and "q_Limit q \<noteq> - (2 ^ 63)" "q_Limit q' \<noteq> - (2 ^ 63)"
  shows "n = n' \<and> q_Address q = q_Address q' \<and> q_Limit q = q_Limit q'"
proof -
  have nc: "CHR '':'' \<notin> set (dec_int i)" for i using dec_int_chars [of "CHR '':''" i] by auto
  have k: "n @ CHR '':'' # (q_Address q @ CHR '':'' # dec_int (q_Limit q)) =
      n' @ CHR '':'' # (q_Address q' @ CHR '':'' # dec_int (q_Limit q'))"
    using assms by (simp add: orderKey_def itoa_dec)
  then have "length n = length n'"
    using index_byte_append [OF assms(2)] index_byte_append [OF assms(3)] by (metis option.inject)
  then have "n = n'" "q_Address q @ CHR '':'' # dec_int (q_Limit q) = q_Address q' @ CHR '':'' # dec_int (q_Limit q')"
    using k by simp_all
  then show ?thesis using split_at_last [OF _ nc nc] dec_int_inj by blast
qed

theorem orderKey_inj_witness:
  "orderKey ''surf'' \<lparr>q_Address = ''a:1'', q_Limit = 0, q_Refresh = False\<rparr> \<noteq>
   orderKey ''surf'' \<lparr>q_Address = ''a'', q_Limit = 10, q_Refresh = False\<rparr>"
  using orderKey_inj [of "''surf''" "\<lparr>q_Address = ''a:1'', q_Limit = 0, q_Refresh = False\<rparr>"
      "''surf''" "\<lparr>q_Address = ''a'', q_Limit = 10, q_Refresh = False\<rparr>"]
  by (auto simp: in_i64_def)

section \<open>What the wrappers keep\<close>

lemma wrapped_FetchOrders_refresh:
  "q_Refresh q \<Longrightarrow> fst (src_FetchOrders (as_source (s\<lparr>cs_inner := NewPersistedSource inner p\<rparr>)) c q w) = fst (src_FetchOrders inner c q w)"
  by (auto simp: as_source_def cached_FetchOrders_def NewPersistedSource_def chks_def Let_def
      split: option.splits prod.splits sum.splits)

text \<open>The wrappers are transparent where it matters: behind the cache and the persister a source keeps its
  name and its builder, a refreshing order query answers what the source answers, and a failing
  persister never fails a markets fetch: without a fresh cache entry its answer is the source's too.\<close>

theorem wrappers_transparent:
  assumes "s = as_source (WithOrderCache (NewCachedSource (NewPersistedSource inner p) mc ttl) oc ottl)"
  shows "src_Name s = src_Name inner \<and>
    (\<forall>b. src_Builder inner = Some b \<longrightarrow> src_Builder s = Some b) \<and>
    (\<forall>t. src_Tracked inner = Some t \<longrightarrow> src_Tracked s = Some t) \<and>
    (q_Refresh q \<longrightarrow> fst (src_FetchOrders s c q w) = fst (src_FetchOrders inner c q w)) \<and>
    (mc = None \<or> ttl \<le> 0 \<longrightarrow> fst (src_FetchMarkets s c w) = fst (src_FetchMarkets inner c w)) \<and>
    (\<forall>ca r w1. mc = Some ca \<and> 0 < ttl \<and> ca_Get ca c (''markets:'' @ src_Name inner) w = (r, w1) \<longrightarrow>
       fst (src_FetchMarkets s c w) =
         (case cache_hit r of Some v \<Rightarrow> Inr v | None \<Rightarrow> fst (src_FetchMarkets inner c w1)))"
  unfolding assms
proof (intro conjI)
  show "q_Refresh q \<longrightarrow> fst (src_FetchOrders (as_source (WithOrderCache (NewCachedSource (NewPersistedSource inner p) mc ttl) oc ottl)) c q w) =
      fst (src_FetchOrders inner c q w)"
    using wrapped_FetchOrders_refresh [where s = "WithOrderCache (NewCachedSource (NewPersistedSource inner p) mc ttl) oc ottl"]
    by (simp add: WithOrderCache_def NewCachedSource_def)
qed (auto simp: as_source_def cached_builder_def cached_tracked_def persisted_builder_def persisted_tracked_def
    NewPersistedSource_def NewCachedSource_def WithOrderCache_def cached_FetchMarkets_def persisted_FetchMarkets_def chks_def
    split: option.splits prod.splits sum.splits)

theorem wrappers_transparent_witness:
  "\<forall>(inner :: nat source) p mc oc w.
     fst (src_FetchOrders (as_source (WithOrderCache (NewCachedSource (NewPersistedSource inner p) mc 60) oc 30)) Background
        \<lparr>q_Address = ''a'', q_Limit = 0, q_Refresh = True\<rparr> w) =
     fst (src_FetchOrders inner Background \<lparr>q_Address = ''a'', q_Limit = 0, q_Refresh = True\<rparr> w)"
  using wrappers_transparent [OF refl, where q = "\<lparr>q_Address = ''a'', q_Limit = 0, q_Refresh = True\<rparr>" and c = Background]
  by fastforce

section \<open>Single flight\<close>

text \<open>
  Concurrent callers of \<open>FetchMarkets\<close>, between the cache miss and the return. A caller either joins the
  refresh that is pending or becomes its leader under the mutex; the leader publishes the result and
  clears \<open>pending\<close> under the mutex before it closes the channel its waiters block on. The caches and
  the inner source may do anything: \<open>fetched\<close> takes any result.
\<close>

datatype pc = Called | Missed | Waiting nat | Fetching nat | Writing "market list res" | Returned "market list res"

text \<open>Callers are numbered; one that has not called yet is at \<open>Called\<close>.\<close>

record flight =
  fl_pending :: "nat option"
  fl_done :: "nat \<rightharpoonup> market list res"
  fl_next :: nat
  fl_pcs :: "nat \<Rightarrow> pc"

definition set_pc :: "nat \<Rightarrow> pc \<Rightarrow> flight \<Rightarrow> flight" where
  "set_pc i p s = s\<lparr>fl_pcs := (fl_pcs s)(i := p)\<rparr>"

inductive sf_step :: "flight \<Rightarrow> flight \<Rightarrow> bool" where
  hit: "fl_pcs s i = Called \<Longrightarrow> sf_step s (set_pc i (Returned (Inr v)) s)"
| miss: "fl_pcs s i = Called \<Longrightarrow> sf_step s (set_pc i Missed s)"
| join: "fl_pcs s i = Missed \<Longrightarrow> fl_pending s = Some f \<Longrightarrow> sf_step s (set_pc i (Waiting f) s)"
| lead: "fl_pcs s i = Missed \<Longrightarrow> fl_pending s = None \<Longrightarrow>
    sf_step s (set_pc i (Fetching (fl_next s)) (s\<lparr>fl_pending := Some (fl_next s), fl_next := fl_next s + 1\<rparr>))"
| fetched: "fl_pcs s i = Fetching f \<Longrightarrow>
    sf_step s (set_pc i (Writing r) (s\<lparr>fl_pending := None, fl_done := (fl_done s)(f \<mapsto> r)\<rparr>))"
| wrote: "fl_pcs s i = Writing r \<Longrightarrow> sf_step s (set_pc i (Returned r) s)"
| wake: "fl_pcs s i = Waiting f \<Longrightarrow> fl_done s f = Some r \<Longrightarrow> sf_step s (set_pc i (Returned r) s)"
| leave: "fl_pcs s i = Waiting f \<Longrightarrow> sf_step s (set_pc i (Returned (Inl ContextCanceled)) s)"

definition flight0 :: flight where
  "flight0 = \<lparr>fl_pending = None, fl_done = Map.empty, fl_next = 0, fl_pcs = (\<lambda>i. Called)\<rparr>"

inductive sf_reach :: "flight \<Rightarrow> bool" where
  init: "sf_reach flight0"
| move: "sf_reach s \<Longrightarrow> sf_step s t \<Longrightarrow> sf_reach t"

text \<open>A fetching caller owns the pending refresh, which has exactly one leader, and a waiter's refresh is
  pending or done.\<close>

definition sf_inv :: "flight \<Rightarrow> bool" where
  "sf_inv s \<longleftrightarrow>
     (\<forall>i f. fl_pcs s i = Fetching f \<longrightarrow> fl_pending s = Some f) \<and>
     (\<forall>i j f g. fl_pcs s i = Fetching f \<longrightarrow> fl_pcs s j = Fetching g \<longrightarrow> i = j) \<and>
     (\<forall>f. fl_pending s = Some f \<longrightarrow> (\<exists>i. fl_pcs s i = Fetching f)) \<and>
     (\<forall>i f. fl_pcs s i = Waiting f \<longrightarrow> fl_pending s = Some f \<or> fl_done s f \<noteq> None)"

lemma sf_invI:
  assumes "\<And>i f. fl_pcs s i = Fetching f \<Longrightarrow> fl_pending s = Some f"
    and "\<And>i j f g. fl_pcs s i = Fetching f \<Longrightarrow> fl_pcs s j = Fetching g \<Longrightarrow> i = j"
    and "\<And>f. fl_pending s = Some f \<Longrightarrow> \<exists>i. fl_pcs s i = Fetching f"
    and "\<And>i f. fl_pcs s i = Waiting f \<Longrightarrow> fl_pending s = Some f \<or> fl_done s f \<noteq> None"
  shows "sf_inv s"
  using assms unfolding sf_inv_def by blast

lemma sf_invD:
  assumes "sf_inv s"
  shows sf_inv_pending: "fl_pcs s i = Fetching f \<Longrightarrow> fl_pending s = Some f"
    and sf_inv_leader: "fl_pcs s i = Fetching f \<Longrightarrow> fl_pcs s j = Fetching g \<Longrightarrow> i = j"
    and sf_inv_live: "fl_pending s = Some f \<Longrightarrow> \<exists>i. fl_pcs s i = Fetching f"
    and sf_inv_waiting: "fl_pcs s i = Waiting f \<Longrightarrow> fl_pending s = Some f \<or> fl_done s f \<noteq> None"
  using assms unfolding sf_inv_def by blast+

text \<open>A caller that is not fetching may move anywhere but to fetching or to wait for a refresh unknown.\<close>

lemma sf_inv_quiet:
  assumes inv: "sf_inv s" and i: "\<And>f. fl_pcs s i \<noteq> Fetching f" and p: "\<And>f. p \<noteq> Fetching f"
    and w: "\<And>f. p = Waiting f \<Longrightarrow> fl_pending s = Some f"
  shows "sf_inv (set_pc i p s)"
proof (rule sf_invI)
  fix f assume "fl_pending (set_pc i p s) = Some f"
  then obtain k where "fl_pcs s k = Fetching f" using sf_inv_live [OF inv] by (auto simp: set_pc_def)
  then show "\<exists>k. fl_pcs (set_pc i p s) k = Fetching f" using i by (auto simp: set_pc_def intro!: exI [of _ k])
qed (use i p w sf_invD [OF inv] in \<open>auto simp: set_pc_def split: if_splits\<close>)

lemma sf_inv_step: "sf_step s t \<Longrightarrow> sf_inv s \<Longrightarrow> sf_inv t"
proof (induction rule: sf_step.induct)
  case (lead s i)
  have n: "fl_pcs s j \<noteq> Fetching f" for j f using lead sf_inv_pending by fastforce
  show ?case
    by (rule sf_invI) (use lead n sf_inv_waiting [OF lead(3)] in \<open>auto simp: set_pc_def split: if_splits\<close>)
next
  case (fetched s i f r)
  have n: "fl_pcs s j = Fetching g \<Longrightarrow> j = i" for j g using sf_inv_leader [OF fetched(2,1)] by blast
  have pf: "fl_pending s = Some f" by (rule sf_inv_pending [OF fetched(2,1)])
  show ?case
    by (rule sf_invI) (use n pf in \<open>auto simp: set_pc_def split: if_splits dest: sf_inv_waiting [OF fetched(2)]\<close>)
qed (auto intro!: sf_inv_quiet)

lemma sf_reach_inv: "sf_reach s \<Longrightarrow> sf_inv s"
proof (induction rule: sf_reach.induct)
  case init
  show ?case by (simp add: sf_inv_def flight0_def)
next
  case (move s t)
  then show ?case by (blast intro: sf_inv_step)
qed

text \<open>C16. A refresh is a single flight and no waiter is forgotten: however the callers interleave, at most one
  of them is calling the upstream, and a caller that waits can always go on, because its result is
  there or the leader that will publish it is still fetching.\<close>

theorem single_flight:
  assumes "sf_reach s"
  shows "(\<forall>i j f g. fl_pcs s i = Fetching f \<longrightarrow> fl_pcs s j = Fetching g \<longrightarrow> i = j) \<and>
    (\<forall>i f. fl_pcs s i = Waiting f \<longrightarrow>
       (\<exists>r. fl_done s f = Some r \<and> sf_step s (set_pc i (Returned r) s)) \<or> (\<exists>j. fl_pcs s j = Fetching f))"
proof (intro conjI allI impI)
  have inv: "sf_inv s" by (rule sf_reach_inv [OF assms])
  show "fl_pcs s i = Fetching f \<Longrightarrow> fl_pcs s j = Fetching g \<Longrightarrow> i = j" for i j f g by (rule sf_inv_leader [OF inv])
  fix i f assume w: "fl_pcs s i = Waiting f"
  from sf_inv_waiting [OF inv w]
  show "(\<exists>r. fl_done s f = Some r \<and> sf_step s (set_pc i (Returned r) s)) \<or> (\<exists>j. fl_pcs s j = Fetching f)"
    using sf_inv_live [OF inv, of f] sf_step.wake [OF w] by auto
qed

theorem single_flight_witness:
  "let s = set_pc 1 (Waiting 0) (set_pc 0 (Fetching 0) (flight0\<lparr>fl_pending := Some 0, fl_next := 1\<rparr>))
   in sf_reach s \<and> (\<exists>j. fl_pcs s j = Fetching 0)"
proof -
  let ?s = "set_pc 1 (Waiting 0) (set_pc 0 (Fetching 0) (flight0\<lparr>fl_pending := Some 0, fl_next := 1\<rparr>))"
  have "sf_reach (set_pc 1 Missed (set_pc 0 Missed flight0))"
    using sf_reach.move [OF sf_reach.move [OF sf_reach.init sf_step.miss [of _ 0]] sf_step.miss [of _ 1]]
    by (simp add: flight0_def set_pc_def)
  from sf_reach.move [OF this sf_step.lead [of _ 0]]
  have "sf_reach (set_pc 1 Missed (set_pc 0 (Fetching 0) (flight0\<lparr>fl_pending := Some 0, fl_next := 1\<rparr>)))"
    by (simp add: flight0_def set_pc_def fun_upd_twist)
  from sf_reach.move [OF this sf_step.join [of _ 1 0]]
  have r: "sf_reach ?s" by (simp add: flight0_def set_pc_def)
  have w: "fl_pcs ?s 1 = Waiting 0" and n: "fl_done ?s 0 = None" by (simp_all add: flight0_def set_pc_def)
  from single_flight [OF r, THEN conjunct2, rule_format, OF w] n have "\<exists>j. fl_pcs ?s j = Fetching 0" by auto
  then show ?thesis using r unfolding Let_def by blast
qed

end
