(* ===== verification/Surf_Wiring.thy ===== *)
theory Surf_Wiring
  imports Surf_Client Source_Cache Lifecycle
begin

text \<open>
  The engine on the source it runs with: the Surf client behind the persister and the cache, as
  \<open>main.go\<close> composes them. What is shown crosses the three: how amounts travel from the chain to the
  request, and what the engine concludes from an answer of which one half failed.
\<close>

definition wrapped :: "'w surf_client \<Rightarrow> 'w persister option \<Rightarrow> (market list, 'w) cache option \<Rightarrow> int \<Rightarrow>
    (order list, 'w) cache option \<Rightarrow> int \<Rightarrow> 'w source" where
  "wrapped c p mc ttl oc ottl = as_source (WithOrderCache (NewCachedSource (NewPersistedSource (surf_source c) p) mc ttl) oc ottl)"

lemma wrapped_fresh_orders:
  "q_Refresh q \<Longrightarrow> fst (src_FetchOrders (wrapped c p mc ttl oc ottl) x q w) = fst (surf_FetchOrders c x q w)"
  using wrapped_FetchOrders_refresh [where s = "WithOrderCache (NewCachedSource (NewPersistedSource (surf_source c) p) mc ttl) oc ottl"
      and inner = "surf_source c"]
  by (simp add: wrapped_def WithOrderCache_def NewCachedSource_def surf_source_def)



text \<open>C13. Half an answer is taken for the whole one: when the position list of the temp address cannot be read
  but its (empty) list of pending orders can, the engine concludes that no position is open, and a
  sweep takes the remaining funds and ends the job as reversed without repaying anything.\<close>

theorem half_an_answer_sweeps:
  assumes "sourceByName e engineSource = Some (wrapped c p mc ttl oc ottl)" and "w_Address w \<noteq> []"
    and "fetchPools c Background (env s) = (Inr pools, w1)"
    and "fetchPositions c Background (w_Address w) (buildAssetIndex pools) w1 = (Inl er, w2)"
    and "fetchPendingOrders c Background (w_Address w) (buildAssetIndex pools) w2 = (Inr [], w3)"
  shows "\<not> fst (hasOpenPositions e w s) \<and> Status (cur (sweep_body e w s)) = StatusReversed"
proof -
  let ?q = "\<lparr>q_Address = w_Address w, q_Limit = 0, q_Refresh = True\<rparr>"
  have "fst (surf_FetchOrders c Background ?q (env s)) = Inr []"
    using assms by (simp add: surf_FetchOrders_def chks_def both_orders_def Let_def)
  then have "fst (src_FetchOrders (wrapped c p mc ttl oc ottl) Background ?q (env s)) = Inr []"
    using wrapped_fresh_orders [of ?q c p mc ttl oc ottl Background "env s"] by simp
  then obtain v where "src_FetchOrders (wrapped c p mc ttl oc ottl) Background ?q (env s) = (Inr [], v)"
    by (metis prod.collapse)
  then have "hasOpenPositions e w s = (False, s\<lparr>env := v\<rparr>)"
    using assms(1) by (simp add: hasOpenPositions_def on_env_def)
  then show ?thesis by (simp add: sweep_body_def Let_def)
qed

text \<open>The server of the example with its position list down: it holds a position all the same.\<close>

definition down_surf :: "nat surf_client" where "down_surf = demo_surf [allPositionsPath]"

definition down_engine :: "nat engine" where
  "down_engine = demo_engine\<lparr>e_sources := [wrapped down_surf None None 0 None 0]\<rparr>"

lemma demo_down:
  "fits ty_poolInfos (demo_answer (defaultBase @ poolInfosPath))"
  "fits ty_allOrders (demo_answer (defaultBase @ allOrdersPath @ ''?address=addr1''))"
  "rd_allOrders (demo_answer (defaultBase @ allOrdersPath @ ''?address=addr1'')) = []"
  "\<not> contains (defaultBase @ poolInfosPath) allPositionsPath"
  "\<not> contains (defaultBase @ allOrdersPath @ ''?address=addr1'') allPositionsPath"
  "contains (defaultBase @ allPositionsPath @ ''?address=addr1'') allPositionsPath"
  by code_simp+

lemma demo_wallet_address: "w_Address demo_wallet = ''addr1''"
  by (simp add: demo_wallet_def)

theorem half_an_answer_sweeps_witness:
  "Status (cur (sweep_body down_engine demo_wallet demo_est)) = StatusReversed \<and>
   rd_allPositions (demo_answer (defaultBase @ allPositionsPath @ ''?address=addr1'')) \<noteq> []"
proof
  let ?h = "demo_http [allPositionsPath]"
  have c: "down_surf = \<lparr>sc_base = defaultBase, sc_http = ?h, sc_cbor = demo_cbor\<rparr>"
    by (simp add: down_surf_def demo_surf_def NewSurf_def)
  have pools: "\<exists>ps. fetchPools down_surf Background (env demo_est) = (Inr ps, env demo_est + 1)"
    by (simp add: fetchPools_def c demo_get demo_down)
  then obtain ps where p: "fetchPools down_surf Background (env demo_est) = (Inr ps, env demo_est + 1)" by blast
  have pos: "fetchPositions down_surf Background (w_Address demo_wallet) idx v =
      (Inl (wrap ''surf getAllPositions: %w'' (Fmt ''status %d'' [AI 500])), v + 1)" for idx v
    using demo_down(6) by (simp add: fetchPositions_def c demo_get chks_def demo_wallet_address)
  have ord: "fetchPendingOrders down_surf Background (w_Address demo_wallet) idx v = (Inr [], v + 1)" for idx v
    using demo_down(2,3,5) by (simp add: fetchPendingOrders_def c demo_get chks_def demo_wallet_address)
  have src: "sourceByName down_engine engineSource = Some (wrapped down_surf None None 0 None 0)"
    by (simp add: sourceByName_def down_engine_def wrapped_def as_source_def WithOrderCache_def NewCachedSource_def
        NewPersistedSource_def surf_source_def surf_Name_def engineSource_def)
  have "w_Address demo_wallet \<noteq> []" by (simp add: demo_wallet_address)
  from half_an_answer_sweeps [OF src this p pos ord]
  show "Status (cur (sweep_body down_engine demo_wallet demo_est)) = StatusReversed" by blast
  show "rd_allPositions (demo_answer (defaultBase @ allPositionsPath @ ''?address=addr1'')) \<noteq> []" by code_simp
qed

end
