(* ===== verification/Liqwid_Client.thy ===== *)
theory Liqwid_Client
  imports Go_Http Tx_Finalize
begin

text \<open>
  The client of the Liqwid lending protocol (\<open>common/sources/liqwid/client.go\<close>): its GraphQL queries and
  the types their answers decode into, the markets with one row per collateral, the loans, the
  transaction builders and the submission with its Koios fallback. \<open>liqwid_source\<close> is the client as a
  source. The queries are the texts of the source, line by line; log lines are left out.
\<close>

definition liqwid_Name :: string where "liqwid_Name = ''liqwid''"
definition defaultEndpoint :: string where "defaultEndpoint = ''https://v2.api.liqwid.finance/graphql''"
definition defaultMarketURL :: string where "defaultMarketURL = ''https://app.liqwid.finance/markets''"

record 'w liqwid_client =
  lc_endpoint :: string
  lc_http :: "'w http"
  lc_cbor :: cbor

definition NewLiqwid :: "'w http \<Rightarrow> cbor \<Rightarrow> 'w liqwid_client" where
  "NewLiqwid h cb = \<lparr>lc_endpoint = defaultEndpoint, lc_http = h, lc_cbor = cb\<rparr>"

definition WithEndpoint :: "'w liqwid_client \<Rightarrow> string \<Rightarrow> 'w liqwid_client" where
  "WithEndpoint c url = c\<lparr>lc_endpoint := url\<rparr>"

section \<open>Queries\<close>

fun join_lines :: "string list \<Rightarrow> string" where
  "join_lines [] = []"
| "join_lines [l] = l"
| "join_lines (l # ls) = l @ CHR 0x0A # join_lines ls"

definition loansQuery :: string where
  "loansQuery = join_lines [''query Loans($input: LoansInput) {'',
     ''  liqwid {'',
     ''    data {'',
     ''      loans(input: $input) {'',
     ''        totalCount'',
     ''        results {'',
     ''          id'',
     ''          transactionId'',
     ''          transactionIndex'',
     ''          marketId'',
     ''          publicKey'',
     ''          amount'',
     ''          interest'',
     ''          APY'',
     ''          LTV'',
     ''          healthFactor'',
     ''          time'',
     ''          asset {'',
     ''            symbol'',
     ''            decimals'',
     ''            policyId'',
     ''            hexName'',
     ''            price'',
     ''          }'',
     ''          collaterals {'',
     ''            asset {'',
     ''              symbol'',
     ''              decimals'',
     ''              policyId'',
     ''              hexName'',
     ''            }'',
     ''            market {'',
     ''              id'',
     ''            }'',
     ''            amount'',
     ''            amountUSD'',
     ''            qTokenAmount'',
     ''          }'',
     ''        }'',
     ''      }'',
     ''    }'',
     ''  }'',
     ''}'']"

definition marketsQuery :: string where
  "marketsQuery = join_lines [''query Markets {'',
     ''  liqwid {'',
     ''    data {'',
     ''      markets {'',
     ''        totalCount'',
     ''        results {'',
     ''          id'',
     ''          symbol'',
     ''          asset {'',
     ''            symbol'',
     ''            decimals'',
     ''            policyId'',
     ''            hexName'',
     ''            price'',
     ''          }'',
     ''          receiptAsset {'',
     ''            symbol'',
     ''            decimals'',
     ''            policyId'',
     ''            hexName'',
     ''          }'',
     ''          supply'',
     ''          borrow'',
     ''          liquidity'',
     ''          supplyAPY'',
     ''          borrowAPY'',
     ''          utilization'',
     ''          exchangeRate'',
     ''          batching'',
     ''          frozen'',
     ''          delisting'',
     ''          parameters {'',
     ''            minValue'',
     ''            collateralParameters {'',
     ''              maxLoanToValue'',
     ''              liquidationThreshold'',
     ''              collateral {'',
     ''                id'',
     ''                market {'',
     ''                  id'',
     ''                  asset {'',
     ''                    symbol'',
     ''                    decimals'',
     ''                    policyId'',
     ''                    hexName'',
     ''                    price'',
     ''                  }'',
     ''                }'',
     ''              }'',
     ''            }'',
     ''          }'',
     ''        }'',
     ''      }'',
     ''    }'',
     ''  }'',
     ''}'']"

definition txSupplyMutation :: string where
  "txSupplyMutation = join_lines [''query Supply($input: SupplyTransactionInput!) {'',
     ''  liqwid { transactions { supply(input: $input) { cbor } } }'',
     ''}'']"

definition txWithdrawMutation :: string where
  "txWithdrawMutation = join_lines [''query Withdraw($input: WithdrawTransactionInput!) {'',
     ''  liqwid { transactions { withdraw(input: $input) { cbor } } }'',
     ''}'']"

definition txBorrowMutation :: string where
  "txBorrowMutation = join_lines [''query Borrow($input: BorrowTransactionInput!) {'',
     ''  liqwid { transactions { borrow(input: $input) { cbor } } }'',
     ''}'']"

definition submitTxMutation :: string where
  "submitTxMutation = join_lines [''mutation SubmitTx($input: SubmitTransactionInput!) {'',
     ''  submitTransaction(input: $input)'',
     ''}'']"

definition txModifyBorrowMutation :: string where
  "txModifyBorrowMutation = join_lines [''query ModifyBorrow($input: ModifyBorrowTransactionInput!) {'',
     ''  liqwid { transactions { modifyBorrow(input: $input) { cbor } } }'',
     ''}'']"

definition collateralsQuery :: string where
  "collateralsQuery = join_lines [''query MarketCollaterals {'',
     ''  liqwid {'',
     ''    data {'',
     ''      markets {'',
     ''        results {'',
     ''          id'',
     ''          parameters {'',
     ''            collateralParameters {'',
     ''              collateral {'',
     ''                id'',
     ''                market { id }'',
     ''              }'',
     ''            }'',
     ''          }'',
     ''        }'',
     ''      }'',
     ''    }'',
     ''  }'',
     ''}'']"

section \<open>Wire types\<close>

record gqlResponse =
  gq_Data :: "json option"
  gq_Errors :: "string list"

definition ty_gqlResponse :: jtype where
  "ty_gqlResponse = TObj [(''data'', TRaw), (''errors'', TArr (TObj [(''message'', TStr)]))]"

definition rd_gqlResponse :: "json \<Rightarrow> gqlResponse" where
  "rd_gqlResponse j = \<lparr>gq_Data = jraw ''data'' j, gq_Errors = map (\<lambda>e. jstr (jget ''message'' e)) (jlist (jget ''errors'' j))\<rparr>"

text \<open>The asset of a market or a loan; where the type of the source has no price it stays 0.\<close>

definition ty_priced :: jtype where
  "ty_priced = TObj [(''symbol'', TStr), (''decimals'', TInt), (''policyId'', TStr), (''hexName'', TStr), (''price'', TFloat)]"

definition ty_unpriced :: jtype where
  "ty_unpriced = TObj [(''symbol'', TStr), (''decimals'', TInt), (''policyId'', TStr), (''hexName'', TStr)]"

definition rd_unpriced :: "json \<Rightarrow> asset" where
  "rd_unpriced j = \<lparr>PolicyID = jstr (jget ''policyId'' j), AssetName = jstr (jget ''hexName'' j),
     Symbol = jstr (jget ''symbol'' j), Decimals = jint (jget ''decimals'' j), PriceUsd = 0\<rparr>"

definition rd_priced :: "json \<Rightarrow> asset" where
  "rd_priced j = (rd_unpriced j)\<lparr>PriceUsd := jfloat (jget ''price'' j)\<rparr>"

record rawCollateralParam =
  cp_MaxLoanToValue :: f64
  cp_LiquidationThreshold :: f64
  cp_ID :: string
  cp_MarketID :: string
  cp_Asset :: asset

definition ty_collateralParam :: jtype where
  "ty_collateralParam = TObj [(''maxLoanToValue'', TFloat), (''liquidationThreshold'', TFloat),
     (''collateral'', TObj [(''id'', TStr), (''market'', TObj [(''id'', TStr), (''asset'', ty_priced)])])]"

definition rd_collateralParam :: "json \<Rightarrow> rawCollateralParam" where
  "rd_collateralParam j = (let col = jget ''collateral'' j; m = jget ''market'' col in
     \<lparr>cp_MaxLoanToValue = jfloat (jget ''maxLoanToValue'' j), cp_LiquidationThreshold = jfloat (jget ''liquidationThreshold'' j),
      cp_ID = jstr (jget ''id'' col), cp_MarketID = jstr (jget ''id'' m), cp_Asset = rd_priced (jget ''asset'' m)\<rparr>)"

record rawMarket =
  rm_ID :: string
  rm_Symbol :: string
  rm_Asset :: asset
  rm_ReceiptAsset :: asset
  rm_Supply :: f64
  rm_Borrow :: f64
  rm_Liquidity :: f64
  rm_SupplyAPY :: f64
  rm_BorrowAPY :: f64
  rm_Utilization :: f64
  rm_ExchangeRate :: f64
  rm_Batching :: bool
  rm_Frozen :: bool
  rm_Delisting :: bool
  rm_MinValue :: f64
  rm_CollateralParameters :: "rawCollateralParam list"

definition ty_market :: jtype where
  "ty_market = TObj [(''id'', TStr), (''symbol'', TStr), (''asset'', ty_priced), (''receiptAsset'', ty_unpriced),
     (''supply'', TFloat), (''borrow'', TFloat), (''liquidity'', TFloat), (''supplyAPY'', TFloat), (''borrowAPY'', TFloat),
     (''utilization'', TFloat), (''exchangeRate'', TFloat), (''batching'', TBool), (''frozen'', TBool), (''delisting'', TBool),
     (''parameters'', TObj [(''minValue'', TFloat), (''collateralParameters'', TArr ty_collateralParam)])]"

definition rd_market :: "json \<Rightarrow> rawMarket" where
  "rd_market j = \<lparr>rm_ID = jstr (jget ''id'' j), rm_Symbol = jstr (jget ''symbol'' j), rm_Asset = rd_priced (jget ''asset'' j),
     rm_ReceiptAsset = rd_unpriced (jget ''receiptAsset'' j), rm_Supply = jfloat (jget ''supply'' j),
     rm_Borrow = jfloat (jget ''borrow'' j), rm_Liquidity = jfloat (jget ''liquidity'' j),
     rm_SupplyAPY = jfloat (jget ''supplyAPY'' j), rm_BorrowAPY = jfloat (jget ''borrowAPY'' j),
     rm_Utilization = jfloat (jget ''utilization'' j), rm_ExchangeRate = jfloat (jget ''exchangeRate'' j),
     rm_Batching = jbool (jget ''batching'' j), rm_Frozen = jbool (jget ''frozen'' j), rm_Delisting = jbool (jget ''delisting'' j),
     rm_MinValue = jfloat (jget ''minValue'' (jget ''parameters'' j)),
     rm_CollateralParameters = map rd_collateralParam (jlist (jget ''collateralParameters'' (jget ''parameters'' j)))\<rparr>"

text \<open>\<open>liqwid.data.<name>.results\<close>, the envelope of both listings.\<close>

definition ty_envelope :: "string \<Rightarrow> jtype \<Rightarrow> jtype" where
  "ty_envelope name t = TObj [(''liqwid'', TObj [(''data'', TObj [(name, TObj [(''totalCount'', TInt), (''results'', TArr t)])])])]"

definition rd_envelope :: "string \<Rightarrow> (json \<Rightarrow> 'a) \<Rightarrow> json \<Rightarrow> 'a list" where
  "rd_envelope name rd j = map rd (jlist (jget ''results'' (jget name (jget ''data'' (jget ''liqwid'' j)))))"

record rawLoanCollateral =
  ll_Asset :: asset
  ll_MarketID :: string
  ll_Amount :: f64
  ll_AmountUSD :: f64
  ll_QTokenAmount :: f64

definition ty_loanCollateral :: jtype where
  "ty_loanCollateral = TObj [(''asset'', ty_unpriced), (''market'', TObj [(''id'', TStr)]), (''amount'', TFloat),
     (''amountUSD'', TFloat), (''qTokenAmount'', TFloat)]"

definition rd_loanCollateral :: "json \<Rightarrow> rawLoanCollateral" where
  "rd_loanCollateral j = \<lparr>ll_Asset = rd_unpriced (jget ''asset'' j), ll_MarketID = jstr (jget ''id'' (jget ''market'' j)),
     ll_Amount = jfloat (jget ''amount'' j), ll_AmountUSD = jfloat (jget ''amountUSD'' j),
     ll_QTokenAmount = jfloat (jget ''qTokenAmount'' j)\<rparr>"

record rawLoan =
  ln_ID :: string
  ln_TransactionID :: string
  ln_TransactionIndex :: int
  ln_MarketID :: string
  ln_PublicKey :: string
  ln_Amount :: f64
  ln_Interest :: f64
  ln_APY :: f64
  ln_LTV :: f64
  ln_HealthFactor :: f64
  ln_Time :: int
  ln_Asset :: asset
  ln_Collaterals :: "rawLoanCollateral list"

definition ty_loan :: jtype where
  "ty_loan = TObj [(''id'', TStr), (''transactionId'', TStr), (''transactionIndex'', TInt), (''marketId'', TStr),
     (''publicKey'', TStr), (''amount'', TFloat), (''interest'', TFloat), (''APY'', TFloat), (''LTV'', TFloat),
     (''healthFactor'', TFloat), (''time'', TInt), (''asset'', ty_priced), (''collaterals'', TArr ty_loanCollateral)]"

definition rd_loan :: "json \<Rightarrow> rawLoan" where
  "rd_loan j = \<lparr>ln_ID = jstr (jget ''id'' j), ln_TransactionID = jstr (jget ''transactionId'' j),
     ln_TransactionIndex = jint (jget ''transactionIndex'' j), ln_MarketID = jstr (jget ''marketId'' j),
     ln_PublicKey = jstr (jget ''publicKey'' j), ln_Amount = jfloat (jget ''amount'' j), ln_Interest = jfloat (jget ''interest'' j),
     ln_APY = jfloat (jget ''APY'' j), ln_LTV = jfloat (jget ''LTV'' j), ln_HealthFactor = jfloat (jget ''healthFactor'' j),
     ln_Time = jint (jget ''time'' j), ln_Asset = rd_priced (jget ''asset'' j),
     ln_Collaterals = map rd_loanCollateral (jlist (jget ''collaterals'' j))\<rparr>"

definition ty_txEnvelope :: jtype where
  "ty_txEnvelope = TObj [(''liqwid'', TObj [(''transactions'', TMap (TObj [(''cbor'', TStr)]))])]"

definition rd_txEnvelope :: "json \<Rightarrow> string list" where
  "rd_txEnvelope j = map (\<lambda>(k, v). jstr (jget ''cbor'' v)) (jmap (jget ''transactions'' (jget ''liqwid'' j)))"

section \<open>GraphQL\<close>

definition liqwid_post :: "'w liqwid_client \<Rightarrow> gctx \<Rightarrow> string \<Rightarrow> json option \<Rightarrow> 'w \<Rightarrow> json option res \<times> 'w" where
  "liqwid_post c x query vars =
     (let h = lc_http c in
      send h x \<lparr>rq_Method = POST, rq_URL = lc_endpoint c, rq_Headers = [(''Content-Type'', ''application/json'')],
                rq_Body = ht_Text h (JObj ([(''query'', JStr query)] @ (case vars of None \<Rightarrow> [] | Some v \<Rightarrow> [(''variables'', v)])))\<rparr>
        (wrap ''liqwid graphql: %w'') (\<lambda>(code, resp). pure_res (
          if code \<noteq> 200 then Inl (Fmt ''liqwid graphql: status %d: %s'' [AI code, AS resp])
          else chk (unmarshal h ty_gqlResponse rd_gqlResponse resp) (wrap ''liqwid graphql decode: %w'') (\<lambda>gql.
                 case gq_Errors gql of m # _ \<Rightarrow> Inl (Fmt ''liqwid graphql error: %s'' [AS m]) | [] \<Rightarrow> Inr (gq_Data gql)))))"

text \<open>\<open>json.Unmarshal(data, \&env)\<close>: an absent \<open>data\<close> is the empty message.\<close>

definition decode_data :: "jtype \<Rightarrow> (json \<Rightarrow> 'a) \<Rightarrow> json option \<Rightarrow> 'a res" where
  "decode_data t rd d = (case d of
     None \<Rightarrow> Inl (errm ''unexpected end of JSON input'')
   | Some j \<Rightarrow> if fits t j then Inr (rd j) else Inl typeError)"

section \<open>Markets\<close>

definition liqwid_base :: "rawMarket \<Rightarrow> market" where
  "liqwid_base m =
     \<lparr>m_Source = liqwid_Name, m_PoolID = [], m_Collateral = asset_zero, m_Borrow = rm_Asset m,
      m_ReceiptAsset = rm_ReceiptAsset m, m_CollateralID = [], m_SupplyExchangeRate = rm_ExchangeRate m,
      m_TotalSuppliedUSD = rm_Supply m * PriceUsd (rm_Asset m), m_TotalBorrowedUSD = rm_Borrow m * PriceUsd (rm_Asset m),
      m_AvailableLiquidityUSD = rm_Liquidity m * PriceUsd (rm_Asset m), m_SupplyAPY = rm_SupplyAPY m,
      m_BorrowAPY = rm_BorrowAPY m, m_LTV = 0, m_LiquidationThreshold = 0, m_MinSupply = rm_MinValue m,
      m_Active = (\<not> (rm_Batching m \<or> rm_Frozen m \<or> rm_Delisting m)), m_URL = defaultMarketURL\<rparr>"

definition same_token :: "rawMarket \<Rightarrow> rawCollateralParam \<Rightarrow> bool" where
  "same_token m cp \<longleftrightarrow> PolicyID (cp_Asset cp) = PolicyID (rm_Asset m) \<and> AssetName (cp_Asset cp) = AssetName (rm_Asset m)"

definition fanout_row :: "rawMarket \<Rightarrow> rawCollateralParam \<Rightarrow> market" where
  "fanout_row m cp = (liqwid_base m)\<lparr>m_PoolID := rm_ID m @ '':'' @ cp_MarketID cp, m_Collateral := cp_Asset cp,
     m_CollateralID := ''q'' @ cp_MarketID cp, m_LTV := cp_MaxLoanToValue cp,
     m_LiquidationThreshold := cp_LiquidationThreshold cp\<rparr>"

definition liqwid_rows :: "rawMarket \<Rightarrow> market list" where
  "liqwid_rows m =
     (if rm_CollateralParameters m = [] then [(liqwid_base m)\<lparr>m_PoolID := rm_ID m\<rparr>]
      else map (fanout_row m) (filter (\<lambda>cp. \<not> same_token m cp) (rm_CollateralParameters m)))"

definition liqwid_FetchMarkets :: "'w liqwid_client \<Rightarrow> gctx \<Rightarrow> 'w \<Rightarrow> market list res \<times> 'w" where
  "liqwid_FetchMarkets c x =
     chks (liqwid_post c x marketsQuery None) id (\<lambda>data. pure_res (
       chk (decode_data (ty_envelope ''markets'' ty_market) (rd_envelope ''markets'' rd_market) data)
         (wrap ''liqwid markets decode: %w'') (\<lambda>ms. Inr (concat (map liqwid_rows ms)))))"

section \<open>Orders\<close>

text \<open>The first of the collaterals of the largest USD value.\<close>

definition dominant :: "rawLoanCollateral list \<Rightarrow> rawLoanCollateral option" where
  "dominant cs = (case cs of [] \<Rightarrow> None
     | b # r \<Rightarrow> Some (foldl (\<lambda>best d. if ll_AmountUSD best < ll_AmountUSD d then d else best) b r))"

definition loan_order :: "rawLoan \<Rightarrow> order" where
  "loan_order l =
     (let order = \<lparr>o_Source = liqwid_Name, o_ID = ln_ID l, o_Type = TypeBorrow, o_Status = OrderActive, o_Owner = ln_PublicKey l,
        o_MarketID = ln_MarketID l, o_Asset = (ln_Asset l)\<lparr>PriceUsd := 0\<rparr>, o_Amount = ln_Amount l,
        o_AmountUSD = ln_Amount l * PriceUsd (ln_Asset l), o_CollateralAsset = asset_zero, o_CollateralAmount = 0,
        o_Interest = ln_Interest l, o_APY = ln_APY l, o_LTV = ln_LTV l, o_HealthFactor = ln_HealthFactor l,
        o_TxHash = ln_TransactionID l, o_OutputIndex = ln_TransactionIndex l, o_TimeMs = ln_Time l\<rparr>
      in case dominant (ln_Collaterals l) of
           None \<Rightarrow> order
         | Some best \<Rightarrow> order\<lparr>o_CollateralAsset := ll_Asset best, o_CollateralAmount := ll_Amount best\<rparr>)"

definition repaid_dust :: f64 where "repaid_dust = mk (1 / 10 ^ 6)"

definition loans_input :: "order_query \<Rightarrow> json" where
  "loans_input q =
     (let input = (if q_Address q = [] then [] else [(''paymentKeys'', JArr [JStr (q_Address q)])]) @
                  (if 0 < q_Limit q then [(''perPage'', JInt (q_Limit q))] else [])
      in JObj [(''input'', if input = [] then JNull else JObj input)])"

definition liqwid_FetchOrders :: "'w liqwid_client \<Rightarrow> gctx \<Rightarrow> order_query \<Rightarrow> 'w \<Rightarrow> order list res \<times> 'w" where
  "liqwid_FetchOrders c x q =
     chks (liqwid_post c x loansQuery (Some (loans_input q))) id (\<lambda>data. pure_res (
       chk (decode_data (ty_envelope ''loans'' ty_loan) (rd_envelope ''loans'' rd_loan) data)
         (wrap ''liqwid loans decode: %w'') (\<lambda>ls. Inr (map loan_order (filter (\<lambda>l. \<not> ln_Amount l < repaid_dust) ls)))))"

section \<open>Transaction builders\<close>

definition liqwidWalletEnum :: "string \<Rightarrow> string" where
  "liqwidWalletEnum name = (if to_lower name = ''begin'' then ''BEGIN'' else ''ETERNL'')"

definition fallback :: "string \<Rightarrow> string \<Rightarrow> string" where
  "fallback a b = (if a \<noteq> [] then a else b)"

definition stripFanout :: "string \<Rightarrow> string" where
  "stripFanout marketID = (case index_byte marketID (CHR '':'') of
     Some i \<Rightarrow> if 0 < i then take i marketID else marketID | None \<Rightarrow> marketID)"

definition liqwid_raw :: "f64 \<Rightarrow> int \<Rightarrow> int" where
  "liqwid_raw amount decimals = f64_to_int64 (f64_round (amount * f64_pow10 decimals))"

text \<open>The input of a builder, as the map the code builds it in.\<close>

type_synonym tx_input = "(string \<times> json) list"

definition buildTxCommonInput :: "tx_params \<Rightarrow> int \<Rightarrow> tx_input" where
  "buildTxCommonInput p decimals =
     [(''address'', JStr (p_Address p)),
      (''changeAddress'', JStr (fallback (p_ChangeAddress p) (p_Address p))),
      (''otherAddresses'', JArr (map JStr (p_OtherAddresses p))),
      (''amount'', JInt (liqwid_raw (p_Amount p) decimals)),
      (''marketId'', JStr (stripFanout (p_MarketID p))),
      (''utxos'', JArr (map JStr (p_UTXOs p))),
      (''wallet'', JStr (liqwidWalletEnum (p_Wallet p)))]"

definition market_decimals :: "market list res \<Rightarrow> string \<Rightarrow> int" where
  "market_decimals r marketID =
     (case r of
        Inl e \<Rightarrow> 6
      | Inr ms \<Rightarrow> (case find (\<lambda>m. m_PoolID m = marketID \<or> has_prefix (m_PoolID m) (marketID @ '':'')) ms of
                     Some m \<Rightarrow> Decimals (m_Borrow m) | None \<Rightarrow> 6))"

definition liqwidMarketDecimals :: "'w liqwid_client \<Rightarrow> gctx \<Rightarrow> string \<Rightarrow> 'w \<Rightarrow> int \<times> 'w" where
  "liqwidMarketDecimals c x marketID w =
     (case liqwid_FetchMarkets c x w of (r, w1) \<Rightarrow> (market_decimals r marketID, w1))"

definition first_cbor :: "string \<Rightarrow> string list \<Rightarrow> string res" where
  "first_cbor empty_text cs = (case find (\<lambda>c. c \<noteq> []) cs of Some c \<Rightarrow> Inr c | None \<Rightarrow> Inl (errm empty_text))"

definition callTxMutation :: "'w liqwid_client \<Rightarrow> gctx \<Rightarrow> string \<Rightarrow> tx_input \<Rightarrow> 'w \<Rightarrow> string res \<times> 'w" where
  "callTxMutation c x query input =
     chks (liqwid_post c x query (Some (JObj [(''input'', JObj input)]))) id (\<lambda>data. pure_res (
       chk (decode_data ty_txEnvelope rd_txEnvelope data) (wrap ''liqwid tx decode: %w'')
         (first_cbor ''liqwid tx: empty cbor in response'')))"

definition liqwid_built :: "string \<Rightarrow> string \<Rightarrow> msg \<Rightarrow> built_tx" where
  "liqwid_built action cbor hint = \<lparr>b_Source = liqwid_Name, b_Action = action, b_CBOR = cbor, b_Hint = hint,
     b_TrackedOrder = None, b_Witnesses = []\<rparr>"

definition liqwid_BuildSupply :: "'w liqwid_client \<Rightarrow> gctx \<Rightarrow> tx_params \<Rightarrow> 'w \<Rightarrow> built_tx res \<times> 'w" where
  "liqwid_BuildSupply c x p w =
     (case liqwidMarketDecimals c x (p_MarketID p) w of (dec, w1) \<Rightarrow>
        chks (callTxMutation c x txSupplyMutation (buildTxCommonInput p dec)) id (\<lambda>cbor. pure_res (Inr (liqwid_built ''supply'' cbor
          (Fmt ''Supply %.6f to Liqwid %s market'' [AF (p_Amount p), AS (p_MarketID p)])))) w1)"

definition withdraw_raw :: "tx_params \<Rightarrow> int \<Rightarrow> int" where
  "withdraw_raw p dec = (let raw = liqwid_raw (p_Amount p) dec in if p_Full p \<and> 0 < raw then raw - 1 else raw)"

definition liqwid_BuildWithdraw :: "'w liqwid_client \<Rightarrow> gctx \<Rightarrow> tx_params \<Rightarrow> 'w \<Rightarrow> built_tx res \<times> 'w" where
  "liqwid_BuildWithdraw c x p w =
     (case liqwidMarketDecimals c x (p_MarketID p) w of (dec, w1) \<Rightarrow>
        chks (callTxMutation c x txWithdrawMutation
                (AList.update ''amount'' (JInt (withdraw_raw p dec)) (buildTxCommonInput p dec))) id
          (\<lambda>cbor. pure_res (Inr (liqwid_built ''withdraw'' cbor
             (Fmt ''Withdraw %.6f from Liqwid %s market'' [AF (p_Amount p), AS (p_MarketID p)])))) w1)"

section \<open>Submission\<close>

text \<open>Raw bytes of a hex string; the last digit of an odd one is dropped, as \<open>len / 2\<close> pairs are read.\<close>

fun koios_unhex :: "nat \<Rightarrow> string \<Rightarrow> bytes res" where
  "koios_unhex i (a # b # r) =
     (case hex_val a of None \<Rightarrow> Inl (Fmt ''koios submit: invalid hex byte %q at %d'' [AS [a], AI (int i)])
      | Some n \<Rightarrow> (case hex_val b of None \<Rightarrow> Inl (Fmt ''koios submit: invalid hex byte %q at %d'' [AS [b], AI (int i + 1)])
          | Some k \<Rightarrow> chk (koios_unhex (i + 2) r) id (\<lambda>bs. Inr (word_of_nat (16 * n + k) # bs))))"
| "koios_unhex i _ = Inr []"

definition koios_request :: "bytes \<Rightarrow> http_req" where
  "koios_request raw = \<lparr>rq_Method = POST, rq_URL = ''https://api.koios.rest/api/v1/submittx'',
     rq_Headers = [(''Content-Type'', ''application/cbor''), (''Accept'', ''application/json'')], rq_Body = string_of raw\<rparr>"

definition hash_quotes :: "char list" where
  "hash_quotes = [CHR 0x20, CHR 0x22, CHR 0x0D, CHR 0x0A, CHR 0x09]"

definition submitViaKoios :: "'w http \<Rightarrow> gctx \<Rightarrow> string \<Rightarrow> 'w \<Rightarrow> string res \<times> 'w" where
  "submitViaKoios h x signedHex =
     chks (pure_res (koios_unhex 0 signedHex)) id (\<lambda>raw.
       send h x (koios_request raw) (wrap ''koios submittx: %w'') (\<lambda>(code, body). pure_res (
         if code \<noteq> 200 \<and> code \<noteq> 202 then Inl (Fmt ''koios submittx: status %d: %s'' [AI code, AS body])
         else let txHash = trim hash_quotes body in
              if txHash = [] then Inl (errm ''koios submittx: empty response body'') else Inr txHash)))"

text \<open>\<open>%v\<close> of an error that may be nil.\<close>

definition err_arg :: "'a res \<Rightarrow> arg" where
  "err_arg r = (case r of Inl e \<Rightarrow> AM e | Inr _ \<Rightarrow> AS ''<nil>'')"

definition liqwid_SubmitTx :: "'w liqwid_client \<Rightarrow> gctx \<Rightarrow> submit_params \<Rightarrow> 'w \<Rightarrow> string res \<times> 'w" where
  "liqwid_SubmitTx c x p w =
     (if s_CBOR p = [] \<or> s_WitnessSet p = [] then (Inl (errm ''liqwid submit: cbor and witnessSet required''), w)
      else case liqwid_post c x submitTxMutation (Some (JObj [(''input'',
               JObj [(''transaction'', JStr (s_CBOR p)), (''signature'', JStr (s_WitnessSet p))])])) w of (r, w1) \<Rightarrow>
        (case chk r id (decode_data (TObj [(''submitTransaction'', TStr)]) (\<lambda>j. jstr (jget ''submitTransaction'' j))) of
           Inr (h # hs) \<Rightarrow> (Inr (h # hs), w1)
         | _ \<Rightarrow>
             (case MergeTxWitnesses (lc_cbor c) (s_CBOR p) (s_WitnessSet p) of
                Inl me \<Rightarrow> (Inl (Fmt ''liqwid submit: merge witnesses failed: %w (liqwid error: %v)'' [AM me, err_arg r]), w1)
              | Inr stx \<Rightarrow>
                  (case submitViaKoios (lc_http c) x stx w1 of
                     (Inl ke, w2) \<Rightarrow> (Inl (Fmt ''liqwid submit failed: %v; koios fallback: %v'' [err_arg r, AM ke]), w2)
                   | (Inr hash, w2) \<Rightarrow> (Inr hash, w2)))))"

section \<open>Closing a loan\<close>

definition loanIdMatches :: "rawLoan \<Rightarrow> string \<Rightarrow> bool" where
  "loanIdMatches l txHash \<longleftrightarrow> ln_TransactionID l = txHash \<or> ln_ID l = txHash \<or> has_prefix (ln_ID l) (txHash @ ''-'')"

definition findLoanByTxHash :: "'w liqwid_client \<Rightarrow> gctx \<Rightarrow> string \<Rightarrow> string \<Rightarrow> 'w \<Rightarrow> rawLoan option res \<times> 'w" where
  "findLoanByTxHash c x pkh txHash =
     chks (liqwid_post c x loansQuery (Some (JObj [(''input'',
             JObj ((''perPage'', JInt 100) # (if pkh = [] then [] else [(''paymentKeys'', JArr [JStr pkh])])))]))) id
       (\<lambda>data. pure_res (chk (decode_data (ty_envelope ''loans'' ty_loan) (rd_envelope ''loans'' rd_loan) data) id
          (\<lambda>ls. Inr (find (\<lambda>l. loanIdMatches l txHash) ls))))"

definition market_collaterals :: "string \<Rightarrow> rawMarket list \<Rightarrow> (string \<rightharpoonup> string) res" where
  "market_collaterals borrowMarketID ms =
     (case find (\<lambda>m. rm_ID m = borrowMarketID) ms of
        None \<Rightarrow> Inl (Fmt ''borrow market %q not found'' [AS borrowMarketID])
      | Some m \<Rightarrow> Inr (fold (\<lambda>cp out. out(cp_MarketID cp \<mapsto> cp_ID cp)) (rm_CollateralParameters m) Map.empty))"

definition fetchCollateralIDsForMarket :: "'w liqwid_client \<Rightarrow> gctx \<Rightarrow> string \<Rightarrow> 'w \<Rightarrow> (string \<rightharpoonup> string) res \<times> 'w" where
  "fetchCollateralIDsForMarket c x borrowMarketID =
     chks (liqwid_post c x collateralsQuery None) id (\<lambda>data. pure_res (
       chk (decode_data (ty_envelope ''markets'' ty_market) (rd_envelope ''markets'' rd_market) data) id
         (market_collaterals borrowMarketID)))"

text \<open>One entry of the close per collateral of the loan, with its amount in raw qTokens.\<close>

fun close_collaterals :: "string \<Rightarrow> (string \<rightharpoonup> string) \<Rightarrow> rawLoanCollateral list \<Rightarrow> json list res" where
  "close_collaterals marketID ids [] = Inr []"
| "close_collaterals marketID ids (lc # r) =
     (if ll_MarketID lc = [] then Inl (errm ''liqwid close: loan collateral missing market id'')
      else case ids (ll_MarketID lc) of
          None \<Rightarrow> Inl (Fmt ''liqwid close: no collateral id for %s in market %s'' [AS (ll_MarketID lc), AS marketID])
        | Some cid \<Rightarrow>
            if cid = [] then Inl (Fmt ''liqwid close: no collateral id for %s in market %s'' [AS (ll_MarketID lc), AS marketID])
            else chk (close_collaterals marketID ids r) id (\<lambda>js.
                   Inr (JObj [(''id'', JStr cid), (''amount'', JInt (liqwid_raw (ll_QTokenAmount lc) (Decimals (ll_Asset lc))))] # js)))"

definition close_input :: "close_params \<Rightarrow> rawLoan \<Rightarrow> json list \<Rightarrow> tx_input" where
  "close_input p loan collaterals =
     (let txID = (if ln_ID loan = [] then ln_TransactionID loan @ ''-'' @ dec_int (ln_TransactionIndex loan) else ln_ID loan)
      in [(''txId'', JStr txID), (''address'', JStr (c_Address p)),
          (''changeAddress'', JStr (fallback (c_ChangeAddress p) (c_Address p))),
          (''otherAddresses'', JArr (map JStr (c_OtherAddresses p))), (''amount'', JInt 0),
          (''collaterals'', JArr collaterals), (''utxos'', JArr (map JStr (c_UTXOs p)))] @
         (if c_RedeemCollateral p then [(''redeemCollateral'', JBool True)] else []))"

definition liqwid_BuildClose :: "'w liqwid_client \<Rightarrow> gctx \<Rightarrow> close_params \<Rightarrow> 'w \<Rightarrow> built_tx res \<times> 'w" where
  "liqwid_BuildClose c x p =
     (if c_Kind p \<noteq> [] \<and> c_Kind p \<noteq> ''repay''
      then pure_res (Inl (Fmt (''liqwid close: only '' @ [CHR 0x27] @ ''repay'' @ [CHR 0x27] @ '' is supported (got %q)'') [AS (c_Kind p)]))
      else if c_Address p = [] \<or> c_TxHash p = [] then pure_res (Inl (errm ''liqwid close: address and txHash required''))
      else if c_UTXOs p = [] then pure_res (Inl (errm ''liqwid close: utxos required (frontend must call CIP-30 getUtxos)''))
      else chks (findLoanByTxHash c x (c_Pkh p) (c_TxHash p)) (wrap ''liqwid close: lookup loan: %w'') (\<lambda>found.
        case found of
          None \<Rightarrow> pure_res (Inl (Fmt ''liqwid close: no active loan found for tx %s (pkh %s)'' [AS (c_TxHash p), AS (c_Pkh p)]))
        | Some loan \<Rightarrow>
            chks (fetchCollateralIDsForMarket c x (ln_MarketID loan)) (wrap ''liqwid close: resolve collateral ids: %w'') (\<lambda>ids.
            chks (pure_res (close_collaterals (ln_MarketID loan) ids (ln_Collaterals loan))) id (\<lambda>collaterals.
            if collaterals = [] then pure_res (Inl (errm ''liqwid close: loan has no collaterals in the response''))
            else chks (liqwid_post c x txModifyBorrowMutation (Some (JObj [(''input'', JObj (close_input p loan collaterals))]))) id
              (\<lambda>data. pure_res (chk (decode_data ty_txEnvelope rd_txEnvelope data) (wrap ''liqwid modifyBorrow decode: %w'') (\<lambda>cs.
                 chk (first_cbor ''liqwid modifyBorrow: empty cbor in response'' cs) id (\<lambda>cbor. Inr (liqwid_built ''repay'' cbor
                   (Fmt ''Repay full Liqwid %s loan (%.6f + interest)'' [AS (ln_MarketID loan), AF (ln_Amount loan)]))))))))))"

section \<open>Borrowing\<close>

definition underlyingToQTokenRaw :: "f64 \<Rightarrow> f64 \<Rightarrow> int \<Rightarrow> f64" where
  "underlyingToQTokenRaw underlyingWhole exchangeRate qTokenDec =
     (let rate = (if exchangeRate \<le> 0 then 1 else exchangeRate)
      in f64_round (underlyingWhole / rate * f64_pow10 qTokenDec))"

record liqwidCollateral =
  lq_id :: string
  lq_qTokenDec :: int
  lq_exchangeRate :: f64
  lq_underlyingSymbol :: string

definition borrow_row :: "market list \<Rightarrow> string \<Rightarrow> market option" where
  "borrow_row ms poolID =
     (case find (\<lambda>m. m_Source m = liqwid_Name \<and> m_PoolID m = poolID \<and> m_CollateralID m \<noteq> []) ms of
        Some m \<Rightarrow> Some m
      | None \<Rightarrow> find (\<lambda>m. m_Source m = liqwid_Name \<and> has_prefix (m_PoolID m) (poolID @ '':'') \<and> m_CollateralID m \<noteq> []) ms)"

definition collateral_of_row :: "market list \<Rightarrow> market \<Rightarrow> liqwidCollateral" where
  "collateral_of_row ms row =
     (let collateralMarketID = (case index_byte (m_PoolID row) (CHR '':'') of
            Some i \<Rightarrow> if 0 < i then drop (i + 1) (m_PoolID row) else [] | None \<Rightarrow> []);
          collMarket = find (\<lambda>m. \<not> (m_Source m = liqwid_Name \<and> m_PoolID m \<noteq> [] \<and> \<not> contains (m_PoolID m) '':'') \<and>
            m_Source m = liqwid_Name \<and> has_prefix (m_PoolID m) (collateralMarketID @ '':'')) ms;
          out = \<lparr>lq_id = m_CollateralID row, lq_qTokenDec = Decimals (m_Collateral row), lq_exchangeRate = 1,
                 lq_underlyingSymbol = Symbol (m_Collateral row)\<rparr>
      in case collMarket of
           Some m \<Rightarrow> if 0 < m_SupplyExchangeRate m
                     then out\<lparr>lq_exchangeRate := m_SupplyExchangeRate m, lq_qTokenDec := Decimals (m_ReceiptAsset m)\<rparr> else out
         | None \<Rightarrow> out)"

definition liqwidCollateralForRow :: "'w liqwid_client \<Rightarrow> gctx \<Rightarrow> string \<Rightarrow> 'w \<Rightarrow> liqwidCollateral option res \<times> 'w" where
  "liqwidCollateralForRow c x poolID =
     chks (liqwid_FetchMarkets c x) id (\<lambda>ms. pure_res (Inr (map_option (collateral_of_row ms) (borrow_row ms poolID))))"

definition borrow_input :: "tx_params \<Rightarrow> int \<Rightarrow> liqwidCollateral \<Rightarrow> tx_input" where
  "borrow_input p dec coll =
     AList.update ''collaterals'' (JArr [JObj [(''id'', JStr (lq_id coll)),
         (''amount'', JInt (f64_to_int64 (underlyingToQTokenRaw (p_CollateralAmount p) (lq_exchangeRate coll) (lq_qTokenDec coll))))]])
       (AList.delete ''wallet'' (buildTxCommonInput p dec))"

definition liqwid_BuildBorrow :: "'w liqwid_client \<Rightarrow> gctx \<Rightarrow> tx_params \<Rightarrow> 'w \<Rightarrow> built_tx res \<times> 'w" where
  "liqwid_BuildBorrow c x p w =
     (case liqwidMarketDecimals c x (p_MarketID p) w of (dec, w1) \<Rightarrow>
        chks (liqwidCollateralForRow c x (p_MarketID p)) id (\<lambda>found.
          let none = pure_res (Inl (Fmt ''liqwid borrow: missing collateral id for pool %s'' [AS (p_MarketID p)])) in
          case found of
            None \<Rightarrow> none
          | Some coll \<Rightarrow>
              if lq_id coll = [] then none
              else if p_CollateralAmount p \<le> 0
              then pure_res (Inl (errm ''liqwid borrow: collateralAmount required (whole units of the underlying asset, e.g. 100 = 100 ADA)''))
              else chks (callTxMutation c x txBorrowMutation (borrow_input p dec coll)) id (\<lambda>cbor.
                     pure_res (Inr (liqwid_built ''borrow'' cbor
                       (Fmt ''Borrow %.6f from Liqwid %s market'' [AF (p_Amount p), AS (p_MarketID p)]))))) w1)"

definition liqwid_builder :: "'w liqwid_client \<Rightarrow> 'w tx_builder" where
  "liqwid_builder c = \<lparr>tb_BuildSupply = liqwid_BuildSupply c, tb_BuildWithdraw = liqwid_BuildWithdraw c,
     tb_BuildBorrow = liqwid_BuildBorrow c, tb_BuildClose = liqwid_BuildClose c, tb_SubmitTx = liqwid_SubmitTx c\<rparr>"

definition liqwid_source :: "'w liqwid_client \<Rightarrow> 'w source" where
  "liqwid_source c = \<lparr>src_Name = liqwid_Name, src_FetchMarkets = liqwid_FetchMarkets c, src_FetchOrders = liqwid_FetchOrders c,
     src_Builder = Some (liqwid_builder c), src_Tracked = None\<rparr>"

section \<open>The queries ask for what the decoders read\<close>

text \<open>The selection of a query: its words, with the arguments in parentheses left out, nested by braces.\<close>

datatype sel = Sel string "sel list"

fun query_words :: "nat \<Rightarrow> string \<Rightarrow> string \<Rightarrow> string list" where
  "query_words d w [] = (if w = [] then [] else [rev w])"
| "query_words d w (c # s) =
     (if c = CHR ''('' then query_words (d + 1) w s
      else if c = CHR '')'' then query_words (d - 1) w s
      else if 0 < d then query_words d w s
      else if c = CHR 0x20 \<or> c = CHR 0x0A then (if w = [] then [] else [rev w]) @ query_words d [] s
      else query_words d (c # w) s)"

fun nest :: "sel list list \<Rightarrow> string list \<Rightarrow> sel list" where
  "nest stk [] = (case stk of [ss] \<Rightarrow> rev ss | _ \<Rightarrow> [])"
| "nest stk (t # ts) =
     (if t = ''{'' then nest ([] # stk) ts
      else if t = ''}'' then (case stk of kids # (Sel n _ # r) # out \<Rightarrow> nest ((Sel n (rev kids) # r) # out) ts | _ \<Rightarrow> [])
      else (case stk of ss # out \<Rightarrow> nest ((Sel t [] # ss) # out) ts | [] \<Rightarrow> []))"

definition selection :: "string \<Rightarrow> sel list" where
  "selection q = (case last (nest [[]] (query_words 0 [] q)) of Sel n kids \<Rightarrow> kids)"

text \<open>Every field of the type is selected, an object with the fields of its type, a scalar bare.\<close>

fun covers :: "jtype \<Rightarrow> sel list \<Rightarrow> bool"
  and covers_fields :: "(string \<times> jtype) list \<Rightarrow> sel list \<Rightarrow> bool" where
  "covers (TObj fs) ss = covers_fields fs ss"
| "covers (TArr t) ss = covers t ss"
| "covers (TMap t) ss = (\<forall>s \<in> set ss. case s of Sel n kids \<Rightarrow> covers t kids)"
| "covers TStr ss = (ss = [])"
| "covers TBool ss = (ss = [])"
| "covers TInt ss = (ss = [])"
| "covers TFloat ss = (ss = [])"
| "covers TRaw ss = True"
| "covers_fields [] ss = True"
| "covers_fields ((n, t) # fs) ss =
     ((case find (\<lambda>s. case s of Sel m kids \<Rightarrow> m = n) ss of Some (Sel m kids) \<Rightarrow> covers t kids | None \<Rightarrow> False) \<and> covers_fields fs ss)"



section \<open>Fanned-out rows\<close>

text \<open>A row leads back to its market: for a market id without colon, every row of the market gives that id
  back when the fan-out is stripped, carries the market's borrow asset, and with a collateral names that
  collateral's market in both its pool id and the id it is locked under; no row pairs a token with itself.\<close>

theorem fanout_rows:
  assumes "row \<in> set (liqwid_rows m)" and "rm_ID m \<noteq> []" and "CHR '':'' \<notin> set (rm_ID m)"
  shows "stripFanout (m_PoolID row) = rm_ID m \<and> m_Borrow row = rm_Asset m \<and>
    (rm_CollateralParameters m = [] \<and> m_PoolID row = rm_ID m \<or>
     (\<exists>cp \<in> set (rm_CollateralParameters m). m_Collateral row = cp_Asset cp \<and>
        (PolicyID (cp_Asset cp), AssetName (cp_Asset cp)) \<noteq> (PolicyID (m_Borrow row), AssetName (m_Borrow row)) \<and>
        drop (length (rm_ID m) + 1) (m_PoolID row) = cp_MarketID cp \<and> m_CollateralID row = ''q'' @ cp_MarketID cp))"
proof (cases "rm_CollateralParameters m = []")
  case True
  have "stripFanout (rm_ID m) = rm_ID m"
    using assms(3) unfolding stripFanout_def by (metis index_byte_None option.simps(4))
  then show ?thesis using True assms(1) by (simp add: liqwid_rows_def liqwid_base_def)
next
  case False
  then obtain cp where cp: "cp \<in> set (rm_CollateralParameters m)" "\<not> same_token m cp" "row = fanout_row m cp"
    using assms(1) by (auto simp: liqwid_rows_def)
  have "index_byte (rm_ID m @ CHR '':'' # cp_MarketID cp) CHR '':'' = Some (length (rm_ID m))"
    by (rule index_byte_append [OF assms(3)])
  then have "stripFanout (m_PoolID row) = rm_ID m"
    using cp(3) assms(2) by (simp add: stripFanout_def fanout_row_def)
  then show ?thesis using cp by (auto simp: fanout_row_def liqwid_base_def same_token_def intro!: bexI [of _ cp])
qed

definition demo_raw_market :: rawMarket where
  "demo_raw_market = rd_market (JObj [(''id'', JStr ''SNEK''), (''asset'', JObj [(''policyId'', JStr ''aa'')]),
     (''parameters'', JObj [(''collateralParameters'', JArr [
        JObj [(''collateral'', JObj [(''market'', JObj [(''id'', JStr ''Ada'')])])],
        JObj [(''collateral'', JObj [(''market'', JObj [(''id'', JStr ''SNEK''), (''asset'', JObj [(''policyId'', JStr ''aa'')])])])]])])])"

lemma demo_rows: "map m_PoolID (liqwid_rows demo_raw_market) = [''SNEK:Ada'']"
  "rm_ID demo_raw_market = ''SNEK''"
  by code_simp+

theorem fanout_rows_witness:
  "\<exists>row \<in> set (liqwid_rows demo_raw_market). m_PoolID row = ''SNEK:Ada'' \<and> stripFanout (m_PoolID row) = ''SNEK''"
proof -
  obtain row where "liqwid_rows demo_raw_market = [row]" and p: "m_PoolID row = ''SNEK:Ada''"
    using demo_rows(1) by (auto simp: map_eq_Cons_conv)
  then have r: "row \<in> set (liqwid_rows demo_raw_market)" by simp
  have "stripFanout (m_PoolID row) = ''SNEK''"
    using fanout_rows [OF r(1)] by (simp add: demo_rows)
  then show ?thesis using r p by blast
qed

section \<open>The Koios fallback\<close>

lemma koios_unhex_enc [simp]: "koios_unhex i (enc_hex bs) = Inr bs"
proof (induction bs arbitrary: i)
  case (Cons b bs)
  have "unat b < 256" using unsigned_less [of b, where ?'a = nat] by simp
  then have d: "unat b div 16 < 16" "unat b mod 16 < 16" by simp_all
  have "16 * (unat b div 16) + unat b mod 16 = unat b" by (rule mult_div_mod_eq)
  then show ?case using Cons d by (simp add: enc_hex_def hex_val_digit)
qed (simp add: enc_hex_def)

lemma dropWhile_id: "(\<And>c. c \<in> set s \<Longrightarrow> \<not> P c) \<Longrightarrow> dropWhile P s = s"
  by (cases s) auto

lemma trim_quoted:
  assumes "\<And>c. c \<in> set s \<Longrightarrow> c \<notin> set cs" "\<And>c. c \<in> set l \<union> set r \<Longrightarrow> c \<in> set cs"
  shows "trim cs (l @ s @ r) = s"
proof -
  have l: "dropWhile (\<lambda>c. c \<in> set cs) (l @ t) = dropWhile (\<lambda>c. c \<in> set cs) t" if "\<And>c. c \<in> set l \<Longrightarrow> c \<in> set cs" for l t
    using that by (induction l) auto
  show ?thesis
  proof (cases "s = []")
    case True
    then have "dropWhile (\<lambda>c. c \<in> set cs) (l @ r) = []" using assms(2) by (subst dropWhile_eq_Nil_conv) auto
    then show ?thesis using True unfolding trim_def by (simp only: append_Nil rev.simps dropWhile.simps)
  next
    case False
    then have "dropWhile (\<lambda>c. c \<in> set cs) (s @ r) = s @ r" using assms(1) by (cases s) auto
    moreover have "dropWhile (\<lambda>c. c \<in> set cs) (rev s) = rev s" using assms(1) by (intro dropWhile_id) simp
    ultimately show ?thesis using assms(2) l [of l "s @ r"] l [of "rev r" "rev s"] by (simp add: trim_def)
  qed
qed

text \<open>The fallback submits the user's transaction: when Liqwid's own submission fails, what goes to Koios is
  byte for byte the locally merged transaction, and the hash answered in quotes is the result.\<close>

theorem koios_fallback:
  assumes "s_CBOR p \<noteq> []" "s_WitnessSet p \<noteq> []"
    and "fst (liqwid_post c x submitTxMutation (Some (JObj [(''input'',
           JObj [(''transaction'', JStr (s_CBOR p)), (''signature'', JStr (s_WitnessSet p))])])) w) = Inl e"
    and "snd (liqwid_post c x submitTxMutation (Some (JObj [(''input'',
           JObj [(''transaction'', JStr (s_CBOR p)), (''signature'', JStr (s_WitnessSet p))])])) w) = w1"
    and "MergeTxWitnesses (lc_cbor c) (s_CBOR p) (s_WitnessSet p) = Inr (enc_hex bs)"
    and "ht_BadURL (lc_http c) (rq_URL (koios_request bs)) = None"
    and "ht_Do (lc_http c) x (koios_request bs) w1 = (Inr (202, [CHR 0x22] @ hash @ [CHR 0x22]), w2)"
    and "hash \<noteq> []" "set hash \<inter> set hash_quotes = {}"
  shows "liqwid_SubmitTx c x p w = (Inr hash, w2)"
proof -
  have "trim hash_quotes ([CHR 0x22] @ hash @ [CHR 0x22]) = hash"
    by (rule trim_quoted) (use assms(9) in \<open>auto simp: hash_quotes_def\<close>)
  then have k: "submitViaKoios (lc_http c) x (enc_hex bs) w1 = (Inr hash, w2)"
    using assms(6-8) by (simp add: submitViaKoios_def send_def chks_def)
  have "liqwid_post c x submitTxMutation (Some (JObj [(''input'',
      JObj [(''transaction'', JStr (s_CBOR p)), (''signature'', JStr (s_WitnessSet p))])])) w = (Inl e, w1)"
    using assms(3,4) by (metis prod.collapse)
  then show ?thesis using assms(1,2,5) k by (simp add: liqwid_SubmitTx_def)
qed

text \<open>Liqwid is down and Koios accepts everything.\<close>

definition demo_liqwid :: "nat liqwid_client" where
  "demo_liqwid = NewLiqwid \<lparr>ht_BadURL = (\<lambda>u. None),
     ht_Do = (\<lambda>c rq w. (Inr (if rq_URL rq = defaultEndpoint then (500, []) else (202, [CHR 0x22] @ ''ab'' @ [CHR 0x22])), w + 1)),
     ht_Parse = (\<lambda>b. Inr JNull), ht_Text = (\<lambda>j. []), ht_ff = (\<lambda>x. []), ht_rt = demo_runtime\<rparr> demo_cbor"

theorem koios_fallback_witness:
  "liqwid_SubmitTx demo_liqwid Background \<lparr>s_Source = [], s_CBOR = ''01'', s_WitnessSet = ''06'', s_Address = [], s_Wallet = []\<rparr> 0 =
   (Inr ''ab'', 2)"
proof (rule koios_fallback)
  show "MergeTxWitnesses (lc_cbor demo_liqwid) (s_CBOR \<lparr>s_Source = [], s_CBOR = ''01'', s_WitnessSet = ''06'', s_Address = [], s_Wallet = []\<rparr>)
     (s_WitnessSet \<lparr>s_Source = [], s_CBOR = ''01'', s_WitnessSet = ''06'', s_Address = [], s_Wallet = []\<rparr>) = Inr (enc_hex [13])"
    using demo_merge by (simp add: demo_liqwid_def NewLiqwid_def enc_hex_def hex_digits)
qed (simp_all add: demo_liqwid_def NewLiqwid_def liqwid_post_def send_def chks_def koios_request_def defaultEndpoint_def hash_quotes_def)

end
