(* ===== verification/Wallet_Client.thy ===== *)
theory Wallet_Client
  imports Go_Http Source_Cache
begin

text \<open>
  The wallet balance service (\<open>common/wallet/client.go\<close>): balances from Koios behind an expiring cache, the
  decimal and hex parsing of its answers, and the in-memory cache. The two requests of a fetch run
  concurrently in the source; they are independent, and made one after the other here. \<open>wc_now\<close> is
  the clock.
\<close>

definition koios_addr_info :: string where "koios_addr_info = ''/address_info''"
definition koios_addr_assets :: string where "koios_addr_assets = ''/address_assets''"
definition defaultCacheTTL :: int where "defaultCacheTTL = 30 * second"

record token =
  tk_PolicyID :: string
  tk_AssetName :: string
  tk_Symbol :: string
  tk_Decimals :: int
  tk_Quantity :: string
  tk_Fingerprint :: string

record balance =
  bl_Address :: string
  bl_Lovelace :: int
  bl_Tokens :: "token list"
  bl_FetchedAt :: int

record 'w wallet_client =
  wc_http :: "'w http"
  wc_cache :: "(balance, 'w) cache option"
  wc_ttl :: int
  wc_now :: "'w \<Rightarrow> int"

definition NewWallet :: "'w http \<Rightarrow> (balance, 'w) cache option \<Rightarrow> int \<Rightarrow> ('w \<Rightarrow> int) \<Rightarrow> 'w wallet_client" where
  "NewWallet h ca ttl now =
     \<lparr>wc_http = h, wc_cache = ca, wc_ttl = (if ttl \<le> 0 then defaultCacheTTL else ttl), wc_now = now\<rparr>"

section \<open>Parsing\<close>

text \<open>Digits up to the first other character; the sum wraps.\<close>

fun parse_digits :: "int \<Rightarrow> string \<Rightarrow> int" where
  "parse_digits n [] = n"
| "parse_digits n (c # s) = (if is_digit c then parse_digits (i64 (i64 (n * 10) + int (digit_val c))) s else n)"

definition parseInt64 :: "string \<Rightarrow> int" where
  "parseInt64 s = parse_digits 0 s"

definition hexNibble :: "char \<Rightarrow> nat option" where
  "hexNibble c = hex_val c"

text \<open>The text of hex pairs; empty as soon as a pair is not hex or not printable, an odd last digit is left out.\<close>

fun ascii_pairs :: "string \<Rightarrow> string option" where
  "ascii_pairs (a # b # r) =
     (case (hexNibble a, hexNibble b) of
        (Some hi, Some lo) \<Rightarrow>
          let n = 16 * hi + lo in
          if n < 32 \<or> 126 < n then None else map_option (\<lambda>t. char_of n # t) (ascii_pairs r)
      | _ \<Rightarrow> None)"
| "ascii_pairs _ = Some []"

definition hexToAscii :: "string \<Rightarrow> string" where
  "hexToAscii s = (case ascii_pairs s of Some t \<Rightarrow> t | None \<Rightarrow> [])"

section \<open>Koios\<close>

definition ty_infoRow :: jtype where
  "ty_infoRow = TObj [(''address'', TStr), (''balance'', TStr)]"

definition ty_assetRow :: jtype where
  "ty_assetRow = TObj [(''address'', TStr), (''policy_id'', TStr), (''asset_name'', TStr), (''fingerprint'', TStr),
     (''decimals'', TInt), (''quantity'', TStr)]"

definition rd_token :: "json \<Rightarrow> token" where
  "rd_token j = \<lparr>tk_PolicyID = jstr (jget ''policy_id'' j), tk_AssetName = jstr (jget ''asset_name'' j),
     tk_Symbol = hexToAscii (jstr (jget ''asset_name'' j)), tk_Decimals = jint (jget ''decimals'' j),
     tk_Quantity = jstr (jget ''quantity'' j), tk_Fingerprint = jstr (jget ''fingerprint'' j)\<rparr>"

definition koiosPost :: "'w wallet_client \<Rightarrow> jtype \<Rightarrow> (json \<Rightarrow> 'a) \<Rightarrow> gctx \<Rightarrow> string \<Rightarrow> string \<Rightarrow> 'w \<Rightarrow> 'a res \<times> 'w" where
  "koiosPost c t rd x path address =
     send (wc_http c) x \<lparr>rq_Method = POST, rq_URL = koiosBase @ path, rq_Headers = json_post,
        rq_Body = ht_Text (wc_http c) (JObj [(''_addresses'', JArr [JStr address])])\<rparr> id (\<lambda>(code, body). pure_res (
          if code \<noteq> 200 then Inl (Fmt ''status %d'' [AI code]) else unmarshal (wc_http c) t rd body))"

definition fetchFromKoios :: "'w wallet_client \<Rightarrow> gctx \<Rightarrow> string \<Rightarrow> 'w \<Rightarrow> balance res \<times> 'w" where
  "fetchFromKoios c x address w =
     (case koiosPost c (TArr ty_infoRow) (\<lambda>j. map (\<lambda>r. jstr (jget ''balance'' r)) (jlist j)) x koios_addr_info address w of (info, w1) \<Rightarrow>
      case koiosPost c (TArr ty_assetRow) (\<lambda>j. map rd_token (jlist j)) x koios_addr_assets address w1 of (assets, w2) \<Rightarrow>
        (chk info (wrap ''koios address_info: %w'') (\<lambda>rows.
         chk assets (wrap ''koios address_assets: %w'') (\<lambda>tokens.
           Inr \<lparr>bl_Address = address, bl_Lovelace = (case rows of r # _ \<Rightarrow> parseInt64 r | [] \<Rightarrow> 0),
                bl_Tokens = tokens, bl_FetchedAt = wc_now c w2\<rparr>)), w2))"

definition FetchBalance :: "'w wallet_client \<Rightarrow> gctx \<Rightarrow> string \<Rightarrow> 'w \<Rightarrow> balance res \<times> 'w" where
  "FetchBalance c x address w =
     (if address = [] then (Inl (errm ''wallet: empty address''), w)
      else case (case wc_cache c of None \<Rightarrow> (None, w)
                 | Some ca \<Rightarrow> (case ca_Get ca x address w of (r, w1) \<Rightarrow> (cache_hit r, w1))) of
          (Some b, w1) \<Rightarrow> (Inr b, w1)
        | (None, w1) \<Rightarrow>
            chks (fetchFromKoios c x address) id (\<lambda>b w2.
              (Inr b, case wc_cache c of None \<Rightarrow> w2 | Some ca \<Rightarrow> snd (ca_Set ca x address b (wc_ttl c) w2))) w1)"

section \<open>The in-memory cache\<close>

definition NewBalanceCache :: "balance mem_entries" where "NewBalanceCache = Map.empty"

definition BalanceCache_Get :: "int \<Rightarrow> string \<Rightarrow> balance mem_entries \<Rightarrow> balance option" where
  "BalanceCache_Get now address m =
     (case m address of None \<Rightarrow> None | Some (v, expires) \<Rightarrow> if expires < now then None else Some v)"

definition BalanceCache_Set :: "int \<Rightarrow> string \<Rightarrow> balance \<Rightarrow> int \<Rightarrow> balance mem_entries \<Rightarrow> balance mem_entries" where
  "BalanceCache_Set now address v ttl m = m(address \<mapsto> (v, now + ttl))"

interpretation bc: ttl_cache BalanceCache_Get BalanceCache_Set
  by unfold_locales (auto simp: BalanceCache_Get_def BalanceCache_Set_def split: option.splits if_splits)

section \<open>What the parsers keep\<close>

lemma parse_digits_append:
  "(\<And>c. c \<in> set s \<Longrightarrow> is_digit c) \<Longrightarrow> 0 \<le> n \<Longrightarrow>
     int (foldl (\<lambda>n c. n * 10 + digit_val c) (nat n) s) < 2 ^ 63 \<Longrightarrow>
     parse_digits n s = int (foldl (\<lambda>n c. n * 10 + digit_val c) (nat n) s)"
proof (induction s arbitrary: n)
  case (Cons c s)
  have mono: "m \<le> foldl (\<lambda>n c. n * 10 + digit_val c) m t" for m and t :: string
  proof (induction t arbitrary: m)
    case (Cons d t)
    have "m \<le> m * 10 + digit_val d" by simp
    also have "\<dots> \<le> foldl (\<lambda>n c. n * 10 + digit_val c) (m * 10 + digit_val d) t" by (rule Cons.IH)
    finally show ?case by simp
  qed simp
  define k where "k = nat n * 10 + digit_val c"
  have n: "n * 10 + int (digit_val c) = int k" "0 \<le> n" using Cons.prems(2) by (simp_all add: k_def)
  have "int k \<le> int (foldl (\<lambda>n c. n * 10 + digit_val c) k s)" using mono [of k s] by simp
  moreover have "foldl (\<lambda>n c. n * 10 + digit_val c) (nat n) (c # s) = foldl (\<lambda>n c. n * 10 + digit_val c) k s"
    by (simp add: k_def)
  ultimately have "int k < 2 ^ 63" using Cons.prems(3) by linarith
  then have "i64 (n * 10 + int (digit_val c)) = int k" by (simp add: n i64_id in_i64_def)
  then show ?case using Cons by (simp add: k_def [symmetric])
qed simp

text \<open>A balance is read as it was written: the decimal text of every amount of lovelace that fits an
  \<open>int64\<close> parses back to that amount.\<close>

theorem parseInt64_dec:
  assumes "n < 2 ^ 63"
  shows "parseInt64 (dec_nat n) = int n"
proof -
  have "int n < 2 ^ 63" using assms by (metis of_nat_less_iff of_nat_numeral of_nat_power)
  then show ?thesis
    using parse_digits_append [of "dec_nat n" 0] dec_nat_digits [of _ n] undec_dec [of n]
    by (simp add: parseInt64_def undec_def)
qed

theorem parseInt64_dec_witness: "parseInt64 (dec_nat 45000000000000000) = 45000000000000000"
  using parseInt64_dec [of 45000000000000000] by simp

text \<open>A printable asset name is shown as itself: the hex of its bytes reads back as the name.\<close>

theorem hexToAscii_printable:
  assumes "\<forall>c \<in> set s. 32 \<le> (of_char c :: nat) \<and> (of_char c :: nat) \<le> 126"
  shows "hexToAscii (enc_hex (bytes_of s)) = s"
proof -
  have "ascii_pairs (enc_hex (bytes_of s)) = Some s"
    using assms
  proof (induction s)
    case (Cons c s)
    have c: "(of_char c :: nat) < 256" by simp
    have "unat (of_nat (of_char c :: nat) :: byte) = of_char c" using c by (simp add: unat_of_nat del: of_nat_of_char)
    then have u: "unat (of_char c :: byte) = of_char c" by (simp only: of_nat_of_char)
    have d: "(of_char c :: nat) div 16 < 16" "(of_char c :: nat) mod 16 < 16" using less_mult_imp_div_less [of "of_char c" 16 16] c by simp_all
    have e: "16 * ((of_char c :: nat) div 16) + of_char c mod 16 = of_char c" by (rule mult_div_mod_eq)
    show ?case using Cons by (simp add: enc_hex_def bytes_of_def u hexNibble_def hex_val_digit d e Let_def)
  qed (simp add: enc_hex_def bytes_of_def)
  then show ?thesis by (simp add: hexToAscii_def)
qed

theorem hexToAscii_printable_witness: "hexToAscii (enc_hex (bytes_of ''SNEK'')) = ''SNEK''"
  by (rule hexToAscii_printable) simp

end
