(* ===== verification/Strike_Client.thy ===== *)
theory Strike_Client
  imports Go_Http
begin

text \<open>
  The Strike Finance perpetuals client (\<open>common/strike/client.go\<close>), the store of pending key pairs and
  credentials (\<open>store.go\<close>) and the deposit and withdrawal history (\<open>history.go\<close>). Ed25519, SHA-256, the
  random source and the clock are parameters, as is the HTTP transport.
\<close>

definition strike_DefaultBase :: string where "strike_DefaultBase = ''https://api.strikefinance.org''"
definition ChainCardano :: string where "ChainCardano = ''cardano''"
definition appBase :: string where "appBase = ''https://app.strikefinance.org''"

record 'w strike_env =
  se_http :: "'w http"
  se_GenerateKey :: "'w \<Rightarrow> (bytes \<times> bytes) res \<times> 'w"    \<comment> \<open>public and private key\<close>
  se_KeyFromSeed :: "bytes \<Rightarrow> bytes"
  se_Sign :: "bytes \<Rightarrow> bytes \<Rightarrow> bytes"
  se_Sha256 :: "bytes \<Rightarrow> bytes"
  se_Now :: "'w \<Rightarrow> int"                                     \<comment> \<open>nanoseconds\<close>
  se_Rand :: "'w \<Rightarrow> bytes \<times> 'w"                            \<comment> \<open>sixteen random bytes\<close>

record 'w strike_client =
  sk_base :: string
  sk_env :: "'w strike_env"
  sk_builderCode :: string
  sk_feeBps :: int
  sk_withdrawLeader :: string

record credential =
  cr_PrivateKey :: bytes
  cr_PublicKey :: string
  cr_AccountID :: string

definition NewStrike :: "'w strike_env \<Rightarrow> string \<Rightarrow> int \<Rightarrow> 'w strike_client" where
  "NewStrike e builderCode feeBps =
     \<lparr>sk_base = strike_DefaultBase, sk_env = e, sk_builderCode = builderCode, sk_feeBps = feeBps, sk_withdrawLeader = []\<rparr>"

definition strike_WithBase :: "'w strike_client \<Rightarrow> string \<Rightarrow> 'w strike_client" where
  "strike_WithBase c base = (if base \<noteq> [] then c\<lparr>sk_base := base\<rparr> else c)"

definition BuilderEnabled :: "'w strike_client \<Rightarrow> bool" where
  "BuilderEnabled c \<longleftrightarrow> sk_builderCode c \<noteq> []"

definition WithWithdrawLeader :: "'w strike_client \<Rightarrow> string \<Rightarrow> 'w strike_client" where
  "WithWithdrawLeader c addr = c\<lparr>sk_withdrawLeader := addr\<rparr>"

section \<open>Keys and signatures\<close>

definition GenerateKeyPair :: "'w strike_env \<Rightarrow> 'w \<Rightarrow> (string \<times> string) res \<times> 'w" where
  "GenerateKeyPair e = chks (se_GenerateKey e) id (\<lambda>(pub, priv). pure_res (Inr (enc_hex (take 32 priv), enc_hex pub)))"

definition CredentialFromHex :: "'w strike_env \<Rightarrow> string \<Rightarrow> string \<Rightarrow> string \<Rightarrow> credential res" where
  "CredentialFromHex e seedHex publicHex accountID =
     (case dec_hex (trim_space seedHex) of
        Inl _ \<Rightarrow> Inl (errm ''strike: bad credential seed (want 32-byte hex)'')
      | Inr seed \<Rightarrow> if length seed \<noteq> 32 then Inl (errm ''strike: bad credential seed (want 32-byte hex)'')
                    else Inr \<lparr>cr_PrivateKey = se_KeyFromSeed e seed, cr_PublicKey = publicHex, cr_AccountID = accountID\<rparr>)"

unbundle bit_operations_syntax

text \<open>A random UUID: version 4 in the seventh byte, the variant in the ninth.\<close>

definition uuid_bytes :: "bytes \<Rightarrow> bytes" where
  "uuid_bytes b = b[6 := (b ! 6 AND 0x0f) OR 0x40, 8 := (b ! 8 AND 0x3f) OR 0x80]"

definition uuidV4 :: "bytes \<Rightarrow> string" where
  "uuidV4 r = (let b = uuid_bytes r in
     enc_hex (take 4 b) @ ''-'' @ enc_hex (take 2 (drop 4 b)) @ ''-'' @ enc_hex (take 2 (drop 6 b)) @ ''-'' @
     enc_hex (take 2 (drop 8 b)) @ ''-'' @ enc_hex (take 6 (drop 10 b)))"

definition method_name :: "http_method \<Rightarrow> string" where
  "method_name m = (case m of GET \<Rightarrow> ''GET'' | POST \<Rightarrow> ''POST'')"

definition sign_message :: "http_method \<Rightarrow> string \<Rightarrow> int \<Rightarrow> string \<Rightarrow> bytes \<Rightarrow> string" where
  "sign_message method path ts nonce bodyHash =
     method_name method @ '':'' @ path @ '':'' @ dec_int ts @ '':'' @ nonce @ '':'' @ enc_hex bodyHash"

definition signHeaders ::
  "'w strike_env \<Rightarrow> credential \<Rightarrow> http_method \<Rightarrow> string \<Rightarrow> string \<Rightarrow> 'w \<Rightarrow> (string \<times> string) list \<times> 'w" where
  "signHeaders e cred method path body w =
     (case se_Rand e w of (r, w1) \<Rightarrow>
        let ts = se_Now e w div second; nonce = uuidV4 r;
            m = sign_message method path ts nonce (se_Sha256 e (bytes_of body))
        in ([(''X-API-Wallet-Public-Key'', cr_PublicKey cred),
             (''X-API-Wallet-Signature'', enc_hex (se_Sign e (cr_PrivateKey cred) (bytes_of m))),
             (''X-API-Wallet-Timestamp'', dec_int ts),
             (''X-API-Wallet-Nonce'', nonce)], w1))"

section \<open>Transport\<close>

definition strike_do ::
  "'w strike_client \<Rightarrow> gctx \<Rightarrow> http_method \<Rightarrow> string \<Rightarrow> json option \<Rightarrow> credential option \<Rightarrow> int \<Rightarrow> 'w \<Rightarrow> string res \<times> 'w" where
  "strike_do c x method path body cred feeBps w =
     (let e = sk_env c; h = se_http e; u = sk_base c @ path;
          bodyBytes = (case body of None \<Rightarrow> [] | Some j \<Rightarrow> ht_Text h j)
      in case ht_BadURL h u of
           Some er \<Rightarrow> (Inl er, w)
         | None \<Rightarrow>
             (case (case cred of None \<Rightarrow> ([], w) | Some k \<Rightarrow> signHeaders e k method path bodyBytes w) of (auth, w1) \<Rightarrow>
                chks (ht_Do h x \<lparr>rq_Method = method, rq_URL = u,
                        rq_Headers = json_accept @ (if bodyBytes \<noteq> [] then [(''Content-Type'', ''application/json'')] else []) @
                          auth @ (if 0 < feeBps then [(''X-Builder-Fee-Bps'', dec_int feeBps)] else []),
                        rq_Body = bodyBytes\<rparr>)
                  (wrap ''strike: %w'') (\<lambda>(code, resp). pure_res (
                    if code < 200 \<or> 300 \<le> code
                    then Inl (Fmt ''strike: %s %s status %d: %s'' [AS (method_name method), AS path, AI code, AS (truncate_to resp 400)])
                    else Inr resp)) w1))"

section \<open>Onboarding\<close>

record challenge =
  ch_Nonce :: string
  ch_MessageToSign :: string
  ch_Message :: string

definition ty_challenge :: jtype where
  "ty_challenge = TObj [(''nonce'', TStr), (''message_to_sign'', TStr), (''message'', TStr)]"

definition rd_challenge :: "json \<Rightarrow> challenge" where
  "rd_challenge j = \<lparr>ch_Nonce = jstr (jget ''nonce'' j), ch_MessageToSign = jstr (jget ''message_to_sign'' j),
     ch_Message = jstr (jget ''message'' j)\<rparr>"

definition RequestSignature ::
  "'w strike_client \<Rightarrow> gctx \<Rightarrow> string \<Rightarrow> string \<Rightarrow> string \<Rightarrow> int \<Rightarrow> 'w \<Rightarrow> challenge res \<times> 'w" where
  "RequestSignature c x address chain publicKeyHex feeBps =
     (if sk_builderCode c = [] then pure_res (Inl (errm ''strike: builder code not configured (STRIKE_BUILDER_CODE)''))
      else chks (strike_do c x POST ''/auth/builder/request-signature''
             (Some (JObj [(''address'', JStr address), (''chain'', JStr chain), (''code'', JStr (sk_builderCode c)),
                          (''public_key'', JStr publicKeyHex), (''fee_share_bps'', JInt feeBps)])) None 0) id
             (\<lambda>raw. pure_res (chk (unmarshal (se_http (sk_env c)) ty_challenge rd_challenge raw)
                (wrap ''strike: decode request-signature: %w'') Inr)))"

record verified =
  vf_AccountID :: string
  vf_BuilderCode :: string
  vf_FeeShareBps :: int
  vf_APIWalletID :: int
  vf_APIWalletPublicKey :: string

definition ty_verified :: jtype where
  "ty_verified = TObj [(''account_id'', TStr), (''builder_code'', TStr), (''fee_share_bps'', TInt), (''api_wallet_id'', TInt),
     (''api_wallet_public_key'', TStr)]"

definition rd_verified :: "json \<Rightarrow> verified" where
  "rd_verified j = \<lparr>vf_AccountID = jstr (jget ''account_id'' j), vf_BuilderCode = jstr (jget ''builder_code'' j),
     vf_FeeShareBps = jint (jget ''fee_share_bps'' j), vf_APIWalletID = jint (jget ''api_wallet_id'' j),
     vf_APIWalletPublicKey = jstr (jget ''api_wallet_public_key'' j)\<rparr>"

definition VerifySignature :: "'w strike_client \<Rightarrow> gctx \<Rightarrow> string \<Rightarrow> string \<Rightarrow> 'w \<Rightarrow> verified res \<times> 'w" where
  "VerifySignature c x nonce walletSignature =
     chks (strike_do c x POST ''/auth/builder/verify-signature''
             (Some (JObj [(''nonce'', JStr nonce), (''wallet_signature'', JStr walletSignature)])) None 0) id
       (\<lambda>raw. pure_res (chk (unmarshal (se_http (sk_env c)) ty_verified rd_verified raw)
          (wrap ''strike: decode verify-signature: %w'') Inr))"

section \<open>Reads and trading\<close>

text \<open>\<open>url.Values.Encode\<close> of one parameter.\<close>

definition upper_hex :: "nat \<Rightarrow> char" where
  "upper_hex n = (if n < 10 then char_of (48 + n) else char_of (55 + n))"

definition unreserved :: "char \<Rightarrow> bool" where
  "unreserved c \<longleftrightarrow> (let n = of_char c :: nat in
     48 \<le> n \<and> n \<le> 57 \<or> 65 \<le> n \<and> n \<le> 90 \<or> 97 \<le> n \<and> n \<le> 122 \<or> c \<in> {CHR ''-'', CHR ''_'', CHR ''.'', CHR ''~''})"

definition query_escape :: "string \<Rightarrow> string" where
  "query_escape s = concat (map (\<lambda>c. if unreserved c then [c] else if c = CHR 0x20 then ''+''
     else [CHR ''%'', upper_hex (of_char c div 16), upper_hex (of_char c mod 16)]) s)"

definition strike_Positions :: "'w strike_client \<Rightarrow> gctx \<Rightarrow> string \<Rightarrow> 'w \<Rightarrow> string res \<times> 'w" where
  "strike_Positions c x address = strike_do c x GET (''/v2/positions?blockchain_address='' @ query_escape address) None None 0"

definition strike_Account :: "'w strike_client \<Rightarrow> gctx \<Rightarrow> string \<Rightarrow> 'w \<Rightarrow> string res \<times> 'w" where
  "strike_Account c x address = strike_do c x GET (''/v2/account?blockchain_address='' @ query_escape address) None None 0"

definition strike_Markets :: "'w strike_client \<Rightarrow> gctx \<Rightarrow> 'w \<Rightarrow> string res \<times> 'w" where
  "strike_Markets c x = strike_do c x GET ''/v2/markets'' None None 0"

record create_order =
  co_Symbol :: string
  co_Side :: string
  co_Type :: string
  co_Size :: string
  co_Price :: string
  co_TimeInForce :: string
  co_ReduceOnly :: bool
  co_ClientID :: string

definition nonempty :: "string \<Rightarrow> string \<Rightarrow> (string \<times> json) list" where
  "nonempty k v = (if v = [] then [] else [(k, JStr v)])"

definition js_order :: "create_order \<Rightarrow> json" where
  "js_order r = JObj ([(''symbol'', JStr (co_Symbol r)), (''side'', JStr (co_Side r)), (''type'', JStr (co_Type r)),
     (''size'', JStr (co_Size r))] @ nonempty ''price'' (co_Price r) @ nonempty ''time_in_force'' (co_TimeInForce r) @
     (if co_ReduceOnly r then [(''reduce_only'', JBool True)] else []) @ nonempty ''client_order_id'' (co_ClientID r))"

definition SetLeverage :: "'w strike_client \<Rightarrow> gctx \<Rightarrow> credential \<Rightarrow> string \<Rightarrow> int \<Rightarrow> 'w \<Rightarrow> string res \<times> 'w" where
  "SetLeverage c x cred symbol leverage =
     strike_do c x POST ''/v2/leverage'' (Some (JObj [(''symbol'', JStr symbol), (''leverage'', JInt leverage)])) (Some cred) 0"

definition CreateOrder :: "'w strike_client \<Rightarrow> gctx \<Rightarrow> credential \<Rightarrow> create_order \<Rightarrow> 'w \<Rightarrow> string res \<times> 'w" where
  "CreateOrder c x cred r =
     (if co_Symbol r = [] \<or> co_Side r = [] \<or> co_Type r = [] \<or> co_Size r = []
      then pure_res (Inl (errm ''strike: order needs symbol, side, type, size''))
      else strike_do c x POST ''/v2/order'' (Some (js_order r)) (Some cred) (sk_feeBps c))"

definition CancelOrder :: "'w strike_client \<Rightarrow> gctx \<Rightarrow> credential \<Rightarrow> int \<Rightarrow> string \<Rightarrow> 'w \<Rightarrow> string res \<times> 'w" where
  "CancelOrder c x cred orderID symbol =
     strike_do c x POST ''/v2/order/cancel'' (Some (JObj [(''order_id'', JInt orderID), (''symbol'', JStr symbol)])) (Some cred) 0"

definition DepositQuote :: "'w strike_client \<Rightarrow> gctx \<Rightarrow> credential \<Rightarrow> string \<Rightarrow> 'w \<Rightarrow> string res \<times> 'w" where
  "DepositQuote c x cred lovelace =
     strike_do c x POST ''/v2/deposit/quote''
       (Some (JObj [(''blockchain'', JStr ChainCardano), (''asset_symbol'', JStr ''ADA''), (''asset_amount'', JStr lovelace)])) (Some cred) 0"

definition DepositBuildTx :: "'w strike_client \<Rightarrow> gctx \<Rightarrow> credential \<Rightarrow> string \<Rightarrow> string \<Rightarrow> string list \<Rightarrow> 'w \<Rightarrow> string res \<times> 'w" where
  "DepositBuildTx c x cred requestID userAddress utxos =
     strike_do c x POST ''/v2/deposit/build-tx''
       (Some (JObj [(''request_id'', JStr requestID), (''user_address'', JStr userAddress), (''utxos'', JArr (map JStr utxos))])) (Some cred) 0"

definition DepositConfirm :: "'w strike_client \<Rightarrow> gctx \<Rightarrow> credential \<Rightarrow> string \<Rightarrow> string \<Rightarrow> 'w \<Rightarrow> string res \<times> 'w" where
  "DepositConfirm c x cred requestID txHash =
     strike_do c x POST ''/v2/deposit'' (Some (JObj [(''request_id'', JStr requestID), (''tx_hash'', JStr txHash)])) (Some cred) 0"

definition strike_Balances :: "'w strike_client \<Rightarrow> gctx \<Rightarrow> credential \<Rightarrow> 'w \<Rightarrow> string res \<times> 'w" where
  "strike_Balances c x cred = strike_do c x GET ''/v2/balances'' None (Some cred) 0"

definition WithdrawQuote :: "'w strike_client \<Rightarrow> gctx \<Rightarrow> credential \<Rightarrow> string \<Rightarrow> string \<Rightarrow> string \<Rightarrow> 'w \<Rightarrow> string res \<times> 'w" where
  "WithdrawQuote c x cred usdValue asset recipient =
     strike_do c x POST ''/v2/withdraw/quote''
       (Some (JObj ([(''usd_value'', JStr usdValue), (''blockchain'', JStr ChainCardano), (''recipient_address'', JStr recipient)] @
          nonempty ''asset'' asset))) (Some cred) 0"

definition WithdrawConfirm :: "'w strike_client \<Rightarrow> gctx \<Rightarrow> credential \<Rightarrow> string \<Rightarrow> string \<Rightarrow> 'w \<Rightarrow> string res \<times> 'w" where
  "WithdrawConfirm c x cred withdrawID walletSignature =
     strike_do c x POST ''/v2/withdraw''
       (Some (JObj [(''withdraw_id'', JStr withdrawID), (''wallet_signature'', JStr walletSignature)])) (Some cred) 0"

definition WithdrawBatcher :: "'w strike_client \<Rightarrow> gctx \<Rightarrow> string \<Rightarrow> string \<Rightarrow> string list \<Rightarrow> 'w \<Rightarrow> string res \<times> 'w" where
  "WithdrawBatcher c x address leader utxos =
     (let h = se_http (sk_env c) in
      send h x \<lparr>rq_Method = POST, rq_URL = appBase @ ''/api/perpetuals/withdraw-batcher'', rq_Headers = json_post,
                rq_Body = ht_Text h (JObj [(''address'', JStr address), (''leaderAddress'', JStr leader), (''utxos'', JArr (map JStr utxos))])\<rparr>
        (wrap ''strike withdraw-batcher: %w'') (\<lambda>(code, resp). pure_res (
          if code < 200 \<or> 300 \<le> code
          then Inl (Fmt ''strike withdraw-batcher: status %d: %s'' [AI code, AS (truncate_to resp 400)]) else Inr resp)))"

section \<open>The credential store\<close>

record pending_key =
  pk_seedHex :: string
  pk_publicHex :: string
  pk_address :: string
  pk_at :: int

record strike_store =
  ss_pending :: "string \<rightharpoonup> pending_key"
  ss_creds :: "string \<rightharpoonup> credential"

definition NewStore :: strike_store where
  "NewStore = \<lparr>ss_pending = Map.empty, ss_creds = Map.empty\<rparr>"

definition PutPending :: "int \<Rightarrow> string \<Rightarrow> string \<Rightarrow> string \<Rightarrow> string \<Rightarrow> strike_store \<Rightarrow> strike_store" where
  "PutPending now nonce address seedHex publicHex s =
     (let young = (\<lambda>k. case ss_pending s k of None \<Rightarrow> None
            | Some p \<Rightarrow> if 10 * minute < now - pk_at p then None else Some p)
      in s\<lparr>ss_pending := young(nonce \<mapsto> \<lparr>pk_seedHex = seedHex, pk_publicHex = publicHex, pk_address = address, pk_at = now\<rparr>)\<rparr>)"

definition TakePending :: "string \<Rightarrow> strike_store \<Rightarrow> (string \<times> string \<times> string) option \<times> strike_store" where
  "TakePending nonce s = (case ss_pending s nonce of
     None \<Rightarrow> (None, s)
   | Some p \<Rightarrow> (Some (pk_seedHex p, pk_publicHex p, pk_address p), s\<lparr>ss_pending := (ss_pending s)(nonce := None)\<rparr>))"

definition PutCredential :: "string \<Rightarrow> credential \<Rightarrow> strike_store \<Rightarrow> strike_store" where
  "PutCredential address cred s = s\<lparr>ss_creds := (ss_creds s)(address \<mapsto> cred)\<rparr>"

definition Credential :: "string \<Rightarrow> strike_store \<Rightarrow> credential res" where
  "Credential address s = (case ss_creds s address of
     None \<Rightarrow> Inl (errm (''strike: wallet not connected '' @ utf8_emdash @ '' connect to Strike first''))
   | Some cred \<Rightarrow> Inr cred)"

definition Connected :: "string \<Rightarrow> strike_store \<Rightarrow> bool" where
  "Connected address s \<longleftrightarrow> ss_creds s address \<noteq> None"

section \<open>History\<close>

record history_entry =
  he_ID :: string
  he_Address :: string
  he_Type :: string
  he_Asset :: string
  he_Amount :: string
  he_UsdValue :: string
  he_TxHash :: string
  he_WithdrawID :: string
  he_RequestID :: string
  he_Status :: string
  he_CreatedAt :: int

definition stamped :: "int \<Rightarrow> history_entry \<Rightarrow> history_entry" where
  "stamped now e = (if he_CreatedAt e = 0 then e\<lparr>he_CreatedAt := now\<rparr> else e)"

definition settled :: "string \<Rightarrow> string \<Rightarrow> string \<Rightarrow> history_entry \<Rightarrow> history_entry" where
  "settled withdrawID txHash status e =
     (if he_Type e = ''withdraw'' \<and> he_WithdrawID e = withdrawID
      then (let f = e\<lparr>he_TxHash := txHash\<rparr> in if status \<noteq> [] then f\<lparr>he_Status := status\<rparr> else f) else e)"

text \<open>The interface: an entry recorded is listed once for its address, newest first, a settlement changes
  only the matching withdrawals of its address, and other addresses see nothing of either.\<close>

locale history =
  fixes rec :: "int \<Rightarrow> history_entry \<Rightarrow> 's \<Rightarrow> 's"
    and listing :: "string \<Rightarrow> 's \<Rightarrow> history_entry list"
    and settle :: "string \<Rightarrow> string \<Rightarrow> string \<Rightarrow> string \<Rightarrow> 's \<Rightarrow> 's"
  assumes mset_rec: "mset (listing a (rec now e s)) =
      mset (listing a s) + (if a = he_Address e then {#stamped now e#} else {#})"
    and mset_settle: "mset (listing a (settle b w t st s)) =
      (if a = b then image_mset (settled w t st) (mset (listing a s)) else mset (listing a s))"
    and newest_first: "sorted_wrt (\<lambda>e f. he_CreatedAt f \<le> he_CreatedAt e) (listing a s)"
begin

lemma recorded: "stamped now e \<in># mset (listing (he_Address e) (rec now e s))"
  by (simp add: mset_rec)

lemma rec_length: "length (listing a (rec now e s)) = length (listing a s) + (if a = he_Address e then 1 else 0)"
  using arg_cong [OF mset_rec [of a now e s], of size] by simp

lemma settle_length: "length (listing a (settle b w t st s)) = length (listing a s)"
  using arg_cong [OF mset_settle [of a b w t st s], of size] by simp

lemma settle_other: "a \<noteq> b \<Longrightarrow> set (listing a (settle b w t st s)) = set (listing a s)"
  by (metis mset_settle set_mset_mset)

lemma settle_set: "set (listing a (settle a w t st s)) = settled w t st ` set (listing a s)"
  by (metis mset_settle set_image_mset set_mset_mset)

end

type_synonym memory_history = "string \<Rightarrow> history_entry list"

definition NewMemoryHistory :: memory_history where
  "NewMemoryHistory = (\<lambda>a. [])"

definition history_Record :: "int \<Rightarrow> history_entry \<Rightarrow> memory_history \<Rightarrow> memory_history" where
  "history_Record now e h = (let f = stamped now e in h(he_Address f := h (he_Address f) @ [f]))"

definition history_List :: "string \<Rightarrow> memory_history \<Rightarrow> history_entry list" where
  "history_List address h = sort_slice (\<lambda>a b. he_CreatedAt b < he_CreatedAt a) (h address)"

definition SettleWithdraw :: "string \<Rightarrow> string \<Rightarrow> string \<Rightarrow> string \<Rightarrow> memory_history \<Rightarrow> memory_history" where
  "SettleWithdraw address withdrawID txHash status h =
     h(address := map (settled withdrawID txHash status) (h address))"

lemma stamped_Address [simp]: "he_Address (stamped now e) = he_Address e"
  by (simp add: stamped_def)

interpretation mh: history history_Record history_List SettleWithdraw
proof unfold_locales
  fix a now e h
  show "mset (history_List a (history_Record now e h)) =
      mset (history_List a h) + (if a = he_Address e then {#stamped now e#} else {#})"
    by (simp add: history_List_def history_Record_def Let_def)
next
  fix a b w t st h
  show "mset (history_List a (SettleWithdraw b w t st h)) =
      (if a = b then image_mset (settled w t st) (mset (history_List a h)) else mset (history_List a h))"
    by (simp add: history_List_def SettleWithdraw_def)
next
  fix a h
  have "weak_order_on A (\<lambda>a b. he_CreatedAt b < he_CreatedAt a)" for A
    by (auto simp: weak_order_on_def)
  from sort_slice_sorted [OF this]
  show "sorted_wrt (\<lambda>e f. he_CreatedAt f \<le> he_CreatedAt e) (history_List a h)"
    by (simp add: history_List_def not_less)
qed

section \<open>What a signature covers\<close>

lemma hex_digit_not_colon: "n < 16 \<Longrightarrow> hex_digit n \<noteq> CHR '':''"
proof
  assume "n < 16" "hex_digit n = CHR '':''"
  then have "hex_val CHR '':'' = Some n" using hex_val_digit [of n] by simp
  then show False by (simp add: hex_val_def)
qed

lemma enc_hex_colon_free: "CHR '':'' \<notin> set (enc_hex bs)"
proof (induction bs)
  case (Cons b bs)
  have "unat b < 256" using unsigned_less [of b, where ?'a = nat] by simp
  then have "hex_digit (unat b div 16) \<noteq> CHR '':''" "hex_digit (unat b mod 16) \<noteq> CHR '':''"
    by (simp_all add: hex_digit_not_colon)
  then show ?case using Cons by (auto simp: enc_hex_def)
qed (simp add: enc_hex_def)

lemma colon_free:
  "CHR '':'' \<notin> set (dec_int i)" "CHR '':'' \<notin> set (enc_hex bs)" "CHR '':'' \<notin> set (method_name m)" "CHR '':'' \<notin> set (uuidV4 r)"
  using dec_int_chars [of "CHR '':''" i]
  by (auto simp: enc_hex_colon_free method_name_def uuidV4_def Let_def split: http_method.splits)

text \<open>The signed text determines the request: two signed requests with the same text have the same method,
  path, second, nonce and body hash, whatever characters the path has, so a signature cannot be moved to
  another request.\<close>

theorem signed_message_inj:
  assumes "sign_message m p t (uuidV4 r) h = sign_message m' p' t' (uuidV4 r') h'"
  shows "m = m' \<and> p = p' \<and> t = t' \<and> uuidV4 r = uuidV4 r' \<and> h = h'"
proof -
  have "method_name m @ CHR '':'' # (p @ CHR '':'' # dec_int t @ CHR '':'' # uuidV4 r @ CHR '':'' # enc_hex h) =
      method_name m' @ CHR '':'' # (p' @ CHR '':'' # dec_int t' @ CHR '':'' # uuidV4 r' @ CHR '':'' # enc_hex h')"
    using assms by (simp add: sign_message_def)
  from split_at_first [OF this colon_free(3) colon_free(3)]
  have m: "method_name m = method_name m'"
    and r1: "(p @ CHR '':'' # dec_int t @ CHR '':'' # uuidV4 r) @ CHR '':'' # enc_hex h =
      (p' @ CHR '':'' # dec_int t' @ CHR '':'' # uuidV4 r') @ CHR '':'' # enc_hex h'" by simp_all
  from split_at_last [OF r1 colon_free(2) colon_free(2)]
  have h: "enc_hex h = enc_hex h'"
    and r2: "(p @ CHR '':'' # dec_int t) @ CHR '':'' # uuidV4 r = (p' @ CHR '':'' # dec_int t') @ CHR '':'' # uuidV4 r'"
    by simp_all
  from split_at_last [OF r2 colon_free(4) colon_free(4)]
  have u: "uuidV4 r = uuidV4 r'" and r3: "p @ CHR '':'' # dec_int t = p' @ CHR '':'' # dec_int t'" by simp_all
  from split_at_last [OF r3 colon_free(1) colon_free(1)] m h u show ?thesis
    by (auto simp: enc_hex_inj dec_int_inj method_name_def split: http_method.splits)
qed

theorem signed_message_inj_witness:
  "sign_message POST ''/v2/order'' 1 (uuidV4 (replicate 16 0)) [1] \<noteq> sign_message POST ''/v2/order:1'' 1 (uuidV4 (replicate 16 0)) [1]"
  using signed_message_inj [of POST "''/v2/order''" 1 "replicate 16 0" "[1]" POST "''/v2/order:1''" 1 "replicate 16 0" "[1]"] by auto

end
