(* ===== verification/Api_Server.thy ===== *)
theory Api_Server
  imports Surf_Wiring Wallet_Client Strike_Client Health
begin

text \<open>
  The HTTP layer (\<open>common/api/server.go\<close> and \<open>leverage.go\<close>): one definition per handler, from its query
  parameters or its parsed body to its reply. \<open>BodyParser\<close> and the encoding of the reply are the
  framework's: the outcome of the parser is an argument, the value given to \<open>c.JSON\<close> is the reply (with the
  goroutine a handler started, where there is one, which the JSON does not show). The
  concurrent fetches of the listing handlers are taken in the order in which they finish, \<open>sv_Finish\<close>.
\<close>

datatype 'a reply = ErrJSON int msg | ErrText int string | OkJSON 'a

record 'w server =
  sv_addr :: string
  sv_srcs :: "'w source list"
  sv_wallet :: "'w wallet_client option"
  sv_engine :: "'w engine option"
  sv_engineDisabledReason :: string
  sv_strike :: "'w strike_client option"
  sv_Finish :: "'w source list \<Rightarrow> 'w \<Rightarrow> 'w source list"
  sv_Now :: "'w \<Rightarrow> int"

definition NewServer ::
  "string \<Rightarrow> 'w wallet_client option \<Rightarrow> 'w engine option \<Rightarrow> 'w source list \<Rightarrow>
     ('w source list \<Rightarrow> 'w \<Rightarrow> 'w source list) \<Rightarrow> ('w \<Rightarrow> int) \<Rightarrow> 'w server" where
  "NewServer addr wal eng srcs finish now =
     \<lparr>sv_addr = addr, sv_srcs = srcs, sv_wallet = wal, sv_engine = eng, sv_engineDisabledReason = [],
      sv_strike = None, sv_Finish = finish, sv_Now = now\<rparr>"

definition SetEngineDisabledReason :: "string \<Rightarrow> 'w server \<Rightarrow> 'w server" where
  "SetEngineDisabledReason reason s = s\<lparr>sv_engineDisabledReason := reason\<rparr>"

text \<open>The credential store given with the client is part of the state of the handlers (\<open>st_store\<close>).\<close>

definition SetStrike :: "'w strike_client option \<Rightarrow> 'w server \<Rightarrow> 'w server" where
  "SetStrike c s = s\<lparr>sv_strike := c\<rparr>"

definition normalizeAddr :: "string \<Rightarrow> string" where
  "normalizeAddr a = (if a = [] then '':8080'' else if contains a '':'' then a else '':'' @ a)"

text \<open>A failed call, answered with a status and its error.\<close>

definition reply_of :: "int \<Rightarrow> 'a res \<Rightarrow> 'a reply" where
  "reply_of code r = (case r of Inl e \<Rightarrow> ErrJSON code e | Inr x \<Rightarrow> OkJSON x)"

definition answer :: "int \<Rightarrow> ('s \<Rightarrow> 'a res \<times> 's) \<Rightarrow> 's \<Rightarrow> 'a reply \<times> 's" where
  "answer code f s = (case f s of (r, s') \<Rightarrow> (reply_of code r, s'))"

definition refuse :: "int \<Rightarrow> msg \<Rightarrow> 's \<Rightarrow> 'a reply \<times> 's" where
  "refuse code e s = (ErrJSON code e, s)"

section \<open>Listings\<close>

record 'a listing =
  ls_FetchedAt :: int
  ls_Sources :: "string \<rightharpoonup> msg"      \<comment> \<open>the empty message for a source that answered\<close>
  ls_Rows :: "'a list"

text \<open>The goroutine of one source, under the mutex, and all of them as they finish.\<close>

definition collect :: "('w source \<Rightarrow> 'w \<Rightarrow> 'a list res \<times> 'w) \<Rightarrow> 'w source \<Rightarrow> (string \<rightharpoonup> msg) \<times> 'a list \<Rightarrow> 'w \<Rightarrow>
    ((string \<rightharpoonup> msg) \<times> 'a list) \<times> 'w" where
  "collect f src acc w = (case f src w of
     (Inl e, w1) \<Rightarrow> (((fst acc)(src_Name src \<mapsto> e), snd acc), w1)
   | (Inr xs, w1) \<Rightarrow> (((fst acc)(src_Name src \<mapsto> errm []), snd acc @ xs), w1))"

fun collect_all :: "('w source \<Rightarrow> 'w \<Rightarrow> 'a list res \<times> 'w) \<Rightarrow> 'w source list \<Rightarrow> (string \<rightharpoonup> msg) \<times> 'a list \<Rightarrow> 'w \<Rightarrow>
    ((string \<rightharpoonup> msg) \<times> 'a list) \<times> 'w" where
  "collect_all f [] acc w = (acc, w)"
| "collect_all f (s # ss) acc w = (case collect f s acc w of (acc1, w1) \<Rightarrow> collect_all f ss acc1 w1)"

definition selected :: "string \<Rightarrow> 'w source list \<Rightarrow> 'w source list" where
  "selected f srcs = filter (\<lambda>s. f = [] \<or> src_Name s = f) srcs"

definition matchesToken :: "asset \<Rightarrow> string \<Rightarrow> bool" where
  "matchesToken a token =
     (if token = ''ada'' then Symbol a = ''ADA'' \<or> (PolicyID a = [] \<and> AssetName a = [] \<and> Symbol a \<noteq> [])
      else equal_fold (Symbol a) token \<or> equal_fold (PolicyID a) token \<or> equal_fold (PolicyID a @ AssetName a) token)"

definition filterByToken :: "market list \<Rightarrow> string \<Rightarrow> market list" where
  "filterByToken ms token =
     (let t = to_lower (trim_space token) in
      if t = [] then ms else filter (\<lambda>m. matchesToken (m_Borrow m) t \<or> matchesToken (m_Collateral m) t) ms)"

definition respondMarkets :: "'w server \<Rightarrow> string \<Rightarrow> string \<Rightarrow> 'w \<Rightarrow> market listing reply \<times> 'w" where
  "respondMarkets s sourceFilter token w =
     (case collect_all (\<lambda>src. src_FetchMarkets src Background) (sv_Finish s (selected sourceFilter (sv_srcs s)) w)
             (Map.empty, []) w of ((errs, rows), w1) \<Rightarrow>
        (OkJSON \<lparr>ls_FetchedAt = sv_Now s w1, ls_Sources = errs,
                 ls_Rows = (if token \<noteq> [] then filterByToken rows token else rows)\<rparr>, w1))"

text \<open>\<open>handleOrders\<close>; the limit is the outcome of \<open>QueryInt\<close>, zero where it is no integer.\<close>

definition handleOrders :: "'w server \<Rightarrow> string \<Rightarrow> string \<Rightarrow> int \<Rightarrow> string \<Rightarrow> 'w \<Rightarrow> order listing reply \<times> 'w" where
  "handleOrders s sourceFilter address limit refresh w =
     (let q = \<lparr>q_Address = address, q_Limit = limit, q_Refresh = (refresh = ''1'' \<or> refresh = ''true'')\<rparr> in
      case collect_all (\<lambda>src. src_FetchOrders src Background q) (sv_Finish s (selected sourceFilter (sv_srcs s)) w)
             (Map.empty, []) w of ((errs, rows), w1) \<Rightarrow>
        (OkJSON \<lparr>ls_FetchedAt = sv_Now s w1, ls_Sources = errs, ls_Rows = rows\<rparr>, w1))"

definition handleBalance :: "'w server \<Rightarrow> string \<Rightarrow> 'w \<Rightarrow> balance reply \<times> 'w" where
  "handleBalance s addr =
     (if addr = [] then refuse 400 (errm ''address query param required'')
      else case sv_wallet s of None \<Rightarrow> refuse 503 (errm ''wallet client not configured'')
      | Some c \<Rightarrow> answer 502 (FetchBalance c Background addr))"

section \<open>Transactions\<close>

definition invalid_body :: "msg \<Rightarrow> msg" where
  "invalid_body = wrap ''invalid body: %s''"

text \<open>The builder of the named source: 404 for an unknown source, 501 for one that builds nothing.\<close>

definition with_builder :: "'w server \<Rightarrow> string \<Rightarrow> ('w tx_builder \<Rightarrow> 'w \<Rightarrow> 'a reply \<times> 'w) \<Rightarrow> 'w \<Rightarrow> 'a reply \<times> 'w" where
  "with_builder s name k =
     (case find (\<lambda>x. src_Name x = name) (sv_srcs s) of
        None \<Rightarrow> refuse 404 (Fmt ''unknown source: %s'' [AS name])
      | Some src \<Rightarrow> (case src_Builder src of
            None \<Rightarrow> refuse 501 (errm ''source does not implement TxBuilder'')
          | Some b \<Rightarrow> k b))"

definition handleTxBuild :: "'w server \<Rightarrow> string \<Rightarrow> tx_params res \<Rightarrow> 'w \<Rightarrow> built_tx reply \<times> 'w" where
  "handleTxBuild s action parsed =
     (case parsed of Inl e \<Rightarrow> refuse 400 (invalid_body e)
      | Inr p0 \<Rightarrow> let p = p0\<lparr>p_Action := action\<rparr> in
          if p_Source p = [] then refuse 400 (errm ''source required'')
          else if p_Address p = [] then refuse 400 (errm ''address required'')
          else if p_Amount p \<le> 0 then refuse 400 (errm ''amount must be > 0'')
          else with_builder s (p_Source p) (\<lambda>b.
            if action = ''supply'' then answer 502 (tb_BuildSupply b Background p)
            else if action = ''withdraw'' then answer 502 (tb_BuildWithdraw b Background p)
            else if action = ''borrow'' then answer 502 (tb_BuildBorrow b Background p)
            else refuse 400 (errm ''unknown action'')))"

definition handleTxClose :: "'w server \<Rightarrow> close_params res \<Rightarrow> 'w \<Rightarrow> built_tx reply \<times> 'w" where
  "handleTxClose s parsed =
     (case parsed of Inl e \<Rightarrow> refuse 400 (invalid_body e)
      | Inr p0 \<Rightarrow>
          if c_Source p0 = [] \<or> c_MarketID p0 = [] \<or> c_Address p0 = [] \<or> c_TxHash p0 = []
          then refuse 400 (errm ''source, marketId, address and txHash required'')
          else let p = (if c_Kind p0 = [] then p0\<lparr>c_Kind := ''repay''\<rparr> else p0) in
            with_builder s (c_Source p) (\<lambda>b. answer 502 (tb_BuildClose b Background p)))"

definition handleTxSubmit :: "'w server \<Rightarrow> submit_params res \<Rightarrow> 'w \<Rightarrow> string reply \<times> 'w" where
  "handleTxSubmit s parsed =
     (case parsed of Inl e \<Rightarrow> refuse 400 (invalid_body e)
      | Inr p \<Rightarrow>
          if s_Source p = [] \<or> s_CBOR p = [] \<or> s_WitnessSet p = []
          then refuse 400 (errm ''source, cbor and witnessSet required'')
          else with_builder s (s_Source p) (\<lambda>b. answer 502 (tb_SubmitTx b Background p)))"

definition handleTxSubmitRaw :: "'w server \<Rightarrow> cbor \<Rightarrow> (string \<times> string) res \<Rightarrow> 'w \<Rightarrow> string reply \<times> 'w" where
  "handleTxSubmitRaw s C parsed =
     (case sv_engine s of None \<Rightarrow> refuse 503 (errm ''engine not configured'')
      | Some e \<Rightarrow>
          (case parsed of Inl er \<Rightarrow> refuse 400 (errm ''cbor required'')
           | Inr (cborHex, ws) \<Rightarrow>
               if cborHex = [] then refuse 400 (errm ''cbor required'')
               else (case (if ws \<noteq> [] then MergeTxWitnesses C cborHex ws else Inr cborHex) of
                   Inl er \<Rightarrow> refuse 400 (wrap ''merge witnesses: %s'' er)
                 | Inr signedHex \<Rightarrow> answer 502 (SubmitRaw (e_chain e) Background signedHex))))"

text \<open>
  \<open>handleTxFinalize\<close> decodes with the transaction types of the \<open>apollo\<close> library: a transaction is what the
  library keeps of it apart from the vkey witnesses, with these. A malformed hex text is read up to
  the first bad byte, because the error of \<open>DecodeString\<close> is dropped.
\<close>

record ('t, 'v) apollo =
  ap_UnTx :: "bytes \<Rightarrow> ('t \<times> 'v list) res"
  ap_UnWitnessSet :: "bytes \<Rightarrow> 'v list res"
  ap_Marshal :: "'t \<times> 'v list \<Rightarrow> bytes res"

fun dec_hex_prefix :: "string \<Rightarrow> bytes" where
  "dec_hex_prefix (a # b # r) =
     (case (hex_val a, hex_val b) of (Some x, Some y) \<Rightarrow> word_of_nat (16 * x + y) # dec_hex_prefix r | _ \<Rightarrow> [])"
| "dec_hex_prefix _ = []"

definition handleTxFinalize :: "('t, 'v) apollo \<Rightarrow> (string \<times> string) res \<Rightarrow> bytes reply" where
  "handleTxFinalize A parsed =
     (case parsed of Inl e \<Rightarrow> ErrJSON 400 (invalid_body e)
      | Inr (cborHex, wsHex) \<Rightarrow>
          if cborHex = [] \<or> wsHex = [] then ErrJSON 400 (errm ''cbor and witnessSet required'')
          else (case chk (ap_UnTx A (dec_hex_prefix cborHex)) id (\<lambda>(t, vs).
                     chk (ap_UnWitnessSet A (dec_hex_prefix wsHex)) id (\<lambda>ws. ap_Marshal A (t, vs @ ws))) of
                  Inl e \<Rightarrow> ErrText 500 ''invalid transaction''
                | Inr bs \<Rightarrow> OkJSON bs))"

section \<open>Leverage\<close>

definition not_configured :: string where
  "not_configured = ''leverage engine disabled (set BLOCKFROST_PROJECT_ID and ENGINE_ENC_KEY, and ensure a durable Mongo store on mainnet)''"

definition engineReady :: "'w server \<Rightarrow> ('w engine \<Rightarrow> 's \<Rightarrow> 'a reply \<times> 's) \<Rightarrow> 's \<Rightarrow> 'a reply \<times> 's" where
  "engineReady s k =
     (case sv_engine s of
        None \<Rightarrow> refuse 503 (errm (if sv_engineDisabledReason s = [] then not_configured else sv_engineDisabledReason s))
      | Some e \<Rightarrow> k e)"

definition handleLeverageQuote :: "'w server \<Rightarrow> open_request res \<Rightarrow> 'w est \<Rightarrow> quote reply \<times> 'w est" where
  "handleLeverageQuote s parsed = engineReady s (\<lambda>e.
     case parsed of Inl er \<Rightarrow> refuse 400 (invalid_body er)
     | Inr req \<Rightarrow> answer 400 (on_env (Quote e Background req)))"

text \<open>\<open>Open\<close> with what it draws at random, as in \<open>Open_pos\<close>.\<close>

record 'w draws =
  dw_PayKP :: "(bytes \<times> bytes) res"
  dw_StakeKP :: "(bytes \<times> bytes) res"
  dw_Nonce :: "bytes res"
  dw_JobID :: string
  dw_Probe :: "'w \<Rightarrow> f64 \<times> 'w"

definition handleLeverageOpen ::
  "'w server \<Rightarrow> 'w draws \<Rightarrow> open_request res \<Rightarrow> 'w est \<Rightarrow> (opened_pos \<times> goroutine option) reply \<times> 'w est" where
  "handleLeverageOpen s d parsed = engineReady s (\<lambda>e.
     case parsed of Inl er \<Rightarrow> refuse 400 (invalid_body er)
     | Inr req \<Rightarrow> answer 502 (Open_pos e (dw_PayKP d) (dw_StakeKP d) (dw_Nonce d) (dw_JobID d) (dw_Probe d) req))"

text \<open>The body \<open>{jobId}\<close> of the four job handlers.\<close>

definition with_jobID :: "string res \<Rightarrow> (string \<Rightarrow> 's \<Rightarrow> 'a reply \<times> 's) \<Rightarrow> 's \<Rightarrow> 'a reply \<times> 's" where
  "with_jobID parsed k =
     (case parsed of Inl er \<Rightarrow> refuse 400 (errm ''jobId required'')
      | Inr i \<Rightarrow> if i = [] then refuse 400 (errm ''jobId required'') else k i)"

definition handleLeverageStart :: "'w server \<Rightarrow> string res \<Rightarrow> 'w est \<Rightarrow> goroutine option reply \<times> 'w est" where
  "handleLeverageStart s parsed = engineReady s (\<lambda>e. with_jobID parsed (\<lambda>i. answer 400 (Start e i)))"

definition handleLeverageReverse :: "'w server \<Rightarrow> string res \<Rightarrow> 'w est \<Rightarrow> (bool \<times> goroutine option) reply \<times> 'w est" where
  "handleLeverageReverse s parsed = engineReady s (\<lambda>e. with_jobID parsed (\<lambda>i. answer 400 (Reverse i)))"

definition handleLeverageSweep :: "'w server \<Rightarrow> string res \<Rightarrow> 'w est \<Rightarrow> goroutine reply \<times> 'w est" where
  "handleLeverageSweep s parsed = engineReady s (\<lambda>e. with_jobID parsed (\<lambda>i. answer 400 (Sweep e i)))"

definition handleLeverageRetry :: "'w server \<Rightarrow> string res \<Rightarrow> 'w est \<Rightarrow> goroutine reply \<times> 'w est" where
  "handleLeverageRetry s parsed = engineReady s (\<lambda>e. with_jobID parsed (\<lambda>i. answer 400 (Retry e i)))"

definition handleLeverageStatus :: "'w server \<Rightarrow> string \<Rightarrow> 'w est \<Rightarrow> job reply \<times> 'w est" where
  "handleLeverageStatus s i = engineReady s (\<lambda>e. answer 404 (\<lambda>st. (Status_of (jobs st) i, st)))"

definition handleLeverageJobs :: "'w server \<Rightarrow> string \<Rightarrow> 'w est \<Rightarrow> job list reply \<times> 'w est" where
  "handleLeverageJobs s owner = engineReady s (\<lambda>e.
     if owner = [] then refuse 400 (errm ''address query param required'')
     else answer 502 (\<lambda>st. (Inr (ListJobs (jobs st) owner), st)))"

section \<open>Listings isolate failures\<close>

text \<open>What one source contributed: its error, or no error and all of its rows.\<close>

definition contributed :: "('w source \<Rightarrow> 'w \<Rightarrow> 'a list res \<times> 'w) \<Rightarrow> (string \<rightharpoonup> msg) \<Rightarrow> 'a list \<Rightarrow> 'w source \<Rightarrow> bool" where
  "contributed f errs rows x \<longleftrightarrow> (\<exists>v.
     (\<exists>e. fst (f x v) = Inl e \<and> errs (src_Name x) = Some e) \<or>
     (\<exists>xs. fst (f x v) = Inr xs \<and> errs (src_Name x) = Some (errm []) \<and> set xs \<subseteq> set rows))"

lemma contributed_mono:
  "contributed f errs rows x \<Longrightarrow> errs' (src_Name x) = errs (src_Name x) \<Longrightarrow> set rows \<subseteq> set rows' \<Longrightarrow> contributed f errs' rows' x"
  unfolding contributed_def by (metis subset_trans)

lemma collect_one:
  assumes "collect f x (errs, rows) w = ((errs1, rows1), w1)"
  shows "contributed f errs1 rows1 x" and "set rows \<subseteq> set rows1"
    and "n \<noteq> src_Name x \<Longrightarrow> errs1 n = errs n" and "errs1 (src_Name x) \<noteq> None"
  using assms unfolding collect_def contributed_def
  by (auto split: prod.splits sum.splits intro!: exI [of _ w] dest!: arg_cong [of "f x w" _ fst])

lemma collect_all_spec:
  assumes "collect_all f ss (errs, rows) w = ((errs', rows'), w')" and "distinct (map src_Name ss)"
  shows "(\<forall>n. n \<notin> src_Name ` set ss \<longrightarrow> errs' n = errs n) \<and> set rows \<subseteq> set rows' \<and>
    src_Name ` set ss \<subseteq> dom errs' \<and> (\<forall>x \<in> set ss. contributed f errs' rows' x)"
  using assms
proof (induction ss arbitrary: errs rows w)
  case (Cons x ss)
  obtain errs1 rows1 w1 where c: "collect f x (errs, rows) w = ((errs1, rows1), w1)" by (metis prod.exhaust)
  then have ih: "(\<forall>n. n \<notin> src_Name ` set ss \<longrightarrow> errs' n = errs1 n) \<and> set rows1 \<subseteq> set rows' \<and>
      src_Name ` set ss \<subseteq> dom errs' \<and> (\<forall>y \<in> set ss. contributed f errs' rows' y)"
    using Cons.IH [of errs1 rows1 w1] Cons.prems by simp
  have x: "errs' (src_Name x) = errs1 (src_Name x)" using ih Cons.prems(2) by auto
  have "contributed f errs' rows' x"
    by (rule contributed_mono [where errs = errs1 and rows = rows1]) (use collect_one(1) [OF c] x ih in auto)
  moreover have "src_Name x \<in> dom errs'" using x collect_one(4) [OF c] by auto
  ultimately show ?case using ih collect_one(2,3) [OF c] by auto
qed simp

lemma filterByToken_mono: "set ms \<subseteq> set rows \<Longrightarrow> set (filterByToken ms t) \<subseteq> set (filterByToken rows t)"
  by (auto simp: filterByToken_def Let_def)

lemma distinct_selected:
  assumes "distinct (map src_Name srcs)" and "mset ss = mset (selected f srcs)"
  shows "distinct (map src_Name ss)" and "set ss = set (selected f srcs)"
proof -
  have "distinct (map src_Name (selected f srcs))" using assms(1) by (simp add: selected_def distinct_map_filter)
  moreover have "mset (map src_Name ss) = mset (map src_Name (selected f srcs))" using assms(2) by simp
  ultimately show "distinct (map src_Name ss)" by (metis mset_eq_imp_distinct_iff)
  show "set ss = set (selected f srcs)" using assms(2) by (rule mset_eq_setD)
qed

text \<open>One failing source never blanks the markets: the reply is always a listing, which names exactly the
  selected sources, whatever order their fetches finish in; a source that failed has its error there,
  and one that answered has no error and all of its markets in the reply (those the token selects).\<close>

theorem markets_isolate_failures:
  assumes "distinct (map src_Name (sv_srcs s))"
    and "mset (sv_Finish s (selected f (sv_srcs s)) w) = mset (selected f (sv_srcs s))"
  shows "\<exists>l w'. respondMarkets s f token w = (OkJSON l, w') \<and>
     dom (ls_Sources l) = src_Name ` set (selected f (sv_srcs s)) \<and>
     (\<forall>x \<in> set (selected f (sv_srcs s)). \<exists>v.
        (\<exists>e. fst (src_FetchMarkets x Background v) = Inl e \<and> ls_Sources l (src_Name x) = Some e) \<or>
        (\<exists>ms. fst (src_FetchMarkets x Background v) = Inr ms \<and> ls_Sources l (src_Name x) = Some (errm []) \<and>
           set (if token \<noteq> [] then filterByToken ms token else ms) \<subseteq> set (ls_Rows l)))"
proof -
  let ?fin = "sv_Finish s (selected f (sv_srcs s)) w"
  let ?fetch = "\<lambda>src. src_FetchMarkets src Background"
  note d = distinct_selected [OF assms]
  obtain errs rows w' where c: "collect_all ?fetch ?fin (Map.empty, []) w = ((errs, rows), w')" by (metis prod.exhaust)
  note spec = collect_all_spec [OF c d(1)]
  let ?rows = "\<lambda>ms. if token \<noteq> [] then filterByToken ms token else ms"
  let ?l = "\<lparr>ls_FetchedAt = sv_Now s w', ls_Sources = errs, ls_Rows = ?rows rows\<rparr>"
  have "set (?rows ms) \<subseteq> set (?rows rows)" if "set ms \<subseteq> set rows" for ms
    using filterByToken_mono [OF that, of token] that by simp
  then have "\<forall>x \<in> set ?fin. \<exists>v. (\<exists>e. fst (?fetch x v) = Inl e \<and> errs (src_Name x) = Some e) \<or>
      (\<exists>ms. fst (?fetch x v) = Inr ms \<and> errs (src_Name x) = Some (errm []) \<and> set (?rows ms) \<subseteq> set (?rows rows))"
    using spec unfolding contributed_def by meson
  moreover have "dom errs = src_Name ` set ?fin" using spec by auto
  moreover have "respondMarkets s f token w = (OkJSON ?l, w')" using c by (simp add: respondMarkets_def)
  ultimately show ?thesis unfolding d(2) by (intro exI [of _ ?l] exI [of _ w']) simp
qed

definition demo_failing :: "nat source" where
  "demo_failing = demo_source\<lparr>src_Name := ''liqwid'', src_FetchMarkets := (\<lambda>c w. (Inl (errm ''down''), w))\<rparr>"

definition demo_server :: "nat server" where
  "demo_server = NewServer ''8080'' None None [demo_failing, demo_source] (\<lambda>ss w. rev ss) (\<lambda>w. 0)"

theorem markets_isolate_failures_witness:
  "\<exists>l w'. respondMarkets demo_server [] [] 0 = (OkJSON l, w') \<and> dom (ls_Sources l) = {''liqwid'', ''surf''}"
proof -
  have n: "src_Name demo_failing = ''liqwid''" "src_Name demo_source = ''surf''"
    by (simp_all add: demo_failing_def demo_source_def)
  have s: "sv_srcs demo_server = [demo_failing, demo_source]" "sv_Finish demo_server = (\<lambda>ss w. rev ss)"
    "selected [] [demo_failing, demo_source] = [demo_failing, demo_source]"
    by (simp_all add: demo_server_def NewServer_def selected_def)
  have "distinct (map src_Name (sv_srcs demo_server))"
    "mset (sv_Finish demo_server (selected [] (sv_srcs demo_server)) 0) = mset (selected [] (sv_srcs demo_server))"
    by (simp_all add: s n)
  from markets_isolate_failures [OF this, of "[]"] show ?thesis by (auto simp: s n)
qed

section \<open>Witnesses\<close>

lemma dec_hex_prefix_ok: "dec_hex h = Inr bs \<Longrightarrow> dec_hex_prefix h = bs"
  by (induction h arbitrary: bs rule: dec_hex_prefix.induct) (auto simp: chk_Inr split: option.splits if_splits)

lemma dec_hex_prefix_bad:
  "dec_hex h = Inr bs \<Longrightarrow> hex_val c = None \<Longrightarrow> dec_hex_prefix (h @ c # t) = bs"
  by (induction h arbitrary: bs rule: dec_hex_prefix.induct; cases t)
    (auto simp: chk_Inr split: option.splits if_splits)

text \<open>The errors of the hex texts are dropped: a transaction or witness set followed by anything that
  starts with no hex digit is finalized as if it ended there.\<close>

theorem finalize_ignores_bad_hex:
  assumes "dec_hex tx = Inr a" and "dec_hex ws = Inr b" and "tx \<noteq> []" and "ws \<noteq> []"
    and "hex_val c = None" and "hex_val d = None"
  shows "handleTxFinalize A (Inr (tx @ c # junk, ws @ d # junk')) = handleTxFinalize A (Inr (tx, ws))"
  using assms dec_hex_prefix_bad [OF assms(1,5)] dec_hex_prefix_bad [OF assms(2,6)]
    dec_hex_prefix_ok [OF assms(1)] dec_hex_prefix_ok [OF assms(2)]
  by (simp add: handleTxFinalize_def)

text \<open>A library that keeps a transaction as its bytes, the vkey witnesses behind a zero byte.\<close>

definition demo_apollo :: "(bytes, byte) apollo" where
  "demo_apollo = \<lparr>ap_UnTx = (\<lambda>b. Inr (takeWhile (\<lambda>x. x \<noteq> 0) b, tl (dropWhile (\<lambda>x. x \<noteq> 0) b))),
     ap_UnWitnessSet = Inr, ap_Marshal = (\<lambda>(t, vs). Inr (t @ 0 # vs))\<rparr>"

theorem finalize_ignores_bad_hex_witness:
  "handleTxFinalize demo_apollo (Inr (''0500'' @ ''x!'', ''07'' @ ''zz'')) = handleTxFinalize demo_apollo (Inr (''0500'', ''07''))"
proof -
  have "dec_hex ''0500'' = Inr [5, 0]" "dec_hex ''07'' = Inr [7]" "hex_val CHR ''x'' = None" "hex_val CHR ''z'' = None"
    by code_simp+
  from finalize_ignores_bad_hex [OF this(1,2) _ _ this(3,4), of demo_apollo "''!''" "''z''"] show ?thesis by simp
qed

text \<open>A finalized transaction carries the wallet's witnesses after the protocol's and nothing else of it
  changes: if decoding undoes encoding in the library, the reply decodes to the transaction of the
  request with exactly the witnesses of the set appended.\<close>

theorem finalize_appends:
  assumes "\<And>x y. ap_Marshal A x = Inr y \<Longrightarrow> ap_UnTx A y = Inr x"
    and "handleTxFinalize A (Inr (cborHex, wsHex)) = OkJSON out"
  shows "\<exists>t vs ws. ap_UnTx A (dec_hex_prefix cborHex) = Inr (t, vs) \<and>
    ap_UnWitnessSet A (dec_hex_prefix wsHex) = Inr ws \<and> ap_UnTx A out = Inr (t, vs @ ws)"
  using assms(2) unfolding handleTxFinalize_def
  by (auto split: sum.splits if_splits prod.splits simp: chk_Inr dest!: assms(1))

definition demo_apollo1 :: "(bytes, byte) apollo" where
  "demo_apollo1 = \<lparr>ap_UnTx = (\<lambda>b. Inr (take 1 b, drop 1 b)), ap_UnWitnessSet = Inr,
     ap_Marshal = (\<lambda>(t, vs). if length t = 1 then Inr (t @ vs) else Inl (errm ''size''))\<rparr>"

theorem finalize_appends_witness:
  "\<exists>t vs. ap_UnTx demo_apollo1 [5, 6] = Inr (t, vs) \<and> ap_UnTx demo_apollo1 [5, 6, 7] = Inr (t, vs @ [7])"
proof -
  have r: "handleTxFinalize demo_apollo1 (Inr (''0506'', ''07'')) = OkJSON [5, 6, 7]"
    "dec_hex_prefix ''0506'' = [5, 6]" "dec_hex_prefix ''07'' = [7]" by code_simp+
  have "ap_UnTx demo_apollo1 y = Inr x" if "ap_Marshal demo_apollo1 x = Inr y" for x y
    using that by (cases x) (auto simp: demo_apollo1_def split: if_splits)
  from finalize_appends [OF this r(1)] show ?thesis
    unfolding r(2,3) by (simp add: demo_apollo1_def)
qed

section \<open>What the API shows of a job\<close>

text \<open>No reply shows a key: the job of a status reply and every job listed have no sealed key, are
  otherwise the stored ones, those listed exactly the owner's, and asking leaves every job as it is.\<close>

theorem replies_hide_keys:
  assumes "store_ok (jobs st)" and "sv_engine s \<noteq> None" and "owner \<noteq> []"
  shows "snd (handleLeverageStatus s i st) = st \<and> snd (handleLeverageJobs s owner st) = st \<and>
    (case fst (handleLeverageStatus s i st) of
       OkJSON j \<Rightarrow> SealK j = None \<and> (\<exists>k. store_Get (jobs st) i = Inr (j\<lparr>SealK := k\<rparr>))
     | ErrJSON code e \<Rightarrow> code = 404 \<and> store_Get (jobs st) i = Inl e
     | ErrText code t \<Rightarrow> False) \<and>
    (\<exists>js. fst (handleLeverageJobs s owner st) = OkJSON js \<and>
       set js = {j\<lparr>SealK := None\<rparr> | j. store_Get (jobs st) (ID j) = Inr j \<and> Owner j = owner})"
proof -
  have "set (ListJobs (jobs st) owner) = {j\<lparr>SealK := None\<rparr> | j. store_Get (jobs st) (ID j) = Inr j \<and> Owner j = owner}"
    using mem.by_owner_iff [OF assms(1)] by (auto simp: ListJobs_def strip_seal_def)
  moreover have "\<exists>k. j = j\<lparr>SealK := k\<rparr>" for j :: job
    by (intro exI [of _ "SealK j"]) simp
  ultimately show ?thesis using assms(2,3)
    by (cases "store_Get (jobs st) i") (auto simp: handleLeverageStatus_def handleLeverageJobs_def engineReady_def
        answer_def reply_of_def Status_of_def strip_seal_def)
qed

theorem replies_hide_keys_witness:
  "\<exists>js. fst (handleLeverageJobs (demo_server\<lparr>sv_engine := Some demo_engine\<rparr>) ''addr9'' demo_est) = OkJSON js"
proof -
  have "store_ok (jobs demo_est)" by code_simp
  from replies_hide_keys [OF this, where s = "demo_server\<lparr>sv_engine := Some demo_engine\<rparr>" and owner = "''addr9''" and i = "[]"]
  show ?thesis by auto
qed

end
