(* ===== verification/Api_Strike.thy ===== *)
theory Api_Strike
  imports Api_Server
begin

text \<open>
  The handlers of the perpetuals API (\<open>common/api/strike.go\<close>) over the client, the credential store and the
  history. A handler runs as one step: no other handler runs between its calls. The history variable of
  the server is nil, the in-memory history or an external one, as the Go interface value is.
\<close>

record 'w history_ops =
  hi_Record :: "history_entry \<Rightarrow> 'w \<Rightarrow> unit res \<times> 'w"
  hi_List :: "string \<Rightarrow> 'w \<Rightarrow> history_entry list res \<times> 'w"
  hi_SettleWithdraw :: "string \<Rightarrow> string \<Rightarrow> string \<Rightarrow> string \<Rightarrow> 'w \<Rightarrow> unit res \<times> 'w"

datatype 'w hist = NoHistory | Memory memory_history | External "'w history_ops"

record 'w sst =
  st_env :: 'w
  st_store :: "strike_store option"
  st_history :: "'w hist"

definition SetStrikeHistory :: "'w hist \<Rightarrow> 'w sst \<Rightarrow> 'w sst" where
  "SetStrikeHistory h s = s\<lparr>st_history := h\<rparr>"

definition on_sst :: "('w \<Rightarrow> 'a \<times> 'w) \<Rightarrow> 'w sst \<Rightarrow> 'a \<times> 'w sst" where
  "on_sst f s = (case f (st_env s) of (a, w) \<Rightarrow> (a, s\<lparr>st_env := w\<rparr>))"

definition strikeReady ::
  "'w server \<Rightarrow> ('w strike_client \<Rightarrow> strike_store \<Rightarrow> 'w sst \<Rightarrow> 'a reply \<times> 'w sst) \<Rightarrow> 'w sst \<Rightarrow> 'a reply \<times> 'w sst" where
  "strikeReady sv k s =
     (case (sv_strike sv, st_store s) of
        (Some c, Some b) \<Rightarrow> k c b s
      | _ \<Rightarrow> refuse 503 (errm ''strike perpetuals not configured'') s)"

definition strikeCred :: "strike_store \<Rightarrow> string \<Rightarrow> (credential \<Rightarrow> 's \<Rightarrow> 'a reply \<times> 's) \<Rightarrow> 's \<Rightarrow> 'a reply \<times> 's" where
  "strikeCred b address k = (case Credential address b of Inl e \<Rightarrow> refuse 401 e | Inr cred \<Rightarrow> k cred)"

text \<open>A body that must parse and pass a check, with the one error of both.\<close>

definition with_body :: "'b res \<Rightarrow> ('b \<Rightarrow> bool) \<Rightarrow> string \<Rightarrow> ('b \<Rightarrow> 's \<Rightarrow> 'a reply \<times> 's) \<Rightarrow> 's \<Rightarrow> 'a reply \<times> 's" where
  "with_body parsed good complaint k =
     (case parsed of Inl e \<Rightarrow> refuse 400 (errm complaint)
      | Inr b \<Rightarrow> if good b then k b else refuse 400 (errm complaint))"

section \<open>Connecting a wallet\<close>

definition handleStrikeStatus :: "'w server \<Rightarrow> string \<Rightarrow> 'w sst \<Rightarrow> (bool \<times> int \<times> bool) reply \<times> 'w sst" where
  "handleStrikeStatus sv address = strikeReady sv (\<lambda>c b s.
     (OkJSON (BuilderEnabled c, sk_feeBps c, address \<noteq> [] \<and> Connected address b), s))"

definition handleStrikeConnectChallenge :: "'w server \<Rightarrow> string res \<Rightarrow> 'w sst \<Rightarrow> (string \<times> string) reply \<times> 'w sst" where
  "handleStrikeConnectChallenge sv parsed = strikeReady sv (\<lambda>c b.
     if \<not> BuilderEnabled c then refuse 503 (errm ''no builder code configured (STRIKE_BUILDER_CODE)'')
     else with_body parsed (\<lambda>a. a \<noteq> []) ''address required'' (\<lambda>address s.
       case on_sst (GenerateKeyPair (sk_env c)) s of
         (Inl e, s1) \<Rightarrow> refuse 500 e s1
       | (Inr (seedHex, pubHex), s1) \<Rightarrow>
           (case on_sst (RequestSignature c Background address ChainCardano pubHex (sk_feeBps c)) s1 of
              (Inl e, s2) \<Rightarrow> refuse 502 e s2
            | (Inr ch, s2) \<Rightarrow>
                (OkJSON (ch_Nonce ch, ch_MessageToSign ch),
                 s2\<lparr>st_store := Some (PutPending (se_Now (sk_env c) (st_env s2)) (ch_Nonce ch) address seedHex pubHex b)\<rparr>))))"

definition handleStrikeConnectVerify ::
  "'w server \<Rightarrow> (string \<times> string \<times> string) res \<Rightarrow> 'w sst \<Rightarrow> string reply \<times> 'w sst" where
  "handleStrikeConnectVerify sv parsed = strikeReady sv (\<lambda>c b.
     with_body parsed (\<lambda>(address, nonce, sig). nonce \<noteq> [] \<and> sig \<noteq> []) ''nonce and walletSignature required''
       (\<lambda>(address, nonce, sig) s.
         case TakePending nonce b of
           (None, b1) \<Rightarrow> refuse 400 (errm (''challenge expired or unknown '' @ utf8_emdash @ '' restart connect'')) (s\<lparr>st_store := Some b1\<rparr>)
         | (Some (seedHex, pubHex, _), b1) \<Rightarrow>
             (case on_sst (VerifySignature c Background nonce sig) (s\<lparr>st_store := Some b1\<rparr>) of
                (Inl e, s1) \<Rightarrow> refuse 502 e s1
              | (Inr r, s1) \<Rightarrow>
                  (case CredentialFromHex (sk_env c) seedHex pubHex (vf_AccountID r) of
                     Inl e \<Rightarrow> refuse 500 e s1
                   | Inr cred \<Rightarrow> (OkJSON (vf_AccountID r), s1\<lparr>st_store := Some (PutCredential address cred b1)\<rparr>)))))"

section \<open>Public reads\<close>

definition handleStrikeMarkets :: "'w server \<Rightarrow> 'w sst \<Rightarrow> string reply \<times> 'w sst" where
  "handleStrikeMarkets sv = strikeReady sv (\<lambda>c b. answer 502 (on_sst (strike_Markets c Background)))"

definition handleStrikePositions :: "'w server \<Rightarrow> string \<Rightarrow> 'w sst \<Rightarrow> string reply \<times> 'w sst" where
  "handleStrikePositions sv addr = strikeReady sv (\<lambda>c b.
     if addr = [] then refuse 400 (errm ''address query param required'')
     else answer 502 (on_sst (strike_Positions c Background addr)))"

definition handleStrikeAccount :: "'w server \<Rightarrow> string \<Rightarrow> 'w sst \<Rightarrow> string reply \<times> 'w sst" where
  "handleStrikeAccount sv addr = strikeReady sv (\<lambda>c b.
     if addr = [] then refuse 400 (errm ''address query param required'')
     else answer 502 (on_sst (strike_Account c Background addr)))"

text \<open>The batcher body: address, leader address and inputs. It asks for no credential.\<close>

definition handleStrikeWithdrawBatcher :: "'w server \<Rightarrow> (string \<times> string \<times> string list) res \<Rightarrow> 'w sst \<Rightarrow> string reply \<times> 'w sst" where
  "handleStrikeWithdrawBatcher sv parsed = strikeReady sv (\<lambda>c b.
     with_body parsed (\<lambda>(address, lead, utxos). address \<noteq> [] \<and> utxos \<noteq> []) ''address and utxos required''
       (\<lambda>(address, lead, utxos).
         let leader = (if lead = [] then sk_withdrawLeader c else lead) in
         if leader = [] then refuse 400 (errm ''leaderAddress required (set STRIKE_WITHDRAW_LEADER or pass leaderAddress)'')
         else answer 502 (on_sst (WithdrawBatcher c Background address leader utxos))))"

section \<open>History\<close>

definition strikeHist :: "'w sst \<Rightarrow> 'w sst" where
  "strikeHist s = (case st_history s of NoHistory \<Rightarrow> s\<lparr>st_history := Memory NewMemoryHistory\<rparr> | _ \<Rightarrow> s)"

definition recordHistory :: "'w server \<Rightarrow> history_entry \<Rightarrow> 'w sst \<Rightarrow> 'w sst" where
  "recordHistory sv e s0 = (let s = strikeHist s0 in case st_history s of
     Memory h \<Rightarrow> s\<lparr>st_history := Memory (history_Record (sv_Now sv (st_env s)) e h)\<rparr>
   | External ops \<Rightarrow> s\<lparr>st_env := snd (hi_Record ops e (st_env s))\<rparr>
   | NoHistory \<Rightarrow> s)"

definition handleStrikeHistory :: "string \<Rightarrow> 'w sst \<Rightarrow> history_entry list reply \<times> 'w sst" where
  "handleStrikeHistory address s0 =
     (if address = [] then refuse 400 (errm ''address required'') s0
      else let s = strikeHist s0 in case st_history s of
          External ops \<Rightarrow> answer 500 (on_sst (hi_List ops address)) s
        | Memory h \<Rightarrow> (OkJSON (history_List address h), s)
        | NoHistory \<Rightarrow> (OkJSON [], s))"

text \<open>The settlement body: address, withdrawal, transaction hash and status.\<close>

definition handleStrikeWithdrawSettle :: "(string \<times> string \<times> string \<times> string) res \<Rightarrow> 'w sst \<Rightarrow> unit reply \<times> 'w sst" where
  "handleStrikeWithdrawSettle parsed =
     with_body parsed (\<lambda>(address, wid, tx, status). address \<noteq> [] \<and> wid \<noteq> []) ''address and withdrawId required''
       (\<lambda>(address, wid, tx, status) s0.
         let s = strikeHist s0; st = (if status = [] then ''sent'' else status) in
         case st_history s of
           External ops \<Rightarrow> answer 500 (on_sst (hi_SettleWithdraw ops address wid tx st)) s
         | Memory h \<Rightarrow> (OkJSON (), s\<lparr>st_history := Memory (SettleWithdraw address wid tx st h)\<rparr>)
         | NoHistory \<Rightarrow> (OkJSON (), s))"

definition history_entry0 :: history_entry where
  "history_entry0 = \<lparr>he_ID = [], he_Address = [], he_Type = [], he_Asset = [], he_Amount = [], he_UsdValue = [], he_TxHash = [],
     he_WithdrawID = [], he_RequestID = [], he_Status = [], he_CreatedAt = 0\<rparr>"

section \<open>Acting as the connected user\<close>

definition handleStrikeBalances :: "'w server \<Rightarrow> string \<Rightarrow> 'w sst \<Rightarrow> string reply \<times> 'w sst" where
  "handleStrikeBalances sv address = strikeReady sv (\<lambda>c b. strikeCred b address (\<lambda>cred.
     answer 502 (on_sst (strike_Balances c Background cred))))"

definition handleStrikeWithdrawQuote :: "'w server \<Rightarrow> (string \<times> string \<times> string) res \<Rightarrow> 'w sst \<Rightarrow> string reply \<times> 'w sst" where
  "handleStrikeWithdrawQuote sv parsed = strikeReady sv (\<lambda>c b.
     with_body parsed (\<lambda>(address, usd, asset). usd \<noteq> []) ''address and usdValue required'' (\<lambda>(address, usd, asset).
       strikeCred b address (\<lambda>cred.
         answer 502 (on_sst (WithdrawQuote c Background cred usd (if asset = [] then ''USDM'' else asset) address)))))"

text \<open>The confirmation body: address, withdrawal, signature, and for display the asset and its value.\<close>

definition handleStrikeWithdrawConfirm ::
  "'w server \<Rightarrow> (string \<times> string \<times> string \<times> string \<times> string) res \<Rightarrow> 'w sst \<Rightarrow> string reply \<times> 'w sst" where
  "handleStrikeWithdrawConfirm sv parsed = strikeReady sv (\<lambda>c b.
     with_body parsed (\<lambda>(address, wid, sig, asset, usd). wid \<noteq> [] \<and> sig \<noteq> []) ''address, withdrawId and walletSignature required''
       (\<lambda>(address, wid, sig, asset, usd). strikeCred b address (\<lambda>cred s.
         case on_sst (WithdrawConfirm c Background cred wid sig) s of
           (Inl e, s1) \<Rightarrow> refuse 502 e s1
         | (Inr raw, s1) \<Rightarrow>
             (OkJSON raw, recordHistory sv (history_entry0\<lparr>he_Address := address, he_Type := ''withdraw'',
                he_Asset := (if asset = [] then ''USDM'' else asset), he_UsdValue := usd, he_WithdrawID := wid,
                he_Status := ''pending''\<rparr>) s1))))"

definition handleStrikeLeverage :: "'w server \<Rightarrow> (string \<times> string \<times> int) res \<Rightarrow> 'w sst \<Rightarrow> string reply \<times> 'w sst" where
  "handleStrikeLeverage sv parsed = strikeReady sv (\<lambda>c b.
     with_body parsed (\<lambda>(address, symbol, leverage). symbol \<noteq> [] \<and> 0 < leverage) ''address, symbol and leverage (>0) required''
       (\<lambda>(address, symbol, leverage). strikeCred b address (\<lambda>cred.
         answer 502 (on_sst (SetLeverage c Background cred symbol leverage)))))"

record order_body =
  ob_Address :: string
  ob_Symbol :: string
  ob_Position :: string
  ob_Side :: string
  ob_Type :: string
  ob_Size :: string
  ob_Price :: string
  ob_Reduce :: bool

definition order_side :: "order_body \<Rightarrow> string option" where
  "order_side ob =
     (if ob_Side ob \<noteq> [] then Some (ob_Side ob)
      else if ob_Position ob = ''Long'' then Some ''buy''
      else if ob_Position ob = ''Short'' then Some ''sell'' else None)"

definition handleStrikeOrder :: "'w server \<Rightarrow> order_body res \<Rightarrow> 'w sst \<Rightarrow> string reply \<times> 'w sst" where
  "handleStrikeOrder sv parsed = strikeReady sv (\<lambda>c b.
     case parsed of Inl e \<Rightarrow> refuse 400 (invalid_body e)
     | Inr ob \<Rightarrow>
         (case order_side ob of
            None \<Rightarrow> refuse 400 (errm ''position must be Long or Short (or pass side)'')
          | Some side \<Rightarrow>
              if ob_Symbol ob = [] \<or> ob_Size ob = [] then refuse 400 (errm ''symbol and size required'')
              else strikeCred b (ob_Address ob) (\<lambda>cred.
                answer 502 (on_sst (CreateOrder c Background cred
                  \<lparr>co_Symbol = ob_Symbol ob, co_Side = side, co_Type = (if ob_Type ob = [] then ''market'' else ob_Type ob),
                   co_Size = ob_Size ob, co_Price = ob_Price ob, co_TimeInForce = [], co_ReduceOnly = ob_Reduce ob,
                   co_ClientID = []\<rparr>)))))"

definition handleStrikeOrderCancel :: "'w server \<Rightarrow> (string \<times> int \<times> string) res \<Rightarrow> 'w sst \<Rightarrow> string reply \<times> 'w sst" where
  "handleStrikeOrderCancel sv parsed = strikeReady sv (\<lambda>c b.
     with_body parsed (\<lambda>(address, orderID, symbol). orderID \<noteq> 0 \<and> symbol \<noteq> []) ''address, orderId and symbol required''
       (\<lambda>(address, orderID, symbol). strikeCred b address (\<lambda>cred.
         answer 502 (on_sst (CancelOrder c Background cred orderID symbol)))))"

definition handleStrikeDepositQuote :: "'w server \<Rightarrow> (string \<times> string) res \<Rightarrow> 'w sst \<Rightarrow> string reply \<times> 'w sst" where
  "handleStrikeDepositQuote sv parsed = strikeReady sv (\<lambda>c b.
     with_body parsed (\<lambda>(address, lovelace). lovelace \<noteq> []) ''address and lovelace required''
       (\<lambda>(address, lovelace). strikeCred b address (\<lambda>cred. answer 502 (on_sst (DepositQuote c Background cred lovelace)))))"

definition handleStrikeDepositBuild :: "'w server \<Rightarrow> (string \<times> string \<times> string \<times> string list) res \<Rightarrow> 'w sst \<Rightarrow> string reply \<times> 'w sst" where
  "handleStrikeDepositBuild sv parsed = strikeReady sv (\<lambda>c b.
     with_body parsed (\<lambda>(address, requestID, user, utxos). requestID \<noteq> [] \<and> user \<noteq> []) ''address, requestId and userAddress required''
       (\<lambda>(address, requestID, user, utxos). strikeCred b address (\<lambda>cred.
         answer 502 (on_sst (DepositBuildTx c Background cred requestID user utxos)))))"

text \<open>The deposit body: address, request, transaction hash, and for display the amount and its value.\<close>

definition handleStrikeDepositConfirm ::
  "'w server \<Rightarrow> (string \<times> string \<times> string \<times> string \<times> string) res \<Rightarrow> 'w sst \<Rightarrow> string reply \<times> 'w sst" where
  "handleStrikeDepositConfirm sv parsed = strikeReady sv (\<lambda>c b.
     with_body parsed (\<lambda>(address, requestID, tx, ada, usd). requestID \<noteq> [] \<and> tx \<noteq> []) ''address, requestId and txHash required''
       (\<lambda>(address, requestID, tx, ada, usd). strikeCred b address (\<lambda>cred s.
         case on_sst (DepositConfirm c Background cred requestID tx) s of
           (Inl e, s1) \<Rightarrow> refuse 502 e s1
         | (Inr raw, s1) \<Rightarrow>
             (OkJSON raw, recordHistory sv (history_entry0\<lparr>he_Address := address, he_Type := ''deposit'', he_Asset := ''ADA'',
                he_Amount := ada, he_UsdValue := usd, he_TxHash := tx, he_RequestID := requestID,
                he_Status := ''confirmed''\<rparr>) s1))))"

section \<open>Routes\<close>

text \<open>The requests that act as a connected user, and all that change the state.\<close>

datatype trade =
    TBalances string
  | TWithdrawQuote "(string \<times> string \<times> string) res"
  | TWithdrawConfirm "(string \<times> string \<times> string \<times> string \<times> string) res"
  | TLeverage "(string \<times> string \<times> int) res"
  | TOrder "order_body res"
  | TCancel "(string \<times> int \<times> string) res"
  | TDepositQuote "(string \<times> string) res"
  | TDepositBuild "(string \<times> string \<times> string \<times> string list) res"
  | TDepositConfirm "(string \<times> string \<times> string \<times> string \<times> string) res"

fun handle_trade :: "'w server \<Rightarrow> trade \<Rightarrow> 'w sst \<Rightarrow> string reply \<times> 'w sst" where
  "handle_trade sv (TBalances a) = handleStrikeBalances sv a"
| "handle_trade sv (TWithdrawQuote b) = handleStrikeWithdrawQuote sv b"
| "handle_trade sv (TWithdrawConfirm b) = handleStrikeWithdrawConfirm sv b"
| "handle_trade sv (TLeverage b) = handleStrikeLeverage sv b"
| "handle_trade sv (TOrder b) = handleStrikeOrder sv b"
| "handle_trade sv (TCancel b) = handleStrikeOrderCancel sv b"
| "handle_trade sv (TDepositQuote b) = handleStrikeDepositQuote sv b"
| "handle_trade sv (TDepositBuild b) = handleStrikeDepositBuild sv b"
| "handle_trade sv (TDepositConfirm b) = handleStrikeDepositConfirm sv b"

text \<open>The address a request names.\<close>

fun trade_address :: "trade \<Rightarrow> string option" where
  "trade_address (TBalances a) = Some a"
| "trade_address (TWithdrawQuote (Inr (a, _))) = Some a"
| "trade_address (TWithdrawConfirm (Inr (a, _))) = Some a"
| "trade_address (TLeverage (Inr (a, _))) = Some a"
| "trade_address (TOrder (Inr ob)) = Some (ob_Address ob)"
| "trade_address (TCancel (Inr (a, _))) = Some a"
| "trade_address (TDepositQuote (Inr (a, _))) = Some a"
| "trade_address (TDepositBuild (Inr (a, _))) = Some a"
| "trade_address (TDepositConfirm (Inr (a, _))) = Some a"
| "trade_address _ = None"

datatype strike_route =
    RStatus string | RChallenge "string res" | RVerify "(string \<times> string \<times> string) res" | RMarkets | RPositions string
  | RAccount string | RBatcher "(string \<times> string \<times> string list) res" | RHistory string
  | RSettle "(string \<times> string \<times> string \<times> string) res" | RTrade trade

fun strike_step :: "'w server \<Rightarrow> strike_route \<Rightarrow> 'w sst \<Rightarrow> 'w sst" where
  "strike_step sv (RStatus a) s = snd (handleStrikeStatus sv a s)"
| "strike_step sv (RChallenge b) s = snd (handleStrikeConnectChallenge sv b s)"
| "strike_step sv (RVerify b) s = snd (handleStrikeConnectVerify sv b s)"
| "strike_step sv RMarkets s = snd (handleStrikeMarkets sv s)"
| "strike_step sv (RPositions a) s = snd (handleStrikePositions sv a s)"
| "strike_step sv (RAccount a) s = snd (handleStrikeAccount sv a s)"
| "strike_step sv (RBatcher b) s = snd (handleStrikeWithdrawBatcher sv b s)"
| "strike_step sv (RHistory a) s = snd (handleStrikeHistory a s)"
| "strike_step sv (RSettle b) s = snd (handleStrikeWithdrawSettle b s)"
| "strike_step sv (RTrade t) s = snd (handle_trade sv t s)"

section \<open>Nobody trades unconnected\<close>

lemmas handlers = handleStrikeBalances_def handleStrikeWithdrawQuote_def handleStrikeWithdrawConfirm_def
  handleStrikeLeverage_def handleStrikeOrder_def handleStrikeOrderCancel_def handleStrikeDepositQuote_def
  handleStrikeDepositBuild_def handleStrikeDepositConfirm_def handleStrikeStatus_def handleStrikeMarkets_def
  handleStrikePositions_def handleStrikeAccount_def handleStrikeWithdrawBatcher_def

lemma strikeCred_unconnected: "\<not> Connected a b \<Longrightarrow> \<exists>e. strikeCred b a k s = (ErrJSON 401 e, s)"
  by (auto simp: strikeCred_def Credential_def Connected_def refuse_def split: option.splits)


section \<open>Who is connected\<close>

lemma on_sst_keeps [simp]: "st_store (snd (on_sst f s)) = st_store s" "st_history (snd (on_sst f s)) = st_history s"
  by (simp_all add: on_sst_def split: prod.splits)

lemma on_sst_eq: "on_sst f s = (r, s') \<Longrightarrow> st_store s' = st_store s \<and> st_history s' = st_history s"
  using on_sst_keeps [of f s] by simp

lemma reply_keeps [simp]:
  "st_store (snd (answer n (on_sst f) s)) = st_store s" "snd (refuse n e s) = s"
  by (auto simp: answer_def refuse_def split: prod.splits dest: on_sst_eq)

lemma strikeHist_keeps [simp]: "st_store (strikeHist s) = st_store s" "st_env (strikeHist s) = st_env s"
  "st_history (strikeHist s) \<noteq> NoHistory"
  by (simp_all add: strikeHist_def split: hist.splits)

lemma recordHistory_keeps [simp]: "st_store (recordHistory sv e s) = st_store s"
  by (simp add: recordHistory_def Let_def split: hist.splits)

lemma strikeReady_store:
  "(\<And>c b. st_store (snd (k c b s)) = st_store s) \<Longrightarrow> st_store (snd (strikeReady sv k s)) = st_store s"
  by (simp add: strikeReady_def split: option.splits)

lemma trade_keeps_store: "st_store (snd (handle_trade sv t s)) = st_store s"
  by (cases t) (auto simp: handlers with_body_def strikeCred_def intro!: strikeReady_store
      split: sum.splits option.splits prod.splits dest: on_sst_eq)

lemma Put_Take_creds [simp]: "ss_creds (PutPending t n a sd pb b) = ss_creds b" "ss_creds (snd (TakePending n b)) = ss_creds b"
  by (simp_all add: PutPending_def TakePending_def Let_def split: option.splits)

lemma challenge_creds:
  "st_store (snd (handleStrikeConnectChallenge sv p s)) = Some b' \<Longrightarrow> \<exists>b. st_store s = Some b \<and> ss_creds b' = ss_creds b"
  by (auto simp: handleStrikeConnectChallenge_def strikeReady_def with_body_def refuse_def
      split: option.splits sum.splits prod.splits if_splits dest!: on_sst_eq)

lemma verify_creds:
  assumes "st_store (snd (handleStrikeConnectVerify sv p s)) = Some b'"
  shows "\<exists>b. st_store s = Some b \<and> (ss_creds b' = ss_creds b \<or>
    (\<exists>a n sig i cred. p = Inr (a, n, sig) \<and> fst (handleStrikeConnectVerify sv p s) = OkJSON i \<and>
       ss_pending b n \<noteq> None \<and> ss_creds b' = (ss_creds b)(a \<mapsto> cred)))"
  using assms
  by (auto simp: handleStrikeConnectVerify_def strikeReady_def with_body_def refuse_def TakePending_def PutCredential_def
      on_sst_def split: option.splits sum.splits prod.splits if_splits intro: exI)

text \<open>A step that leaves the credentials alone, or one that is an accepted verification.\<close>

definition verifies :: "'w server \<Rightarrow> strike_route \<Rightarrow> string \<Rightarrow> 'w sst \<Rightarrow> bool" where
  "verifies sv r a s \<longleftrightarrow> (\<exists>n sig i b. r = RVerify (Inr (a, n, sig)) \<and> st_store s = Some b \<and> ss_pending b n \<noteq> None \<and>
     fst (handleStrikeConnectVerify sv (Inr (a, n, sig)) s) = OkJSON i)"

lemma route_keeps_store:
  assumes "\<nexists>x y. r = RChallenge x \<or> r = RVerify y"
  shows "st_store (strike_step sv r s) = st_store s"
  using assms by (cases r) (auto simp: handlers with_body_def Let_def handleStrikeHistory_def handleStrikeWithdrawSettle_def
      trade_keeps_store intro!: strikeReady_store split: sum.splits hist.splits prod.splits)

lemma step_creds:
  assumes "st_store (strike_step sv r s) = Some b'"
  shows "\<exists>b. st_store s = Some b \<and> (\<forall>a. ss_creds b' a \<noteq> ss_creds b a \<longrightarrow> verifies sv r a s)"
proof (cases "\<exists>x y. r = RChallenge x \<or> r = RVerify y")
  case False
  then show ?thesis using route_keeps_store [OF False, of sv s] assms by metis
next
  case True
  then consider x where "r = RChallenge x" | x where "r = RVerify x" by blast
  then show ?thesis
  proof cases
    case 1
    then show ?thesis using challenge_creds assms by fastforce
  next
    case (2 x)
    then show ?thesis using verify_creds [of sv x s b'] assms unfolding verifies_def by fastforce
  qed
qed


text \<open>C29. A verification stores its credential under the address of its own body. The address the challenge
  was requested for, kept with the pending key pair, is not compared: a completed challenge of any
  wallet connects every address, and replaces the credential of one that is connected already.\<close>

theorem verify_binds_body_address:
  assumes "sv_strike sv = Some c" and "st_store s = Some b" and "ss_pending b n = Some p" and "n \<noteq> []" and "sig \<noteq> []"
    and "VerifySignature c Background n sig (st_env s) = (Inr r, w)"
    and "CredentialFromHex (sk_env c) (pk_seedHex p) (pk_publicHex p) (vf_AccountID r) = Inr cred"
  shows "\<exists>s' b'. handleStrikeConnectVerify sv (Inr (a, n, sig)) s = (OkJSON (vf_AccountID r), s') \<and>
    st_store s' = Some b' \<and> Credential a b' = Inr cred"
  using assms
  by (simp add: handleStrikeConnectVerify_def strikeReady_def with_body_def TakePending_def on_sst_def PutCredential_def
      Credential_def)

section \<open>Withdrawals in the history\<close>

lemma recordHistory_Memory:
  assumes "st_history s \<noteq> External x" and "\<nexists>x. st_history s = External x"
  shows "\<exists>h. recordHistory sv e s = s\<lparr>st_history := Memory (history_Record (sv_Now sv (st_env s)) e h)\<rparr> \<and>
    h = (case st_history s of Memory h \<Rightarrow> h | _ \<Rightarrow> NewMemoryHistory)"
  using assms by (cases "st_history s") (simp_all add: recordHistory_def strikeHist_def Let_def)

text \<open>A withdrawal goes through the history once: after its confirmation and its settlement the list of the
  address has exactly one entry more than before, and in it, newest first, an entry for the withdrawal
  that is sent with the transaction of the settlement.\<close>

theorem withdrawal_settled_in_history:
  assumes "handleStrikeWithdrawConfirm sv (Inr (a, wid, sig, asset, usd)) s = (OkJSON raw, s1)"
    and "st_history s = Memory h" and "a \<noteq> []"
    and "handleStrikeWithdrawSettle (Inr (a, wid, tx, [])) s1 = (r, s2)"
  shows "\<exists>es e. fst (handleStrikeHistory a s2) = OkJSON es \<and> length es = Suc (length (history_List a h)) \<and>
    sorted_wrt (\<lambda>e f. he_CreatedAt f \<le> he_CreatedAt e) es \<and>
    e \<in> set es \<and> he_Type e = ''withdraw'' \<and> he_WithdrawID e = wid \<and> he_TxHash e = tx \<and> he_Status e = ''sent''"
proof -
  let ?e = "history_entry0\<lparr>he_Address := a, he_Type := ''withdraw'', he_Asset := (if asset = [] then ''USDM'' else asset),
    he_UsdValue := usd, he_WithdrawID := wid, he_Status := ''pending''\<rparr>"
  obtain t where wid: "wid \<noteq> []" and s1: "s1 = recordHistory sv ?e t" "st_history t = Memory h"
    using assms(1,2) by (auto simp: handlers strikeReady_def with_body_def strikeCred_def refuse_def
        split: option.splits sum.splits prod.splits if_splits dest!: on_sst_eq)
  obtain now where h1: "st_history s1 = Memory (history_Record now ?e h)"
    using s1 by (auto simp: recordHistory_def strikeHist_def Let_def)
  let ?h2 = "SettleWithdraw a wid tx ''sent'' (history_Record now ?e h)"
  have h2: "st_history s2 = Memory ?h2"
    using assms(4) h1 wid \<open>a \<noteq> []\<close> by (auto simp: handleStrikeWithdrawSettle_def with_body_def strikeHist_def Let_def)
  let ?f = "settled wid tx ''sent'' (stamped now ?e)"
  have "?f \<in> set (history_List a ?h2)"
    using mh.recorded [of now ?e h] mh.settle_set [of a wid tx "''sent''" "history_Record now ?e h"] by simp
  moreover have "length (history_List a ?h2) = Suc (length (history_List a h))"
    by (simp add: mh.settle_length mh.rec_length)
  moreover have "fst (handleStrikeHistory a s2) = OkJSON (history_List a ?h2)"
    using h2 \<open>a \<noteq> []\<close> by (simp add: handleStrikeHistory_def strikeHist_def Let_def)
  moreover have "he_Type ?f = ''withdraw''" "he_WithdrawID ?f = wid" "he_TxHash ?f = tx" "he_Status ?f = ''sent''"
    by (simp_all add: settled_def stamped_def history_entry0_def)
  ultimately show ?thesis using mh.newest_first by blast
qed

section \<open>An example\<close>

text \<open>A service that accepts everything.\<close>

definition demo_strike_env :: "nat strike_env" where
  "demo_strike_env = \<lparr>se_http = \<lparr>ht_BadURL = (\<lambda>u. None), ht_Do = (\<lambda>x rq w. (Inr (200, ''ok''), w)),
       ht_Parse = (\<lambda>t. Inr (JObj [(''nonce'', JStr ''n1''), (''account_id'', JStr ''acc'')])), ht_Text = (\<lambda>j. ''{}''),
       ht_ff = (\<lambda>x. []), ht_rt = demo_runtime\<rparr>,
     se_GenerateKey = (\<lambda>w. (Inr ([1], replicate 32 (word_of_nat w)), w)), se_KeyFromSeed = id, se_Sign = (\<lambda>k m. k),
     se_Sha256 = id, se_Now = (\<lambda>w. 0), se_Rand = (\<lambda>w. (replicate 16 0, w))\<rparr>"

definition demo_strike :: "nat strike_client" where "demo_strike = NewStrike demo_strike_env ''code'' 5"

definition demo_ssv :: "nat server" where "demo_ssv = SetStrike (Some demo_strike) demo_server"

definition demo_sst :: "nat sst" where
  "demo_sst = \<lparr>st_env = 7, st_store = Some NewStore, st_history = Memory NewMemoryHistory\<rparr>"

definition demo_cred :: credential where
  "demo_cred = \<lparr>cr_PrivateKey = [9], cr_PublicKey = [], cr_AccountID = ''victim''\<rparr>"

text \<open>The wallet \<open>mallory\<close> has a pending challenge and \<open>alice\<close> is connected.\<close>

definition demo_contended :: strike_store where
  "demo_contended = PutPending 0 ''n1'' ''mallory'' (enc_hex (replicate 32 7)) ''01'' (PutCredential ''alice'' demo_cred NewStore)"


lemmas demo_strike_defs = demo_strike_env_def demo_strike_def demo_ssv_def demo_sst_def NewStrike_def SetStrike_def
  demo_server_def NewServer_def

lemma demo_verify:
  "VerifySignature demo_strike Background ''n1'' ''sig'' 7 =
     (Inr \<lparr>vf_AccountID = ''acc'', vf_BuilderCode = [], vf_FeeShareBps = 0, vf_APIWalletID = 0, vf_APIWalletPublicKey = []\<rparr>, 7)"
  by code_simp

theorem verify_binds_body_address_witness:
  "\<exists>s' b' cred. handleStrikeConnectVerify demo_ssv (Inr (''alice'', ''n1'', ''sig'')) (demo_sst\<lparr>st_store := Some demo_contended\<rparr>) =
       (OkJSON ''acc'', s') \<and> st_store s' = Some b' \<and>
     Credential ''alice'' demo_contended = Inr demo_cred \<and> Credential ''alice'' b' = Inr cred \<and> cr_PrivateKey cred \<noteq> cr_PrivateKey demo_cred"
proof -
  let ?s = "demo_sst\<lparr>st_store := Some demo_contended\<rparr>"
  let ?p = "\<lparr>pk_seedHex = enc_hex (replicate 32 7), pk_publicHex = ''01'', pk_address = ''mallory'', pk_at = 0\<rparr>"
  have c: "sv_strike demo_ssv = Some demo_strike" "st_store ?s = Some demo_contended" "st_env ?s = 7"
    by (simp_all add: demo_ssv_def SetStrike_def demo_sst_def)
  have p: "ss_pending demo_contended ''n1'' = Some ?p" by (simp add: demo_contended_def PutPending_def Let_def)
  have k: "CredentialFromHex (sk_env demo_strike) (enc_hex (replicate 32 7)) ''01'' ''acc'' =
      Inr \<lparr>cr_PrivateKey = replicate 32 7, cr_PublicKey = ''01'', cr_AccountID = ''acc''\<rparr>" by code_simp
  have o1: "Credential ''alice'' demo_contended = Inr demo_cred"
    by (simp add: demo_contended_def PutCredential_def Credential_def PutPending_def Let_def)
  let ?r = "\<lparr>vf_AccountID = ''acc'', vf_BuilderCode = [], vf_FeeShareBps = 0, vf_APIWalletID = 0, vf_APIWalletPublicKey = []\<rparr>"
  let ?cred = "\<lparr>cr_PrivateKey = replicate 32 7, cr_PublicKey = ''01'', cr_AccountID = ''acc''\<rparr>"
  have v: "VerifySignature demo_strike Background ''n1'' ''sig'' (st_env ?s) = (Inr ?r, 7)"
    unfolding c(3) by (rule demo_verify)
  have "\<exists>s' b'. handleStrikeConnectVerify demo_ssv (Inr (''alice'', ''n1'', ''sig'')) ?s = (OkJSON (vf_AccountID ?r), s') \<and>
      st_store s' = Some b' \<and> Credential ''alice'' b' = Inr ?cred"
    by (rule verify_binds_body_address [OF c(1,2) p _ _ v]) (simp_all add: k)
  moreover have "cr_PrivateKey ?cred \<noteq> cr_PrivateKey demo_cred" by (simp add: demo_cred_def numeral_eq_Suc)
  ultimately show ?thesis using o1 by (metis verified.select_convs(1))
qed


theorem withdrawal_settled_in_history_witness:
  "\<exists>s1 r s2 es e. handleStrikeWithdrawConfirm demo_ssv (Inr (''alice'', ''w1'', ''sig'', [], ''5''))
       (demo_sst\<lparr>st_store := Some demo_contended\<rparr>) = (OkJSON ''ok'', s1) \<and>
     handleStrikeWithdrawSettle (Inr (''alice'', ''w1'', ''tx1'', [])) s1 = (r, s2) \<and>
     fst (handleStrikeHistory ''alice'' s2) = OkJSON es \<and> e \<in> set es \<and> he_TxHash e = ''tx1'' \<and> he_Status e = ''sent''"
proof -
  let ?s = "demo_sst\<lparr>st_store := Some demo_contended\<rparr>"
  have "fst (handleStrikeWithdrawConfirm demo_ssv (Inr (''alice'', ''w1'', ''sig'', [], ''5'')) ?s) = OkJSON ''ok''" by code_simp
  then obtain s1 where 1: "handleStrikeWithdrawConfirm demo_ssv (Inr (''alice'', ''w1'', ''sig'', [], ''5'')) ?s = (OkJSON ''ok'', s1)"
    by (metis prod.collapse)
  obtain r s2 where 2: "handleStrikeWithdrawSettle (Inr (''alice'', ''w1'', ''tx1'', [])) s1 = (r, s2)" by fastforce
  have 3: "st_history ?s = Memory NewMemoryHistory" by (simp add: demo_sst_def)
  have 4: "''alice'' \<noteq> []" by simp
  from withdrawal_settled_in_history [OF 1 3 4 2] show ?thesis using 1 2 by blast
qed

end
