(* ===== verification/Market_Json.thy ===== *)
theory Market_Json
  imports Go_Http
begin

text \<open>
  \<open>json.Marshal\<close> of the shared types (the struct tags of \<open>common/sources/primitives.go\<close>): a field with
  \<open>omitempty\<close> is left out where it is zero, and a float that is not finite cannot be encoded. What is
  written reads back: first for structs in general, then for assets, markets and orders.
\<close>

section \<open>Encoding\<close>

text \<open>A float is written as the number it is; \<open>encoding/json\<close> writes integers below \<open>10 ^ 21\<close> without fraction.\<close>

definition js_float :: "f64 \<Rightarrow> json" where
  "js_float x = (case x of
     Fin r \<Rightarrow> if r = of_int \<lfloor>r\<rfloor> \<and> \<bar>r\<bar> < 10 ^ 21 then JInt \<lfloor>r\<rfloor> else JFrac r
   | _ \<Rightarrow> JNull)"

definition finite_f64 :: "f64 \<Rightarrow> bool" where
  "finite_f64 x = (case x of Fin r \<Rightarrow> True | _ \<Rightarrow> False)"

text \<open>A struct: its fields in order, a value where the field is written.\<close>

type_synonym fields = "(string \<times> json option) list"

fun present :: "fields \<Rightarrow> (string \<times> json) list" where
  "present [] = []"
| "present ((k, None) # fs) = present fs"
| "present ((k, Some v) # fs) = (k, v) # present fs"

definition js_struct :: "fields \<Rightarrow> json" where
  "js_struct fs = JObj (present fs)"

definition omit_str :: "string \<Rightarrow> json option" where
  "omit_str s = (if s = [] then None else Some (JStr s))"

definition omit_int :: "int \<Rightarrow> json option" where
  "omit_int n = (if n = 0 then None else Some (JInt n))"

definition omit_float :: "f64 \<Rightarrow> json option" where
  "omit_float x = (if x = Fin 0 then None else Some (js_float x))"

definition asset_fields :: "asset \<Rightarrow> fields" where
  "asset_fields a =
     [(''policyId'', Some (JStr (PolicyID a))), (''assetName'', Some (JStr (AssetName a))), (''symbol'', Some (JStr (Symbol a))),
      (''decimals'', Some (JInt (Decimals a))), (''priceUsd'', omit_float (PriceUsd a))]"

definition js_asset :: "asset \<Rightarrow> json" where "js_asset a = js_struct (asset_fields a)"

definition market_fields :: "market \<Rightarrow> fields" where
  "market_fields m =
     [(''source'', Some (JStr (m_Source m))), (''poolId'', Some (JStr (m_PoolID m))), (''collateral'', Some (js_asset (m_Collateral m))),
      (''borrow'', Some (js_asset (m_Borrow m))), (''receiptAsset'', Some (js_asset (m_ReceiptAsset m))),
      (''collateralId'', omit_str (m_CollateralID m)), (''supplyExchangeRate'', omit_float (m_SupplyExchangeRate m)),
      (''totalSuppliedUsd'', Some (js_float (m_TotalSuppliedUSD m))), (''totalBorrowedUsd'', Some (js_float (m_TotalBorrowedUSD m))),
      (''availableLiquidityUsd'', Some (js_float (m_AvailableLiquidityUSD m))), (''supplyApy'', Some (js_float (m_SupplyAPY m))),
      (''borrowApy'', Some (js_float (m_BorrowAPY m))), (''ltv'', Some (js_float (m_LTV m))),
      (''liquidationThreshold'', Some (js_float (m_LiquidationThreshold m))), (''minSupply'', omit_float (m_MinSupply m)),
      (''active'', Some (JBool (m_Active m))), (''url'', omit_str (m_URL m))]"

definition order_fields :: "order \<Rightarrow> fields" where
  "order_fields r =
     [(''source'', Some (JStr (o_Source r))), (''id'', Some (JStr (o_ID r))), (''type'', Some (JStr (o_Type r))),
      (''status'', Some (JStr (o_Status r))), (''owner'', Some (JStr (o_Owner r))), (''marketId'', omit_str (o_MarketID r)),
      (''asset'', Some (js_asset (o_Asset r))), (''amount'', Some (js_float (o_Amount r))), (''amountUsd'', omit_float (o_AmountUSD r)),
      (''collateralAsset'', Some (js_asset (o_CollateralAsset r))), (''collateralAmount'', omit_float (o_CollateralAmount r)),
      (''interest'', omit_float (o_Interest r)), (''apy'', omit_float (o_APY r)), (''ltv'', omit_float (o_LTV r)),
      (''healthFactor'', omit_float (o_HealthFactor r)), (''txHash'', omit_str (o_TxHash r)),
      (''outputIndex'', omit_int (o_OutputIndex r)), (''timeMs'', Some (JInt (o_TimeMs r)))]"

definition js_market :: "market \<Rightarrow> json" where "js_market m = js_struct (market_fields m)"
definition js_order_json :: "order \<Rightarrow> json" where "js_order_json r = js_struct (order_fields r)"

text \<open>The floats of a value: all must be finite, or \<open>json.Marshal\<close> fails.\<close>

definition market_floats :: "market \<Rightarrow> f64 list" where
  "market_floats m =
     [PriceUsd (m_Collateral m), PriceUsd (m_Borrow m), PriceUsd (m_ReceiptAsset m), m_SupplyExchangeRate m, m_TotalSuppliedUSD m,
      m_TotalBorrowedUSD m, m_AvailableLiquidityUSD m, m_SupplyAPY m, m_BorrowAPY m, m_LTV m, m_LiquidationThreshold m, m_MinSupply m]"

definition order_floats :: "order \<Rightarrow> f64 list" where
  "order_floats r =
     [PriceUsd (o_Asset r), o_Amount r, o_AmountUSD r, PriceUsd (o_CollateralAsset r), o_CollateralAmount r, o_Interest r, o_APY r,
      o_LTV r, o_HealthFactor r]"

definition unsupported :: msg where "unsupported = errm ''json: unsupported value''"

definition marshal_list :: "('a \<Rightarrow> f64 list) \<Rightarrow> ('a \<Rightarrow> json) \<Rightarrow> 'a list \<Rightarrow> json res" where
  "marshal_list fl js xs =
     (if list_all (\<lambda>x. list_all finite_f64 (fl x)) xs then Inr (JArr (map js xs)) else Inl unsupported)"

section \<open>Decoding\<close>

definition ty_asset_json :: jtype where
  "ty_asset_json = TObj [(''policyId'', TStr), (''assetName'', TStr), (''symbol'', TStr), (''decimals'', TInt), (''priceUsd'', TFloat)]"

definition rd_asset_json :: "json \<Rightarrow> asset" where
  "rd_asset_json j = \<lparr>PolicyID = jstr (jget ''policyId'' j), AssetName = jstr (jget ''assetName'' j), Symbol = jstr (jget ''symbol'' j),
     Decimals = jint (jget ''decimals'' j), PriceUsd = jfloat (jget ''priceUsd'' j)\<rparr>"

definition ty_market_json :: jtype where
  "ty_market_json = TObj [(''source'', TStr), (''poolId'', TStr), (''collateral'', ty_asset_json), (''borrow'', ty_asset_json),
     (''receiptAsset'', ty_asset_json), (''collateralId'', TStr), (''supplyExchangeRate'', TFloat), (''totalSuppliedUsd'', TFloat),
     (''totalBorrowedUsd'', TFloat), (''availableLiquidityUsd'', TFloat), (''supplyApy'', TFloat), (''borrowApy'', TFloat),
     (''ltv'', TFloat), (''liquidationThreshold'', TFloat), (''minSupply'', TFloat), (''active'', TBool), (''url'', TStr)]"

definition rd_market_json :: "json \<Rightarrow> market" where
  "rd_market_json j = \<lparr>m_Source = jstr (jget ''source'' j), m_PoolID = jstr (jget ''poolId'' j),
     m_Collateral = rd_asset_json (jget ''collateral'' j), m_Borrow = rd_asset_json (jget ''borrow'' j),
     m_ReceiptAsset = rd_asset_json (jget ''receiptAsset'' j), m_CollateralID = jstr (jget ''collateralId'' j),
     m_SupplyExchangeRate = jfloat (jget ''supplyExchangeRate'' j), m_TotalSuppliedUSD = jfloat (jget ''totalSuppliedUsd'' j),
     m_TotalBorrowedUSD = jfloat (jget ''totalBorrowedUsd'' j), m_AvailableLiquidityUSD = jfloat (jget ''availableLiquidityUsd'' j),
     m_SupplyAPY = jfloat (jget ''supplyApy'' j), m_BorrowAPY = jfloat (jget ''borrowApy'' j), m_LTV = jfloat (jget ''ltv'' j),
     m_LiquidationThreshold = jfloat (jget ''liquidationThreshold'' j), m_MinSupply = jfloat (jget ''minSupply'' j),
     m_Active = jbool (jget ''active'' j), m_URL = jstr (jget ''url'' j)\<rparr>"

definition ty_order_json :: jtype where
  "ty_order_json = TObj [(''source'', TStr), (''id'', TStr), (''type'', TStr), (''status'', TStr), (''owner'', TStr),
     (''marketId'', TStr), (''asset'', ty_asset_json), (''amount'', TFloat), (''amountUsd'', TFloat), (''collateralAsset'', ty_asset_json),
     (''collateralAmount'', TFloat), (''interest'', TFloat), (''apy'', TFloat), (''ltv'', TFloat), (''healthFactor'', TFloat),
     (''txHash'', TStr), (''outputIndex'', TInt), (''timeMs'', TInt)]"

definition rd_order_json :: "json \<Rightarrow> order" where
  "rd_order_json j = \<lparr>o_Source = jstr (jget ''source'' j), o_ID = jstr (jget ''id'' j), o_Type = jstr (jget ''type'' j),
     o_Status = jstr (jget ''status'' j), o_Owner = jstr (jget ''owner'' j), o_MarketID = jstr (jget ''marketId'' j),
     o_Asset = rd_asset_json (jget ''asset'' j), o_Amount = jfloat (jget ''amount'' j), o_AmountUSD = jfloat (jget ''amountUsd'' j),
     o_CollateralAsset = rd_asset_json (jget ''collateralAsset'' j), o_CollateralAmount = jfloat (jget ''collateralAmount'' j),
     o_Interest = jfloat (jget ''interest'' j), o_APY = jfloat (jget ''apy'' j), o_LTV = jfloat (jget ''ltv'' j),
     o_HealthFactor = jfloat (jget ''healthFactor'' j), o_TxHash = jstr (jget ''txHash'' j),
     o_OutputIndex = jint (jget ''outputIndex'' j), o_TimeMs = jint (jget ''timeMs'' j)\<rparr>"

section \<open>Structs read back\<close>

definition distinct_keys :: "string list \<Rightarrow> bool" where
  "distinct_keys ks \<longleftrightarrow> distinct (map to_lower ks)"

lemma present_iff: "(k, v) \<in> set (present fs) \<longleftrightarrow> (k, Some v) \<in> set fs"
  by (induction fs rule: present.induct) auto

lemma jget_none: "(\<And>k' v. (k', v) \<in> set kvs \<Longrightarrow> \<not> equal_fold k' k) \<Longrightarrow> jget k (JObj kvs) = JNull"
  by (auto simp: jget_def find_None_iff split: option.splits dest!: find_Some_set)

lemma jget_unique:
  assumes "(k, v) \<in> set kvs" and "\<And>k' v'. (k', v') \<in> set kvs \<Longrightarrow> equal_fold k' k \<Longrightarrow> v' = v"
  shows "jget k (JObj kvs) = v"
proof (cases "find (\<lambda>(k', v). equal_fold k' k \<and> v \<noteq> JNull) (rev kvs)")
  case None
  then have "\<forall>x \<in> set kvs. equal_fold (fst x) k \<longrightarrow> snd x = JNull" by (auto simp: find_None_iff)
  then have "v = JNull" using assms(1) by (metis equal_fold_refl fst_conv snd_conv)
  then show ?thesis using None by (simp add: jget_def)
next
  case (Some p)
  then obtain k' v' where p: "p = (k', v')" "(k', v') \<in> set kvs" "equal_fold k' k"
    by (cases p) (auto dest!: find_Some_set)
  then show ?thesis using Some assms(2) [OF p(2,3)] by (simp add: jget_def)
qed

definition field_val :: "json option \<Rightarrow> json" where
  "field_val ov = (case ov of None \<Rightarrow> JNull | Some v \<Rightarrow> v)"

text \<open>A field reads as what was written, or as null where it was left out.\<close>

lemma jget_struct:
  assumes "distinct_keys (map fst fs)" and "(k, ov) \<in> set fs"
  shows "jget k (js_struct fs) = field_val ov"
proof -
  have "inj_on (\<lambda>f. to_lower (fst f)) (set fs)"
    using assms(1) by (auto simp: distinct_keys_def distinct_map comp_def)
  then have same: "ov = Some v'" if "(k', Some v') \<in> set fs" "equal_fold k' k" for k' v'
    using inj_onD [OF \<open>inj_on _ _\<close>, of "(k', Some v')" "(k, ov)"] that assms(2) by (simp add: equal_fold_def)
  show ?thesis
  proof (cases ov)
    case None
    have "jget k (JObj (present fs)) = JNull"
    proof (rule jget_none)
      fix k' v assume "(k', v) \<in> set (present fs)"
      then have "(k', Some v) \<in> set fs" by (simp only: present_iff)
      from same [OF this] show "\<not> equal_fold k' k" using None by blast
    qed
    then show ?thesis using None by (simp add: js_struct_def field_val_def)
  next
    case (Some v)
    have "jget k (JObj (present fs)) = v"
    proof (rule jget_unique)
      show "(k, v) \<in> set (present fs)" using assms(2) unfolding present_iff Some .
      fix k' v' assume "(k', v') \<in> set (present fs)" "equal_fold k' k"
      then show "v' = v" using same [of k' v'] Some unfolding present_iff by simp
    qed
    then show ?thesis using Some by (simp add: js_struct_def field_val_def)
  qed
qed

lemma jget_all: "distinct_keys (map fst fs) \<Longrightarrow> list_all (\<lambda>(k, ov). jget k (js_struct fs) = field_val ov) fs"
  by (auto simp: list_all_iff jget_struct)

lemma fits_fields_iff: "fits_fields ts kvs \<longleftrightarrow> (\<forall>(k, v) \<in> set kvs. case field_type ts k of None \<Rightarrow> True | Some t \<Rightarrow> fits t v)"
  by (induction kvs) auto

definition field_fits :: "(string \<times> jtype) list \<Rightarrow> string \<times> json option \<Rightarrow> bool" where
  "field_fits ts f = (case snd f of None \<Rightarrow> True
     | Some v \<Rightarrow> (case map_of ts (fst f) of None \<Rightarrow> False | Some t \<Rightarrow> fits t v))"

lemma fits_struct:
  assumes "list_all (field_fits ts) fs"
  shows "fits (TObj ts) (js_struct fs)"
proof -
  have "case field_type ts k of None \<Rightarrow> True | Some t \<Rightarrow> fits t v" if "(k, v) \<in> set (present fs)" for k v
  proof -
    have "field_fits ts (k, Some v)" using assms that by (auto simp: present_iff list_all_iff)
    then show ?thesis by (simp add: field_fits_def field_type_def split: option.splits)
  qed
  then show ?thesis by (auto simp: js_struct_def fits_fields_iff)
qed

section \<open>Numbers rounded on the way\<close>

text \<open>
  The text of a fraction is the shortest decimal that rounds to it, so the value read may be another
  fraction with the same rounding: \<open>refrac g\<close> is what a document becomes.
\<close>

fun refrac :: "(rat \<Rightarrow> rat) \<Rightarrow> json \<Rightarrow> json" where
  "refrac g (JFrac x) = JFrac (g x)"
| "refrac g (JArr xs) = JArr (map (refrac g) xs)"
| "refrac g (JObj kvs) = JObj (map (\<lambda>(k, v). (k, refrac g v)) kvs)"
| "refrac g j = j"

definition same_f64 :: "(rat \<Rightarrow> rat) \<Rightarrow> bool" where
  "same_f64 g \<longleftrightarrow> (\<forall>x. mk (g x) = mk x)"

lemma refrac_null [simp]: "refrac g j = JNull \<longleftrightarrow> j = JNull"
  by (cases j) auto

lemma refrac_read [simp]: "jstr (refrac g j) = jstr j" "jbool (refrac g j) = jbool j" "jint (refrac g j) = jint j"
  "jlist (refrac g j) = map (refrac g) (jlist j)"
  by (cases j; simp add: json_readers)+

lemma jfloat_refrac [simp]: "same_f64 g \<Longrightarrow> jfloat (refrac g j) = jfloat j"
  by (cases j) (simp_all add: json_readers same_f64_def)

lemma jget_refrac [simp]: "jget n (refrac g j) = refrac g (jget n j)"
proof (cases j)
  case (JObj kvs)
  have "find (\<lambda>(k, v). equal_fold k n \<and> v \<noteq> JNull) (map (\<lambda>(k, v). (k, refrac g v)) xs) =
      map_option (\<lambda>(k, v). (k, refrac g v)) (find (\<lambda>(k, v). equal_fold k n \<and> v \<noteq> JNull) xs)" for xs
    by (induction xs) auto
  from this [of "rev kvs"] show ?thesis
    by (auto simp: JObj jget_def rev_map [symmetric] split: option.splits prod.splits)
qed (simp_all add: jget_def)

lemma fits_refrac:
  assumes "same_f64 g"
  shows "fits t (refrac g j) = fits t j" "fits_all t (map (refrac g) js) = fits_all t js"
    "fits_map t (map (\<lambda>(k, v). (k, refrac g v)) kvs) = fits_map t kvs"
    "fits_fields fs (map (\<lambda>(k, v). (k, refrac g v)) kvs) = fits_fields fs kvs"
  using assms
  by (induction t j and t js and t kvs and fs kvs rule: fits_fits_all_fits_map_fits_fields.induct)
    (auto simp: float_fits_def same_f64_def split: jtype.splits option.splits)

section \<open>Round trips\<close>

text \<open>The floats a program can hold: the values of binary64.\<close>

definition is_f64 :: "f64 \<Rightarrow> bool" where
  "is_f64 x \<longleftrightarrow> (case x of Fin r \<Rightarrow> rep r \<and> \<bar>r\<bar> < f64_limit | _ \<Rightarrow> False)"

lemma is_f64_finite: "is_f64 x \<Longrightarrow> finite_f64 x"
  by (simp add: is_f64_def finite_f64_def split: f64.splits)

lemma is_f64_Fin: "is_f64 x \<Longrightarrow> \<exists>r. x = Fin r \<and> mk r = Fin r"
  by (auto simp: is_f64_def mk_rep split: f64.splits)

lemma js_float_reads:
  assumes "is_f64 x"
  shows "jfloat (js_float x) = x" and "fits TFloat (js_float x)" and "js_float x \<noteq> JNull"
proof -
  obtain r where r: "x = Fin r" "mk r = Fin r" using is_f64_Fin [OF assms] by blast
  show "jfloat (js_float x) = x" "fits TFloat (js_float x)" "js_float x \<noteq> JNull"
    using r by (auto simp: js_float_def float_fits_def)
qed

lemma omit_reads [simp]:
  "jstr (field_val (omit_str s)) = s" "jint (field_val (omit_int n)) = n"
  "is_f64 x \<Longrightarrow> jfloat (field_val (omit_float x)) = x" "field_val (Some j) = j"
  by (simp_all add: omit_str_def omit_int_def omit_float_def field_val_def js_float_reads)

lemma omit_fits:
  "field_fits ts (k, omit_str s) \<longleftrightarrow> s = [] \<or> field_fits ts (k, Some (JStr s))"
  "field_fits ts (k, omit_int n) \<longleftrightarrow> n = 0 \<or> field_fits ts (k, Some (JInt n))"
  "field_fits ts (k, omit_float x) \<longleftrightarrow> x = Fin 0 \<or> field_fits ts (k, Some (js_float x))"
  by (simp_all add: omit_str_def omit_int_def omit_float_def field_fits_def)

lemma some_fits: "field_fits ts (k, Some v) \<longleftrightarrow> (case map_of ts k of None \<Rightarrow> False | Some t \<Rightarrow> fits t v)"
  by (simp add: field_fits_def)

lemma asset_keys: "distinct_keys (map fst (asset_fields x))"
proof -
  have "map fst (asset_fields x) = [''policyId'', ''assetName'', ''symbol'', ''decimals'', ''priceUsd'']"
    by (simp add: asset_fields_def)
  moreover have "distinct_keys [''policyId'', ''assetName'', ''symbol'', ''decimals'', ''priceUsd'']" by code_simp
  ultimately show ?thesis by (simp only:)
qed

lemma market_keys: "distinct_keys (map fst (market_fields x))"
proof -
  have "map fst (market_fields x) = [''source'', ''poolId'', ''collateral'', ''borrow'', ''receiptAsset'', ''collateralId'', ''supplyExchangeRate'', ''totalSuppliedUsd'', ''totalBorrowedUsd'', ''availableLiquidityUsd'', ''supplyApy'', ''borrowApy'', ''ltv'', ''liquidationThreshold'', ''minSupply'', ''active'', ''url'']"
    by (simp add: market_fields_def)
  moreover have "distinct_keys [''source'', ''poolId'', ''collateral'', ''borrow'', ''receiptAsset'', ''collateralId'', ''supplyExchangeRate'', ''totalSuppliedUsd'', ''totalBorrowedUsd'', ''availableLiquidityUsd'', ''supplyApy'', ''borrowApy'', ''ltv'', ''liquidationThreshold'', ''minSupply'', ''active'', ''url'']" by code_simp
  ultimately show ?thesis by (simp only:)
qed

lemma order_keys: "distinct_keys (map fst (order_fields x))"
proof -
  have "map fst (order_fields x) = [''source'', ''id'', ''type'', ''status'', ''owner'', ''marketId'', ''asset'', ''amount'', ''amountUsd'', ''collateralAsset'', ''collateralAmount'', ''interest'', ''apy'', ''ltv'', ''healthFactor'', ''txHash'', ''outputIndex'', ''timeMs'']"
    by (simp add: order_fields_def)
  moreover have "distinct_keys [''source'', ''id'', ''type'', ''status'', ''owner'', ''marketId'', ''asset'', ''amount'', ''amountUsd'', ''collateralAsset'', ''collateralAmount'', ''interest'', ''apy'', ''ltv'', ''healthFactor'', ''txHash'', ''outputIndex'', ''timeMs'']" by code_simp
  ultimately show ?thesis by (simp only:)
qed

lemmas asset_gets = jget_all [OF asset_keys, folded js_asset_def, unfolded asset_fields_def list.pred_inject prod.case]
lemmas market_gets = jget_all [OF market_keys, folded js_market_def, unfolded market_fields_def list.pred_inject prod.case]
lemmas order_gets = jget_all [OF order_keys, folded js_order_json_def, unfolded order_fields_def list.pred_inject prod.case]

lemma asset_roundtrip: "is_f64 (PriceUsd a) \<Longrightarrow> rd_asset_json (js_asset a) = a"
  by (simp add: rd_asset_json_def asset_gets)

lemma asset_fits: "is_f64 (PriceUsd a) \<Longrightarrow> in_i64 (Decimals a) \<Longrightarrow> fits ty_asset_json (js_asset a)"
  unfolding ty_asset_json_def js_asset_def
  by (rule fits_struct) (simp add: asset_fields_def omit_fits some_fits js_float_reads)

lemma rd_asset_refrac [simp]: "same_f64 g \<Longrightarrow> rd_asset_json (refrac g j) = rd_asset_json j"
  by (simp add: rd_asset_json_def)

text \<open>The integers of a value must be of their Go types.\<close>

definition market_ok :: "market \<Rightarrow> bool" where
  "market_ok m \<longleftrightarrow> list_all is_f64 (market_floats m) \<and>
     list_all (\<lambda>a. in_i64 (Decimals a)) [m_Collateral m, m_Borrow m, m_ReceiptAsset m]"

definition order_ok :: "order \<Rightarrow> bool" where
  "order_ok r \<longleftrightarrow> list_all is_f64 (order_floats r) \<and> list_all (\<lambda>a. in_i64 (Decimals a)) [o_Asset r, o_CollateralAsset r] \<and>
     in_i64 (o_OutputIndex r) \<and> in_i64 (o_TimeMs r)"

lemma market_roundtrip: "market_ok m \<Longrightarrow> rd_market_json (js_market m) = m"
  by (simp add: rd_market_json_def market_gets js_float_reads market_ok_def market_floats_def asset_roundtrip)

lemma market_fits: "market_ok m \<Longrightarrow> fits ty_market_json (js_market m)"
  unfolding ty_market_json_def js_market_def
  by (rule fits_struct)
    (simp add: market_fields_def omit_fits some_fits js_float_reads market_ok_def market_floats_def asset_fits)

lemma rd_market_refrac [simp]: "same_f64 g \<Longrightarrow> rd_market_json (refrac g j) = rd_market_json j"
  by (simp add: rd_market_json_def)

lemma order_roundtrip: "order_ok r \<Longrightarrow> rd_order_json (js_order_json r) = r"
  by (simp add: rd_order_json_def order_gets js_float_reads order_ok_def order_floats_def asset_roundtrip)

lemma order_fits: "order_ok r \<Longrightarrow> fits ty_order_json (js_order_json r)"
  unfolding ty_order_json_def js_order_json_def
  by (rule fits_struct)
    (simp add: order_fields_def omit_fits some_fits js_float_reads order_ok_def order_floats_def asset_fits)

lemma rd_order_refrac [simp]: "same_f64 g \<Longrightarrow> rd_order_json (refrac g j) = rd_order_json j"
  by (simp add: rd_order_json_def)

end
