(* ===== verification/Redis_Cache.thy ===== *)
theory Redis_Cache
  imports Market_Json Source_Cache Wallet_Client Engine_Quote
begin

text \<open>
  The Redis backends of the three caches (\<open>common/database/redis\<close>): dialling, and a read and a write that
  pass through JSON. The Redis client and the text of times are parameters. What a cache of markets or
  orders answers is what was put in, and with it what \<open>CachedSource\<close> serves.
\<close>

text \<open>\<open>None\<close> from \<open>rc_Get\<close> is \<open>goredis.Nil\<close>.\<close>

record 'w redis =
  rc_ParseURL :: "string \<Rightarrow> unit res"
  rc_Ping :: "'w \<Rightarrow> unit res \<times> 'w"
  rc_Get :: "string \<Rightarrow> 'w \<Rightarrow> string option res \<times> 'w"
  rc_Set :: "string \<Rightarrow> string \<Rightarrow> int \<Rightarrow> 'w \<Rightarrow> unit res \<times> 'w"

definition redis_dial :: "'w redis \<Rightarrow> string \<Rightarrow> 'w \<Rightarrow> unit res \<times> 'w" where
  "redis_dial R url =
     (if url = [] then pure_res (Inl (errm ''redis: empty URL''))
      else chks (pure_res (rc_ParseURL R url)) (wrap ''redis: parse url: %w'') (\<lambda>_.
           chks (rc_Ping R) (wrap ''redis: ping: %w'') (\<lambda>_. pure_res (Inr ()))))"

definition redis_Get :: "'w redis \<Rightarrow> (string \<Rightarrow> 'a res) \<Rightarrow> string \<Rightarrow> string \<Rightarrow> 'w \<Rightarrow> 'a option res \<times> 'w" where
  "redis_Get R decode fmt key =
     chks (rc_Get R key) id (\<lambda>v. pure_res (case v of
       None \<Rightarrow> Inr None
     | Some b \<Rightarrow> chk (decode b) (wrap fmt) (\<lambda>x. Inr (Some x))))"

definition redis_Set :: "'w redis \<Rightarrow> ('a \<Rightarrow> string res) \<Rightarrow> string \<Rightarrow> string \<Rightarrow> 'a \<Rightarrow> int \<Rightarrow> 'w \<Rightarrow> unit res \<times> 'w" where
  "redis_Set R encode fmt key v ttl =
     chks (pure_res (encode v)) (wrap fmt) (\<lambda>b. rc_Set R key b ttl)"

section \<open>Markets and orders\<close>

definition decode_markets :: "'w http \<Rightarrow> string \<Rightarrow> market list res" where
  "decode_markets h = unmarshal h (TArr ty_market_json) (\<lambda>j. map rd_market_json (jlist j))"

definition encode_markets :: "'w http \<Rightarrow> market list \<Rightarrow> string res" where
  "encode_markets h ms = chk (marshal_list market_floats js_market ms) id (\<lambda>j. Inr (ht_Text h j))"

definition decode_orders :: "'w http \<Rightarrow> string \<Rightarrow> order list res" where
  "decode_orders h = unmarshal h (TArr ty_order_json) (\<lambda>j. map rd_order_json (jlist j))"

definition encode_orders :: "'w http \<Rightarrow> order list \<Rightarrow> string res" where
  "encode_orders h rs = chk (marshal_list order_floats js_order_json rs) id (\<lambda>j. Inr (ht_Text h j))"

definition redis_markets :: "'w redis \<Rightarrow> 'w http \<Rightarrow> (market list, 'w) cache" where
  "redis_markets R h =
     \<lparr>ca_Get = (\<lambda>c key. redis_Get R (decode_markets h) ''redis: unmarshal: %w'' key),
      ca_Set = (\<lambda>c key v ttl. redis_Set R (encode_markets h) ''redis: marshal: %w'' key v ttl)\<rparr>"

definition redis_orders :: "'w redis \<Rightarrow> 'w http \<Rightarrow> (order list, 'w) cache" where
  "redis_orders R h =
     \<lparr>ca_Get = (\<lambda>c key. redis_Get R (decode_orders h) ''redis: unmarshal orders: %w'' key),
      ca_Set = (\<lambda>c key v ttl. redis_Set R (encode_orders h) ''redis: marshal orders: %w'' key v ttl)\<rparr>"

definition NewRedisMarketsCache :: "'w redis \<Rightarrow> 'w http \<Rightarrow> string \<Rightarrow> 'w \<Rightarrow> (market list, 'w) cache res \<times> 'w" where
  "NewRedisMarketsCache R h url = chks (redis_dial R url) id (\<lambda>_. pure_res (Inr (redis_markets R h)))"

definition NewRedisOrderCache :: "'w redis \<Rightarrow> 'w http \<Rightarrow> string \<Rightarrow> 'w \<Rightarrow> (order list, 'w) cache res \<times> 'w" where
  "NewRedisOrderCache R h url = chks (redis_dial R url) id (\<lambda>_. pure_res (Inr (redis_orders R h)))"

section \<open>Balances\<close>

text \<open>The text of a time and its reading are \<open>tm_Text\<close> and \<open>tm_Parse\<close>.\<close>

record time_codec =
  tm_Text :: "int \<Rightarrow> string"
  tm_Parse :: "string \<Rightarrow> int res"

definition token_fields :: "token \<Rightarrow> fields" where
  "token_fields t =
     [(''policyId'', Some (JStr (tk_PolicyID t))), (''assetName'', Some (JStr (tk_AssetName t))), (''symbol'', Some (JStr (tk_Symbol t))),
      (''decimals'', Some (JInt (tk_Decimals t))), (''quantity'', Some (JStr (tk_Quantity t))),
      (''fingerprint'', omit_str (tk_Fingerprint t))]"

definition balance_fields :: "time_codec \<Rightarrow> balance \<Rightarrow> fields" where
  "balance_fields T b =
     [(''address'', Some (JStr (bl_Address b))), (''lovelace'', Some (JInt (bl_Lovelace b))),
      (''tokens'', Some (JArr (map (\<lambda>t. js_struct (token_fields t)) (bl_Tokens b)))),
      (''fetchedAt'', Some (JStr (tm_Text T (bl_FetchedAt b))))]"

definition ty_token :: jtype where
  "ty_token = TObj [(''policyId'', TStr), (''assetName'', TStr), (''symbol'', TStr), (''decimals'', TInt), (''quantity'', TStr),
     (''fingerprint'', TStr)]"

definition ty_balance :: jtype where
  "ty_balance = TObj [(''address'', TStr), (''lovelace'', TInt), (''tokens'', TArr ty_token), (''fetchedAt'', TStr)]"

definition rd_token_json :: "json \<Rightarrow> token" where
  "rd_token_json j = \<lparr>tk_PolicyID = jstr (jget ''policyId'' j), tk_AssetName = jstr (jget ''assetName'' j),
     tk_Symbol = jstr (jget ''symbol'' j), tk_Decimals = jint (jget ''decimals'' j), tk_Quantity = jstr (jget ''quantity'' j),
     tk_Fingerprint = jstr (jget ''fingerprint'' j)\<rparr>"

definition rd_balance_json :: "time_codec \<Rightarrow> json \<Rightarrow> balance res" where
  "rd_balance_json T j =
     chk (case jget ''fetchedAt'' j of JNull \<Rightarrow> Inr 0 | t \<Rightarrow> tm_Parse T (jstr t)) id (\<lambda>t.
        Inr \<lparr>bl_Address = jstr (jget ''address'' j), bl_Lovelace = jint (jget ''lovelace'' j),
             bl_Tokens = map rd_token_json (jlist (jget ''tokens'' j)), bl_FetchedAt = t\<rparr>)"

definition decode_balance :: "time_codec \<Rightarrow> 'w http \<Rightarrow> string \<Rightarrow> balance res" where
  "decode_balance T h b = chk (unmarshal h ty_balance (rd_balance_json T) b) id id"

definition encode_balance :: "time_codec \<Rightarrow> 'w http \<Rightarrow> balance \<Rightarrow> string res" where
  "encode_balance T h b = Inr (ht_Text h (js_struct (balance_fields T b)))"

definition balance_key :: "string \<Rightarrow> string" where
  "balance_key address = ''balance:'' @ address"

definition redis_balances :: "'w redis \<Rightarrow> time_codec \<Rightarrow> 'w http \<Rightarrow> (balance, 'w) cache" where
  "redis_balances R T h =
     \<lparr>ca_Get = (\<lambda>c address. redis_Get R (decode_balance T h) ''redis: unmarshal balance: %w'' (balance_key address)),
      ca_Set = (\<lambda>c address v ttl. redis_Set R (encode_balance T h) ''redis: marshal balance: %w'' (balance_key address) v ttl)\<rparr>"

definition NewRedisBalanceCache :: "'w redis \<Rightarrow> time_codec \<Rightarrow> 'w http \<Rightarrow> string \<Rightarrow> 'w \<Rightarrow> (balance, 'w) cache res \<times> 'w" where
  "NewRedisBalanceCache R T h url = chks (redis_dial R url) id (\<lambda>_. pure_res (Inr (redis_balances R T h)))"

section \<open>What comes back\<close>

text \<open>
  The text of a JSON value parses to that value, up to fractions with the same rounding (invalid UTF-8,
  which the encoder replaces, does not); Redis reads back what was just written and keeps the other keys.
\<close>

definition reads_back :: "'w http \<Rightarrow> json \<Rightarrow> bool" where
  "reads_back h j \<longleftrightarrow> (\<exists>g. same_f64 g \<and> ht_Parse h (ht_Text h j) = Inr (refrac g j))"

definition redis_laws :: "'w redis \<Rightarrow> ('w \<Rightarrow> string \<Rightarrow> string option) \<Rightarrow> bool" where
  "redis_laws R view \<longleftrightarrow>
     (\<forall>k v ttl w w'. 0 < ttl \<longrightarrow> rc_Set R k v ttl w = (Inr (), w') \<longrightarrow> view w' = (view w)(k \<mapsto> v)) \<and>
     (\<forall>k w r w'. rc_Get R k w = (Inr r, w') \<longrightarrow> r = view w k)"

lemma fits_all_list: "fits_all t xs \<longleftrightarrow> list_all (fits t) xs"
  by (induction xs) simp_all

lemma list_unmarshal:
  assumes "reads_back h (JArr (map js xs))" and "\<And>x. x \<in> set xs \<Longrightarrow> fits t (js x) \<and> rd (js x) = x"
    and "\<And>g j. same_f64 g \<Longrightarrow> rd (refrac g j) = rd j"
  shows "unmarshal h (TArr t) (\<lambda>j. map rd (jlist j)) (ht_Text h (JArr (map js xs))) = Inr xs"
proof -
  obtain g where g: "same_f64 g" "ht_Parse h (ht_Text h (JArr (map js xs))) = Inr (refrac g (JArr (map js xs)))"
    using assms(1) by (auto simp: reads_back_def)
  have "fits (TArr t) (refrac g (JArr (map js xs)))"
    unfolding fits_refrac(1) [OF g(1)] using assms(2) by (auto simp: fits_all_list list_all_iff)
  moreover have "map rd (jlist (refrac g (JArr (map js xs)))) = xs"
    using assms(2,3) g(1) by (simp add: map_idI)
  ultimately show ?thesis by (simp add: unmarshal_def g(2))
qed

lemma market_ok_finite: "market_ok m \<Longrightarrow> list_all finite_f64 (market_floats m)"
  by (auto simp: market_ok_def list_all_iff is_f64_finite)

lemma order_ok_finite: "order_ok m \<Longrightarrow> list_all finite_f64 (order_floats m)"
  by (auto simp: order_ok_def list_all_iff is_f64_finite)

lemma redis_roundtrip:
  assumes "redis_laws R view" and "0 < ttl" and "redis_Set R enc fmt key v ttl w = (Inr (), w1)"
    and "\<And>b. enc v = Inr b \<Longrightarrow> dec b = Inr v" and "redis_Get R dec fmt' key w1 = (r, w2)" and "fst (rc_Get R key w1) = Inr x"
  shows "r = Inr (Some v)"
proof -
  obtain b where b: "enc v = Inr b" "rc_Set R key b ttl w = (Inr (), w1)"
    using assms(3) by (auto simp: redis_Set_def chks_def pure_res_def split: sum.splits)
  then have "view w1 key = Some b" using assms(1,2) unfolding redis_laws_def by (metis fun_upd_same)
  moreover obtain w' where "rc_Get R key w1 = (Inr x, w')" using assms(6) by (cases "rc_Get R key w1") auto
  ultimately have "rc_Get R key w1 = (Inr (Some b), w')" using assms(1) unfolding redis_laws_def by metis
  then show ?thesis using assms(4) [OF b(1)] assms(5) by (simp add: redis_Get_def chks_def pure_res_def)
qed

text \<open>Redis is a cache of the values themselves: markets just written under a key read back as the very
  same markets, every string, integer and float of them, through their JSON text.\<close>

theorem redis_markets_roundtrip:
  assumes "redis_laws R view" and "0 < ttl" and "list_all market_ok ms" and "reads_back h (JArr (map js_market ms))"
    and "ca_Set (redis_markets R h) c key ms ttl w = (Inr (), w1)"
    and "ca_Get (redis_markets R h) c key w1 = (r, w2)" and "fst (rc_Get R key w1) = Inr x"
  shows "r = Inr (Some ms)"
proof -
  have "decode_markets h b = Inr ms" if "encode_markets h ms = Inr b" for b
  proof -
    have "b = ht_Text h (JArr (map js_market ms))"
      using that by (auto simp: encode_markets_def marshal_list_def chk_Inr split: if_splits)
    moreover have "fits ty_market_json (js_market m) \<and> rd_market_json (js_market m) = m" if "m \<in> set ms" for m
      using that assms(3) by (auto simp: list_all_iff market_fits market_roundtrip)
    ultimately show ?thesis unfolding decode_markets_def using list_unmarshal [OF assms(4)] by simp
  qed
  from redis_roundtrip [OF assms(1,2) _ this _ assms(7)] show ?thesis
    using assms(5,6) by (simp add: redis_markets_def)
qed

text \<open>A Redis that is a map, and a JSON text that stands for one value.\<close>

type_synonym demo_world = "string \<Rightarrow> string option"

definition demo_redis :: "demo_world redis" where
  "demo_redis = \<lparr>rc_ParseURL = (\<lambda>u. Inr ()), rc_Ping = (\<lambda>w. (Inr (), w)), rc_Get = (\<lambda>k w. (Inr (w k), w)),
     rc_Set = (\<lambda>k v ttl w. (Inr (), w(k \<mapsto> v)))\<rparr>"

definition demo_json_http :: "json \<Rightarrow> 'w http" where
  "demo_json_http j = \<lparr>ht_BadURL = (\<lambda>u. None), ht_Do = (\<lambda>x rq w. (Inr (200, []), w)), ht_Parse = (\<lambda>t. Inr j), ht_Text = (\<lambda>j. ''t''),
     ht_ff = (\<lambda>x. []), ht_rt = \<lparr>rt_Cancelled = (\<lambda>w. False), rt_Wait = (\<lambda>d w. ((True, 0), w))\<rparr>\<rparr>"

definition demo_rows :: "market list" where "demo_rows = [demo_market]"

definition demo_markets_http :: "demo_world http" where
  "demo_markets_http = demo_json_http (JArr (map js_market demo_rows))"

lemma refrac_id [simp]: "refrac (\<lambda>x. x) j = j"
  by (induction "\<lambda>x :: rat. x" j rule: refrac.induct) (auto intro!: map_idI)

lemma demo_reads_back: "reads_back (demo_json_http j) j"
  unfolding reads_back_def by (rule exI [of _ "\<lambda>x. x"]) (simp add: demo_json_http_def same_f64_def)

lemma demo_rows_back: "reads_back demo_markets_http (JArr (map js_market demo_rows))"
  unfolding demo_markets_http_def by (rule demo_reads_back)

lemma demo_redis_laws: "redis_laws demo_redis (\<lambda>w. w)"
  by (auto simp: redis_laws_def demo_redis_def)

lemma is_f64_mk: "mk r = Fin r \<Longrightarrow> is_f64 (Fin r)"
  by (auto simp: is_f64_def mk_def rep_def Let_def split: if_splits)

lemma demo_market_ok: "list_all market_ok demo_rows"
proof -
  have "mk 0 = Fin 0" "mk 5 = Fin 5" "mk (1 / 2) = Fin (1 / 2)" "mk 10 = Fin 10" by code_simp+
  from this [THEN is_f64_mk] show ?thesis
    by (simp add: demo_rows_def market_ok_def market_floats_def demo_market_def asset_zero_def in_i64_def)
qed

lemma demo_Set:
  "ca_Set (redis_markets demo_redis demo_markets_http) c key demo_rows ttl w = (Inr (), w(key \<mapsto> ''t''))"
proof -
  have "list_all finite_f64 (market_floats demo_market)" using demo_market_ok market_ok_finite by (simp add: demo_rows_def)
  then show ?thesis
    by (simp add: redis_markets_def redis_Set_def encode_markets_def marshal_list_def chks_def pure_res_def demo_redis_def
        demo_markets_http_def demo_json_http_def demo_rows_def)
qed

theorem redis_markets_roundtrip_witness:
  "fst (ca_Get (redis_markets demo_redis demo_markets_http) Background ''k'' [''k'' \<mapsto> ''t'']) = Inr (Some demo_rows)"
proof -
  have g: "fst (rc_Get demo_redis ''k'' [''k'' \<mapsto> ''t'']) = Inr (Some ''t'')" by (simp add: demo_redis_def)
  obtain r w2 where r: "ca_Get (redis_markets demo_redis demo_markets_http) Background ''k'' [''k'' \<mapsto> ''t''] = (r, w2)" by fastforce
  have "r = Inr (Some demo_rows)"
    by (rule redis_markets_roundtrip [OF demo_redis_laws _ demo_market_ok demo_rows_back demo_Set [of _ _ 60] r g]) simp
  then show ?thesis by (simp add: r)
qed

text \<open>A value that is no number is never cached and never lost: markets of which one has an infinite or
  undefined float are refused by the encoder, Redis is not written, and the caller of the cached source
  gets them from the source all the same.\<close>

theorem nonfinite_never_cached:
  assumes "m \<in> set ms" and "x \<in> set (market_floats m)" and "\<not> finite_f64 x" and "0 < ttl"
    and "rc_Get R (''markets:'' @ src_Name inner) w = (Inr None, w1)" and "src_FetchMarkets inner c w1 = (Inr ms, w2)"
  shows "ca_Set (redis_markets R h) c key ms ttl w2 = (Inl (wrap ''redis: marshal: %w'' unsupported), w2) \<and>
    cached_FetchMarkets (NewCachedSource inner (Some (redis_markets R h)) ttl) c w = (Inr ms, w2)"
proof -
  have "\<not> list_all (\<lambda>x. list_all finite_f64 (market_floats x)) ms" using assms by (auto simp: list_all_iff)
  then have "ca_Set (redis_markets R h) c k ms ttl w2 = (Inl (wrap ''redis: marshal: %w'' unsupported), w2)" for k
    by (simp add: redis_markets_def redis_Set_def encode_markets_def marshal_list_def chks_def pure_res_def)
  moreover have "ca_Get (redis_markets R h) c (''markets:'' @ src_Name inner) w = (Inr None, w1)"
    using assms(5) by (simp add: redis_markets_def redis_Get_def chks_def pure_res_def)
  ultimately show ?thesis using assms(4,6)
    by (simp add: cached_FetchMarkets_def NewCachedSource_def cache_hit_def)
qed

definition demo_bad_source :: "demo_world source" where
  "demo_bad_source = \<lparr>src_Name = ''surf'', src_FetchMarkets = (\<lambda>c w. (Inr [demo_market\<lparr>m_LTV := NaN\<rparr>], w)),
     src_FetchOrders = (\<lambda>c q w. (Inr [], w)), src_Builder = None, src_Tracked = None\<rparr>"

theorem nonfinite_never_cached_witness:
  "cached_FetchMarkets (NewCachedSource demo_bad_source (Some (redis_markets demo_redis demo_markets_http)) 60) Background Map.empty =
     (Inr [demo_market\<lparr>m_LTV := NaN\<rparr>], Map.empty)"
  by (rule conjunct2 [OF nonfinite_never_cached [where m = "demo_market\<lparr>m_LTV := NaN\<rparr>" and x = NaN and key = "[]" and ?w1.0 = Map.empty]])
    (simp_all add: market_floats_def finite_f64_def demo_redis_def demo_bad_source_def)

text \<open>What the cached source answers from Redis is what its source answered: after a fetch that went through
  to the source and was stored, the next fetch within the time to live returns the same markets and
  leaves the source alone.\<close>

theorem redis_serves_last_fetch:
  assumes "redis_laws R view" and "0 < ttl" and "list_all market_ok ms" and "reads_back h (JArr (map js_market ms))"
    and "ca_Set (redis_markets R h) c (''markets:'' @ src_Name inner) ms ttl w = (Inr (), w1)"
    and "rc_Get R (''markets:'' @ src_Name inner) w1 = (Inr x, w2)"
  shows "cached_FetchMarkets (NewCachedSource inner (Some (redis_markets R h)) ttl) c w1 = (Inr ms, w2)"
proof -
  let ?key = "''markets:'' @ src_Name inner"
  obtain r w3 where g: "ca_Get (redis_markets R h) c ?key w1 = (r, w3)" by fastforce
  have "fst (rc_Get R ?key w1) = Inr x" using assms(6) by simp
  then have "r = Inr (Some ms)" by (rule redis_markets_roundtrip [OF assms(1-5) g])
  moreover have "w3 = w2"
    using g assms(6) by (simp add: redis_markets_def redis_Get_def chks_def pure_res_def)
  ultimately show ?thesis using assms(2) g
    by (simp add: cached_FetchMarkets_def NewCachedSource_def cache_hit_def)
qed

theorem redis_serves_last_fetch_witness:
  "cached_FetchMarkets (NewCachedSource demo_bad_source (Some (redis_markets demo_redis demo_markets_http)) 60) Background
     [''markets:surf'' \<mapsto> ''t''] = (Inr demo_rows, [''markets:surf'' \<mapsto> ''t''])"
proof -
  have s: "ca_Set (redis_markets demo_redis demo_markets_http) Background (''markets:'' @ src_Name demo_bad_source) demo_rows 60
      Map.empty = (Inr (), [''markets:surf'' \<mapsto> ''t''])"
    by (simp add: demo_Set demo_bad_source_def)
  have g: "rc_Get demo_redis (''markets:'' @ src_Name demo_bad_source) [''markets:surf'' \<mapsto> ''t''] =
      (Inr (Some ''t''), [''markets:surf'' \<mapsto> ''t''])"
    by (simp add: demo_redis_def demo_bad_source_def)
  show ?thesis by (rule redis_serves_last_fetch [OF demo_redis_laws _ demo_market_ok demo_rows_back s g]) simp
qed

end
