(* ===== verification/Mongo_Store.thy ===== *)
theory Mongo_Store
  imports Engine_System Surf_Wiring Market_Json Api_Strike
begin

text \<open>
  The MongoDB backends: the durable job store (\<open>MongoJobStore\<close> of \<open>common/engine/store.go\<close>), the Strike history
  and the markets persister (\<open>common/database/mongo\<close>). The driver is a parameter; what is written out is the
  documents: the fields with their \<open>bson\<close> tags, which of them \<open>omitempty\<close> leaves out, and times in milliseconds.
\<close>

section \<open>Documents\<close>

text \<open>Values of the fields; nested documents are stored and replaced as a whole.\<close>

datatype bval = BStr string | BF f64 | BI int | BT int | BPlan "plan option" | BSeal "sealed_key option" |
  BSteps "step list" | BErr msg | BJson json

type_synonym doc = "string \<rightharpoonup> bval"
type_synonym coll = "string \<times> string"

text \<open>The driver. \<open>mg_Find\<close> takes a filter, the key to sort by, latest first, and a limit; \<open>mg_BulkWrite\<close> takes upserts
  as pairs of a filter and the fields to set, in no order.\<close>

record 'w mongo =
  mg_URLPath :: "string \<Rightarrow> string res"
  mg_Connect :: "string \<Rightarrow> 'w \<Rightarrow> unit res \<times> 'w"
  mg_Ping :: "'w \<Rightarrow> unit res \<times> 'w"
  mg_CreateIndex :: "coll \<Rightarrow> string list \<Rightarrow> bool \<Rightarrow> 'w \<Rightarrow> unit res \<times> 'w"
  mg_UpdateByID :: "coll \<Rightarrow> string \<Rightarrow> doc \<Rightarrow> 'w \<Rightarrow> unit res \<times> 'w"
  mg_FindOne :: "coll \<Rightarrow> string \<Rightarrow> 'w \<Rightarrow> doc option res \<times> 'w"
  mg_Find :: "coll \<Rightarrow> doc \<Rightarrow> string option \<Rightarrow> nat option \<Rightarrow> 'w \<Rightarrow> doc list res \<times> 'w"
  mg_InsertOne :: "coll \<Rightarrow> doc \<Rightarrow> 'w \<Rightarrow> unit res \<times> 'w"
  mg_UpdateMany :: "coll \<Rightarrow> doc \<Rightarrow> doc \<Rightarrow> 'w \<Rightarrow> unit res \<times> 'w"
  mg_BulkWrite :: "coll \<Rightarrow> (doc \<times> doc) list \<Rightarrow> 'w \<Rightarrow> unit res \<times> 'w"

text \<open>A time is stored in milliseconds.\<close>

definition bson_time :: "int \<Rightarrow> bval" where "bson_time t = BT (t div 10 ^ 6)"
definition ms_time :: "int \<Rightarrow> int" where "ms_time t = (t div 10 ^ 6) * 10 ^ 6"

definition bstr :: "bval option \<Rightarrow> string" where "bstr v = (case v of Some (BStr s) \<Rightarrow> s | _ \<Rightarrow> [])"
definition bf :: "bval option \<Rightarrow> f64" where "bf v = (case v of Some (BF x) \<Rightarrow> x | _ \<Rightarrow> Fin 0)"
definition bi :: "bval option \<Rightarrow> int" where "bi v = (case v of Some (BI n) \<Rightarrow> n | _ \<Rightarrow> 0)"
definition bt :: "bval option \<Rightarrow> int" where "bt v = (case v of Some (BT n) \<Rightarrow> n * 10 ^ 6 | _ \<Rightarrow> 0)"

definition mongo_dial :: "'w mongo \<Rightarrow> string \<Rightarrow> string \<Rightarrow> string \<Rightarrow> string \<Rightarrow> 'w \<Rightarrow> unit res \<times> 'w" where
  "mongo_dial M noURI connect ping uri =
     (if uri = [] then pure_res (Inl (errm noURI))
      else chks (mg_Connect M uri) (wrap connect) (\<lambda>_. chks (mg_Ping M) (wrap ping) (\<lambda>_. pure_res (Inr ()))))"

definition defaultDatabase :: string where "defaultDatabase = ''dh-leverage''"

definition databaseFromURI :: "'w mongo \<Rightarrow> string \<Rightarrow> string" where
  "databaseFromURI M uri = (case mg_URLPath M uri of
     Inl e \<Rightarrow> defaultDatabase
   | Inr path \<Rightarrow> (let name = trim_prefix path ''/'' in if name = [] then defaultDatabase else name))"

text \<open>\<open>_, _ = f()\<close>: an index that cannot be created is not an error.\<close>

definition best_effort :: "('w \<Rightarrow> unit res \<times> 'w) \<Rightarrow> 'w \<Rightarrow> unit res \<times> 'w" where
  "best_effort f w = (Inr (), snd (f w))"

section \<open>Jobs\<close>

definition leverageJobsColl :: string where "leverageJobsColl = ''leverage_jobs''"

definition NewMongoJobStore :: "'w mongo \<Rightarrow> string \<Rightarrow> string \<Rightarrow> 'w \<Rightarrow> coll res \<times> 'w" where
  "NewMongoJobStore M uri dbName =
     chks (mongo_dial M ''engine store: empty Mongo URI'' ''engine store: connect: %w'' ''engine store: ping: %w'' uri) id (\<lambda>_.
     let c = (dbName, leverageJobsColl) in
     chks (best_effort (mg_CreateIndex M c [''owner'', ''createdAt''] False)) id (\<lambda>_. pure_res (Inr c)))"

definition ms_step :: "step \<Rightarrow> step" where "ms_step st = st\<lparr>st_At := ms_time (st_At st)\<rparr>"

text \<open>The fields a job is written with: those always written and those left out when zero.\<close>

definition job_always :: "job \<Rightarrow> doc" where
  "job_always j = [''_id'' \<mapsto> BStr (ID j), ''owner'' \<mapsto> BStr (Owner j), ''direction'' \<mapsto> BStr (Direction j),
     ''collateralUnit'' \<mapsto> BStr (CollateralUnit j), ''targetUnit'' \<mapsto> BStr (TargetUnit j),
     ''initialAmount'' \<mapsto> BF (j_InitialAmount j), ''leverage'' \<mapsto> BF (Leverage j), ''plan'' \<mapsto> BPlan (Plan j),
     ''tempAddress'' \<mapsto> BStr (TempAddress j), ''seal'' \<mapsto> BSeal (SealK j), ''fundingLovelace'' \<mapsto> BI (FundingLovelace j),
     ''feeReserveLovelace'' \<mapsto> BI (FeeReserveLovelace j), ''status'' \<mapsto> BStr (Status j),
     ''steps'' \<mapsto> BSteps (map ms_step (Steps j)), ''exposure'' \<mapsto> BF (Exposure j), ''healthFactor'' \<mapsto> BF (j_HealthFactor j),
     ''createdAt'' \<mapsto> bson_time (CreatedAt j), ''updatedAt'' \<mapsto> bson_time (UpdatedAt j)]"

definition omit_f :: "f64 \<Rightarrow> bval option" where "omit_f x = (if x = Fin 0 then None else Some (BF x))"

definition job_omitempty :: "job \<Rightarrow> (string \<times> bval option) list" where
  "job_omitempty j = [(''entryPrice'', omit_f (EntryPrice j)), (''currentPrice'', omit_f (CurrentPrice j)),
     (''pnlPct'', omit_f (PnLPct j)), (''liqThreshold'', omit_f (LiqThreshold j)),
     (''healthUpdatedAt'', if HealthUpdatedAt j = 0 then None else Some (bson_time (HealthUpdatedAt j))),
     (''error'', if Error j = errm [] then None else Some (BErr (Error j)))]"

definition job_doc :: "job \<Rightarrow> doc" where
  "job_doc j = job_always j ++ map_of (map (\<lambda>(k, v). (k, the v)) (filter (\<lambda>(k, v). v \<noteq> None) (job_omitempty j)))"

text \<open>Decoding; a field that is missing stays zero.\<close>

definition doc_job :: "doc \<Rightarrow> job" where
  "doc_job d = \<lparr>ID = bstr (d ''_id''), Owner = bstr (d ''owner''),
     Direction = bstr (d ''direction''),
     CollateralUnit = bstr (d ''collateralUnit''), TargetUnit = bstr (d ''targetUnit''),
     j_InitialAmount = bf (d ''initialAmount''), Leverage = bf (d ''leverage''),
     Plan = (case d ''plan'' of Some (BPlan p) \<Rightarrow> p | _ \<Rightarrow> None), TempAddress = bstr (d ''tempAddress''),
     SealK = (case d ''seal'' of Some (BSeal k) \<Rightarrow> k | _ \<Rightarrow> None), FundingLovelace = bi (d ''fundingLovelace''),
     FeeReserveLovelace = bi (d ''feeReserveLovelace''), Status = bstr (d ''status''),
     Steps = (case d ''steps'' of Some (BSteps xs) \<Rightarrow> xs | _ \<Rightarrow> []), Exposure = bf (d ''exposure''),
     j_HealthFactor = bf (d ''healthFactor''), EntryPrice = bf (d ''entryPrice''), CurrentPrice = bf (d ''currentPrice''),
     PnLPct = bf (d ''pnlPct''), LiqThreshold = bf (d ''liqThreshold''), HealthUpdatedAt = bt (d ''healthUpdatedAt''),
     Error = (case d ''error'' of Some (BErr e) \<Rightarrow> e | _ \<Rightarrow> errm []), CreatedAt = bt (d ''createdAt''),
     UpdatedAt = bt (d ''updatedAt'')\<rparr>"

definition mongo_Save :: "'w mongo \<Rightarrow> coll \<Rightarrow> int \<Rightarrow> job \<Rightarrow> 'w \<Rightarrow> unit res \<times> 'w" where
  "mongo_Save M c now j = mg_UpdateByID M c (ID j) (job_doc (j\<lparr>UpdatedAt := now\<rparr>))"

definition mongo_Get :: "'w mongo \<Rightarrow> coll \<Rightarrow> string \<Rightarrow> 'w \<Rightarrow> job res \<times> 'w" where
  "mongo_Get M c i = chks (mg_FindOne M c i) id (\<lambda>r. pure_res (case r of None \<Rightarrow> Inl ErrJobNotFound | Some d \<Rightarrow> Inr (doc_job d)))"

definition mongo_ListByOwner :: "'w mongo \<Rightarrow> coll \<Rightarrow> string \<Rightarrow> 'w \<Rightarrow> job list res \<times> 'w" where
  "mongo_ListByOwner M c owner =
     chks (mg_Find M c [''owner'' \<mapsto> BStr owner] (Some ''createdAt'') None) id (\<lambda>ds. pure_res (Inr (map doc_job ds)))"

definition mongo_ListByStatus :: "'w mongo \<Rightarrow> coll \<Rightarrow> string \<Rightarrow> 'w \<Rightarrow> job list res \<times> 'w" where
  "mongo_ListByStatus M c st =
     chks (mg_Find M c [''status'' \<mapsto> BStr st] None None) id (\<lambda>ds. pure_res (Inr (map doc_job ds)))"

section \<open>History\<close>

definition historyCollName :: string where "historyCollName = ''strike_history''"

definition hist_doc :: "history_entry \<Rightarrow> doc" where
  "hist_doc e = [''id'' \<mapsto> BStr (he_ID e), ''address'' \<mapsto> BStr (he_Address e), ''type'' \<mapsto> BStr (he_Type e),
     ''asset'' \<mapsto> BStr (he_Asset e), ''amount'' \<mapsto> BStr (he_Amount e), ''usdValue'' \<mapsto> BStr (he_UsdValue e),
     ''txHash'' \<mapsto> BStr (he_TxHash e), ''withdrawId'' \<mapsto> BStr (he_WithdrawID e), ''requestId'' \<mapsto> BStr (he_RequestID e),
     ''status'' \<mapsto> BStr (he_Status e), ''createdAt'' \<mapsto> bson_time (he_CreatedAt e)]"

definition doc_hist :: "doc \<Rightarrow> history_entry" where
  "doc_hist d = \<lparr>he_ID = bstr (d ''id''), he_Address = bstr (d ''address''), he_Type = bstr (d ''type''), he_Asset = bstr (d ''asset''),
     he_Amount = bstr (d ''amount''), he_UsdValue = bstr (d ''usdValue''), he_TxHash = bstr (d ''txHash''),
     he_WithdrawID = bstr (d ''withdrawId''), he_RequestID = bstr (d ''requestId''), he_Status = bstr (d ''status''),
     he_CreatedAt = bt (d ''createdAt'')\<rparr>"

definition mongo_hist_Record :: "'w mongo \<Rightarrow> coll \<Rightarrow> ('w \<Rightarrow> int) \<Rightarrow> history_entry \<Rightarrow> 'w \<Rightarrow> unit res \<times> 'w" where
  "mongo_hist_Record M c now e w = mg_InsertOne M c (hist_doc (stamped (now w) e)) w"

definition mongo_hist_List :: "'w mongo \<Rightarrow> coll \<Rightarrow> string \<Rightarrow> 'w \<Rightarrow> history_entry list res \<times> 'w" where
  "mongo_hist_List M c address =
     chks (mg_Find M c [''address'' \<mapsto> BStr address] (Some ''createdAt'') (Some 200)) id (\<lambda>ds. pure_res (Inr (map doc_hist ds)))"

definition mongo_hist_Settle :: "'w mongo \<Rightarrow> coll \<Rightarrow> string \<Rightarrow> string \<Rightarrow> string \<Rightarrow> string \<Rightarrow> 'w \<Rightarrow> unit res \<times> 'w" where
  "mongo_hist_Settle M c address withdrawID txHash status =
     mg_UpdateMany M c [''address'' \<mapsto> BStr address, ''type'' \<mapsto> BStr ''withdraw'', ''withdrawId'' \<mapsto> BStr withdrawID]
       ([''txHash'' \<mapsto> BStr txHash] ++ (if status \<noteq> [] then [''status'' \<mapsto> BStr status] else Map.empty))"

definition mongo_history :: "'w mongo \<Rightarrow> coll \<Rightarrow> ('w \<Rightarrow> int) \<Rightarrow> 'w history_ops" where
  "mongo_history M c now = \<lparr>hi_Record = mongo_hist_Record M c now, hi_List = mongo_hist_List M c,
     hi_SettleWithdraw = mongo_hist_Settle M c\<rparr>"

definition NewStrikeHistory :: "'w mongo \<Rightarrow> ('w \<Rightarrow> int) \<Rightarrow> string \<Rightarrow> 'w \<Rightarrow> 'w history_ops res \<times> 'w" where
  "NewStrikeHistory M now uri =
     chks (mongo_dial M ''mongo: empty URI'' ''mongo: connect: %w'' ''mongo: ping: %w'' uri) id (\<lambda>_.
     let c = (databaseFromURI M uri, historyCollName) in
     chks (best_effort (mg_CreateIndex M c [''address'', ''createdAt''] False)) id (\<lambda>_. pure_res (Inr (mongo_history M c now))))"

section \<open>Markets\<close>

definition marketsCollName :: string where "marketsCollName = ''markets''"

text \<open>\<open>toBSON\<close> of a market: the fields of its JSON, and when it was updated.\<close>

definition json_bval :: "json \<Rightarrow> bval" where
  "json_bval v = (case v of JStr s \<Rightarrow> BStr s | _ \<Rightarrow> BJson v)"

definition market_doc :: "int \<Rightarrow> market \<Rightarrow> doc" where
  "market_doc now m = (map_of (map (map_prod id json_bval) (present (market_fields m))))(''updatedAt'' \<mapsto> bson_time now)"

definition market_filter :: "market \<Rightarrow> doc" where
  "market_filter m = [''source'' \<mapsto> BStr (m_Source m), ''poolId'' \<mapsto> BStr (m_PoolID m)]"

definition write_of :: "int \<Rightarrow> market \<Rightarrow> doc \<times> doc" where
  "write_of now m = (market_filter m, market_doc now m)"

definition PersistMarkets :: "'w mongo \<Rightarrow> coll \<Rightarrow> ('w \<Rightarrow> int) \<Rightarrow> 'w persister" where
  "PersistMarkets M c now x source ms w =
     (if ms = [] then (Inr (), w)
      else if \<not> list_all (\<lambda>m. list_all finite_f64 (market_floats m)) ms then (Inl unsupported, w)
      else mg_BulkWrite M c (map (write_of (now w)) ms) w)"

definition NewMarketsPersister :: "'w mongo \<Rightarrow> ('w \<Rightarrow> int) \<Rightarrow> string \<Rightarrow> 'w \<Rightarrow> 'w persister res \<times> 'w" where
  "NewMarketsPersister M now uri =
     chks (mongo_dial M ''mongo: empty URI'' ''mongo: connect: %w'' ''mongo: ping: %w'' uri) id (\<lambda>_.
     let c = (databaseFromURI M uri, marketsCollName) in
     chks (best_effort (mg_CreateIndex M c [''source'', ''poolId''] True)) id (\<lambda>_. pure_res (Inr (PersistMarkets M c now))))"

section \<open>What a job becomes in the store\<close>

text \<open>
  What the driver documents of \<open>UpdateByID\<close> with \<open>$set\<close> and upsert (the fields named are replaced, the others
  stay, a missing document is created) and of \<open>FindOne\<close>, for a collection whose documents by id are \<open>docs\<close>.
\<close>

definition set_fields :: "string \<Rightarrow> doc \<Rightarrow> doc option \<Rightarrow> doc" where
  "set_fields i d old = (case old of None \<Rightarrow> [''_id'' \<mapsto> BStr i] | Some e \<Rightarrow> e) ++ d"

definition mongo_laws :: "'w mongo \<Rightarrow> coll \<Rightarrow> ('w \<Rightarrow> string \<Rightarrow> doc option) \<Rightarrow> bool" where
  "mongo_laws M c docs \<longleftrightarrow>
     (\<forall>i d w w'. mg_UpdateByID M c i d w = (Inr (), w') \<longrightarrow> docs w' = (docs w)(i \<mapsto> set_fields i d (docs w i))) \<and>
     (\<forall>i w r w'. mg_FindOne M c i w = (Inr r, w') \<longrightarrow> r = docs w i \<and> docs w' = docs w)"

text \<open>The job that is read back: the one saved, with its times in milliseconds, except that a field left out
  because it is zero keeps what the document had.\<close>

definition stored_job :: "int \<Rightarrow> job \<Rightarrow> job \<Rightarrow> job" where
  "stored_job now j k = j\<lparr>Steps := map ms_step (Steps j), CreatedAt := ms_time (CreatedAt j), UpdatedAt := ms_time now,
     EntryPrice := (if EntryPrice j = Fin 0 then EntryPrice k else EntryPrice j),
     CurrentPrice := (if CurrentPrice j = Fin 0 then CurrentPrice k else CurrentPrice j),
     PnLPct := (if PnLPct j = Fin 0 then PnLPct k else PnLPct j),
     LiqThreshold := (if LiqThreshold j = Fin 0 then LiqThreshold k else LiqThreshold j),
     HealthUpdatedAt := (if HealthUpdatedAt j = 0 then HealthUpdatedAt k else ms_time (HealthUpdatedAt j)),
     Error := (if Error j = errm [] then Error k else Error j)\<rparr>"

lemma map_of_written:
  "distinct (map fst xs) \<Longrightarrow>
     map_of (map (\<lambda>(k, v). (k, the v)) (filter (\<lambda>(k, v). v \<noteq> None) xs)) k = Option.bind (map_of xs k) id"
proof (induction xs)
  case (Cons x xs)
  have "map_of xs (fst x) = None" using Cons.prems by (simp add: map_of_eq_None_iff)
  then show ?case using Cons by (cases x; cases "snd x") auto
qed simp

lemma job_doc_get:
  "job_doc j k = (case Option.bind (map_of (job_omitempty j) k) id of Some v \<Rightarrow> Some v | None \<Rightarrow> job_always j k)"
  unfolding job_doc_def map_add_def
  by (subst map_of_written) (simp_all add: job_omitempty_def)

lemma job_doc_gets:
  "job_doc j ''entryPrice'' = omit_f (EntryPrice j)" "job_doc j ''currentPrice'' = omit_f (CurrentPrice j)"
  "job_doc j ''pnlPct'' = omit_f (PnLPct j)" "job_doc j ''liqThreshold'' = omit_f (LiqThreshold j)"
  "job_doc j ''healthUpdatedAt'' = (if HealthUpdatedAt j = 0 then None else Some (bson_time (HealthUpdatedAt j)))"
  "job_doc j ''error'' = (if Error j = errm [] then None else Some (BErr (Error j)))"
  by (simp_all add: job_doc_get job_omitempty_def job_always_def split: option.split)

lemma job_doc_always:
  assumes "k \<notin> set (map fst (job_omitempty j))"
  shows "job_doc j k = job_always j k"
  using assms by (simp add: job_doc_get map_of_eq_None_iff [THEN iffD2])

lemma job_doc_always_gets:
  "job_doc j ''_id'' = Some (BStr (ID j))" "job_doc j ''owner'' = Some (BStr (Owner j))"
  "job_doc j ''direction'' = Some (BStr (Direction j))" "job_doc j ''collateralUnit'' = Some (BStr (CollateralUnit j))"
  "job_doc j ''targetUnit'' = Some (BStr (TargetUnit j))" "job_doc j ''initialAmount'' = Some (BF (j_InitialAmount j))"
  "job_doc j ''leverage'' = Some (BF (Leverage j))" "job_doc j ''plan'' = Some (BPlan (Plan j))"
  "job_doc j ''tempAddress'' = Some (BStr (TempAddress j))" "job_doc j ''seal'' = Some (BSeal (SealK j))"
  "job_doc j ''fundingLovelace'' = Some (BI (FundingLovelace j))"
  "job_doc j ''feeReserveLovelace'' = Some (BI (FeeReserveLovelace j))" "job_doc j ''status'' = Some (BStr (Status j))"
  "job_doc j ''steps'' = Some (BSteps (map ms_step (Steps j)))" "job_doc j ''exposure'' = Some (BF (Exposure j))"
  "job_doc j ''healthFactor'' = Some (BF (j_HealthFactor j))" "job_doc j ''createdAt'' = Some (bson_time (CreatedAt j))"
  "job_doc j ''updatedAt'' = Some (bson_time (UpdatedAt j))"
  by (simp_all add: job_doc_always job_omitempty_def job_always_def)

lemma read_back_simps [simp]:
  "bstr (Some (BStr s)) = s" "bf (Some (BF x)) = x" "bi (Some (BI n)) = n" "bt (Some (bson_time t)) = ms_time t"
  "bstr None = []" "bf None = Fin 0" "bi None = 0" "bt None = 0"
  by (simp_all add: bstr_def bf_def bi_def bt_def bson_time_def ms_time_def)

lemma set_fields_get:
  "set_fields i d old k = (case d k of Some v \<Rightarrow> Some v
     | None \<Rightarrow> (case old of None \<Rightarrow> if k = ''_id'' then Some (BStr i) else None | Some e \<Rightarrow> e k))"
  by (simp add: set_fields_def map_add_def split: option.split)

lemma doc_job_set:
  "doc_job (set_fields i (job_doc (j\<lparr>UpdatedAt := now\<rparr>)) old) =
     stored_job now j (doc_job (case old of None \<Rightarrow> Map.empty | Some d \<Rightarrow> d))"
  by (cases old)
    (simp_all add: doc_job_def stored_job_def set_fields_get job_doc_gets job_doc_always_gets omit_f_def)

text \<open>C21. The durable store keeps what the funds depend on: a job that was saved is found again under its id,
  with the custody it was saved with (its id, owner, wallet, sealed keys, assets, direction and plan) and
  with all its fields but the times, which lose what is below a millisecond, and the fields that
  \<open>omitempty\<close> leaves out.\<close>

theorem mongo_save_then_get:
  assumes "mongo_laws M c docs" and "mongo_Save M c now j w = (Inr (), w1)" and "mg_FindOne M c (ID j) w1 = (Inr r, w2)"
  shows "\<exists>k. mongo_Get M c (ID j) w1 = (Inr k, w2) \<and> custody k = custody j \<and> map st_Kind (Steps k) = map st_Kind (Steps j) \<and>
    k = stored_job now j (doc_job (case docs w (ID j) of None \<Rightarrow> Map.empty | Some d \<Rightarrow> d))"
proof -
  have "docs w1 (ID j) = Some (set_fields (ID j) (job_doc (j\<lparr>UpdatedAt := now\<rparr>)) (docs w (ID j)))"
    using assms(1,2) unfolding mongo_laws_def mongo_Save_def by (metis fun_upd_same)
  then have "r = Some (set_fields (ID j) (job_doc (j\<lparr>UpdatedAt := now\<rparr>)) (docs w (ID j)))"
    using assms(1,3) unfolding mongo_laws_def by metis
  then show ?thesis
    using assms(3) by (simp add: mongo_Get_def chks_def pure_res_def doc_job_set custody_def stored_job_def ms_step_def)
qed

text \<open>C33. What Mongo does not forget: a job saved with an empty error, as \<open>Retry\<close> does before it runs the job again, or
  with a price, a profit or a threshold of zero, reads back with the error and the figures the store had before,
  because \<open>$set\<close> with \<open>omitempty\<close> leaves those fields of the document alone.\<close>

theorem mongo_keeps_cleared_fields:
  assumes "mongo_laws M c docs" and "docs w (ID j) = Some d" and "mongo_Save M c now j w = (Inr (), w1)"
    and "mongo_Get M c (ID j) w1 = (Inr k, w2)"
  shows "(Error j = errm [] \<longrightarrow> Error k = Error (doc_job d)) \<and> (PnLPct j = Fin 0 \<longrightarrow> PnLPct k = PnLPct (doc_job d)) \<and>
    (CurrentPrice j = Fin 0 \<longrightarrow> CurrentPrice k = CurrentPrice (doc_job d))"
proof -
  have "docs w1 (ID j) = Some (set_fields (ID j) (job_doc (j\<lparr>UpdatedAt := now\<rparr>)) (docs w (ID j)))"
    using assms(1,3) unfolding mongo_laws_def mongo_Save_def by (metis fun_upd_same)
  moreover obtain f w3 where f: "mg_FindOne M c (ID j) w1 = (f, w3)" by fastforce
  moreover have "\<exists>d'. f = Inr (Some d') \<and> k = doc_job d'"
    using assms(4) f by (auto simp: mongo_Get_def chks_def pure_res_def split: sum.splits option.splits)
  ultimately have "k = stored_job now j (doc_job d)"
    using assms(1,2) unfolding mongo_laws_def by (auto simp: doc_job_set)
  then show ?thesis by (simp add: stored_job_def)
qed

text \<open>A driver over documents in memory: jobs by id, markets in a list.\<close>

type_synonym mem_docs = "(string \<rightharpoonup> doc) \<times> doc list"

text \<open>An upsert changes the first document the filter matches or adds one with the fields of the filter.\<close>

fun upsert :: "doc \<times> doc \<Rightarrow> doc list \<Rightarrow> doc list" where
  "upsert (f, d) [] = [f ++ d]"
| "upsert (f, d) (e # es) = (if f \<subseteq>\<^sub>m e then (e ++ d) # es else e # upsert (f, d) es)"

definition demo_mongo :: "mem_docs mongo" where
  "demo_mongo = \<lparr>mg_URLPath = (\<lambda>u. Inr ''/lev''), mg_Connect = (\<lambda>u w. (Inr (), w)), mg_Ping = (\<lambda>w. (Inr (), w)),
     mg_CreateIndex = (\<lambda>c ks u w. (Inr (), w)),
     mg_UpdateByID = (\<lambda>c i d w. (Inr (), ((fst w)(i \<mapsto> set_fields i d (fst w i)), snd w))),
     mg_FindOne = (\<lambda>c i w. (Inr (fst w i), w)), mg_Find = (\<lambda>c f k n w. (Inr [], w)), mg_InsertOne = (\<lambda>c d w. (Inr (), w)),
     mg_UpdateMany = (\<lambda>c f d w. (Inr (), w)), mg_BulkWrite = (\<lambda>c ops w. (Inr (), (fst w, fold upsert ops (snd w))))\<rparr>"

lemma demo_mongo_laws: "mongo_laws demo_mongo c fst"
  by (auto simp: mongo_laws_def demo_mongo_def)

lemma demo_mongo_Get:
  "mongo_Get demo_mongo c i w = (case fst w i of None \<Rightarrow> Inl ErrJobNotFound | Some d \<Rightarrow> Inr (doc_job d), w)"
  by (simp add: mongo_Get_def demo_mongo_def chks_def pure_res_def)

lemma demo_mongo_Save:
  "mongo_Save demo_mongo c now j w = (Inr (), ((fst w)(ID j \<mapsto> set_fields (ID j) (job_doc (j\<lparr>UpdatedAt := now\<rparr>)) (fst w (ID j))), snd w))"
  by (simp add: mongo_Save_def demo_mongo_def)

theorem mongo_save_then_get_witness:
  "\<exists>k. fst (mongo_Get demo_mongo (''db'', ''c'') (ID demo_job) (snd (mongo_Save demo_mongo (''db'', ''c'') 7 demo_job (Map.empty, [])))) = Inr k \<and>
     SealK k = SealK demo_job"
proof -
  let ?w = "(Map.empty, []) :: mem_docs"
  obtain w1 where s: "mongo_Save demo_mongo (''db'', ''c'') 7 demo_job ?w = (Inr (), w1)" by (simp add: demo_mongo_Save)
  have f: "mg_FindOne demo_mongo (''db'', ''c'') (ID demo_job) w1 = (Inr (fst w1 (ID demo_job)), w1)" by (simp add: demo_mongo_def)
  from mongo_save_then_get [OF demo_mongo_laws s f] show ?thesis using s by (auto simp: custody_def)
qed

definition failed_job :: job where "failed_job = demo_job\<lparr>Status := StatusFailed, Error := errm ''borrow: boom''\<rparr>"

theorem mongo_keeps_cleared_fields_witness:
  "\<exists>w1 k. mongo_Save demo_mongo (''db'', ''c'') 9 (failed_job\<lparr>Status := StatusRunning, Error := errm []\<rparr>)
       (snd (mongo_Save demo_mongo (''db'', ''c'') 7 failed_job (Map.empty, []))) = (Inr (), w1) \<and>
     mongo_Get demo_mongo (''db'', ''c'') (ID demo_job) w1 = (Inr k, w1) \<and> Error k = errm ''borrow: boom''"
proof -
  let ?w = "snd (mongo_Save demo_mongo (''db'', ''c'') 7 failed_job (Map.empty, []))"
  let ?j = "failed_job\<lparr>Status := StatusRunning, Error := errm []\<rparr>"
  let ?d = "set_fields (ID failed_job) (job_doc (failed_job\<lparr>UpdatedAt := 7\<rparr>)) None"
  obtain w1 where s: "mongo_Save demo_mongo (''db'', ''c'') 9 ?j ?w = (Inr (), w1)" by (simp add: demo_mongo_Save)
  have d: "fst ?w (ID ?j) = Some ?d" by (simp add: demo_mongo_Save)
  obtain k where g: "mongo_Get demo_mongo (''db'', ''c'') (ID ?j) w1 = (Inr k, w1)"
    using s unfolding demo_mongo_Save demo_mongo_Get by auto
  have "Error (doc_job ?d) = errm ''borrow: boom''"
    unfolding doc_job_set by (simp add: stored_job_def failed_job_def)
  then show ?thesis using mongo_keeps_cleared_fields [OF demo_mongo_laws d s g] s g by (auto simp: failed_job_def)
qed

section \<open>What the markets become\<close>

text \<open>What the driver documents of an unordered bulk write: the upserts are all made, in some order.\<close>

definition bulk_laws :: "'w mongo \<Rightarrow> coll \<Rightarrow> ('w \<Rightarrow> doc list) \<Rightarrow> bool" where
  "bulk_laws M c docs \<longleftrightarrow>
     (\<forall>ops w w'. mg_BulkWrite M c ops w = (Inr (), w') \<longrightarrow> (\<exists>qs. mset qs = mset ops \<and> docs w' = fold upsert qs (docs w)))"

lemma market_doc_key: "market_filter m \<subseteq>\<^sub>m market_doc now m"
  by (simp add: map_le_def market_filter_def market_doc_def market_fields_def json_bval_def)

lemma market_filter_iff: "market_filter m \<subseteq>\<^sub>m d \<longleftrightarrow> d ''source'' = Some (BStr (m_Source m)) \<and> d ''poolId'' = Some (BStr (m_PoolID m))"
  by (auto simp: map_le_def market_filter_def)

lemma upsert_key:
  assumes "market_filter m \<subseteq>\<^sub>m e"
  shows "market_filter m \<subseteq>\<^sub>m e ++ market_doc now m"
  using market_doc_key [of m now] by (simp add: market_filter_iff map_add_def)

text \<open>One upsert leaves every key it is not about as it was and its own key with one document.\<close>

definition having :: "market \<Rightarrow> doc list \<Rightarrow> doc list" where
  "having m ds = filter (\<lambda>d. market_filter m \<subseteq>\<^sub>m d) ds"

lemma same_filter: "market_filter m \<subseteq>\<^sub>m d \<Longrightarrow> market_filter m' \<subseteq>\<^sub>m d \<Longrightarrow> market_filter m' = market_filter m"
  unfolding market_filter_iff by (simp add: market_filter_def)

lemma having_upsert:
  "having m (upsert (write_of now m') ds) =
     (if market_filter m' = market_filter m
      then (case having m ds of [] \<Rightarrow> [market_filter m ++ market_doc now m'] | e # es \<Rightarrow> (e ++ market_doc now m') # es)
      else having m ds)"
proof (induction ds)
  case Nil
  have "market_filter m \<subseteq>\<^sub>m market_filter m' ++ market_doc now m' \<longleftrightarrow> market_filter m' = market_filter m"
    using upsert_key [of m' "market_filter m'" now] same_filter by (metis map_le_refl)
  then show ?case by (auto simp: having_def write_of_def)
next
  case (Cons e es)
  have "market_filter m \<subseteq>\<^sub>m e ++ market_doc now m' \<longleftrightarrow> market_filter m' = market_filter m" if "market_filter m' \<subseteq>\<^sub>m e"
    using upsert_key [OF that, of now] same_filter by metis
  moreover have "market_filter m \<subseteq>\<^sub>m e \<longleftrightarrow> market_filter m' = market_filter m" if "market_filter m' \<subseteq>\<^sub>m e"
    using that same_filter by metis
  ultimately show ?case using Cons by (auto simp: having_def write_of_def)
qed

text \<open>After upserts of markets of \<open>ms\<close> there is at most one document of a key, and if a market of the key was among
  them, the document is that of such a market.\<close>

definition kept_one :: "int \<Rightarrow> market list \<Rightarrow> market \<Rightarrow> doc list \<Rightarrow> bool" where
  "kept_one now ms m ds \<longleftrightarrow> (\<exists>d. having m ds = [d] \<and>
     (\<exists>m' \<in> set ms. market_filter m' = market_filter m \<and> market_doc now m' \<subseteq>\<^sub>m d))"

lemma kept_one_upsert:
  assumes "m' \<in> set ms" and "length (having m ds) \<le> 1"
    and "market_filter m' = market_filter m \<or> kept_one now ms m ds"
  shows "kept_one now ms m (upsert (write_of now m') ds)"
  using assms by (auto simp: kept_one_def having_upsert le_Suc_eq length_Suc_conv map_le_map_add split: list.split)

lemma kept_one_fold:
  assumes "\<forall>q \<in> set qs. \<exists>m' \<in> set ms. q = write_of now m'" and "length (having m ds) \<le> 1"
  shows "length (having m (fold upsert qs ds)) \<le> 1 \<and>
    (write_of now m \<in> set qs \<or> kept_one now ms m ds \<longrightarrow> kept_one now ms m (fold upsert qs ds))"
  using assms
proof (induction qs arbitrary: ds)
  case (Cons q qs)
  then obtain m' where m': "m' \<in> set ms" "q = write_of now m'" by auto
  have "length (having m (upsert q ds)) \<le> 1"
    using Cons.prems(2) by (auto simp: m'(2) having_upsert split: list.split)
  from Cons.IH [OF _ this] Cons.prems have IH: "length (having m (fold upsert (q # qs) ds)) \<le> 1 \<and>
    (write_of now m \<in> set qs \<or> kept_one now ms m (upsert q ds) \<longrightarrow> kept_one now ms m (fold upsert (q # qs) ds))" by simp
  moreover have "kept_one now ms m (upsert q ds)" if "q = write_of now m \<or> kept_one now ms m ds"
    using kept_one_upsert [OF m'(1) Cons.prems(2)] that m'(2) by (auto simp: write_of_def)
  ultimately show ?case by auto
qed simp

lemma PersistMarkets_Inr:
  assumes "bulk_laws M c docs" and "PersistMarkets M c now x source ms w = (Inr (), w')" and "ms \<noteq> []"
  obtains qs where "mset qs = mset (map (write_of (now w)) ms)" "docs w' = fold upsert qs (docs w)"
    "\<forall>m \<in> set ms. list_all finite_f64 (market_floats m)"
proof -
  have fin: "\<forall>m \<in> set ms. list_all finite_f64 (market_floats m)"
    and "mg_BulkWrite M c (map (write_of (now w)) ms) w = (Inr (), w')"
    using assms(2,3) by (auto simp: PersistMarkets_def list_all_iff split: if_splits)
  then show ?thesis using assms(1) that unfolding bulk_laws_def by metis
qed

lemma persist_keeps_one:
  assumes "bulk_laws M c docs" and "PersistMarkets M c now x source ms w = (Inr (), w')" and "m \<in> set ms"
    and "length (having m (docs w)) \<le> 1"
  shows "kept_one (now w) ms m (docs w')"
proof -
  have "ms \<noteq> []" using assms(3) by auto
  then obtain qs where q: "mset qs = mset (map (write_of (now w)) ms)" "docs w' = fold upsert qs (docs w)"
    using PersistMarkets_Inr [OF assms(1,2)] by metis
  then have "set qs = write_of (now w) ` set ms" by (metis set_map set_mset_mset)
  then show ?thesis
    unfolding q(2) using kept_one_fold [of qs ms "now w" m "docs w"] assms(3,4) by blast
qed

text \<open>Persisting keeps one document per source and pool: where there was at most one there is at most one after
  a successful write, and each market written has one that holds its fields or those of another market of
  the same source and pool in the same batch, in whatever order the batch is carried out.\<close>

theorem persist_one_per_pool:
  assumes "bulk_laws M c docs" and "PersistMarkets M c now x source ms w = (Inr (), w')" and "m \<in> set ms"
    and "length (having m (docs w)) \<le> 1"
  shows "\<exists>d. having m (docs w') = [d] \<and> (\<exists>m' \<in> set ms. m_Source m' = m_Source m \<and> m_PoolID m' = m_PoolID m \<and> market_doc (now w) m' \<subseteq>\<^sub>m d)"
proof -
  have "kept_one (now w) ms m (docs w')" by (rule persist_keeps_one [OF assms])
  moreover have "m_Source m' = m_Source m \<and> m_PoolID m' = m_PoolID m" if "market_filter m' = market_filter m" for m'
    using that market_filter_iff [of m' "market_filter m"] by (auto simp: market_filter_def)
  ultimately show ?thesis unfolding kept_one_def by blast
qed

lemma js_float_inj: "finite_f64 x \<Longrightarrow> finite_f64 y \<Longrightarrow> js_float x = js_float y \<Longrightarrow> x = y"
  by (auto simp: js_float_def finite_f64_def split: f64.splits if_splits)

lemma market_doc_ltv: "market_doc now m ''ltv'' = Some (json_bval (js_float (m_LTV m)))"
  by (simp add: market_doc_def market_fields_def omit_str_def omit_float_def)

lemma ltv_in_floats: "m_LTV m \<in> set (market_floats m)"
  by (simp add: market_floats_def)

lemma json_bval_inj: "json_bval v = json_bval v' \<Longrightarrow> v = v'"
  by (auto simp: json_bval_def split: json.splits)

text \<open>C35. Surf's collaterals overwrite each other in Mongo: where a pool takes two collaterals with different
  loan-to-value, its rows have one source and one pool id, and after they were all written some row of them is
  in no document (the package comment says that every returned market is upserted).\<close>

theorem persist_loses_collaterals:
  assumes "bulk_laws M c docs" and "PersistMarkets M c now x source (pool_rows base usd (ref, p)) w = (Inr (), w')"
    and "c1 \<in> set (sp_CollateralAssets p)" and "c2 \<in> set (sp_CollateralAssets p)"
    and "co_MaxBorrowLTV c1 \<noteq> co_MaxBorrowLTV c2" and "\<And>m. length (having m (docs w)) \<le> 1"
  shows "\<exists>row \<in> set (pool_rows base usd (ref, p)). \<forall>d \<in> set (docs w'). \<not> market_doc (now w) row \<subseteq>\<^sub>m d"
proof (rule ccontr)
  let ?row = "collateral_row base usd ref p" and ?ms = "pool_rows base usd (ref, p)"
  have rows: "?row c1 \<in> set ?ms" "?row c2 \<in> set ?ms" using assms(3,4) by (auto simp: pool_rows_def)
  then have ne: "?ms \<noteq> []" by auto
  have fin: "finite_f64 (m_LTV (?row c1))" "finite_f64 (m_LTV (?row c2))"
    using PersistMarkets_Inr [OF assms(1,2) ne] rows by (metis list_all_iff ltv_in_floats)+
  have same: "market_filter (?row c2) = market_filter (?row c1)"
    by (simp add: market_filter_def collateral_row_def pool_row_def Let_def)
  obtain d where d: "having (?row c1) (docs w') = [d]"
    using persist_keeps_one [OF assms(1,2) rows(1) assms(6)] by (auto simp: kept_one_def)
  assume "\<not> ?thesis"
  then obtain d1 d2 where d12: "d1 \<in> set (docs w')" "market_doc (now w) (?row c1) \<subseteq>\<^sub>m d1"
      "d2 \<in> set (docs w')" "market_doc (now w) (?row c2) \<subseteq>\<^sub>m d2" using rows by blast
  then have "market_filter (?row c1) \<subseteq>\<^sub>m d1" "market_filter (?row c1) \<subseteq>\<^sub>m d2"
    using market_doc_key map_le_trans same by metis+
  then have "d1 \<in> set (having (?row c1) (docs w'))" "d2 \<in> set (having (?row c1) (docs w'))"
    using d12(1,3) by (simp_all add: having_def)
  then have "d1 = d" "d2 = d" using d by simp_all
  then have "d ''ltv'' = Some (json_bval (js_float (m_LTV (?row c1))))" "d ''ltv'' = Some (json_bval (js_float (m_LTV (?row c2))))"
    using d12 market_doc_ltv by (metis domI map_le_def)+
  then have "m_LTV (?row c1) = m_LTV (?row c2)" using js_float_inj [OF fin] json_bval_inj by auto
  then show False using assms(5) by (simp add: collateral_row_def)
qed

definition demo_collateral :: "f64 \<Rightarrow> surfCollateral" where
  "demo_collateral x = \<lparr>co_Asset = \<lparr>sa_Ticker = ''A'', sa_PolicyID = [], sa_AssetName = [], sa_Decimals = 0\<rparr>, co_Price = 0,
     co_MaxBorrowLTV = x, co_RecommendedBorrowLTV = 0, co_LiquidationThresholdLTV = 0\<rparr>"

definition demo_pool2 :: surfPool where
  "demo_pool2 = \<lparr>sp_Asset = \<lparr>sa_Ticker = ''B'', sa_PolicyID = [], sa_AssetName = [], sa_Decimals = 0\<rparr>, sp_Price = 0,
     sp_CollateralAssets = [demo_collateral 0, demo_collateral 1], sp_MaxBorrowLTV = 0, sp_LiquidationThresholdLTV = 0,
     sp_TotalSupplied = 0, sp_TotalBorrowed = 0, sp_TotalCToken = 0, sp_Reserve = 0, sp_SupplyAPY = 0, sp_BorrowAPR = 0,
     sp_CToken_PolicyID = [], sp_CToken_AssetName = []\<rparr>"

lemma demo_pool2_finite: "list_all (\<lambda>m. list_all finite_f64 (market_floats m)) (pool_rows [] 0 (''p'', demo_pool2))"
  by code_simp

lemma demo_bulk_laws: "bulk_laws demo_mongo c snd"
  by (auto simp: bulk_laws_def demo_mongo_def)

lemma demo_persist:
  "PersistMarkets demo_mongo c (\<lambda>w. 7) x src (pool_rows [] 0 (''p'', demo_pool2)) (Map.empty, []) =
     (Inr (), (Map.empty, fold upsert (map (write_of 7) (pool_rows [] 0 (''p'', demo_pool2))) []))"
proof -
  have "pool_rows [] 0 (''p'', demo_pool2) \<noteq> []" by (simp add: pool_rows_def demo_pool2_def)
  then show ?thesis using demo_pool2_finite by (simp add: PersistMarkets_def demo_mongo_def)
qed

theorem persist_one_per_pool_witness:
  "\<exists>d. having (hd (pool_rows [] 0 (''p'', demo_pool2))) (snd (snd
     (PersistMarkets demo_mongo (''db'', ''m'') (\<lambda>w. 7) Background ''surf'' (pool_rows [] 0 (''p'', demo_pool2)) (Map.empty, [])))) = [d]"
proof -
  have "hd (pool_rows [] 0 (''p'', demo_pool2)) \<in> set (pool_rows [] 0 (''p'', demo_pool2))"
    by (simp add: pool_rows_def demo_pool2_def)
  from persist_one_per_pool [OF demo_bulk_laws demo_persist this] show ?thesis
    unfolding demo_persist by (auto simp: having_def)
qed

theorem persist_loses_collaterals_witness:
  "\<exists>row \<in> set (pool_rows [] 0 (''p'', demo_pool2)). \<forall>d \<in> set (snd (snd
     (PersistMarkets demo_mongo (''db'', ''m'') (\<lambda>w. 7) Background ''surf'' (pool_rows [] 0 (''p'', demo_pool2)) (Map.empty, [])))).
     \<not> market_doc 7 row \<subseteq>\<^sub>m d"
proof -
  have c: "demo_collateral 0 \<in> set (sp_CollateralAssets demo_pool2)" "demo_collateral 1 \<in> set (sp_CollateralAssets demo_pool2)"
    "co_MaxBorrowLTV (demo_collateral 0) \<noteq> co_MaxBorrowLTV (demo_collateral 1)"
    by (simp_all add: demo_pool2_def demo_collateral_def)
  show ?thesis
    unfolding demo_persist using persist_loses_collaterals [OF demo_bulk_laws demo_persist c]
    by (simp add: having_def)
qed

end
