(* ===== verification/Dexhunter.thy ===== *)
theory Dexhunter
  imports Market_Json Strike_Client Health
begin

text \<open>
  The DexHunter SDK (\<open>common/dexhunter-sdk\<close>): the client with its one transport function, the bodies of the
  requests and the values of the responses with their JSON field names, the endpoints, and the client as
  the engine uses it. The HTTP transport and the JSON text are the parameters of \<open>Go_Http\<close>; logging is left out.
\<close>

section \<open>Client\<close>

definition dh_DefaultBase :: string where "dh_DefaultBase = ''https://api-us.dexhunterv3.app''"
definition DefaultChartsBase :: string where "DefaultChartsBase = ''https://charts.dhapi.io''"
definition partnerHeader :: string where "partnerHeader = ''X-Partner-Id''"

record 'w dexhunter =
  dh_base :: string
  dh_chartsBase :: string
  dh_partnerID :: string
  dh_http :: "'w http"

definition NewDexhunter :: "'w http \<Rightarrow> string \<Rightarrow> 'w dexhunter" where
  "NewDexhunter h partnerID =
     \<lparr>dh_base = dh_DefaultBase, dh_chartsBase = DefaultChartsBase, dh_partnerID = partnerID, dh_http = h\<rparr>"

definition dh_WithBase :: "string \<Rightarrow> 'w dexhunter \<Rightarrow> 'w dexhunter" where
  "dh_WithBase u c = c\<lparr>dh_base := u\<rparr>"

definition dh_WithChartsBase :: "string \<Rightarrow> 'w dexhunter \<Rightarrow> 'w dexhunter" where
  "dh_WithChartsBase u c = c\<lparr>dh_chartsBase := u\<rparr>"

definition dh_WithHTTPClient :: "'w http \<Rightarrow> 'w dexhunter \<Rightarrow> 'w dexhunter" where
  "dh_WithHTTPClient h c = c\<lparr>dh_http := h\<rparr>"

definition APIError :: "int \<Rightarrow> string \<Rightarrow> string \<Rightarrow> msg" where
  "APIError status resp u = Fmt ''dexhunter: %s -> %d: %s'' [AS u, AI status, AS resp]"

text \<open>A request body: its fields, and the floats that must be finite for \<open>json.Marshal\<close> to succeed.\<close>

type_synonym dh_body = "f64 list \<times> fields"

definition dh_do ::
  "'w dexhunter \<Rightarrow> gctx \<Rightarrow> http_method \<Rightarrow> string \<Rightarrow> string \<Rightarrow> dh_body option \<Rightarrow> jtype \<Rightarrow> (json \<Rightarrow> 'a) \<Rightarrow> 'w \<Rightarrow> 'a res \<times> 'w" where
  "dh_do c x method base path rbody t rd =
     (let h = dh_http c; u = base @ path in
      if (case rbody of None \<Rightarrow> False | Some (fl, fs) \<Rightarrow> \<not> list_all finite_f64 fl)
      then pure_res (Inl (wrap ''marshal request: %w'' unsupported))
      else send h x \<lparr>rq_Method = method, rq_URL = u,
             rq_Headers = json_accept @ (if rbody = None then [] else [(''Content-Type'', ''application/json'')]) @
               (if dh_partnerID c = [] then [] else [(partnerHeader, dh_partnerID c)]),
             rq_Body = (case rbody of None \<Rightarrow> [] | Some (fl, fs) \<Rightarrow> ht_Text h (js_struct fs))\<rparr>
           (wrap ''request: %w'') (\<lambda>(code, resp). pure_res (
             if code < 200 \<or> 300 \<le> code then Inl (APIError code resp u)
             else if resp = [] then Inr (rd JNull)
             else chk (unmarshal h t rd resp) (wrap ''decode response: %w'') Inr)))"

section \<open>Requests and responses\<close>

definition js_strs :: "string list \<Rightarrow> json" where "js_strs xs = JArr (map JStr xs)"
definition omit_strs :: "string list \<Rightarrow> json option" where "omit_strs xs = (if xs = [] then None else Some (js_strs xs))"
definition omit_bool :: "bool \<Rightarrow> json option" where "omit_bool b = (if b then Some (JBool True) else None)"
definition rd_strs :: "json \<Rightarrow> string list" where "rd_strs j = map jstr (jlist j)"

definition fstr :: "string \<Rightarrow> json \<Rightarrow> string" where "fstr k j = jstr (jget k j)"
definition ffloat :: "string \<Rightarrow> json \<Rightarrow> f64" where "ffloat k j = jfloat (jget k j)"
definition fint :: "string \<Rightarrow> json \<Rightarrow> int" where "fint k j = jint (jget k j)"

record dh_split =
  ds_AmountIn :: f64
  ds_ExpectedOut :: f64
  ds_PoolID :: string
  ds_DexName :: string
  ds_PriceImpact :: f64
  ds_BatcherFee :: f64
  ds_DepositAmount :: f64

definition ty_split :: jtype where
  "ty_split = TObj [(''amount_in'', TFloat), (''expected_output'', TFloat), (''pool_id'', TStr), (''dex'', TStr),
     (''price_impact'', TFloat), (''batcher_fee'', TFloat), (''deposit'', TFloat)]"

definition rd_split :: "json \<Rightarrow> dh_split" where
  "rd_split j = \<lparr>ds_AmountIn = ffloat ''amount_in'' j, ds_ExpectedOut = ffloat ''expected_output'' j, ds_PoolID = fstr ''pool_id'' j,
     ds_DexName = fstr ''dex'' j, ds_PriceImpact = ffloat ''price_impact'' j, ds_BatcherFee = ffloat ''batcher_fee'' j,
     ds_DepositAmount = ffloat ''deposit'' j\<rparr>"

definition rd_splits :: "json \<Rightarrow> dh_split list" where "rd_splits j = map rd_split (jlist (jget ''splits'' j))"

record dh_fees =
  fe_BatcherFee :: f64
  fe_DepositFee :: f64
  fe_PartnerFee :: f64
  fe_FrontendFee :: f64
  fe_NetworkFee :: f64

definition ty_fees :: jtype where
  "ty_fees = TObj [(''batcher_fee'', TFloat), (''deposit_fee'', TFloat), (''partner_fee'', TFloat), (''frontend_fee'', TFloat),
     (''network_fee'', TFloat)]"

definition rd_fees :: "json \<Rightarrow> dh_fees" where
  "rd_fees j = (let f = jget ''fees'' j in
     \<lparr>fe_BatcherFee = ffloat ''batcher_fee'' f, fe_DepositFee = ffloat ''deposit_fee'' f, fe_PartnerFee = ffloat ''partner_fee'' f,
      fe_FrontendFee = ffloat ''frontend_fee'' f, fe_NetworkFee = ffloat ''network_fee'' f\<rparr>)"

subsection \<open>Swaps\<close>

record estimate_request =
  eq_AmountIn :: f64
  eq_TokenIn :: string
  eq_TokenOut :: string
  eq_Slippage :: f64
  eq_BlacklistedDexes :: "string list"
  eq_SinglePreferredDex :: string

definition js_estimate :: "estimate_request \<Rightarrow> dh_body" where
  "js_estimate r = ([eq_AmountIn r, eq_Slippage r],
     [(''amount_in'', Some (js_float (eq_AmountIn r))), (''token_in'', Some (JStr (eq_TokenIn r))),
      (''token_out'', Some (JStr (eq_TokenOut r))), (''slippage'', Some (js_float (eq_Slippage r))),
      (''blacklisted_dexes'', omit_strs (eq_BlacklistedDexes r)), (''single_preferred_dex'', omit_str (eq_SinglePreferredDex r))])"

record estimate_response =
  es_TotalInput :: f64
  es_TotalOutput :: f64
  es_NetPrice :: f64
  es_NetPriceReverse :: f64
  es_PriceImpact :: f64
  es_Fees :: dh_fees
  es_Splits :: "dh_split list"
  es_PossibleRoutes :: "json option"

definition ty_estimate :: jtype where
  "ty_estimate = TObj [(''total_input'', TFloat), (''total_output'', TFloat), (''net_price'', TFloat), (''net_price_reverse'', TFloat),
     (''price_impact'', TFloat), (''fees'', ty_fees), (''splits'', TArr ty_split), (''possible_routes'', TRaw)]"

definition rd_estimate :: "json \<Rightarrow> estimate_response" where
  "rd_estimate j = \<lparr>es_TotalInput = ffloat ''total_input'' j, es_TotalOutput = ffloat ''total_output'' j,
     es_NetPrice = ffloat ''net_price'' j, es_NetPriceReverse = ffloat ''net_price_reverse'' j, es_PriceImpact = ffloat ''price_impact'' j,
     es_Fees = rd_fees j, es_Splits = rd_splits j, es_PossibleRoutes = jraw ''possible_routes'' j\<rparr>"

record reverse_request =
  rv_AmountOut :: f64
  rv_TokenIn :: string
  rv_TokenOut :: string
  rv_Slippage :: f64
  rv_BlacklistedDexes :: "string list"
  rv_BuyerAddress :: string

definition js_reverse :: "reverse_request \<Rightarrow> dh_body" where
  "js_reverse r = ([rv_AmountOut r, rv_Slippage r],
     [(''amount_out'', Some (js_float (rv_AmountOut r))), (''token_in'', Some (JStr (rv_TokenIn r))),
      (''token_out'', Some (JStr (rv_TokenOut r))), (''slippage'', Some (js_float (rv_Slippage r))),
      (''blacklisted_dexes'', omit_strs (rv_BlacklistedDexes r)), (''buyer_address'', omit_str (rv_BuyerAddress r))])"

record reverse_response =
  rr_TotalInput :: f64
  rr_TotalOutput :: f64
  rr_PriceAB :: f64
  rr_PriceBA :: f64
  rr_Splits :: "dh_split list"

definition ty_reverse :: jtype where
  "ty_reverse = TObj [(''total_input'', TFloat), (''total_output'', TFloat), (''price_ab'', TFloat), (''price_ba'', TFloat),
     (''splits'', TArr ty_split)]"

definition rd_reverse :: "json \<Rightarrow> reverse_response" where
  "rd_reverse j = \<lparr>rr_TotalInput = ffloat ''total_input'' j, rr_TotalOutput = ffloat ''total_output'' j,
     rr_PriceAB = ffloat ''price_ab'' j, rr_PriceBA = ffloat ''price_ba'' j, rr_Splits = rd_splits j\<rparr>"

record dh_swap_request = swap_request +
  sw_BlacklistedDexes :: "string list"

definition js_swap :: "dh_swap_request \<Rightarrow> dh_body" where
  "js_swap r = ([sw_AmountIn r, sw_Slippage r],
     [(''amount_in'', Some (js_float (sw_AmountIn r))), (''token_in'', Some (JStr (sw_TokenIn r))),
      (''token_out'', Some (JStr (sw_TokenOut r))), (''buyer_address'', Some (JStr (sw_BuyerAddress r))),
      (''slippage'', Some (js_float (sw_Slippage r))), (''inputs'', omit_strs (sw_Inputs r)),
      (''blacklisted_dexes'', omit_strs (sw_BlacklistedDexes r))])"

record swap_response =
  sr_CBOR :: string
  sr_TotalInput :: f64
  sr_TotalOutput :: f64
  sr_Fees :: dh_fees
  sr_Splits :: "dh_split list"
  sr_PossibleRoutes :: "json option"
  sr_Communications :: "string list"

definition ty_swap :: jtype where
  "ty_swap = TObj [(''cbor'', TStr), (''total_input'', TFloat), (''total_output'', TFloat), (''fees'', ty_fees),
     (''splits'', TArr ty_split), (''possible_routes'', TRaw), (''communications'', TArr TStr)]"

definition rd_swap :: "json \<Rightarrow> swap_response" where
  "rd_swap j = \<lparr>sr_CBOR = fstr ''cbor'' j, sr_TotalInput = ffloat ''total_input'' j, sr_TotalOutput = ffloat ''total_output'' j,
     sr_Fees = rd_fees j, sr_Splits = rd_splits j, sr_PossibleRoutes = jraw ''possible_routes'' j,
     sr_Communications = rd_strs (jget ''communications'' j)\<rparr>"

record sign_request =
  sg_TxCBOR :: string
  sg_Signatures :: string

definition js_sign :: "sign_request \<Rightarrow> dh_body" where
  "js_sign r = ([], [(''txCbor'', Some (JStr (sg_TxCBOR r))), (''Signatures'', Some (JStr (sg_Signatures r)))])"

record sign_response =
  sn_CBOR :: string
  sn_StratID :: string

definition ty_sign :: jtype where "ty_sign = TObj [(''cbor'', TStr), (''strat_id'', TStr)]"

definition rd_sign :: "json \<Rightarrow> sign_response" where
  "rd_sign j = \<lparr>sn_CBOR = fstr ''cbor'' j, sn_StratID = fstr ''strat_id'' j\<rparr>"

record cancel_request =
  cq_Address :: string
  cq_OrderID :: string

definition js_cancel :: "cancel_request \<Rightarrow> dh_body" where
  "js_cancel r = ([], [(''address'', Some (JStr (cq_Address r))), (''order_id'', Some (JStr (cq_OrderID r)))])"

record cancel_response =
  cn_CBOR :: string
  cn_AdditionalCancellationFee :: f64

definition ty_cancel :: jtype where "ty_cancel = TObj [(''cbor'', TStr), (''additional_cancellation_fee'', TFloat)]"

definition rd_cancel :: "json \<Rightarrow> cancel_response" where
  "rd_cancel j = \<lparr>cn_CBOR = fstr ''cbor'' j, cn_AdditionalCancellationFee = ffloat ''additional_cancellation_fee'' j\<rparr>"

subsection \<open>Limit orders, order history and wallets\<close>

record limit_request =
  lo_AmountIn :: f64
  lo_WantedPrice :: f64
  lo_TokenIn :: string
  lo_TokenOut :: string
  lo_BuyerAddress :: string
  lo_Dex :: string
  lo_Multiples :: int
  lo_BlacklistedDexes :: "string list"

definition js_limit :: "limit_request \<Rightarrow> dh_body" where
  "js_limit r = ([lo_AmountIn r, lo_WantedPrice r],
     [(''amount_in'', Some (js_float (lo_AmountIn r))), (''wanted_price'', Some (js_float (lo_WantedPrice r))),
      (''token_in'', Some (JStr (lo_TokenIn r))), (''token_out'', Some (JStr (lo_TokenOut r))),
      (''buyer_address'', Some (JStr (lo_BuyerAddress r))), (''dex'', omit_str (lo_Dex r)),
      (''multiples'', omit_int (lo_Multiples r)), (''blacklisted_dexes'', omit_strs (lo_BlacklistedDexes r))])"

record limit_response =
  lr_CBOR :: string
  lr_TotalInput :: f64
  lr_TotalOutput :: f64
  lr_Fees :: dh_fees
  lr_Splits :: "dh_split list"
  lr_PossibleRoutes :: "json option"

definition ty_limit :: jtype where
  "ty_limit = TObj [(''cbor'', TStr), (''total_input'', TFloat), (''total_output'', TFloat), (''fees'', ty_fees),
     (''splits'', TArr ty_split), (''possible_routes'', TRaw)]"

definition rd_limit :: "json \<Rightarrow> limit_response" where
  "rd_limit j = \<lparr>lr_CBOR = fstr ''cbor'' j, lr_TotalInput = ffloat ''total_input'' j, lr_TotalOutput = ffloat ''total_output'' j,
     lr_Fees = rd_fees j, lr_Splits = rd_splits j, lr_PossibleRoutes = jraw ''possible_routes'' j\<rparr>"

record dh_order =
  do_OrderID :: string
  do_Status :: string
  do_TokenIn :: string
  do_TokenOut :: string
  do_AmountIn :: f64
  do_AmountOut :: f64
  do_Dex :: string
  do_TxHash :: string
  do_CreatedAt :: int
  do_UpdatedAt :: int
  do_OrderType :: string

definition ty_dh_order :: jtype where
  "ty_dh_order = TObj [(''order_id'', TStr), (''status'', TStr), (''token_in'', TStr), (''token_out'', TStr), (''amount_in'', TFloat),
     (''amount_out'', TFloat), (''dex'', TStr), (''tx_hash'', TStr), (''created_at'', TInt), (''updated_at'', TInt),
     (''order_type'', TStr)]"

definition rd_dh_order :: "json \<Rightarrow> dh_order" where
  "rd_dh_order j = \<lparr>do_OrderID = fstr ''order_id'' j, do_Status = fstr ''status'' j, do_TokenIn = fstr ''token_in'' j,
     do_TokenOut = fstr ''token_out'' j, do_AmountIn = ffloat ''amount_in'' j, do_AmountOut = ffloat ''amount_out'' j,
     do_Dex = fstr ''dex'' j, do_TxHash = fstr ''tx_hash'' j, do_CreatedAt = fint ''created_at'' j, do_UpdatedAt = fint ''updated_at'' j,
     do_OrderType = fstr ''order_type'' j\<rparr>"

text \<open>No address gives the nil slice, which is written as null.\<close>

definition js_wallet :: "string list \<Rightarrow> dh_body" where
  "js_wallet addresses = ([], [(''addresses'', Some (if addresses = [] then JNull else js_strs addresses))])"

record wallet_token =
  wt_PolicyID :: string
  wt_AssetName :: string
  wt_Ticker :: string
  wt_Amount :: f64
  wt_ValueADA :: f64
  wt_ValueUSD :: f64
  wt_Decimals :: int

definition ty_wallet_token :: jtype where
  "ty_wallet_token = TObj [(''policy_id'', TStr), (''asset_name'', TStr), (''ticker'', TStr), (''amount'', TFloat),
     (''value_ada'', TFloat), (''value_usd'', TFloat), (''decimals'', TInt)]"

definition rd_wallet_token :: "json \<Rightarrow> wallet_token" where
  "rd_wallet_token j = \<lparr>wt_PolicyID = fstr ''policy_id'' j, wt_AssetName = fstr ''asset_name'' j, wt_Ticker = fstr ''ticker'' j,
     wt_Amount = ffloat ''amount'' j, wt_ValueADA = ffloat ''value_ada'' j, wt_ValueUSD = ffloat ''value_usd'' j,
     wt_Decimals = fint ''decimals'' j\<rparr>"

record wallet_info =
  wi_CardanoBalance :: f64
  wi_Tokens :: "wallet_token list"

definition ty_wallet :: jtype where "ty_wallet = TObj [(''cardano'', TFloat), (''tokens'', TArr ty_wallet_token)]"

definition rd_wallet :: "json \<Rightarrow> wallet_info" where
  "rd_wallet j = \<lparr>wi_CardanoBalance = ffloat ''cardano'' j, wi_Tokens = map rd_wallet_token (jlist (jget ''tokens'' j))\<rparr>"

subsection \<open>Dollar-cost averaging\<close>

record dca_request =
  dc_UserAddress :: string
  dc_TokenIn :: string
  dc_TokenOut :: string
  dc_AmountIn :: f64
  dc_Cycles :: int
  dc_Interval :: int
  dc_IntervalLength :: string
  dc_DexAllowlist :: "string list"

definition js_dca :: "dca_request \<Rightarrow> dh_body" where
  "js_dca r = ([dc_AmountIn r],
     [(''user_address'', Some (JStr (dc_UserAddress r))), (''token_in'', Some (JStr (dc_TokenIn r))),
      (''token_out'', Some (JStr (dc_TokenOut r))), (''amount_in'', Some (js_float (dc_AmountIn r))),
      (''cycles'', Some (JInt (dc_Cycles r))), (''interval'', Some (JInt (dc_Interval r))),
      (''interval_length'', Some (JStr (dc_IntervalLength r))), (''dex_allowlist'', omit_strs (dc_DexAllowlist r))])"

record dca_response =
  da_DCAID :: string
  da_AmountTokenIn :: f64
  da_AmountADAIn :: f64
  da_CBOR :: string
  da_Fees :: dh_fees
  da_Deposits :: f64

definition ty_dca :: jtype where
  "ty_dca = TObj [(''dca_id'', TStr), (''amount_token_in'', TFloat), (''amount_ada_in'', TFloat), (''cbor'', TStr), (''fees'', ty_fees),
     (''deposits'', TFloat)]"

definition rd_dca :: "json \<Rightarrow> dca_response" where
  "rd_dca j = \<lparr>da_DCAID = fstr ''dca_id'' j, da_AmountTokenIn = ffloat ''amount_token_in'' j,
     da_AmountADAIn = ffloat ''amount_ada_in'' j, da_CBOR = fstr ''cbor'' j, da_Fees = rd_fees j, da_Deposits = ffloat ''deposits'' j\<rparr>"

record cancel_dca_request =
  cd_UserAddress :: string
  cd_DCAID :: string

definition js_cancel_dca :: "cancel_dca_request \<Rightarrow> dh_body" where
  "js_cancel_dca r = ([], [(''user_address'', Some (JStr (cd_UserAddress r))), (''dca_id'', Some (JStr (cd_DCAID r)))])"

record dca_order =
  dd_ID :: string
  dd_Status :: string
  dd_TokenIn :: string
  dd_TokenOut :: string
  dd_RemainingCycles :: int
  dd_NextExecutionMs :: int
  dd_LastExecutionMs :: int
  dd_AmountPerCycle :: f64

definition ty_dca_order :: jtype where
  "ty_dca_order = TObj [(''id'', TStr), (''status'', TStr), (''token_in'', TStr), (''token_out'', TStr), (''remaining_cycles'', TInt),
     (''next_execution'', TInt), (''last_execution'', TInt), (''amount_per_cycle'', TFloat)]"

definition rd_dca_order :: "json \<Rightarrow> dca_order" where
  "rd_dca_order j = \<lparr>dd_ID = fstr ''id'' j, dd_Status = fstr ''status'' j, dd_TokenIn = fstr ''token_in'' j,
     dd_TokenOut = fstr ''token_out'' j, dd_RemainingCycles = fint ''remaining_cycles'' j,
     dd_NextExecutionMs = fint ''next_execution'' j, dd_LastExecutionMs = fint ''last_execution'' j,
     dd_AmountPerCycle = ffloat ''amount_per_cycle'' j\<rparr>"

subsection \<open>Charts and markers\<close>

record chart_request =
  ch_TokenIn :: string
  ch_TokenOut :: string
  ch_Period :: string
  ch_From :: int
  ch_To :: int
  ch_IsLast :: bool

definition js_chart :: "chart_request \<Rightarrow> dh_body" where
  "js_chart r = ([], [(''tokenIn'', Some (JStr (ch_TokenIn r))), (''tokenOut'', Some (JStr (ch_TokenOut r))),
      (''period'', Some (JStr (ch_Period r))), (''from'', Some (JInt (ch_From r))), (''to'', Some (JInt (ch_To r))),
      (''isLast'', omit_bool (ch_IsLast r))])"

record candle =
  ca_Time :: int
  ca_Open :: f64
  ca_High :: f64
  ca_Low :: f64
  ca_Close :: f64
  ca_Volume :: f64

definition ty_candle :: jtype where
  "ty_candle = TObj [(''time'', TInt), (''open'', TFloat), (''high'', TFloat), (''low'', TFloat), (''close'', TFloat), (''volume'', TFloat)]"

definition rd_candle :: "json \<Rightarrow> candle" where
  "rd_candle j = \<lparr>ca_Time = fint ''time'' j, ca_Open = ffloat ''open'' j, ca_High = ffloat ''high'' j, ca_Low = ffloat ''low'' j,
     ca_Close = ffloat ''close'' j, ca_Volume = ffloat ''volume'' j\<rparr>"

definition ty_chart :: jtype where "ty_chart = TObj [(''data'', TArr ty_candle), (''period'', TStr)]"

definition rd_chart :: "json \<Rightarrow> candle list \<times> string" where
  "rd_chart j = (map rd_candle (jlist (jget ''data'' j)), fstr ''period'' j)"

datatype marker_type = MarkerLimit | MarkerStopLoss | MarkerDCA | MarkerSwap

definition marker_name :: "marker_type \<Rightarrow> string" where
  "marker_name m = (case m of MarkerLimit \<Rightarrow> ''LIMIT'' | MarkerStopLoss \<Rightarrow> ''STOP_LOSS'' | MarkerDCA \<Rightarrow> ''DCA'' | MarkerSwap \<Rightarrow> ''SWAP'')"

record marker_request =
  mr_TxHash :: string
  mr_OrderType :: marker_type
  mr_CBOR :: string

definition js_marker :: "marker_request \<Rightarrow> dh_body" where
  "js_marker r = ([], [(''tx_hash'', Some (JStr (mr_TxHash r))), (''order_type'', Some (JStr (marker_name (mr_OrderType r)))),
      (''cbor'', Some (JStr (mr_CBOR r)))])"

section \<open>Endpoints\<close>

definition EstimateSwap :: "'w dexhunter \<Rightarrow> gctx \<Rightarrow> estimate_request \<Rightarrow> 'w \<Rightarrow> estimate_response res \<times> 'w" where
  "EstimateSwap c x r = dh_do c x POST (dh_base c) ''/swap/estimate'' (Some (js_estimate r)) ty_estimate rd_estimate"

definition ReverseEstimateSwap :: "'w dexhunter \<Rightarrow> gctx \<Rightarrow> reverse_request \<Rightarrow> 'w \<Rightarrow> reverse_response res \<times> 'w" where
  "ReverseEstimateSwap c x r = dh_do c x POST (dh_base c) ''/swap/reverseEstimate'' (Some (js_reverse r)) ty_reverse rd_reverse"

definition BuildSwap :: "'w dexhunter \<Rightarrow> gctx \<Rightarrow> dh_swap_request \<Rightarrow> 'w \<Rightarrow> swap_response res \<times> 'w" where
  "BuildSwap c x r = dh_do c x POST (dh_base c) ''/swap/build'' (Some (js_swap r)) ty_swap rd_swap"

definition dh_Sign :: "'w dexhunter \<Rightarrow> gctx \<Rightarrow> sign_request \<Rightarrow> 'w \<Rightarrow> sign_response res \<times> 'w" where
  "dh_Sign c x r = dh_do c x POST (dh_base c) ''/swap/sign'' (Some (js_sign r)) ty_sign rd_sign"

definition CancelSwap :: "'w dexhunter \<Rightarrow> gctx \<Rightarrow> cancel_request \<Rightarrow> 'w \<Rightarrow> cancel_response res \<times> 'w" where
  "CancelSwap c x r = dh_do c x POST (dh_base c) ''/swap/cancel'' (Some (js_cancel r)) ty_cancel rd_cancel"

text \<open>\<open>url.PathEscape\<close>: every byte but letters, digits and nine marks is written as percent and two digits.\<close>

definition path_plain :: "char \<Rightarrow> bool" where
  "path_plain c \<longleftrightarrow> unreserved c \<or> c \<in> {CHR ''$'', CHR ''&'', CHR ''+'', CHR '':'', CHR ''='', CHR ''@''}"

definition path_escape_char :: "char \<Rightarrow> string" where
  "path_escape_char c = (if path_plain c then [c] else [CHR ''%'', upper_hex (of_char c div 16), upper_hex (of_char c mod 16)])"

definition path_escape :: "string \<Rightarrow> string" where
  "path_escape s = concat (map path_escape_char s)"

definition averagePrice_path :: "string \<Rightarrow> string \<Rightarrow> string" where
  "averagePrice_path tokenIn tokenOut = ''/swap/averagePrice/'' @ path_escape tokenIn @ ''/'' @ path_escape tokenOut"

definition AveragePrice :: "'w dexhunter \<Rightarrow> gctx \<Rightarrow> string \<Rightarrow> string \<Rightarrow> 'w \<Rightarrow> (string \<times> f64) list res \<times> 'w" where
  "AveragePrice c x tokenIn tokenOut =
     dh_do c x GET (dh_base c) (averagePrice_path tokenIn tokenOut) None (TMap TFloat) (\<lambda>j. map (map_prod id jfloat) (jmap j))"

definition Orders :: "'w dexhunter \<Rightarrow> gctx \<Rightarrow> string \<Rightarrow> 'w \<Rightarrow> dh_order list res \<times> 'w" where
  "Orders c x a = dh_do c x GET (dh_base c) (''/swap/orders/'' @ path_escape a) None (TArr ty_dh_order) (\<lambda>j. map rd_dh_order (jlist j))"

definition Wallet :: "'w dexhunter \<Rightarrow> gctx \<Rightarrow> string list \<Rightarrow> 'w \<Rightarrow> wallet_info res \<times> 'w" where
  "Wallet c x addresses = dh_do c x POST (dh_base c) ''/swap/wallet'' (Some (js_wallet addresses)) ty_wallet rd_wallet"

definition EstimateLimitOrder :: "'w dexhunter \<Rightarrow> gctx \<Rightarrow> limit_request \<Rightarrow> 'w \<Rightarrow> limit_response res \<times> 'w" where
  "EstimateLimitOrder c x r = dh_do c x POST (dh_base c) ''/swap/limitEstimate'' (Some (js_limit r)) ty_limit rd_limit"

definition BuildLimitOrder :: "'w dexhunter \<Rightarrow> gctx \<Rightarrow> limit_request \<Rightarrow> 'w \<Rightarrow> limit_response res \<times> 'w" where
  "BuildLimitOrder c x r = dh_do c x POST (dh_base c) ''/swap/limit'' (Some (js_limit r)) ty_limit rd_limit"

definition EstimateDCA :: "'w dexhunter \<Rightarrow> gctx \<Rightarrow> dca_request \<Rightarrow> 'w \<Rightarrow> dca_response res \<times> 'w" where
  "EstimateDCA c x r = dh_do c x POST (dh_base c) ''/dca/estimate'' (Some (js_dca r)) ty_dca rd_dca"

definition CreateDCA :: "'w dexhunter \<Rightarrow> gctx \<Rightarrow> dca_request \<Rightarrow> 'w \<Rightarrow> dca_response res \<times> 'w" where
  "CreateDCA c x r = dh_do c x POST (dh_base c) ''/dca/create'' (Some (js_dca r)) ty_dca rd_dca"

definition CancelDCA :: "'w dexhunter \<Rightarrow> gctx \<Rightarrow> cancel_dca_request \<Rightarrow> 'w \<Rightarrow> (string \<times> string) list res \<times> 'w" where
  "CancelDCA c x r =
     dh_do c x POST (dh_base c) ''/dca/cancel'' (Some (js_cancel_dca r)) (TMap TStr) (\<lambda>j. map (map_prod id jstr) (jmap j))"

definition ListDCA :: "'w dexhunter \<Rightarrow> gctx \<Rightarrow> string \<Rightarrow> 'w \<Rightarrow> dca_order list res \<times> 'w" where
  "ListDCA c x a = dh_do c x GET (dh_base c) (''/dca/'' @ path_escape a) None (TArr ty_dca_order) (\<lambda>j. map rd_dca_order (jlist j))"

definition Chart :: "'w dexhunter \<Rightarrow> gctx \<Rightarrow> chart_request \<Rightarrow> 'w \<Rightarrow> (candle list \<times> string) res \<times> 'w" where
  "Chart c x r = dh_do c x POST (dh_chartsBase c) ''/charts'' (Some (js_chart r)) ty_chart rd_chart"

definition SubmitMarker :: "'w dexhunter \<Rightarrow> gctx \<Rightarrow> marker_request \<Rightarrow> 'w \<Rightarrow> string res \<times> 'w" where
  "SubmitMarker c x r = dh_do c x POST (dh_base c) ''/marking/submit'' (Some (js_marker r)) TStr jstr"

section \<open>The client of the engine\<close>

text \<open>The three calls of the engine (\<open>engine.go\<close>, \<open>health.go\<close>) with the requests it fills in.\<close>

definition dex_of :: "'w dexhunter \<Rightarrow> 'w dex_client" where
  "dex_of c = \<lparr>
     dx_BuildSwap = (\<lambda>x r. chks (BuildSwap c x (swap_request.extend r \<lparr>sw_BlacklistedDexes = []\<rparr>)) id (\<lambda>a. pure_res (Inr (sr_CBOR a)))),
     dx_Sign = (\<lambda>x txCbor sigs. chks (dh_Sign c x \<lparr>sg_TxCBOR = txCbor, sg_Signatures = sigs\<rparr>) id (\<lambda>a. pure_res (Inr (sn_CBOR a)))),
     dx_EstimateSwap = (\<lambda>x amountIn tokenIn tokenOut slippage.
       chks (EstimateSwap c x \<lparr>eq_AmountIn = amountIn, eq_TokenIn = tokenIn, eq_TokenOut = tokenOut, eq_Slippage = slippage,
           eq_BlacklistedDexes = [], eq_SinglePreferredDex = []\<rparr>) id (\<lambda>a. pure_res (Inr (es_TotalOutput a))))\<rparr>"

section \<open>Path segments\<close>

text \<open>What a server reads from an escaped segment.\<close>

fun path_unescape :: "string \<Rightarrow> string" where
  "path_unescape (c # a # b # r) =
     (if c = CHR ''%'' then (case (hex_val a, hex_val b) of (Some x, Some y) \<Rightarrow> char_of (16 * x + y) # path_unescape r | _ \<Rightarrow> [])
      else c # path_unescape (a # b # r))"
| "path_unescape s = s"

lemma upper_hex_val: "n < 16 \<Longrightarrow> hex_val (upper_hex n) = Some n"
  by (auto simp: upper_hex_def hex_val_def Let_def)

lemma upper_hex_not_slash: "n < 16 \<Longrightarrow> upper_hex n \<noteq> CHR ''/''"
  using upper_hex_val [of n] by (auto simp: hex_val_def)

lemma path_plain_not: "path_plain c \<Longrightarrow> c \<noteq> CHR ''%'' \<and> c \<noteq> CHR ''/''"
proof -
  have "\<not> path_plain CHR ''%''" "\<not> path_plain CHR ''/''" by code_simp+
  then show "path_plain c \<Longrightarrow> c \<noteq> CHR ''%'' \<and> c \<noteq> CHR ''/''" by metis
qed

lemma char_hex: "16 * (of_char c div 16) + of_char c mod 16 = (of_char c :: nat)"
  by simp

lemma path_unescape_step: "path_unescape (path_escape_char c @ s) = c # path_unescape s"
proof (cases "path_plain c")
  case True
  then show ?thesis using path_plain_not [OF True]
    by (cases s; cases "tl s") (auto simp: path_escape_char_def)
next
  case False
  have "of_char c div 16 < (16 :: nat)" "of_char c mod 16 < (16 :: nat)"
    using of_char_of [of "of_char c :: nat"] by (simp_all add: less_mult_imp_div_less)
  then show ?thesis using False
    by (simp add: path_escape_char_def upper_hex_val del: mult_div_mod_eq)
qed

lemma path_unescape_escape: "path_unescape (path_escape s) = s"
proof (induction s)
  case (Cons c s)
  then show ?case using path_unescape_step [of c "path_escape s"] by (simp add: path_escape_def)
qed (simp add: path_escape_def)

lemma path_escape_slash: "CHR ''/'' \<notin> set (path_escape s)"
proof -
  have "CHR ''/'' \<notin> set (path_escape_char c)" for c
  proof -
    have "of_char c div 16 < (16 :: nat)" "of_char c mod 16 < (16 :: nat)" by (simp_all add: less_mult_imp_div_less)
    from this [THEN upper_hex_not_slash] show ?thesis
      using path_plain_not [of c] by (auto simp: path_escape_char_def eq_commute)
  qed
  then show ?thesis by (auto simp: path_escape_def)
qed

text \<open>A path names one pair of tokens: whatever characters two token ids hold, a slash, a percent sign or a
  question mark among them, the path of an average price splits at its last slash into the two segments,
  which read back as the ids, so that two requests share a path only if they are for the same tokens.\<close>

theorem averagePrice_path_reads_back:
  "\<exists>a b. averagePrice_path tokenIn tokenOut = ''/swap/averagePrice/'' @ a @ ''/'' @ b \<and> CHR ''/'' \<notin> set a \<and> CHR ''/'' \<notin> set b \<and>
     path_unescape a = tokenIn \<and> path_unescape b = tokenOut"
  unfolding averagePrice_path_def using path_escape_slash path_unescape_escape by blast

section \<open>An empty answer\<close>

lemma dh_do_silent:
  assumes "\<And>u. ht_BadURL (dh_http c) u = None" and "\<And>rq w. ht_Do (dh_http c) x rq w = (Inr (code, []), w)"
    and "200 \<le> code" and "code < 300"
  obtains r where "\<And>w. dh_do c x m base path rbody t rd w = (r, w)"
    "r = Inr (rd JNull) \<or> r = Inl (wrap ''marshal request: %w'' unsupported)"
  using assms that by (cases "case rbody of None \<Rightarrow> False | Some (fl, fs) \<Rightarrow> \<not> list_all finite_f64 fl")
    (fastforce simp: dh_do_def Let_def send_def chks_def pure_res_def)+

lemma silent_calls:
  assumes "\<And>u. ht_BadURL (dh_http c) u = None" and "\<And>rq w. ht_Do (dh_http c) x rq w = (Inr (code, []), w)"
    and "200 \<le> code" and "code < 300"
  shows "\<exists>r. (\<forall>w. dx_BuildSwap (dex_of c) x rq w = (r, w)) \<and> (is_ok r \<longrightarrow> r = Inr [])"
    and "\<exists>r. (\<forall>w. dx_Sign (dex_of c) x tc sg w = (r, w)) \<and> (is_ok r \<longrightarrow> r = Inr [])"
    and "\<exists>r. (\<forall>w. dx_EstimateSwap (dex_of c) x a ti tt sl w = (r, w)) \<and> (is_ok r \<longrightarrow> r = Inr 0)"
proof -
  have z: "sr_CBOR (rd_swap JNull) = []" "sn_CBOR (rd_sign JNull) = []" "es_TotalOutput (rd_estimate JNull) = 0"
    by (simp_all add: rd_swap_def rd_sign_def rd_estimate_def fstr_def ffloat_def)
  show "\<exists>r. (\<forall>w. dx_BuildSwap (dex_of c) x rq w = (r, w)) \<and> (is_ok r \<longrightarrow> r = Inr [])"
    by (rule dh_do_silent [OF assms, of POST "dh_base c" "''/swap/build''" "Some (js_swap (swap_request.extend rq \<lparr>sw_BlacklistedDexes = []\<rparr>))" ty_swap rd_swap])
      (auto simp: dex_of_def BuildSwap_def chks_def pure_res_def z)
  show "\<exists>r. (\<forall>w. dx_Sign (dex_of c) x tc sg w = (r, w)) \<and> (is_ok r \<longrightarrow> r = Inr [])"
    by (rule dh_do_silent [OF assms, of POST "dh_base c" "''/swap/sign''" "Some (js_sign \<lparr>sg_TxCBOR = tc, sg_Signatures = sg\<rparr>)" ty_sign rd_sign])
      (auto simp: dex_of_def dh_Sign_def chks_def pure_res_def z)
  show "\<exists>r. (\<forall>w. dx_EstimateSwap (dex_of c) x a ti tt sl w = (r, w)) \<and> (is_ok r \<longrightarrow> r = Inr 0)"
    by (rule dh_do_silent [OF assms, of POST "dh_base c" "''/swap/estimate''" "Some (js_estimate \<lparr>eq_AmountIn = a, eq_TokenIn = ti,
        eq_TokenOut = tt, eq_Slippage = sl, eq_BlacklistedDexes = [], eq_SinglePreferredDex = []\<rparr>)" ty_estimate rd_estimate])
      (auto simp: dex_of_def EstimateSwap_def chks_def pure_res_def z)
qed

text \<open>C37. An empty answer moves nothing. \<open>do\<close> takes an empty body of a 2xx answer for a success and leaves the
  response zero. With a DexHunter that answers every request so, the engine submits no swap (it ends at the
  empty CBOR at the latest, the chain and the outside world as they were), no price is taken for a token, and
  a position keeps its recorded health.\<close>

theorem empty_answer_moves_nothing:
  assumes "\<And>u. ht_BadURL (dh_http c) u = None" and "\<And>rq w. ht_Do (dh_http c) x rq w = (Inr (code, []), w)"
    and "200 \<le> code" and "code < 300" and "e_dex e = Some (dex_of c)" and "TargetUnit j \<noteq> []" and "\<not> nothing_to_value j"
  shows "\<exists>e1 e2. submit_swap e (dex_of c) x w rq s = (Inl e1, s) \<and> RefreshHealth e x j s = (Inl e2, s)"
proof -
  note silent = silent_calls [of c x code, OF assms(1-4)]
  obtain rb where b: "\<And>v. dx_BuildSwap (dex_of c) x rq v = (rb, v)" "is_ok rb \<longrightarrow> rb = Inr []" using silent(1) by blast
  have g: "\<exists>er. chks (on_env (dx_Sign (dex_of c) x tc sg)) (wrap f) (\<lambda>signed.
      if signed = [] then pure_res (Inl d) else k signed) s = (Inl er, s)" for tc sg f d k
    using silent(2) [of tc sg] by (auto simp: chks_def on_env_def pure_res_def split: sum.split)
  have "\<exists>e1. submit_swap e (dex_of c) x w rq s = (Inl e1, s)"
    using b(2) g by (cases rb; cases "WitnessSetHex (e_crypto e) w []") (simp_all add: submit_swap_def chks_def on_env_def pure_res_def b(1))
  moreover obtain r where "\<And>v. dx_EstimateSwap (dex_of c) x priceProbeAda [] (dexToken (TargetUnit j)) defaultSlippage v = (r, v)"
      "is_ok r \<longrightarrow> r = Inr 0" using silent(3) by blast
  then have "\<exists>e2. RefreshHealth e x j s = (Inl e2, s)"
    using assms(5-7) by (cases r) (simp_all add: RefreshHealth_def priceOf_def chks_def on_env_def pure_res_def)
  ultimately show ?thesis by blast
qed

definition silent_http :: "nat http" where
  "silent_http = \<lparr>ht_BadURL = (\<lambda>u. None), ht_Do = (\<lambda>x rq w. (Inr (204, []), w)), ht_Parse = (\<lambda>t. Inl typeError), ht_Text = (\<lambda>j. ''t''),
     ht_ff = (\<lambda>x. []), ht_rt = \<lparr>rt_Cancelled = (\<lambda>w. False), rt_Wait = (\<lambda>d w. ((True, 0), w))\<rparr>\<rparr>"

definition silent_dex :: "nat dexhunter" where "silent_dex = NewDexhunter silent_http ''partner''"

definition open_job :: job where
  "open_job = demo_job\<lparr>EntryPrice := Fin 1, Plan := Some \<lparr>pl_Direction = Long, InitialAmount = Fin 20, TargetLeverage = Fin 2,
     AchievedLeverage = Fin 2, LegLTV = Fin (1 / 2), Legs = [], TotalExposure = Fin 40, TotalBorrowed = Fin 20\<rparr>\<rparr>"

theorem empty_answer_moves_nothing_witness:
  "\<exists>e2. RefreshHealth (demo_engine\<lparr>e_dex := Some (dex_of silent_dex)\<rparr>) Background open_job demo_est = (Inl e2, demo_est)"
proof -
  have "ht_BadURL (dh_http silent_dex) u = None" "ht_Do (dh_http silent_dex) Background rq w = (Inr (204, []), w)" for u rq w
    by (simp_all add: silent_dex_def NewDexhunter_def silent_http_def)
  from empty_answer_moves_nothing [OF this, of "demo_engine\<lparr>e_dex := Some (dex_of silent_dex)\<rparr>" open_job] show ?thesis
    by (fastforce simp: open_job_def demo_job_def nothing_to_value_def)
qed

end
