(* ===== verification/App_Main.thy ===== *)
theory App_Main
  imports App_Config Liqwid_Client Api_Strike Redis_Cache Mongo_Store Dexhunter
begin

text \<open>
  The binary (\<open>main.go\<close>): the command line, and the wiring of \<open>runAPI\<close>, with every fallback for a backend that
  cannot be reached. What the operating system, the network, the drivers and the cryptographic libraries
  provide is the record \<open>platform\<close>; the in-memory caches live in the state of the world, at \<open>pf_markets\<close>,
  \<open>pf_orders\<close> and \<open>pf_balances\<close>. Log lines are left out.
\<close>

section \<open>Command line\<close>

definition usage_hint :: string where
  "usage_hint = ''Use '' @ [CHR 0x27] @ ''go run main.go help'' @ [CHR 0x27] @ '' to see available commands.''"

text \<open>The lines printed, and whether the API server is run.\<close>

definition main_command :: "string list \<Rightarrow> string list \<times> bool" where
  "main_command args =
     (case args of
        [] \<Rightarrow> ([''Usage: go run main.go <command>'', usage_hint], False)
      | c # _ \<Rightarrow>
          if c = ''api'' then ([], True)
          else if c = ''worker'' then ([''Starting worker...''], False)
          else if c = ''help'' then
            ([''Available commands:'', ''  api     - Start the API server (aggregates lending depth)'',
              ''  worker  - Start the worker'', ''  help    - Show this help message''], False)
          else ([''Unknown command: '' @ c, usage_hint], False))"

section \<open>Backends and their fallbacks\<close>

text \<open>A place in the world: how it is read and written.\<close>

type_synonym ('w, 'a) cell = "('w \<Rightarrow> 'a) \<times> ('a \<Rightarrow> 'w \<Rightarrow> 'w)"

record 'w platform =
  pf_http :: "'w http"
  pf_cbor :: cbor
  pf_redis :: "'w redis"
  pf_mongo :: "'w mongo"
  pf_times :: time_codec
  pf_now :: "'w \<Rightarrow> int"
  pf_markets :: "('w, market list mem_entries) cell"
  pf_orders :: "('w, order list mem_entries) cell"
  pf_balances :: "('w, balance mem_entries) cell"
  pf_chain :: "'w chain"
  pf_ChainContext :: "string \<Rightarrow> string \<Rightarrow> network \<Rightarrow> unit res"
  pf_crypto :: crypto
  pf_rt :: "'w runtime"
  pf_Finish :: "'w source list \<Rightarrow> 'w \<Rightarrow> 'w source list"
  pf_strike :: "'w strike_env"

definition mem_cache ::
  "('w, 'v mem_entries) cell \<Rightarrow> ('w \<Rightarrow> int) \<Rightarrow> (int \<Rightarrow> string \<Rightarrow> 'v mem_entries \<Rightarrow> 'v option) \<Rightarrow>
     (int \<Rightarrow> string \<Rightarrow> 'v \<Rightarrow> int \<Rightarrow> 'v mem_entries \<Rightarrow> 'v mem_entries) \<Rightarrow> ('v, 'w) cache" where
  "mem_cache l now rd wr =
     \<lparr>ca_Get = (\<lambda>c k w. (Inr (rd (now w) k (fst l w)), w)),
      ca_Set = (\<lambda>c k v ttl w. (Inr (), snd l (wr (now w) k v ttl (fst l w)) w))\<rparr>"

text \<open>\<open>x, err := dial(); if err != nil { return fallback }\<close>; the fallback starts with what \<open>start\<close> writes.\<close>

definition dial_or :: "('w \<Rightarrow> 'a res \<times> 'w) \<Rightarrow> 'a \<Rightarrow> ('w \<Rightarrow> 'w) \<Rightarrow> 'w \<Rightarrow> 'a \<times> 'w" where
  "dial_or dial instead start w = (case dial w of (Inl e, w1) \<Rightarrow> (instead, start w1) | (Inr x, w1) \<Rightarrow> (x, w1))"

definition buildCache :: "'w platform \<Rightarrow> config \<Rightarrow> 'w \<Rightarrow> (market list, 'w) cache \<times> 'w" where
  "buildCache P cf = dial_or (NewRedisMarketsCache (pf_redis P) (pf_http P) (REDIS_URL cf))
     (mem_cache (pf_markets P) (pf_now P) MemoryCache_Get MemoryCache_Set) (snd (pf_markets P) NewMemoryCache)"

definition buildOrderCache :: "'w platform \<Rightarrow> config \<Rightarrow> 'w \<Rightarrow> (order list, 'w) cache \<times> 'w" where
  "buildOrderCache P cf = dial_or (NewRedisOrderCache (pf_redis P) (pf_http P) (REDIS_URL cf))
     (mem_cache (pf_orders P) (pf_now P) MemoryOrderCache_Get MemoryOrderCache_Set) (snd (pf_orders P) NewMemoryOrderCache)"

definition buildBalanceCache :: "'w platform \<Rightarrow> config \<Rightarrow> 'w \<Rightarrow> (balance, 'w) cache \<times> 'w" where
  "buildBalanceCache P cf = dial_or (NewRedisBalanceCache (pf_redis P) (pf_times P) (pf_http P) (REDIS_URL cf))
     (mem_cache (pf_balances P) (pf_now P) BalanceCache_Get BalanceCache_Set) (snd (pf_balances P) NewBalanceCache)"

definition buildPersister :: "'w platform \<Rightarrow> config \<Rightarrow> 'w \<Rightarrow> 'w persister \<times> 'w" where
  "buildPersister P cf = dial_or (NewMarketsPersister (pf_mongo P) (pf_now P) (DATABASE_URL cf)) NoopPersister id"

definition buildStrikeHistory :: "'w platform \<Rightarrow> config \<Rightarrow> 'w \<Rightarrow> 'w hist \<times> 'w" where
  "buildStrikeHistory P cf w =
     (case NewStrikeHistory (pf_mongo P) (pf_now P) (DATABASE_URL cf) w of
        (Inl e, w1) \<Rightarrow> (Memory NewMemoryHistory, w1) | (Inr h, w1) \<Rightarrow> (External h, w1))"

text \<open>The job store and whether it is durable: the collection, or the store in memory.\<close>

datatype job_backend = MemoryJobs | MongoJobs coll

definition durable :: "job_backend \<Rightarrow> bool" where "durable b = (case b of MemoryJobs \<Rightarrow> False | MongoJobs c \<Rightarrow> True)"

definition buildJobStore :: "'w platform \<Rightarrow> config \<Rightarrow> 'w \<Rightarrow> job_backend \<times> 'w" where
  "buildJobStore P cf w =
     (case NewMongoJobStore (pf_mongo P) (DATABASE_URL cf) ''dh-leverage'' w of
        (Inl e, w1) \<Rightarrow> (MemoryJobs, w1) | (Inr c, w1) \<Rightarrow> (MongoJobs c, w1))"

definition wrapSource ::
  "'w source \<Rightarrow> 'w persister \<Rightarrow> (market list, 'w) cache \<Rightarrow> int \<Rightarrow> (order list, 'w) cache \<Rightarrow> int \<Rightarrow> 'w source" where
  "wrapSource src p c ttl oc oTTL =
     as_source (WithOrderCache (NewCachedSource (NewPersistedSource src (Some p)) (Some c) ttl) (Some oc) oTTL)"

section \<open>The engine\<close>

definition missing_keys :: string where
  "missing_keys = ''leverage engine disabled: set BLOCKFROST_PROJECT_ID and ENGINE_ENC_KEY (the DexHunter partner key is optional)''"

definition not_durable :: string where
  "not_durable = ''leverage engine disabled: mainnet requires a durable job store (Mongo) so temp keys survive a restart '' @
     utf8_emdash @ '' the in-memory fallback would strand funds. Start Mongo at DATABASE_URL and retry.''"

definition NewEngine ::
  "'w platform \<Rightarrow> 'w source list \<Rightarrow> 'w dex_client option \<Rightarrow> 'w chain \<Rightarrow> string \<Rightarrow> network \<Rightarrow> 'w engine" where
  "NewEngine P srcs dex ch encSecret net =
     \<lparr>e_sources = srcs, e_dex = dex, e_chain = ch, e_encSecret = encSecret, e_network = net, e_rt = pf_rt P,
      e_crypto = pf_crypto P, e_Finish = pf_Finish P\<rparr>"

text \<open>The engine and its job store, or the reason why there is none.\<close>

definition buildEngine :: "'w platform \<Rightarrow> config \<Rightarrow> 'w source list \<Rightarrow> 'w \<Rightarrow> (string + 'w engine \<times> job_backend) \<times> 'w" where
  "buildEngine P cf srcs w =
     (if BLOCKFROST_PROJECT_ID cf = [] \<or> ENGINE_ENC_KEY cf = [] then (Inl missing_keys, w)
      else let net = parseNetwork (CARDANO_NETWORK cf) in
        case NewChain (BLOCKFROST_PROJECT_ID cf) (BLOCKFROST_BASE_URL cf)
               (pf_ChainContext P (bf_base (BLOCKFROST_BASE_URL cf)) (BLOCKFROST_PROJECT_ID cf) net) (pf_chain P) of
          Inl e \<Rightarrow> (Inl (render (ht_ff (pf_http P)) (wrap ''leverage engine disabled: blockfrost chain context: %v'' e)), w)
        | Inr ch \<Rightarrow>
            (case buildJobStore P cf w of (st, w1) \<Rightarrow>
               if \<not> durable st \<and> net = MAINNET then (Inl not_durable, w1)
               else (Inr (NewEngine P srcs (Some (dex_of (NewDexhunter (pf_http P) (DEXHUNTER_PARTNER_ID cf)))) ch
                       (ENGINE_ENC_KEY cf) net, st), w1)))"

section \<open>The server\<close>

record 'w app =
  ap_server :: "'w server"
  ap_store :: strike_store
  ap_history :: "'w hist"
  ap_jobs :: "job_backend option"

definition orderTTL :: int where "orderTTL = 30 * second"

definition build_sources :: "'w platform \<Rightarrow> 'w persister \<Rightarrow> (market list, 'w) cache \<Rightarrow> int \<Rightarrow> (order list, 'w) cache \<Rightarrow> 'w source list" where
  "build_sources P p c ttl oc =
     [wrapSource (liqwid_source (NewLiqwid (pf_http P) (pf_cbor P))) p c ttl oc orderTTL,
      wrapSource (surf_source (NewSurf (pf_http P) (pf_cbor P))) p c ttl oc orderTTL]"

definition strike_of :: "'w platform \<Rightarrow> config \<Rightarrow> 'w strike_client" where
  "strike_of P cf = WithWithdrawLeader (strike_WithBase (NewStrike (pf_strike P) (STRIKE_BUILDER_CODE cf) (STRIKE_FEE_BPS cf))
     (STRIKE_BASE_URL cf)) (STRIKE_WITHDRAW_LEADER cf)"

definition server_of :: "'w platform \<Rightarrow> config \<Rightarrow> 'w wallet_client \<Rightarrow> string + 'w engine \<times> job_backend \<Rightarrow> 'w source list \<Rightarrow> 'w server" where
  "server_of P cf wal eng srcs =
     (let addr = (if API_PORT cf = [] then '':8080'' else API_PORT cf) in
      case eng of
        Inl reason \<Rightarrow> SetEngineDisabledReason reason
          (SetStrike (Some (strike_of P cf)) (NewServer addr (Some wal) None srcs (pf_Finish P) (pf_now P)))
      | Inr (e, st) \<Rightarrow> SetStrike (Some (strike_of P cf)) (NewServer addr (Some wal) (Some e) srcs (pf_Finish P) (pf_now P)))"

text \<open>\<open>runAPI\<close> up to the health monitor, the recovery and \<open>Start\<close>.\<close>

definition runAPI :: "'w platform \<Rightarrow> (string \<Rightarrow> string option) \<Rightarrow> 'w \<Rightarrow> 'w app \<times> 'w" where
  "runAPI P os w =
     (let cf = LoadEnv os in
      case buildCache P cf w of (c, w1) \<Rightarrow>
      case buildOrderCache P cf w1 of (oc, w2) \<Rightarrow>
      case buildPersister P cf w2 of (p, w3) \<Rightarrow>
      case buildBalanceCache P cf w3 of (bc, w4) \<Rightarrow>
      let srcs = build_sources P p c (parseTTL (MARKETS_CACHE_TTL cf) (60 * second)) oc in
      case buildEngine P cf srcs w4 of (eng, w5) \<Rightarrow>
      case buildStrikeHistory P cf w5 of (h, w6) \<Rightarrow>
        (\<lparr>ap_server = server_of P cf (NewWallet (pf_http P) (Some bc) (30 * second) (pf_now P)) eng srcs,
          ap_store = NewStore, ap_history = h,
          ap_jobs = (case eng of Inl reason \<Rightarrow> None | Inr (e, st) \<Rightarrow> Some st)\<rparr>, w6))"

text \<open>What is started beside the server: the goroutines of the recovered jobs, and whether the health monitor runs.\<close>

definition startup :: "'w app \<Rightarrow> 'w est \<Rightarrow> ((goroutine \<times> job) list \<times> bool) \<times> 'w est" where
  "startup a s = (case sv_engine (ap_server a) of
     None \<Rightarrow> (([], False), s)
   | Some e \<Rightarrow> (case RecoverInflight e s of (gs, s1) \<Rightarrow> ((gs, e_dex e \<noteq> None), s1)))"

section \<open>What is wired\<close>

lemma LoadEnv_simps [simp]:
  "BLOCKFROST_PROJECT_ID (LoadEnv os) = getEnv os ''BLOCKFROST_PROJECT_ID'' []"
  "ENGINE_ENC_KEY (LoadEnv os) = getEnv os ''ENGINE_ENC_KEY'' []"
  "CARDANO_NETWORK (LoadEnv os) = getEnv os ''CARDANO_NETWORK'' ''mainnet''"
  by (simp_all add: LoadEnv_def)

lemma parseNetwork_mainnet: "parseNetwork n = MAINNET \<longleftrightarrow> n \<notin> {''preview'', ''preprod'', ''testnet''}"
  by (simp add: parseNetwork_def)

lemma runAPI_cases:
  assumes "runAPI P os w = (a, w')"
  obtains p c oc eng w4 w5 bc where
    "buildEngine P (LoadEnv os) (build_sources P p c (parseTTL (MARKETS_CACHE_TTL (LoadEnv os)) (60 * second)) oc) w4 = (eng, w5)"
    "ap_server a = server_of P (LoadEnv os) (NewWallet (pf_http P) (Some bc) (30 * second) (pf_now P)) eng
       (build_sources P p c (parseTTL (MARKETS_CACHE_TTL (LoadEnv os)) (60 * second)) oc)"
    "ap_jobs a = (case eng of Inl reason \<Rightarrow> None | Inr (e, st) \<Rightarrow> Some st)"
  using assms that by (auto simp: runAPI_def Let_def split: prod.splits)

lemma server_of_simps [simp]:
  "sv_engine (server_of P cf wal eng srcs) = (case eng of Inl reason \<Rightarrow> None | Inr (e, st) \<Rightarrow> Some e)"
  "sv_srcs (server_of P cf wal eng srcs) = srcs"
  "sv_engineDisabledReason (server_of P cf wal eng srcs) = (case eng of Inl reason \<Rightarrow> reason | Inr x \<Rightarrow> [])"
  by (auto simp: server_of_def SetEngineDisabledReason_def SetStrike_def NewServer_def Let_def split: sum.split)

lemma buildEngine_Inr:
  assumes "buildEngine P cf srcs w = (Inr (e, st), w')"
  shows "BLOCKFROST_PROJECT_ID cf \<noteq> [] \<and> ENGINE_ENC_KEY cf \<noteq> [] \<and> e_encSecret e = ENGINE_ENC_KEY cf \<and>
    e_network e = parseNetwork (CARDANO_NETWORK cf) \<and> e_sources e = srcs \<and> (e_network e = MAINNET \<longrightarrow> durable st)"
  using assms by (auto simp: buildEngine_def NewEngine_def Let_def split: if_splits sum.splits prod.splits)

lemma buildEngine_Inl: "buildEngine P cf srcs w = (Inl reason, w') \<Longrightarrow> reason \<noteq> []"
  by (auto simp: buildEngine_def missing_keys_def not_durable_def Let_def split: if_splits sum.splits prod.splits)

text \<open>C14. No real funds without a durable store: if \<open>runAPI\<close> comes up with an engine, both keys are configured, the engine
  seals with the configured one and works on the configured network, and unless the network is one of the three named test
  networks, any other name meaning mainnet, its jobs are in Mongo and not in memory.\<close>

theorem engine_needs_durable_store:
  assumes "runAPI P os w = (a, w')" and "sv_engine (ap_server a) = Some e"
  shows "getEnv os ''BLOCKFROST_PROJECT_ID'' [] \<noteq> [] \<and> e_encSecret e \<noteq> [] \<and> e_encSecret e = getEnv os ''ENGINE_ENC_KEY'' [] \<and>
    e_network e = parseNetwork (getEnv os ''CARDANO_NETWORK'' ''mainnet'') \<and> e_sources e = sv_srcs (ap_server a) \<and>
    (getEnv os ''CARDANO_NETWORK'' ''mainnet'' \<notin> {''preview'', ''preprod'', ''testnet''} \<longrightarrow> (\<exists>c. ap_jobs a = Some (MongoJobs c)))"
proof -
  obtain p c oc eng w4 w5 bc where b:
    "buildEngine P (LoadEnv os) (build_sources P p c (parseTTL (MARKETS_CACHE_TTL (LoadEnv os)) (60 * second)) oc) w4 = (eng, w5)"
    "ap_server a = server_of P (LoadEnv os) (NewWallet (pf_http P) (Some bc) (30 * second) (pf_now P)) eng
       (build_sources P p c (parseTTL (MARKETS_CACHE_TTL (LoadEnv os)) (60 * second)) oc)"
    "ap_jobs a = (case eng of Inl reason \<Rightarrow> None | Inr (e, st) \<Rightarrow> Some st)"
    using runAPI_cases [OF assms(1)] by metis
  obtain st where eng: "eng = Inr (e, st)" using assms(2) b(2) by (auto split: sum.splits)
  from buildEngine_Inr [OF b(1) [unfolded eng]] have e: "durable st" if "CARDANO_NETWORK (LoadEnv os) \<notin> {''preview'', ''preprod'', ''testnet''}"
    using that parseNetwork_mainnet by metis
  show ?thesis
    using buildEngine_Inr [OF b(1) [unfolded eng]] b(2,3) e by (auto simp: eng durable_def split: job_backend.splits)
qed

text \<open>Without an engine nothing of the leverage API moves: where \<open>runAPI\<close> comes up without one there is a reason, every
  leverage route answers 503 with that reason and leaves the state as it is, and nothing is recovered in the background.\<close>

theorem disabled_engine_says_why:
  assumes "runAPI P os w = (a, w')" and "sv_engine (ap_server a) = None"
  shows "\<exists>reason. reason \<noteq> [] \<and> handleLeverageOpen (ap_server a) d rq s = (ErrJSON 503 (errm reason), s) \<and>
    handleLeverageStart (ap_server a) i s = (ErrJSON 503 (errm reason), s) \<and>
    handleLeverageReverse (ap_server a) i s = (ErrJSON 503 (errm reason), s) \<and>
    handleLeverageSweep (ap_server a) i s = (ErrJSON 503 (errm reason), s) \<and>
    handleLeverageRetry (ap_server a) i s = (ErrJSON 503 (errm reason), s) \<and> startup a s = (([], False), s)"
proof -
  obtain p c oc eng w4 w5 bc where b:
    "buildEngine P (LoadEnv os) (build_sources P p c (parseTTL (MARKETS_CACHE_TTL (LoadEnv os)) (60 * second)) oc) w4 = (eng, w5)"
    "ap_server a = server_of P (LoadEnv os) (NewWallet (pf_http P) (Some bc) (30 * second) (pf_now P)) eng
       (build_sources P p c (parseTTL (MARKETS_CACHE_TTL (LoadEnv os)) (60 * second)) oc)"
    using runAPI_cases [OF assms(1)] by metis
  obtain reason where eng: "eng = Inl reason" using assms(2) b(2) by (auto split: sum.splits)
  have "reason \<noteq> []" by (rule buildEngine_Inl [OF b(1) [unfolded eng]])
  then have "reason \<noteq> [] \<and> sv_engineDisabledReason (ap_server a) = reason" by (simp add: b(2) eng)
  then show ?thesis
    using assms(2) by (intro exI [of _ reason])
      (simp add: handleLeverageOpen_def handleLeverageStart_def handleLeverageReverse_def handleLeverageSweep_def
        handleLeverageRetry_def engineReady_def refuse_def startup_def)
qed

text \<open>Every protocol of the server can build: whichever backends could be reached, the transaction routes find for
  \<open>liqwid\<close> and for \<open>surf\<close> that protocol's own builder, and for any other name answer 404.\<close>

theorem wired_builders:
  assumes "runAPI P os w = (a, w')"
  shows "with_builder (ap_server a) name k v =
    (if name = ''liqwid'' then k (liqwid_builder (NewLiqwid (pf_http P) (pf_cbor P))) v
     else if name = ''surf'' then k (surf_builder (NewSurf (pf_http P) (pf_cbor P))) v
     else (ErrJSON 404 (Fmt ''unknown source: %s'' [AS name]), v))"
proof -
  obtain p c oc eng w4 w5 bc where b:
    "ap_server a = server_of P (LoadEnv os) (NewWallet (pf_http P) (Some bc) (30 * second) (pf_now P)) eng
       (build_sources P p c (parseTTL (MARKETS_CACHE_TTL (LoadEnv os)) (60 * second)) oc)"
    using runAPI_cases [OF assms(1)] by metis
  show ?thesis
    by (simp add: with_builder_def b build_sources_def wrapSource_def as_source_def cached_builder_def persisted_builder_def
        NewCachedSource_def WithOrderCache_def NewPersistedSource_def liqwid_source_def surf_source_def liqwid_Name_def
        surf_Name_def refuse_def)
qed

section \<open>Witnesses\<close>

text \<open>A platform without Redis, with or without Mongo, on which nothing moves.\<close>

definition demo_store :: "bool \<Rightarrow> nat mongo" where
  "demo_store up = \<lparr>mg_URLPath = (\<lambda>u. Inr ''/lev''), mg_Connect = (\<lambda>u w. (if up then Inr () else Inl (errm ''refused''), w)),
     mg_Ping = (\<lambda>w. (Inr (), w)), mg_CreateIndex = (\<lambda>c ks u w. (Inr (), w)), mg_UpdateByID = (\<lambda>c i d w. (Inr (), w)),
     mg_FindOne = (\<lambda>c i w. (Inr None, w)), mg_Find = (\<lambda>c f k n w. (Inr [], w)), mg_InsertOne = (\<lambda>c d w. (Inr (), w)),
     mg_UpdateMany = (\<lambda>c f d w. (Inr (), w)), mg_BulkWrite = (\<lambda>c ops w. (Inr (), w))\<rparr>"

definition demo_platform :: "bool \<Rightarrow> nat platform" where
  "demo_platform up = \<lparr>pf_http = silent_http, pf_cbor = demo_cbor,
     pf_redis = \<lparr>rc_ParseURL = (\<lambda>u. Inl (errm ''bad url'')), rc_Ping = (\<lambda>w. (Inr (), w)), rc_Get = (\<lambda>k w. (Inr None, w)),
       rc_Set = (\<lambda>k v ttl w. (Inr (), w))\<rparr>,
     pf_mongo = demo_store up, pf_times = \<lparr>tm_Text = (\<lambda>t. []), tm_Parse = (\<lambda>s. Inr 0)\<rparr>, pf_now = int,
     pf_markets = (\<lambda>w. Map.empty, \<lambda>m w. w), pf_orders = (\<lambda>w. Map.empty, \<lambda>m w. w), pf_balances = (\<lambda>w. Map.empty, \<lambda>m w. w),
     pf_chain = demo_chain, pf_ChainContext = (\<lambda>b p n. Inr ()), pf_crypto = demo_crypto, pf_rt = demo_runtime,
     pf_Finish = (\<lambda>ss w. ss), pf_strike = demo_strike_env\<rparr>"

definition demo_env :: "string \<Rightarrow> string option" where
  "demo_env = [''BLOCKFROST_PROJECT_ID'' \<mapsto> ''p1'', ''ENGINE_ENC_KEY'' \<mapsto> ''k1'']"

lemma demo_backend: "fst (buildJobStore (demo_platform up) cf w) = (if up then MongoJobs (''dh-leverage'', leverageJobsColl) else MemoryJobs) \<or> DATABASE_URL cf = []"
  by (auto simp: buildJobStore_def demo_platform_def NewMongoJobStore_def mongo_dial_def demo_store_def chks_def best_effort_def Let_def)

lemma demo_runAPI: "is_ok (map_sum errm id (fst (buildEngine (demo_platform up) (LoadEnv demo_env) srcs w))) \<longleftrightarrow> up"
proof -
  have "DATABASE_URL (LoadEnv demo_env) \<noteq> []" "getEnv demo_env ''BLOCKFROST_PROJECT_ID'' [] = ''p1''"
    "getEnv demo_env ''ENGINE_ENC_KEY'' [] = ''k1''" "getEnv demo_env ''CARDANO_NETWORK'' ''mainnet'' = ''mainnet''"
    by (simp_all add: LoadEnv_def getEnv_def demo_env_def)
  moreover from this demo_backend [of up "LoadEnv demo_env" w]
  have "durable (fst (buildJobStore (demo_platform up) (LoadEnv demo_env) w)) \<longleftrightarrow> up" by (auto simp: durable_def)
  moreover have "pf_ChainContext (demo_platform up) b p n = Inr ()" for b p n by (simp add: demo_platform_def)
  ultimately show ?thesis
    by (cases "buildJobStore (demo_platform up) (LoadEnv demo_env) w") (simp add: buildEngine_def NewChain_def parseNetwork_def Let_def)
qed

lemma demo_engine_up: "sv_engine (ap_server (fst (runAPI (demo_platform up) demo_env w))) \<noteq> None \<longleftrightarrow> up"
proof -
  obtain a w' where a: "runAPI (demo_platform up) demo_env w = (a, w')" by fastforce
  obtain p c oc eng w4 w5 bc where b: "buildEngine (demo_platform up) (LoadEnv demo_env) (build_sources (demo_platform up) p c
      (parseTTL (MARKETS_CACHE_TTL (LoadEnv demo_env)) (60 * second)) oc) w4 = (eng, w5)"
    "ap_server a = server_of (demo_platform up) (LoadEnv demo_env) (NewWallet (pf_http (demo_platform up)) (Some bc) (30 * second)
       (pf_now (demo_platform up))) eng (build_sources (demo_platform up) p c (parseTTL (MARKETS_CACHE_TTL (LoadEnv demo_env)) (60 * second)) oc)"
    using runAPI_cases [OF a] by metis
  show ?thesis using demo_runAPI [of up "build_sources (demo_platform up) p c (parseTTL (MARKETS_CACHE_TTL (LoadEnv demo_env)) (60 * second)) oc" w4]
    by (auto simp: a b is_ok_def split: sum.splits)
qed

theorem engine_needs_durable_store_witness:
  "\<exists>e c. sv_engine (ap_server (fst (runAPI (demo_platform True) demo_env 0))) = Some e \<and> e_encSecret e = ''k1'' \<and>
     ap_jobs (fst (runAPI (demo_platform True) demo_env 0)) = Some (MongoJobs c)"
proof -
  obtain a w' where a: "runAPI (demo_platform True) demo_env 0 = (a, w')" by fastforce
  then obtain e where "sv_engine (ap_server a) = Some e" using demo_engine_up [of True 0] by auto
  moreover have "getEnv demo_env ''ENGINE_ENC_KEY'' [] = ''k1''" "getEnv demo_env ''CARDANO_NETWORK'' ''mainnet'' = ''mainnet''"
    by (simp_all add: getEnv_def demo_env_def)
  ultimately show ?thesis using engine_needs_durable_store [OF a] by (auto simp: a)
qed

definition demo_draws :: "nat draws" where
  "demo_draws = \<lparr>dw_PayKP = Inr ([], []), dw_StakeKP = Inr ([], []), dw_Nonce = Inr [], dw_JobID = ''j1'', dw_Probe = (\<lambda>w. (0, w))\<rparr>"

theorem disabled_engine_says_why_witness:
  "\<exists>reason. reason \<noteq> [] \<and> handleLeverageSweep (ap_server (fst (runAPI (demo_platform False) demo_env 0))) (Inr ''j1'') demo_est =
     (ErrJSON 503 (errm reason), demo_est)"
proof -
  obtain a w' where a: "runAPI (demo_platform False) demo_env 0 = (a, w')" by fastforce
  then have "sv_engine (ap_server a) = None" using demo_engine_up [of False 0] by auto
  with disabled_engine_says_why [OF a this, of demo_draws "Inl (errm [])" demo_est "Inr ''j1''"] show ?thesis by (auto simp: a)
qed

theorem wired_builders_witness:
  "with_builder (ap_server (fst (runAPI (demo_platform False) demo_env 0))) ''surf'' (\<lambda>b. refuse 400 (errm ''x'')) 0 =
     (ErrJSON 400 (errm ''x'') :: string reply, 0)"
proof -
  obtain a w' where a: "runAPI (demo_platform False) demo_env 0 = (a, w')" by fastforce
  show ?thesis using wired_builders [OF a, of "''surf''" "\<lambda>b. refuse 400 (errm ''x'') :: nat \<Rightarrow> string reply \<times> nat" 0]
    by (simp add: a refuse_def)
qed

end
