(* ===== verification/Api_System.thy ===== *)
theory Api_System
  imports App_Main Engine_System
begin

text \<open>
  The running server: its routes (\<open>routes\<close> of \<open>common/api/server.go\<close>), one request as one step of the whole state,
  and the interleaving of requests with the goroutines they started. What is shown is that the server adds
  nothing to the engine: whatever the clients ask, the jobs move as in \<open>Engine_System\<close>.
\<close>

section \<open>Requests\<close>

text \<open>A request of each route, with its parsed parameters.\<close>

datatype 'w request =
    QIndex | QHealth | QMarkets string string | QMarketsByToken string string | QOrders string string int string | QBalance string
  | QTxSupply "tx_params res" | QTxWithdraw "tx_params res" | QTxBorrow "tx_params res" | QTxClose "close_params res"
  | QTxFinalize "(string \<times> string) res" | QTxSubmit "submit_params res" | QTxSubmitRaw "(string \<times> string) res"
  | QLevQuote "open_request res" | QLevOpen "'w draws" "open_request res" | QLevStart "string res" | QLevReverse "string res"
  | QLevSweep "string res" | QLevRetry "string res" | QLevStatus string | QLevJobs string | QStrike strike_route

fun trade_path :: "trade \<Rightarrow> http_method \<times> string" where
  "trade_path (TBalances a) = (GET, ''/strike/balances'')"
| "trade_path (TWithdrawQuote b) = (POST, ''/strike/withdraw/quote'')"
| "trade_path (TWithdrawConfirm b) = (POST, ''/strike/withdraw/confirm'')"
| "trade_path (TLeverage b) = (POST, ''/strike/leverage'')"
| "trade_path (TOrder b) = (POST, ''/strike/order'')"
| "trade_path (TCancel b) = (POST, ''/strike/order/cancel'')"
| "trade_path (TDepositQuote b) = (POST, ''/strike/deposit/quote'')"
| "trade_path (TDepositBuild b) = (POST, ''/strike/deposit/build'')"
| "trade_path (TDepositConfirm b) = (POST, ''/strike/deposit/confirm'')"

fun strike_path :: "strike_route \<Rightarrow> http_method \<times> string" where
  "strike_path (RStatus a) = (GET, ''/strike/status'')"
| "strike_path RMarkets = (GET, ''/strike/markets'')"
| "strike_path (RPositions a) = (GET, ''/strike/positions'')"
| "strike_path (RAccount a) = (GET, ''/strike/account'')"
| "strike_path (RChallenge b) = (POST, ''/strike/connect/challenge'')"
| "strike_path (RVerify b) = (POST, ''/strike/connect/verify'')"
| "strike_path (RBatcher b) = (POST, ''/strike/withdraw/batcher'')"
| "strike_path (RSettle b) = (POST, ''/strike/withdraw/settle'')"
| "strike_path (RHistory a) = (GET, ''/strike/history'')"
| "strike_path (RTrade t) = trade_path t"

text \<open>Method and pattern under \<open>/api\<close>, but for the index page.\<close>

fun route_of :: "'w request \<Rightarrow> http_method \<times> string" where
  "route_of QIndex = (GET, ''/'')"
| "route_of QHealth = (GET, ''/health'')"
| "route_of (QMarkets s t) = (GET, ''/markets'')"
| "route_of (QMarketsByToken s i) = (GET, ''/markets/by-token/:id'')"
| "route_of (QOrders s a l r) = (GET, ''/orders'')"
| "route_of (QBalance a) = (GET, ''/wallet/balance'')"
| "route_of (QTxSupply p) = (POST, ''/tx/supply'')"
| "route_of (QTxWithdraw p) = (POST, ''/tx/withdraw'')"
| "route_of (QTxBorrow p) = (POST, ''/tx/borrow'')"
| "route_of (QTxClose p) = (POST, ''/tx/close'')"
| "route_of (QTxFinalize p) = (POST, ''/tx/finalize'')"
| "route_of (QTxSubmit p) = (POST, ''/tx/submit'')"
| "route_of (QTxSubmitRaw p) = (POST, ''/tx/submit-raw'')"
| "route_of (QLevQuote p) = (POST, ''/leverage/quote'')"
| "route_of (QLevOpen d p) = (POST, ''/leverage/open'')"
| "route_of (QLevStart i) = (POST, ''/leverage/start'')"
| "route_of (QLevReverse i) = (POST, ''/leverage/reverse'')"
| "route_of (QLevSweep i) = (POST, ''/leverage/sweep'')"
| "route_of (QLevRetry i) = (POST, ''/leverage/retry'')"
| "route_of (QLevStatus i) = (GET, ''/leverage/status/:id'')"
| "route_of (QLevJobs a) = (GET, ''/leverage/jobs'')"
| "route_of (QStrike r) = strike_path r"

section \<open>Serving\<close>

text \<open>The engine's state with its goroutines, and the stores of the perpetuals API.\<close>

record 'w sys =
  sy_est :: "'w est"
  sy_tasks :: pending
  sy_store :: "strike_store option"
  sy_history :: "'w hist"

definition on_world :: "('w \<Rightarrow> 'a \<times> 'w) \<Rightarrow> 'w sys \<Rightarrow> 'w sys" where
  "on_world f y = (let s = sy_est y in y\<lparr>sy_est := s\<lparr>env := snd (f (env s))\<rparr>\<rparr>)"

text \<open>A handler of the engine, and the goroutine its reply tells of.\<close>

definition on_engine :: "('w est \<Rightarrow> 'a reply \<times> 'w est) \<Rightarrow> ('a \<Rightarrow> goroutine option) \<Rightarrow> 'w sys \<Rightarrow> 'w sys" where
  "on_engine f g y = (case f (sy_est y) of (a, s) \<Rightarrow>
     y\<lparr>sy_est := s, sy_tasks := spawn (case a of OkJSON x \<Rightarrow> g x | _ \<Rightarrow> None) (cur s) (sy_tasks y)\<rparr>)"

definition on_strike :: "('w sst \<Rightarrow> 'w sst) \<Rightarrow> 'w sys \<Rightarrow> 'w sys" where
  "on_strike f y = (let t = f \<lparr>st_env = env (sy_est y), st_store = sy_store y, st_history = sy_history y\<rparr> in
     y\<lparr>sy_est := (sy_est y)\<lparr>env := st_env t\<rparr>, sy_store := st_store t, sy_history := st_history t\<rparr>)"

definition handleHealth :: "string reply" where "handleHealth = OkJSON ''ok''"

definition handleMarkets :: "'w server \<Rightarrow> string \<Rightarrow> string \<Rightarrow> 'w \<Rightarrow> market listing reply \<times> 'w" where
  "handleMarkets sv src token = respondMarkets sv src token"

definition handleMarketsByToken :: "'w server \<Rightarrow> string \<Rightarrow> string \<Rightarrow> 'w \<Rightarrow> market listing reply \<times> 'w" where
  "handleMarketsByToken sv src i = respondMarkets sv src i"

fun serve :: "'w server \<Rightarrow> cbor \<Rightarrow> 'w request \<Rightarrow> 'w sys \<Rightarrow> 'w sys" where
  "serve sv C QIndex y = y"
| "serve sv C QHealth y = on_world (Pair handleHealth) y"
| "serve sv C (QMarkets src token) y = on_world (handleMarkets sv src token) y"
| "serve sv C (QMarketsByToken src i) y = on_world (handleMarketsByToken sv src i) y"
| "serve sv C (QOrders src a l r) y = on_world (handleOrders sv src a l r) y"
| "serve sv C (QBalance a) y = on_world (handleBalance sv a) y"
| "serve sv C (QTxSupply p) y = on_world (handleTxBuild sv ''supply'' p) y"
| "serve sv C (QTxWithdraw p) y = on_world (handleTxBuild sv ''withdraw'' p) y"
| "serve sv C (QTxBorrow p) y = on_world (handleTxBuild sv ''borrow'' p) y"
| "serve sv C (QTxClose p) y = on_world (handleTxClose sv p) y"
| "serve sv C (QTxFinalize p) y = y"
| "serve sv C (QTxSubmit p) y = on_world (handleTxSubmit sv p) y"
| "serve sv C (QTxSubmitRaw p) y = on_world (handleTxSubmitRaw sv C p) y"
| "serve sv C (QLevQuote p) y = on_engine (handleLeverageQuote sv p) (\<lambda>x. None) y"
| "serve sv C (QLevOpen d p) y = on_engine (handleLeverageOpen sv d p) snd y"
| "serve sv C (QLevStart i) y = on_engine (handleLeverageStart sv i) id y"
| "serve sv C (QLevReverse i) y = on_engine (handleLeverageReverse sv i) snd y"
| "serve sv C (QLevSweep i) y = on_engine (handleLeverageSweep sv i) Some y"
| "serve sv C (QLevRetry i) y = on_engine (handleLeverageRetry sv i) Some y"
| "serve sv C (QLevStatus i) y = on_engine (handleLeverageStatus sv i) (\<lambda>x. None) y"
| "serve sv C (QLevJobs a) y = on_engine (handleLeverageJobs sv a) (\<lambda>x. None) y"
| "serve sv C (QStrike r) y = on_strike (strike_step sv r) y"

text \<open>The twelve random bytes of a new job's id have not been drawn before.\<close>

definition fresh :: "'w request \<Rightarrow> 'w sys \<Rightarrow> bool" where
  "fresh rq y = (case rq of QLevOpen d p \<Rightarrow> \<not> is_ok (store_Get (jobs (sy_est y)) (dw_JobID d)) | _ \<Rightarrow> True)"

inductive api_step :: "'w server \<Rightarrow> cbor \<Rightarrow> 'w engine \<Rightarrow> 'w sys \<Rightarrow> 'w sys \<Rightarrow> bool" for sv C e where
  request: "fresh rq y \<Longrightarrow> api_step sv C e y (serve sv C rq y)"
| task: "(Go g, j) \<in> set (sy_tasks y) \<Longrightarrow>
    api_step sv C e y (y\<lparr>sy_est := body e g ((sy_est y)\<lparr>cur := j\<rparr>), sy_tasks := remove1 (Go g, j) (sy_tasks y)\<rparr>)"
| writes: "(x, j) \<in> set (sy_tasks y) \<Longrightarrow> terms j' = terms j \<Longrightarrow>
    api_step sv C e y (y\<lparr>sy_est := (sy_est y)\<lparr>jobs := store_Save j' (jobs (sy_est y))\<rparr>,
      sy_tasks := (x, j') # remove1 (x, j) (sy_tasks y)\<rparr>)"
| poll: "store_Get (jobs (sy_est y)) i = Inr j \<Longrightarrow> api_step sv C e y (y\<lparr>sy_tasks := (Reader, j) # sy_tasks y\<rparr>)"
| monitor: "(Reader, j) \<in> set (sy_tasks y) \<Longrightarrow> RefreshHealth e c j (sy_est y) = (r, s) \<Longrightarrow>
    api_step sv C e y (y\<lparr>sy_est := s, sy_tasks := remove1 (Reader, j) (sy_tasks y)\<rparr>)"
| world: "clk (sy_est y) \<le> t \<Longrightarrow> api_step sv C e y (y\<lparr>sy_est := (sy_est y)\<lparr>env := w, clk := t\<rparr>\<rparr>)"

inductive api_reach :: "'w server \<Rightarrow> cbor \<Rightarrow> 'w engine \<Rightarrow> 'w sys \<Rightarrow> 'w sys \<Rightarrow> bool" for sv C e where
  here: "api_reach sv C e y y"
| step: "api_reach sv C e x y \<Longrightarrow> api_step sv C e y z \<Longrightarrow> api_reach sv C e x z"

section \<open>The server refines the engine\<close>

definition engine_view :: "'w sys \<Rightarrow> 'w est \<times> pending" where
  "engine_view y = (sy_est y, sy_tasks y)"

lemma reach_one: "sys_step e x y \<Longrightarrow> sys_reach e x y"
  by (rule sys_reach.step [OF sys_reach.here])

lemma reach_trans: "sys_reach e y z \<Longrightarrow> sys_reach e x y \<Longrightarrow> sys_reach e x z"
  by (induction rule: sys_reach.induct) (auto intro: sys_reach.step)

lemma reach_env: "sys_reach e (s, ts) (s\<lparr>env := w\<rparr>, ts)"
  using sys_step.world [of s "clk s" e ts w] by (auto intro: reach_one)

lemma on_world_view: "sys_reach e (engine_view y) (engine_view (on_world f y))"
  by (simp add: engine_view_def on_world_def Let_def reach_env)

lemma on_strike_view: "sys_reach e (engine_view y) (engine_view (on_strike f y))"
  by (simp add: engine_view_def on_strike_def Let_def reach_env)

lemma engine_view_on:
  "f (sy_est y) = (a, s) \<Longrightarrow>
     engine_view (on_engine f g y) = (s, spawn (case a of OkJSON x \<Rightarrow> g x | _ \<Rightarrow> None) (cur s) (sy_tasks y))"
  by (simp add: engine_view_def on_engine_def)

text \<open>A handler whose calls of the engine are steps of the engine's system, with the goroutine it reports.\<close>

definition engine_steps :: "'w engine \<Rightarrow> 'w est \<Rightarrow> ('w est \<Rightarrow> 'a reply \<times> 'w est) \<Rightarrow> ('a \<Rightarrow> goroutine option) \<Rightarrow> bool" where
  "engine_steps e s f g \<longleftrightarrow> (\<forall>ts. case f s of (a, s') \<Rightarrow>
     sys_reach e (s, ts) (s', spawn (case a of OkJSON x \<Rightarrow> g x | _ \<Rightarrow> None) (cur s') ts))"

lemma on_engine_view: "engine_steps e (sy_est y) f g \<Longrightarrow> sys_reach e (engine_view y) (engine_view (on_engine f g y))"
  by (cases "f (sy_est y)") (simp add: engine_steps_def engine_view_def on_engine_def)

lemma engine_steps_refuse: "engine_steps e s (refuse n er) g"
  by (simp add: engine_steps_def refuse_def spawn_def sys_reach.here)

lemma engine_steps_answer:
  assumes "\<And>r s' ts. f s = (r, s') \<Longrightarrow> sys_reach e (s, ts) (s', case r of Inl er \<Rightarrow> ts | Inr x \<Rightarrow> spawn (g x) (cur s') ts)"
  shows "engine_steps e s (answer n f) g"
  using assms by (cases "f s"; cases "fst (f s)") (fastforce simp: engine_steps_def answer_def reply_of_def spawn_def)+

lemma engine_steps_ready:
  assumes "sv_engine sv = Some e" and "engine_steps e s (k e) g"
  shows "engine_steps e s (engineReady sv k) g"
  using assms by (simp add: engineReady_def)

lemma engine_steps_jobID: "(\<And>i. engine_steps e s (k i) g) \<Longrightarrow> engine_steps e s (with_jobID parsed k) g"
  by (simp add: with_jobID_def engine_steps_refuse split: sum.split)

lemmas engine_handlers = handleLeverageQuote_def handleLeverageOpen_def handleLeverageStart_def handleLeverageReverse_def
  handleLeverageSweep_def handleLeverageRetry_def handleLeverageStatus_def handleLeverageJobs_def

lemma engine_steps_calls:
  assumes "sv_engine sv = Some e"
  shows "engine_steps e s (handleLeverageStart sv i) id" "engine_steps e s (handleLeverageReverse sv i) snd"
    "engine_steps e s (handleLeverageSweep sv i) Some" "engine_steps e s (handleLeverageRetry sv i) Some"
    "engine_steps e s (handleLeverageQuote sv p) (\<lambda>x. None)"
    "\<not> is_ok (store_Get (jobs s) (dw_JobID d)) \<Longrightarrow> engine_steps e s (handleLeverageOpen sv d p) snd"
    "engine_steps e s (handleLeverageStatus sv j) (\<lambda>x. None)" "engine_steps e s (handleLeverageJobs sv a) (\<lambda>x. None)"
proof -
  note rules = engine_steps_ready [OF assms] engine_steps_jobID engine_steps_answer reach_one
  show "engine_steps e s (handleLeverageStart sv i) id" unfolding engine_handlers
    by (rule rules)+ (auto dest: sys_step.start [where ts = ts for ts] split: sum.splits)
  show "engine_steps e s (handleLeverageReverse sv i) snd" unfolding engine_handlers
    by (rule rules)+ (auto dest: sys_step.reverse split: sum.splits prod.splits)
  show "engine_steps e s (handleLeverageSweep sv i) Some" unfolding engine_handlers
    by (rule rules)+ (auto dest: sys_step.sweeps split: sum.splits)
  show "engine_steps e s (handleLeverageRetry sv i) Some" unfolding engine_handlers
    by (rule rules)+ (auto dest: sys_step.retry split: sum.splits)
  show "engine_steps e s (handleLeverageQuote sv p) (\<lambda>x. None)" unfolding engine_handlers
    by (rule rules)+ (auto simp: engine_steps_refuse on_env_simps spawn_def reach_env split: sum.splits intro!: engine_steps_answer)
  show "engine_steps e s (handleLeverageOpen sv d p) snd" if "\<not> is_ok (store_Get (jobs s) (dw_JobID d))" unfolding engine_handlers
    by (rule rules)+ (auto simp: engine_steps_refuse split: sum.splits intro!: engine_steps_answer reach_one dest: sys_step.opens [OF _ that])
  show "engine_steps e s (handleLeverageStatus sv j) (\<lambda>x. None)" "engine_steps e s (handleLeverageJobs sv a) (\<lambda>x. None)"
    unfolding engine_handlers
    by (rule rules, auto simp: engine_steps_refuse spawn_def sys_reach.here split: sum.splits intro!: engine_steps_answer)+
qed

lemma serve_view:
  assumes "sv_engine sv = Some e" and "fresh rq y"
  shows "sys_reach e (engine_view y) (engine_view (serve sv C rq y))"
  using assms(2) engine_steps_calls [OF assms(1)]
  by (cases rq) (simp_all add: on_world_view on_strike_view on_engine_view fresh_def sys_reach.here)

lemma api_step_view:
  assumes "api_step sv C e y z" and "sv_engine sv = Some e"
  shows "sys_reach e (engine_view y) (engine_view z)"
  using assms(1)
proof cases
  case (request rq)
  then show ?thesis using serve_view [OF assms(2)] by simp
next
  case (task g j)
  then show ?thesis using sys_step.goroutine [OF task(2), of e "sy_est y"] by (simp add: engine_view_def reach_one)
next
  case (writes x j j')
  then show ?thesis using sys_step.writes [OF writes(2,3), of e "sy_est y"] by (simp add: engine_view_def reach_one)
next
  case (poll i j)
  then show ?thesis using sys_step.poll [OF poll(2), of e "sy_tasks y"] by (simp add: engine_view_def reach_one)
next
  case (monitor j c r s)
  then show ?thesis using sys_step.refresh [OF monitor(2,3)] by (simp add: engine_view_def reach_one)
next
  case (world t w)
  then show ?thesis using sys_step.world [OF world(2), of e "sy_tasks y" w] by (simp add: engine_view_def reach_one)
qed

lemma api_reach_view:
  "api_reach sv C e y z \<Longrightarrow> sv_engine sv = Some e \<Longrightarrow> sys_reach e (engine_view y) (engine_view z)"
  by (induction rule: api_reach.induct) (auto intro: sys_reach.here reach_trans api_step_view)

text \<open>C3. The running server refines the engine. Whatever requests the clients make, of every route and in any
  order, between the steps of the goroutines they started, the ticks of the health monitor and the changes
  of the outside world, the jobs and goroutines move as in the engine's own transition system; so from a
  consistent state no sequence of requests makes a job lose its keys, its owner, its wallet or its plan.\<close>

theorem server_refines_engine:
  assumes "api_reach sv C e y z" and "sv_engine sv = Some e" and "sys_inv (engine_view y)"
    and "store_Get (jobs (sy_est y)) i = Inr j"
  shows "sys_reach e (engine_view y) (engine_view z) \<and> sys_inv (engine_view z) \<and>
    (\<exists>j'. store_Get (jobs (sy_est z)) i = Inr j' \<and> custody j' = custody j)"
proof -
  have r: "sys_reach e (engine_view y) (engine_view z)" by (rule api_reach_view [OF assms(1,2)])
  with sys_reach_keeps [OF r assms(3)] assms(4) show ?thesis by (auto simp: engine_view_def keeps_def)
qed

definition demo_sys :: "nat sys" where
  "demo_sys = \<lparr>sy_est = demo_est\<lparr>jobs := [(''j1'', demo_job)]\<rparr>, sy_tasks = [], sy_store = Some NewStore, sy_history = NoHistory\<rparr>"

definition demo_live :: "nat server" where "demo_live = demo_server\<lparr>sv_engine := Some demo_engine\<rparr>"

theorem server_refines_engine_witness:
  "\<exists>j'. store_Get (jobs (sy_est (serve demo_live demo_cbor (QLevReverse (Inr ''j1''))
      (serve demo_live demo_cbor (QMarkets [] []) demo_sys)))) ''j1'' = Inr j' \<and> SealK j' = SealK demo_job"
proof -
  have f: "fresh (QLevReverse (Inr ''j1'')) y" "fresh (QMarkets [] []) y" for y :: "nat sys" by (simp_all add: fresh_def)
  have reach: "api_reach demo_live demo_cbor demo_engine demo_sys
      (serve demo_live demo_cbor (QLevReverse (Inr ''j1'')) (serve demo_live demo_cbor (QMarkets [] []) demo_sys))"
    by (rule api_reach.step [OF api_reach.step [OF api_reach.here api_step.request [OF f(2)]] api_step.request [OF f(1)]])
  have e: "sv_engine demo_live = Some demo_engine" by (simp add: demo_live_def)
  have g: "store_Get (jobs (sy_est demo_sys)) ''j1'' = Inr demo_job" by (simp add: demo_sys_def store_Get_def)
  have inv: "sys_inv (engine_view demo_sys)"
    unfolding engine_view_def by (rule sys_inv_I) (simp_all add: demo_sys_def store_ok_def demo_job_def)
  from server_refines_engine [OF reach e inv g] show ?thesis by (auto simp: custody_def)
qed

end
