(* ===== verification/Spec2Isabelle.thy ===== *)
theory Spec2Isabelle
  imports Engine_Restart Surf_Wiring Liqwid_Client Api_Strike Redis_Cache Mongo_Store Dexhunter App_Main Api_System
begin

text \<open>
  A verification development for DH-Leverage, a Go service that opens and closes leveraged positions on
  Cardano: the user funds a temporary address, the service lends what it holds on Surf, borrows against
  it, swaps the loan on DexHunter and repeats, until the planned leverage is reached; a reversal repays
  everything from the collateral, swaps back and sweeps the funds to the owner. Beside the engine it
  serves markets and orders of two lending protocols, unsigned transactions, wallet balances and a
  perpetuals exchange.

  The development is a shallow embedding: every definition is a translation of the function, type or
  constant its manifest entry names, in the order of the code, and computes. Paths below are relative to
  \<open>src/\<close>.
\<close>

section \<open>Theories and the code they model\<close>

text \<open>
  Language and libraries.
  \<^item> \<open>Prelude\<close>: the rule collections, Go's \<open>int64\<close> as \<open>int\<close> with its wrap-around \<open>i64\<close> written out where the code
    computes, \<open>strings\<close>, \<open>sort.Slice\<close>, and sums \<open>res\<close> for the pairs of a result and an error (\<open>chk\<close>, and \<open>chks\<close> when
    a state is passed).
  \<^item> \<open>Float64\<close>: \<open>float64\<close> with correct rounding to nearest even, infinities and \<open>NaN\<close>; executable.
  \<^item> \<open>Go_Msg\<close>, \<open>Go_Hex\<close>, \<open>Go_Time\<close>, \<open>Go_Http\<close>: errors as format strings with arguments, \<open>encoding/hex\<close>, instants,
    contexts and the polling loop, HTTP calls and the decoding of JSON values into struct types.

  Engine (\<open>common/engine\<close>).
  \<^item> \<open>Units\<close> (\<open>units.go\<close>), \<open>Leverage_Plan\<close> (\<open>math.go\<close>: \<open>BuildPlan\<close>, \<open>LiquidationPrice\<close>, \<open>HealthFactor\<close>),
    \<open>Temp_Wallet\<close> (\<open>tempwallet.go\<close>: key pairs, \<open>Seal\<close>, \<open>Open_key\<close>, \<open>witnessFor\<close>), \<open>Chain_Model\<close> (\<open>chain.go\<close>),
    \<open>Job_Store\<close> (\<open>store.go\<close>: the job, its statuses and \<open>MemoryJobStore\<close>), \<open>Health\<close> (\<open>health.go\<close>).
  \<^item> \<open>engine.go\<close> is cut along its own sections: \<open>Engine_State\<close> (fields, recording of steps, \<open>fail\<close>), \<open>Engine_Quote\<close>
    (market choice and \<open>Quote\<close>), \<open>Engine_Tx\<close> (submission, confirmation, \<open>tradeAll\<close>), \<open>Engine_Unwind\<close> (closing orders
    in rounds, repay from collateral, sweep), \<open>Engine_Loop\<close> (\<open>openLeg\<close>, \<open>run\<close>, \<open>finalize\<close>), \<open>Lifecycle\<close> (\<open>Open\<close>, \<open>Start\<close>,
    \<open>Reverse\<close>, \<open>Sweep\<close>, \<open>Retry\<close>, \<open>RecoverInflight\<close> and the goroutines they start).
  \<^item> \<open>Engine_System\<close>: the interleaving of all of it as a step relation; \<open>Engine_Restart\<close>: what the recovery leaves
    running after a restart.

  Sources (\<open>common/sources\<close>).
  \<^item> \<open>Source_Types\<close> (\<open>primitives.go\<close>, \<open>txbuilder.go\<close>), \<open>Tx_Finalize\<close> (\<open>tx_finalize.go\<close>), \<open>Source_Cache\<close> (\<open>cache.go\<close>,
    \<open>memory_cache.go\<close>, \<open>persister.go\<close>), \<open>Surf_Client\<close> (\<open>surf/client.go\<close>), \<open>Liqwid_Client\<close> (\<open>liqwid/client.go\<close>),
    \<open>Market_Json\<close> (the struct tags of the shared types), \<open>Surf_Wiring\<close> (the engine on the wrapped Surf client).

  Other services and backends.
  \<^item> \<open>Dexhunter\<close> (\<open>common/dexhunter-sdk\<close>), \<open>Strike_Client\<close> (\<open>common/strike\<close>), \<open>Wallet_Client\<close> (\<open>common/wallet\<close>),
    \<open>Redis_Cache\<close> (\<open>common/database/redis\<close>), \<open>Mongo_Store\<close> (\<open>common/database/mongo\<close> and \<open>MongoJobStore\<close> of
    \<open>common/engine/store.go\<close>).

  The server and the binary.
  \<^item> \<open>Api_Server\<close> (\<open>common/api/server.go\<close>, \<open>leverage.go\<close>), \<open>Api_Strike\<close> (\<open>strike.go\<close>), \<open>App_Config\<close> and \<open>App_Main\<close>
    (\<open>common/config/envs.go\<close>, \<open>main.go\<close>), \<open>Api_System\<close> (the route table and the whole server as a step relation).
\<close>

section \<open>How the parts interact\<close>

text \<open>
  \<open>runAPI\<close> builds the sources (Surf and Liqwid, each behind \<open>PersistedSource\<close> and \<open>CachedSource\<close>), the backends
  with their fallbacks, the engine and the server. The engine's state is the record \<open>est\<close>: the job store,
  the registered cancel functions (the map \<open>cancels\<close> of the code, as the list of its keys), the clock, the
  world outside the process and the copy of the job the current goroutine works on. A handler returns
  the goroutine it starts (\<open>goroutine\<close>); \<open>body\<close> is what a goroutine does. \<open>Engine_System\<close> composes them: a
  handler is one step, a goroutine runs as one step, both can be interrupted after any write of their own
  copy, the health monitor refreshes copies it read before, and the world changes in between. \<open>Api_System\<close> puts
  the requests of the HTTP server on top and shows that it refines the engine's system.

  Jobs are passed by value as the stores copy them, so a goroutine's copy and the stored job differ until
  it records; what this lets go wrong is proved (\<open>second_Reverse_accepted\<close>, \<open>reversal_lost_to_failure\<close>,
  \<open>stale_refresh_reopens\<close>).
\<close>

section \<open>Conventions\<close>

text \<open>
  \<^item> World and parameters. \<open>'w\<close> is everything outside the process. HTTP, JSON text, CBOR, the cryptographic
    primitives, the chain provider, Redis, the Mongo driver and the randomness are arguments: records of
    functions on \<open>'w\<close> (\<open>http\<close>, \<open>cbor\<close>, \<open>crypto\<close>, \<open>chain\<close>, \<open>platform\<close> and others). What a property relies on of them is a
    named predicate (\<open>cbor_laws\<close>, \<open>mongo_laws\<close>) or a premise, and a witness instantiates it. Lending
    sources and DexHunter are records of their methods, which the modelled clients instantiate
    (\<open>wrapped\<close>, \<open>dex_of\<close>); an optional Go interface is an \<open>option\<close>.
  \<^item> Numbers. \<open>float64\<close> operations round as amd64 does, without fused multiply-add; signed zeros are
    identified. A conversion to \<open>int64\<close> out of range gives the value of that platform.
  \<^item> Time is in nanoseconds, 0 being the zero \<open>time.Time\<close>. A wait ends by its timer, at some instant not before
    it is due, or by its context.
  \<^item> Errors are values of \<open>msg\<close>; a nil dereference the code can reach is an error branch.
  \<^item> Interfaces that the code swaps at run time are locales, interpreted on the code's own operations:
    \<open>job_store\<close> (\<open>MemoryJobStore\<close>), \<open>ttl_cache\<close> (the three in-memory caches), \<open>history\<close> (the in-memory history).
\<close>

section \<open>Termination and bounds\<close>

text \<open>
  There is no fuel. \<open>poll\<close>, the loop of every wait, ends because each round moves the clock at least a
  nanosecond towards the deadline; the rounds of an unwind, the legs of a plan and the attempts of a
  transaction build are counted by the code's own constants (\<open>maxCloseRounds\<close>, \<open>maxLegs\<close>, the retry count) and
  the model recurses on them. The ticker of the health monitor runs for ever; the model takes the number
  of its ticks.

  The bounds in the premises of numeric properties are ranges of real amounts: capital from a lovelace to
  \<open>2 ^ 50\<close> ADA, raw amounts up to \<open>2 ^ 50\<close> with at most 15 decimals, prices between \<open>10 ^ -9\<close> and \<open>10 ^ 9\<close>. Inside
  them no rounding leaves the normal numbers, and the remaining error is stated, not ignored.
\<close>

section \<open>What is shown\<close>

text \<open>
  \<^item> Sizing: the leverage cap and the legs of a plan in the program's own arithmetic, the health factor, the
    monotonicity of health in the price, quotes that can be built, exact conversion of amounts.
  \<^item> Custody: no interleaving loses a job's keys, owner, wallet or plan; a sealed key opens again; the
    durable store gives back what was saved; the server shows no key.
  \<^item> The life of a job: who unwinds after a reversal, one loop per job, how a run ends, each leg borrowed
    once over all resumptions, each market repaid at most once per unwind, everybody resumed after a
    restart, and the races named above.
  \<^item> Transactions: witnesses are merged without touching what is signed, waits end, sweeps send everything,
    withdrawals ask for no more than is there.
  \<^item> Clients: markets, orders and answers decode as the wire types say; retries and fallbacks are bounded;
    an empty answer moves nothing; caches and wrappers are transparent; a refresh has one leader and no
    forgotten waiter.
  \<^item> The perpetuals API: an unconnected wallet never trades; a connected one was verified.
  \<^item> The program: an engine on mainnet has a durable store, and the server adds nothing to the engine.
\<close>

section \<open>Not modelled\<close>

text \<open>
  \<^item> Log lines (\<open>levLog\<close>, \<open>debug.go\<close>, \<open>logAPICall\<close>, \<open>slotKeys\<close>) and the embedded page (\<open>web/embed.go\<close>, \<open>handleIndex\<close>): they
    carry no state and no decision.
  \<^item> The web framework: the matching of routes, the parsing of bodies and the encoding of replies; a handler
    starts from its parsed parameters (or the parse error) and ends with its reply value.
  \<^item> \<open>Close\<close> of the database clients, listening and graceful shutdown; the worker command, which is empty.
  \<^item> The engine's steps work on the in-memory store. Mongo differs where \<open>mongo_save_then_get\<close> and
    \<open>mongo_keeps_cleared_fields\<close> say: times lose what is below a millisecond and cleared optional fields stay.
  \<^item> Reads and writes of the world by two goroutines interleave only at the level of whole bodies and handlers;
    their writes to the store interleave one by one.
  \<^item> The frontend, the deployment files and the tests.
\<close>

end
